(* ===== verification/Prelude.thy ===== *)
theory Prelude
  imports Main "HOL-Library.Word" "HOL-Library.Char_ord" "HOL-Library.List_Lexorder"
    "HOL-Library.Sublist"
begin

text \<open>
  Shared vocabulary of the development.  Rust strings are the byte lists of their
  UTF-8 encoding, so \<^typ>\<open>string\<close> (a list of bytes) carries \<open>String\<close>, \<open>&str\<close> and every
  opaque identifier; the order of \<open>String\<close> is the byte-lexicographic order, which is the one
  \<open>List_Lexorder\<close> gives.  \<open>Result\<close> is a datatype with the source's constructors.
  \<open>BTreeSet\<close> values are duplicate-free sorted lists.  The string functions of the Rust standard
  library that the program calls (\<open>trim\<close>, \<open>split\<close>, \<open>strip_prefix\<close>, the ASCII classes) are
  defined here on bytes.
\<close>

named_theorems path_simps \<open>rewrite rules for repository-relative paths\<close>
named_theorems policy_simps \<open>rewrite rules for the workflow policy layer\<close>
named_theorems authority_simps \<open>rewrite rules for user authority checks\<close>
named_theorems evidence_simps \<open>rewrite rules for evidence policy\<close>
named_theorems ticket_simps \<open>rewrite rules for write tickets\<close>
named_theorems close_simps \<open>rewrite rules for close readiness\<close>
named_theorems store_simps \<open>rewrite rules for the store transaction\<close>

type_synonym u64 = "64 word"
type_synonym i64 = "64 word"
type_synonym byte = "8 word"
type_synonym UtcTimestamp = int

subsection \<open>Result\<close>

datatype ('a, 'e) result = Ok 'a | Err 'e

fun and_then :: "('a, 'e) result \<Rightarrow> ('a \<Rightarrow> ('b, 'e) result) \<Rightarrow> ('b, 'e) result" where
  "and_then (Ok a) f = f a"
| "and_then (Err e) f = Err e"

fun map_err :: "('e \<Rightarrow> 'f) \<Rightarrow> ('a, 'e) result \<Rightarrow> ('a, 'f) result" where
  "map_err f (Ok a) = Ok a"
| "map_err f (Err e) = Err (f e)"

fun is_ok :: "('a, 'e) result \<Rightarrow> bool" where
  "is_ok (Ok a) = True"
| "is_ok (Err e) = False"

text \<open>\<open>iter().map(f).collect::<Result<Vec<_>, _>>()\<close>: the first error wins.\<close>

fun collect_results :: "('a \<Rightarrow> ('b, 'e) result) \<Rightarrow> 'a list \<Rightarrow> ('b list, 'e) result" where
  "collect_results f [] = Ok []"
| "collect_results f (x # xs) =
     (case f x of
        Err e \<Rightarrow> Err e
      | Ok y \<Rightarrow> (case collect_results f xs of Err e \<Rightarrow> Err e | Ok ys \<Rightarrow> Ok (y # ys)))"

definition is_some_and :: "'a option \<Rightarrow> ('a \<Rightarrow> bool) \<Rightarrow> bool" where
  "is_some_and x p = (case x of None \<Rightarrow> False | Some a \<Rightarrow> p a)"

definition ensure :: "bool \<Rightarrow> 'e \<Rightarrow> (unit, 'e) result" where
  "ensure b e = (if b then Ok () else Err e)"

lemma and_then_Ok_iff [simp]:
  "and_then r f = Ok b \<longleftrightarrow> (\<exists>a. r = Ok a \<and> f a = Ok b)"
  by (cases r) auto

lemma and_then_Err_iff:
  "and_then r f = Err e \<longleftrightarrow> r = Err e \<or> (\<exists>a. r = Ok a \<and> f a = Err e)"
  by (cases r) auto

lemma map_err_Ok_iff [simp]: "map_err f r = Ok a \<longleftrightarrow> r = Ok a"
  by (cases r) auto

lemma ensure_Ok_iff [simp]: "ensure b e = Ok u \<longleftrightarrow> b"
  by (simp add: ensure_def)

lemma ensure_Err_iff [simp]: "ensure b e = Err e' \<longleftrightarrow> \<not> b \<and> e' = e"
  by (auto simp: ensure_def)

lemma is_some_and_simps [simp]:
  "is_some_and None p = False"
  "is_some_and (Some a) p = p a"
  by (simp_all add: is_some_and_def)

lemma is_some_and_iff: "is_some_and x p \<longleftrightarrow> (\<exists>a. x = Some a \<and> p a)"
  by (cases x) auto

lemma collect_results_Ok_iff:
  "collect_results f xs = Ok ys \<longleftrightarrow> list_all2 (\<lambda>x y. f x = Ok y) xs ys"
proof (induction xs arbitrary: ys)
  case (Cons x xs)
  have "collect_results f (x # xs) = Ok ys \<longleftrightarrow>
      (\<exists>y zs. ys = y # zs \<and> f x = Ok y \<and> collect_results f xs = Ok zs)"
    by (auto split: result.splits)
  then show ?case by (cases ys) (simp_all add: Cons.IH)
qed auto

lemma collect_results_Ok_length: "collect_results f xs = Ok ys \<Longrightarrow> length ys = length xs"
  by (auto simp: collect_results_Ok_iff dest: list_all2_lengthD)

lemma collect_results_ErrD: "collect_results f xs = Err e \<Longrightarrow> \<exists>x\<in>set xs. f x = Err e"
  by (induction xs) (auto split: result.splits)

lemma collect_results_total:
  "(\<And>x. x \<in> set xs \<Longrightarrow> is_ok (f x)) \<Longrightarrow> \<exists>ys. collect_results f xs = Ok ys"
proof (induction xs)
  case (Cons x xs)
  then obtain ys where "collect_results f xs = Ok ys" by auto
  moreover from Cons.prems[of x] obtain y where "f x = Ok y" by (cases "f x") auto
  ultimately show ?case by simp
qed simp

subsection \<open>Bytes and strings\<close>

abbreviation byte_val :: "char \<Rightarrow> nat" where
  "byte_val c \<equiv> of_char c"

definition byte_in :: "nat \<Rightarrow> nat \<Rightarrow> char \<Rightarrow> bool" where
  "byte_in lo hi c \<longleftrightarrow> lo \<le> byte_val c \<and> byte_val c \<le> hi"

definition is_ascii_digit :: "char \<Rightarrow> bool" where
  "is_ascii_digit = byte_in 48 57"

definition is_ascii_uppercase :: "char \<Rightarrow> bool" where
  "is_ascii_uppercase = byte_in 65 90"

definition is_ascii_lowercase :: "char \<Rightarrow> bool" where
  "is_ascii_lowercase = byte_in 97 122"

definition is_ascii_alphabetic :: "char \<Rightarrow> bool" where
  "is_ascii_alphabetic c \<longleftrightarrow> is_ascii_uppercase c \<or> is_ascii_lowercase c"

definition is_ascii_alphanumeric :: "char \<Rightarrow> bool" where
  "is_ascii_alphanumeric c \<longleftrightarrow> is_ascii_alphabetic c \<or> is_ascii_digit c"

definition is_ascii_hexdigit :: "char \<Rightarrow> bool" where
  "is_ascii_hexdigit c \<longleftrightarrow> is_ascii_digit c \<or> byte_in 65 70 c \<or> byte_in 97 102 c"

definition to_ascii_lowercase_byte :: "char \<Rightarrow> char" where
  "to_ascii_lowercase_byte c = (if is_ascii_uppercase c then char_of (byte_val c + 32) else c)"

definition to_ascii_lowercase :: "string \<Rightarrow> string" where
  "to_ascii_lowercase = map to_ascii_lowercase_byte"

fun strip_prefix_of :: "'a list \<Rightarrow> 'a list \<Rightarrow> 'a list option" where
  "strip_prefix_of [] ys = Some ys"
| "strip_prefix_of (x # xs) [] = None"
| "strip_prefix_of (x # xs) (y # ys) = (if x = y then strip_prefix_of xs ys else None)"

fun starts_with_byte :: "char \<Rightarrow> string \<Rightarrow> bool" where
  "starts_with_byte c [] = False"
| "starts_with_byte c (x # xs) = (x = c)"

text \<open>\<open>str::split\<close> on one separator byte: always at least one component.\<close>

fun split_on :: "'a \<Rightarrow> 'a list \<Rightarrow> 'a list list" where
  "split_on c [] = [[]]"
| "split_on c (x # xs) =
     (if x = c then [] # split_on c xs
      else (case split_on c xs of [] \<Rightarrow> [[x]] | y # ys \<Rightarrow> (x # y) # ys))"

fun join_with :: "'a \<Rightarrow> 'a list list \<Rightarrow> 'a list" where
  "join_with c [] = []"
| "join_with c [x] = x"
| "join_with c (x # y # ys) = x @ c # join_with c (y # ys)"

text \<open>
  \<open>str::trim\<close> removes characters of the Unicode class \<open>White_Space\<close>.  In UTF-8 these are the
  single bytes 09 to 0D and 20, the pairs C2 85 and C2 A0, and the triples E1 9A 80,
  E2 80 80 to E2 80 8A, E2 80 A8, E2 80 A9, E2 80 AF, E2 81 9F and E3 80 80.
\<close>

definition ws1 :: "char \<Rightarrow> bool" where
  "ws1 a \<longleftrightarrow> byte_in 9 13 a \<or> byte_val a = 32"

definition ws2 :: "char \<Rightarrow> char \<Rightarrow> bool" where
  "ws2 a b \<longleftrightarrow> byte_val a = 194 \<and> (byte_val b = 133 \<or> byte_val b = 160)"

definition ws3 :: "char \<Rightarrow> char \<Rightarrow> char \<Rightarrow> bool" where
  "ws3 a b c \<longleftrightarrow>
     byte_val a = 225 \<and> byte_val b = 154 \<and> byte_val c = 128
   \<or> byte_val a = 226 \<and> byte_val b = 128 \<and>
       (byte_in 128 138 c \<or> byte_val c = 168 \<or> byte_val c = 169 \<or> byte_val c = 175)
   \<or> byte_val a = 226 \<and> byte_val b = 129 \<and> byte_val c = 159
   \<or> byte_val a = 227 \<and> byte_val b = 128 \<and> byte_val c = 128"

fun trim_start :: "string \<Rightarrow> string" where
  "trim_start (a # b # c # s) =
     (if ws1 a then trim_start (b # c # s)
      else if ws2 a b then trim_start (c # s)
      else if ws3 a b c then trim_start s
      else a # b # c # s)"
| "trim_start [a, b] =
     (if ws1 a then trim_start [b] else if ws2 a b then [] else [a, b])"
| "trim_start [a] = (if ws1 a then [] else [a])"
| "trim_start [] = []"

fun trim_end_rev :: "string \<Rightarrow> string" where
  "trim_end_rev (c # b # a # s) =
     (if ws1 c then trim_end_rev (b # a # s)
      else if ws2 b c then trim_end_rev (a # s)
      else if ws3 a b c then trim_end_rev s
      else c # b # a # s)"
| "trim_end_rev [b, a] =
     (if ws1 b then trim_end_rev [a] else if ws2 a b then [] else [b, a])"
| "trim_end_rev [a] = (if ws1 a then [] else [a])"
| "trim_end_rev [] = []"

definition trim :: "string \<Rightarrow> string" where
  "trim s = rev (trim_end_rev (rev (trim_start s)))"

lemmas ascii_defs =
  byte_in_def is_ascii_digit_def is_ascii_uppercase_def is_ascii_lowercase_def
  is_ascii_alphabetic_def is_ascii_alphanumeric_def is_ascii_hexdigit_def

lemma strip_prefix_of_Some_iff: "strip_prefix_of p s = Some r \<longleftrightarrow> s = p @ r"
  by (induction p s rule: strip_prefix_of.induct) auto

lemma strip_prefix_of_append [simp]: "strip_prefix_of p (p @ r) = Some r"
  by (simp add: strip_prefix_of_Some_iff)

lemma starts_with_byte_iff: "starts_with_byte c s \<longleftrightarrow> (\<exists>r. s = c # r)"
  by (cases s) auto

lemma split_on_not_Nil [simp]: "split_on c s \<noteq> []"
  by (cases s) (auto split: list.splits)

lemma split_on_no_sep: "x \<in> set (split_on c s) \<Longrightarrow> c \<notin> set x"
  by (induction s arbitrary: x) (auto split: list.splits if_splits)

lemma join_split_on [simp]: "join_with c (split_on c s) = s"
proof (induction s)
  case (Cons x s)
  obtain y ys where "split_on c s = y # ys" by (cases "split_on c s") auto
  with Cons show ?case by (cases ys) auto
qed simp

lemma split_on_no_occurrence: "c \<notin> set x \<Longrightarrow> split_on c x = [x]"
  by (induction x) auto

lemma split_on_append_sep: "split_on c (x @ c # s) = split_on c x @ split_on c s"
proof (induction x)
  case (Cons a x)
  obtain y ys where "split_on c x = y # ys" by (cases "split_on c x") auto
  with Cons show ?case by auto
qed simp

lemma split_join_with:
  "xs \<noteq> [] \<Longrightarrow> \<forall>x\<in>set xs. c \<notin> set x \<Longrightarrow> split_on c (join_with c xs) = xs"
  by (induction c xs rule: join_with.induct)
    (auto simp: split_on_no_occurrence split_on_append_sep)

lemma split_on_inj: "split_on c s = split_on c t \<longleftrightarrow> s = t"
  by (metis join_split_on)

subsection \<open>Keyed deduplication and ordered sets\<close>

text \<open>
  The loop \<open>if seen.insert(key(x)) { out.push(x) }\<close>: keep the first element of every key.
\<close>

fun unique_by_from :: "('a \<Rightarrow> 'k) \<Rightarrow> 'k list \<Rightarrow> 'a list \<Rightarrow> 'a list" where
  "unique_by_from key seen [] = []"
| "unique_by_from key seen (x # xs) =
     (if key x \<in> set seen then unique_by_from key seen xs
      else x # unique_by_from key (key x # seen) xs)"

definition unique_by :: "('a \<Rightarrow> 'k) \<Rightarrow> 'a list \<Rightarrow> 'a list" where
  "unique_by key = unique_by_from key []"

text \<open>A \<open>BTreeSet\<close> collected from a list and iterated in order.\<close>

definition btree_set :: "'a::linorder list \<Rightarrow> 'a list" where
  "btree_set xs = sort (remdups xs)"

lemma set_btree_set [simp]: "set (btree_set xs) = set xs"
  by (simp add: btree_set_def)

lemma distinct_btree_set [simp]: "distinct (btree_set xs)"
  by (simp add: btree_set_def)

lemma sorted_btree_set [simp]: "sorted (btree_set xs)"
  by (simp add: btree_set_def)

lemma btree_set_eq_iff: "btree_set xs = btree_set ys \<longleftrightarrow> set xs = set ys"
  by (metis distinct_btree_set set_btree_set sorted_btree_set sorted_distinct_set_unique)

lemma btree_set_idem [simp]: "btree_set (btree_set xs) = btree_set xs"
  by (simp add: btree_set_eq_iff)

lemma length_btree_set: "length (btree_set xs) = card (set xs)"
  by (metis distinct_btree_set distinct_card set_btree_set)

lemma length_remdups_eq_iff: "length (remdups xs) = length xs \<longleftrightarrow> distinct xs"
  by (metis length_remdups_card_conv card_distinct distinct_card)

lemma length_btree_set_eq_iff: "length (btree_set xs) = length xs \<longleftrightarrow> distinct xs"
  by (simp add: btree_set_def length_remdups_eq_iff)

locale keyed_dedup =
  fixes key :: "'a \<Rightarrow> 'k" and dedup :: "'a list \<Rightarrow> 'a list"
  assumes dedup_keys: "map key (dedup xs) = rev (remdups (rev (map key xs)))"
    and dedup_sub: "subseq (dedup xs) xs"
begin

lemma keys_distinct: "distinct (map key (dedup xs))"
  by (simp add: dedup_keys)

lemma keys_same: "key ` set (dedup xs) = key ` set xs"
  by (metis dedup_keys set_map set_remdups set_rev)

lemma elements_kept: "set (dedup xs) \<subseteq> set xs"
  using dedup_sub[of xs] by (auto dest: list_emb_set)

lemma no_longer: "length (dedup xs) \<le> length xs"
  using dedup_sub[of xs] by (rule list_emb_length)

lemma fixpoint: "distinct (map key xs) \<Longrightarrow> dedup xs = xs"
proof -
  assume "distinct (map key xs)"
  then have "map key (dedup xs) = map key xs"
    by (simp add: dedup_keys distinct_remdups_id)
  then have "length (dedup xs) = length xs" by (metis length_map)
  then show ?thesis using dedup_sub[of xs] by (metis subseq_same_length)
qed

lemma idempotent: "dedup (dedup xs) = dedup xs"
  by (rule fixpoint) (rule keys_distinct)

lemma empty_iff: "dedup xs = [] \<longleftrightarrow> xs = []"
  using keys_same[of xs] by auto

end

lemma rev_remdups_rev_Cons:
  "rev (remdups (rev (x # xs))) = x # filter (\<lambda>y. y \<noteq> x) (rev (remdups (rev xs)))"
proof -
  have "remdups (ys @ [x]) = filter (\<lambda>y. y \<noteq> x) (remdups ys) @ [x]" for ys
    by (induction ys) auto
  then show ?thesis by (simp add: rev_filter)
qed

lemma unique_by_from_keys:
  "map key (unique_by_from key seen xs) =
     filter (\<lambda>k. k \<notin> set seen) (rev (remdups (rev (map key xs))))"
proof (induction key seen xs rule: unique_by_from.induct)
  case (2 key seen x xs)
  have "rev (remdups (rev (map key (x # xs)))) =
      key x # filter (\<lambda>y. y \<noteq> key x) (rev (remdups (rev (map key xs))))"
    using rev_remdups_rev_Cons[of "key x" "map key xs"] by simp
  moreover have "key x \<in> set seen \<Longrightarrow>
      filter (\<lambda>k. k \<notin> set seen \<and> k \<noteq> key x) ks = filter (\<lambda>k. k \<notin> set seen) ks" for ks
    by (rule filter_cong) auto
  ultimately show ?case using 2 by (auto simp: conj_commute)
qed simp

lemma unique_by_from_subseq: "subseq (unique_by_from key seen xs) xs"
  by (induction key seen xs rule: unique_by_from.induct) auto

interpretation unique_by: keyed_dedup key "unique_by key" for key
  by unfold_locales (simp_all add: unique_by_def unique_by_from_keys unique_by_from_subseq)

end
