(* ===== verification/Canonical.thy ===== *)
theory Canonical
  imports Prelude "HOL-Library.Multiset"
begin

text \<open>
  Canonical encodings (\<open>volicord-types/src/canonical.rs\<close> and \<open>canonical_scalar.rs\<close>): sorted JSON,
  lowercase hexadecimal, digest and Git object id validators and the byte-level scalar contract
  of \<open>BaselineRef\<close>.  The JSON printer of \<open>serde_json\<close> and SHA-256 are third-party code: they are the
  parameters \<open>to_vec\<close> and \<open>sha256\<close> of the definitions that call them.
\<close>

unbundle bit_operations_syntax

subsection \<open>JSON values\<close>

text \<open>
  \<open>serde_json::Value\<close>.  A number carries its textual form; an object is the list of its members
  in iteration order, with distinct keys.
\<close>

datatype json =
    JNull
  | JBool bool
  | JNumber string
  | JString string
  | JArray "json list"
  | JObject "(string \<times> json) list"

type_synonym JsonObject = "(string \<times> json) list"

fun json_wf :: "json \<Rightarrow> bool" where
  "json_wf (JArray items) = list_all json_wf items"
| "json_wf (JObject members) =
     (distinct (map fst members) \<and> list_all (\<lambda>m. json_wf (snd m)) members)"
| "json_wf _ = True"

text \<open>\<open>BTreeMap::insert\<close> on the sorted list of entries.\<close>

fun btree_insert :: "'k::linorder \<Rightarrow> 'v \<Rightarrow> ('k \<times> 'v) list \<Rightarrow> ('k \<times> 'v) list" where
  "btree_insert k v [] = [(k, v)]"
| "btree_insert k v ((k', v') # es) =
     (if k < k' then (k, v) # (k', v') # es
      else if k = k' then (k, v) # es
      else (k', v') # btree_insert k v es)"

definition btree_from :: "('k::linorder \<times> 'v) list \<Rightarrow> ('k \<times> 'v) list" where
  "btree_from es = fold (\<lambda>(k, v). btree_insert k v) es []"

fun sort_json_value :: "json \<Rightarrow> json" where
  "sort_json_value (JArray items) = JArray (map sort_json_value items)"
| "sort_json_value (JObject members) =
     JObject (btree_from (map (\<lambda>m. (fst m, sort_json_value (snd m))) members))"
| "sort_json_value JNull = JNull"
| "sort_json_value (JBool b) = JBool b"
| "sort_json_value (JNumber n) = JNumber n"
| "sort_json_value (JString s) = JString s"

definition canonical_json_bytes :: "(json \<Rightarrow> string) \<Rightarrow> json \<Rightarrow> string" where
  "canonical_json_bytes to_vec value = to_vec (sort_json_value value)"

definition canonical_json_size_bytes :: "(json \<Rightarrow> string) \<Rightarrow> json \<Rightarrow> nat" where
  "canonical_json_size_bytes to_vec value = length (canonical_json_bytes to_vec value)"

subsection \<open>Hexadecimal digests\<close>

definition HEX :: string where
  "HEX = ''0123456789abcdef''"

fun lowercase_hex :: "byte list \<Rightarrow> string" where
  "lowercase_hex [] = []"
| "lowercase_hex (b # bs) =
     HEX ! unat (drop_bit 4 b) # HEX ! unat (b AND 0x0f) # lowercase_hex bs"

definition canonical_json_sha256 ::
  "(json \<Rightarrow> string) \<Rightarrow> (string \<Rightarrow> byte list) \<Rightarrow> json \<Rightarrow> string" where
  "canonical_json_sha256 to_vec sha256 value =
     ''sha256:'' @ lowercase_hex (sha256 (canonical_json_bytes to_vec value))"

definition canonical_json_bare_sha256 ::
  "(json \<Rightarrow> string) \<Rightarrow> (string \<Rightarrow> byte list) \<Rightarrow> json \<Rightarrow> string" where
  "canonical_json_bare_sha256 to_vec sha256 value =
     lowercase_hex (sha256 (canonical_json_bytes to_vec value))"

definition canonical_request_hash ::
  "(json \<Rightarrow> string) \<Rightarrow> (string \<Rightarrow> byte list) \<Rightarrow> json \<Rightarrow> string" where
  "canonical_request_hash to_vec sha256 request = canonical_json_sha256 to_vec sha256 request"

definition is_canonical_sha256_hex :: "string \<Rightarrow> bool" where
  "is_canonical_sha256_hex value \<longleftrightarrow>
     length value = 64 \<and> list_all (\<lambda>b. is_ascii_digit b \<or> byte_in 97 102 b) value"

definition is_canonical_sha256_digest :: "string \<Rightarrow> bool" where
  "is_canonical_sha256_digest value =
     (case strip_prefix_of ''sha256:'' value of
        Some rest \<Rightarrow> is_canonical_sha256_hex rest
      | None \<Rightarrow> False)"

datatype GitObjectIdError = GitObjectIdError

definition canonical_git_object_id :: "string \<Rightarrow> (string, GitObjectIdError) result" where
  "canonical_git_object_id value =
     (if \<not> (length value = 40 \<or> length value = 64) \<or> \<not> list_all is_ascii_hexdigit value
      then Err GitObjectIdError
      else Ok (to_ascii_lowercase value))"

subsection \<open>Canonical scalar contracts\<close>

record CanonicalScalarInvalidCorpus =
  ascii_space_cases :: "string list"
  unicode_whitespace :: "string list"
  all_ascii_control_bytes :: bool
  all_disallowed_printable_ascii :: bool
  overlength_value :: bool

record CanonicalScalarSpec =
  semantic_name :: string
  minimum_length :: nat
  maximum_length :: nat
  allowed_ascii_bytes :: string
  forbidden_complete_values :: "string list"
  examples :: "string list"
  invalid_corpus :: CanonicalScalarInvalidCorpus

definition accepts :: "CanonicalScalarSpec \<Rightarrow> string \<Rightarrow> bool" where
  "accepts spec value \<longleftrightarrow>
     minimum_length spec \<le> length value \<and> length value \<le> maximum_length spec \<and>
     list_all (\<lambda>b. b \<in> set (allowed_ascii_bytes spec)) value \<and>
     value \<notin> set (forbidden_complete_values spec)"

definition generated_invalid_corpus :: "CanonicalScalarSpec \<Rightarrow> string list" where
  "generated_invalid_corpus spec =
     (let c = invalid_corpus spec;
          corpus = [[]] @ forbidden_complete_values spec @ ascii_space_cases c;
          corpus = corpus @
            (if all_ascii_control_bytes c then map (\<lambda>n. [char_of n]) ([0..<32] @ [127::nat]) else []);
          corpus = corpus @ unicode_whitespace c;
          corpus = corpus @
            (if all_disallowed_printable_ascii c
             then map (\<lambda>b. [b])
               (filter (\<lambda>b. b \<notin> set (allowed_ascii_bytes spec)) (map char_of [33..<127::nat]))
             else []);
          fill = (case find is_ascii_lowercase (allowed_ascii_bytes spec) of
                    Some b \<Rightarrow> b
                  | None \<Rightarrow> CHR ''a'');
          corpus = corpus @
            (if overlength_value c then [replicate (maximum_length spec + 1) fill] else [])
      in remdups_adj (sort corpus))"

definition BASELINE_REF_ALLOWED_ASCII_BYTES :: string where
  "BASELINE_REF_ALLOWED_ASCII_BYTES = ''-0123456789_abcdefghijklmnopqrstuvwxyz''"

definition BASELINE_REF_UNICODE_WHITESPACE :: "string list" where
  "BASELINE_REF_UNICODE_WHITESPACE =
     map (map char_of)
       [[0xC2, 0xA0], [0xE1, 0x9A, 0x80], [0xE2, 0x80, 0x83], [0xE2, 0x80, 0xAF],
        [0xE2, 0x81, 0x9F], [0xE3, 0x80, 0x80 :: nat]]"

definition BASELINE_REF_SPEC :: CanonicalScalarSpec where
  "BASELINE_REF_SPEC = \<lparr>
     semantic_name = ''BaselineRef'',
     minimum_length = 1,
     maximum_length = 64,
     allowed_ascii_bytes = BASELINE_REF_ALLOWED_ASCII_BYTES,
     forbidden_complete_values = [''null''],
     examples = [''baseline_example_001'', ''baseline-example-001'',
       ''0123456789abcdef0123456789abcdef01234567'',
       ''aaaaaaaaaaaaaaaaaaaaaaaaaaaaaaaaaaaaaaaaaaaaaaaaaaaaaaaaaaaaaaaa''],
     invalid_corpus = \<lparr>
       ascii_space_cases = ['' '', '' baseline'', ''baseline '', ''base line''],
       unicode_whitespace = BASELINE_REF_UNICODE_WHITESPACE,
       all_ascii_control_bytes = True,
       all_disallowed_printable_ascii = True,
       overlength_value = True\<rparr>\<rparr>"

text \<open>
  The coherence a specification needs for its generated corpus to be invalid: something must be
  required, control bytes are outside the alphabet, and every listed space or whitespace case
  has a byte outside the alphabet.
\<close>

definition corpus_coherent :: "CanonicalScalarSpec \<Rightarrow> bool" where
  "corpus_coherent spec \<longleftrightarrow>
     0 < minimum_length spec \<and>
     list_all (\<lambda>n. char_of n \<notin> set (allowed_ascii_bytes spec)) ([0..<32] @ [127::nat]) \<and>
     list_all (\<lambda>v. list_ex (\<lambda>b. b \<notin> set (allowed_ascii_bytes spec)) v)
       (ascii_space_cases (invalid_corpus spec) @ unicode_whitespace (invalid_corpus spec))"

subsection \<open>Sorted entry lists\<close>

lemma set_fst_btree_insert: "fst ` set (btree_insert k v es) = insert k (fst ` set es)"
  by (induction k v es rule: btree_insert.induct) auto

lemma sorted_btree_insert:
  "sorted_wrt (<) (map fst es) \<Longrightarrow> sorted_wrt (<) (map fst (btree_insert k v es))"
proof (induction k v es rule: btree_insert.induct)
  case (2 k v k' v' es)
  then show ?case
    using set_fst_btree_insert[of k v es] by (auto simp: image_iff)
qed simp

lemma map_of_btree_insert:
  "sorted_wrt (<) (map fst es) \<Longrightarrow> map_of (btree_insert k v es) = (map_of es)(k \<mapsto> v)"
  by (induction k v es rule: btree_insert.induct) (auto simp: fun_eq_iff)

lemma btree_fold_facts:
  "sorted_wrt (<) (map fst acc) \<Longrightarrow>
     sorted_wrt (<) (map fst (fold (\<lambda>(k, v). btree_insert k v) es acc)) \<and>
     map_of (fold (\<lambda>(k, v). btree_insert k v) es acc) = map_of acc ++ map_of (rev es)"
proof (induction es arbitrary: acc)
  case (Cons e es)
  obtain k v where e: "e = (k, v)" by (cases e)
  have "map_of acc ++ map_of (rev (e # es)) = (map_of acc)(k \<mapsto> v) ++ map_of (rev es)"
    by (auto simp: e map_add_def fun_eq_iff split: option.splits)
  then show ?case
    using Cons.IH[OF sorted_btree_insert[OF Cons.prems, of k v]]
    by (simp only: e map_of_btree_insert[OF Cons.prems] fold_simps prod.case)
qed simp

lemma sorted_btree_from: "sorted_wrt (<) (map fst (btree_from es))"
  using btree_fold_facts[of "[]" es] by (simp add: btree_from_def)

lemma map_of_btree_from: "map_of (btree_from es) = map_of (rev es)"
  using btree_fold_facts[of "[]" es] by (simp add: btree_from_def)

lemma distinct_btree_from: "distinct (map fst (btree_from es))"
  using sorted_btree_from[of es] by (simp add: strict_sorted_iff)

lemma map_of_rev_distinct: "distinct (map fst es) \<Longrightarrow> map_of (rev es) = map_of es"
  by (rule map_of_inject_set[THEN iffD2]) (simp_all add: rev_map [symmetric])

lemma entries_from_keys:
  "distinct (map fst xs) \<Longrightarrow> map (\<lambda>k. (k, the (map_of xs k))) (map fst xs) = xs"
  by (simp add: comp_def, rule map_idI) (auto simp: map_of_eq_Some_iff)

lemma strict_sorted_distinct: "sorted_wrt (<) (ks :: 'k::linorder list) \<Longrightarrow> distinct ks"
  by (simp add: strict_sorted_iff)

lemma sorted_entries_unique:
  fixes xs ys :: "('k::linorder \<times> 'v) list"
  assumes "sorted_wrt (<) (map fst xs)" "sorted_wrt (<) (map fst ys)" "map_of xs = map_of ys"
  shows "xs = ys"
proof -
  have d: "distinct (map fst xs)" "distinct (map fst ys)"
    using assms(1,2) by (auto simp: strict_sorted_iff)
  have "set (map fst xs) = set (map fst ys)"
    using assms(3) by (metis dom_map_of_conv_image_fst list.set_map)
  then have "map fst xs = map fst ys" using assms(1,2) by (simp add: strict_sorted_equal)
  then show ?thesis using entries_from_keys[OF d(1)] entries_from_keys[OF d(2)] assms(3) by simp
qed

subsection \<open>Sorted JSON\<close>

text \<open>Two values are equivalent when they differ only in the order of object members.\<close>

inductive json_equiv :: "json \<Rightarrow> json \<Rightarrow> bool" where
  equiv_refl: "json_equiv v v"
| equiv_array: "list_all2 json_equiv xs ys \<Longrightarrow> json_equiv (JArray xs) (JArray ys)"
| equiv_object:
    "list_all2 (\<lambda>m n. fst m = fst n \<and> json_equiv (snd m) (snd n)) xs zs \<Longrightarrow> mset zs = mset ys \<Longrightarrow>
     json_equiv (JObject xs) (JObject ys)"

abbreviation sort_member :: "string \<times> json \<Rightarrow> string \<times> json" where
  "sort_member m \<equiv> (fst m, sort_json_value (snd m))"

lemma map_fst_sort_member [simp]: "map (fst \<circ> sort_member) ms = map fst ms"
  by (simp add: comp_def)

lemma btree_from_sorted_id:
  "sorted_wrt (<) (map fst es) \<Longrightarrow> btree_from es = es"
  by (rule sorted_entries_unique)
    (simp_all add: sorted_btree_from map_of_btree_from map_of_rev_distinct strict_sorted_distinct)

lemma btree_from_set: "set (btree_from es) \<subseteq> set es"
proof
  fix e assume "e \<in> set (btree_from es)"
  then have "map_of (btree_from es) (fst e) = Some (snd e)"
    using distinct_btree_from[of es] by (simp add: map_of_eq_Some_iff)
  then show "e \<in> set es" by (metis map_of_SomeD map_of_btree_from prod.collapse set_rev)
qed

lemma sort_json_value_idem: "sort_json_value (sort_json_value v) = sort_json_value v"
proof (induction v rule: sort_json_value.induct)
  case (2 members)
  let ?es = "btree_from (map sort_member members)"
  have "map sort_member ?es = ?es"
    using btree_from_set[of "map sort_member members"] 2 by (intro map_idI) auto
  then show ?case using sorted_btree_from[of "map sort_member members"]
    by (simp add: btree_from_sorted_id)
qed simp_all

lemma btree_from_mset:
  assumes "distinct (map fst xs)" "mset xs = mset ys"
  shows "btree_from xs = btree_from ys"
proof (rule sorted_entries_unique)
  have "set xs = set ys" using assms(2) by (rule mset_eq_setD)
  moreover have "distinct (map fst ys)"
    using assms by (metis mset_map mset_eq_imp_distinct_iff)
  ultimately have "map_of xs = map_of ys" using assms(1) by (simp add: map_of_inject_set)
  then show "map_of (btree_from xs) = map_of (btree_from ys)"
    using \<open>distinct (map fst ys)\<close> assms(1) by (simp add: map_of_btree_from map_of_rev_distinct)
qed (rule sorted_btree_from)+

lemma btree_from_eq_mset:
  assumes "distinct (map fst xs)" "distinct (map fst ys)" "btree_from xs = btree_from ys"
  shows "mset xs = mset ys"
proof -
  have "map_of xs = map_of ys"
    using assms by (metis map_of_btree_from map_of_rev_distinct)
  then have "set xs = set ys" using assms by (simp add: map_of_inject_set)
  moreover have "distinct xs" "distinct ys" using assms by (auto simp: distinct_map)
  ultimately show ?thesis by (simp add: set_eq_iff_mset_eq_distinct)
qed

lemma list_all2_map_eq:
  assumes "list_all2 (\<lambda>x y. f x = f y) xs ys"
  shows "map f xs = map f ys"
  using assms by (induction rule: list_all2_induct) auto

lemma json_equiv_sort: "json_equiv v w \<Longrightarrow> json_wf v \<Longrightarrow> sort_json_value v = sort_json_value w"
proof (induction rule: json_equiv.induct)
  case (equiv_array xs ys)
  then have "list_all2 (\<lambda>x y. sort_json_value x = sort_json_value y) xs ys"
    by (auto simp: list_all2_conv_all_nth list_all_length)
  then show ?case by (simp add: list_all2_map_eq)
next
  case (equiv_object xs zs ys)
  then have "list_all2 (\<lambda>m n. sort_member m = sort_member n) xs zs"
    by (auto simp: list_all2_conv_all_nth list_all_length)
  then have eq: "map sort_member xs = map sort_member zs" by (rule list_all2_map_eq)
  have "distinct (map fst (map sort_member zs))"
    using equiv_object.prems by (simp flip: eq)
  moreover have "mset (map sort_member zs) = mset (map sort_member ys)"
    using equiv_object.hyps by simp
  ultimately show ?case using eq by (simp add: btree_from_mset)
qed simp

lemma mset_map_lift:
  assumes "mset (map f xs) = mset (map f ys)"
  shows "\<exists>zs. mset zs = mset ys \<and> map f xs = map f zs"
proof -
  obtain zs where l: "length zs = length (map f xs)"
    and z: "mset (zip (map f xs) zs) = mset (zip (map f ys) ys)"
    using ex_mset_zip_left[of "map f ys" ys "map f xs"] assms by auto
  have "set (zip (map f xs) zs) = set (zip (map f ys) ys)" using z by (rule mset_eq_setD)
  then have p: "\<forall>p\<in>set (zip (map f xs) zs). fst p = f (snd p)"
    by (auto simp: zip_map1 zip_same_conv_map)
  have "f (xs ! i) = f (zs ! i)" if "i < length xs" for i
    using that l bspec[OF p nth_mem[of i "zip (map f xs) zs"]] by simp
  then have "map f xs = map f zs" using l by (simp add: list_eq_iff_nth_eq)
  moreover have "mset zs = mset ys"
    using arg_cong[OF z, of "image_mset snd"] l by (simp flip: mset_map)
  ultimately show ?thesis by blast
qed

lemma sort_json_equiv:
  "json_wf v \<Longrightarrow> json_wf w \<Longrightarrow> sort_json_value v = sort_json_value w \<Longrightarrow> json_equiv v w"
proof (induction v arbitrary: w rule: sort_json_value.induct)
  case (1 items)
  obtain items' where w: "w = JArray items'" using 1(4) by (cases w) auto
  with 1 have "list_all2 json_equiv items items'"
    by (auto simp: list_all2_conv_all_nth list_all_length list_eq_iff_nth_eq)
  then show ?case by (simp add: w equiv_array)
next
  case (2 members)
  obtain members' where w: "w = JObject members'" using 2(4) by (cases w) auto
  have "mset (map sort_member members) = mset (map sort_member members')"
    using 2 w by (intro btree_from_eq_mset) auto
  then obtain zs where zs: "mset zs = mset members'" "map sort_member members = map sort_member zs"
    using mset_map_lift by blast
  have len: "length members = length zs" using zs(2) by (metis length_map)
  have "list_all2 (\<lambda>m n. fst m = fst n \<and> json_equiv (snd m) (snd n)) members zs"
  proof (rule list_all2_all_nthI[OF len])
    fix i assume i: "i < length members"
    then have "sort_member (members ! i) = sort_member (zs ! i)"
      using arg_cong[OF zs(2), of "\<lambda>l. l ! i"] len by simp
    moreover have "json_wf (snd (members ! i))" using 2(2) i by (auto simp: list_all_length)
    moreover have "json_wf (snd (zs ! i))"
      using 2(3) w i len mset_eq_setD[OF zs(1)] nth_mem[of i zs] by (auto simp: list_all_iff)
    ultimately show "fst (members ! i) = fst (zs ! i) \<and> json_equiv (snd (members ! i)) (snd (zs ! i))"
      using 2(1)[OF nth_mem[OF i]] by simp
  qed
  then show ?case using zs(1) w by (auto intro: equiv_object)
next
  case 3
  then show ?case by (cases w) (auto intro: equiv_refl)
next
  case (4 b)
  then show ?case by (cases w) (auto intro: equiv_refl)
next
  case (5 n)
  then show ?case by (cases w) (auto intro: equiv_refl)
next
  case (6 s)
  then show ?case by (cases w) (auto intro: equiv_refl)
qed

subsection \<open>Hexadecimal text\<close>

lemma HEX_facts: "length HEX = 16" "distinct HEX"
    "list_all (\<lambda>b. is_ascii_digit b \<or> byte_in 97 102 b) HEX"
  by code_simp+

lemma high_nibble: "unat (drop_bit 4 (b :: byte)) = unat b div 16"
  by (simp add: drop_bit_eq_div unat_div_distrib)

lemma low_nibble: "unat ((b :: byte) AND 0x0f) = unat b mod 16"
proof -
  have "unat b AND mask 4 = unat b mod 16" by (simp flip: take_bit_eq_mask add: take_bit_eq_mod)
  moreover have "mask 4 = (15 :: nat)" by (simp add: mask_eq_exp_minus_1)
  ultimately show ?thesis by (simp add: unsigned_and_eq)
qed

lemma unat_byte: "unat (b :: byte) < 256"
  using unsigned_less[where w = b] by simp

lemma nibble_bounds: "unat (drop_bit 4 (b :: byte)) < 16" "unat (b AND 0x0f) < 16"
  using unat_byte[of b] by (simp_all add: high_nibble low_nibble)

lemma length_lowercase_hex [simp]: "length (lowercase_hex bs) = 2 * length bs"
  by (induction bs) auto

lemma lowercase_hex_alphabet:
  "list_all (\<lambda>b. is_ascii_digit b \<or> byte_in 97 102 b) (lowercase_hex bs)"
proof (induction bs)
  case (Cons b bs)
  have "\<forall>n<16. is_ascii_digit (HEX ! n) \<or> byte_in 97 102 (HEX ! n)"
    using HEX_facts(1,3) by (simp add: list_all_length)
  with Cons nibble_bounds[of b] show ?case by simp
qed simp

lemma HEX_nth_inj: "i < 16 \<Longrightarrow> j < 16 \<Longrightarrow> HEX ! i = HEX ! j \<longleftrightarrow> i = j"
  using HEX_facts by (simp add: nth_eq_iff_index_eq)

lemma byte_nibbles_inj:
  "unat (drop_bit 4 (a :: byte)) = unat (drop_bit 4 b) \<Longrightarrow>
   unat (a AND 0x0f) = unat (b AND 0x0f) \<Longrightarrow> a = b"
  by (metis high_nibble low_nibble div_mult_mod_eq word_unat_eq_iff)

lemma lowercase_hex_inj: "lowercase_hex as = lowercase_hex bs \<Longrightarrow> as = bs"
proof (induction as arbitrary: bs)
  case Nil
  then show ?case by (cases bs) auto
next
  case (Cons a as)
  then show ?case
    by (cases bs) (auto simp: HEX_nth_inj nibble_bounds intro: byte_nibbles_inj)
qed

lemma is_canonical_sha256_digest_iff:
  "is_canonical_sha256_digest s \<longleftrightarrow> (\<exists>h. s = ''sha256:'' @ h \<and> is_canonical_sha256_hex h)"
proof -
  have "is_canonical_sha256_digest s \<longleftrightarrow>
      (\<exists>h. strip_prefix_of ''sha256:'' s = Some h \<and> is_canonical_sha256_hex h)"
    by (auto simp: is_canonical_sha256_digest_def split: option.splits)
  then show ?thesis by (simp only: strip_prefix_of_Some_iff)
qed

lemma lower_hexdigit:
  "is_ascii_hexdigit c \<Longrightarrow>
     is_ascii_digit (to_ascii_lowercase_byte c) \<or> byte_in 97 102 (to_ascii_lowercase_byte c)"
  by (auto simp: to_ascii_lowercase_byte_def ascii_defs)

lemma lower_idem: "to_ascii_lowercase_byte (to_ascii_lowercase_byte c) = to_ascii_lowercase_byte c"
  by (auto simp: to_ascii_lowercase_byte_def ascii_defs)

lemma hexdigit_lower: "is_ascii_hexdigit (to_ascii_lowercase_byte c) \<longleftrightarrow> is_ascii_hexdigit c"
  by (auto simp: to_ascii_lowercase_byte_def ascii_defs)

subsection \<open>Scalar contracts\<close>

lemma rejects_outside_alphabet:
  "list_ex (\<lambda>b. b \<notin> set (allowed_ascii_bytes spec)) v \<Longrightarrow> \<not> accepts spec v"
  by (auto simp: accepts_def list_all_iff list_ex_iff)

lemma corpus_coherent_baseline: "corpus_coherent BASELINE_REF_SPEC"
  by code_simp

lemma generated_invalid_corpus_cases:
  assumes "v \<in> set (generated_invalid_corpus spec)"
  shows "v = [] \<or> v \<in> set (forbidden_complete_values spec) \<or>
    v \<in> set (ascii_space_cases (invalid_corpus spec) @ unicode_whitespace (invalid_corpus spec)) \<or>
    v \<in> (\<lambda>n. [char_of n]) ` set ([0..<32] @ [127::nat]) \<or>
    (\<exists>b. b \<notin> set (allowed_ascii_bytes spec) \<and> v = [b]) \<or>
    (\<exists>b. v = replicate (maximum_length spec + 1) b)"
  using assms unfolding generated_invalid_corpus_def Let_def remdups_adj_set set_sort set_append
  by (auto simp del: upt_rec_numeral set_upt split: if_splits)

subsection \<open>Properties\<close>

text \<open>C39: Sorting is a canonical form: two well-formed JSON values have the same sorted form
  exactly when they differ only in the order of object members at some depth, so the canonical
  bytes of a printer that separates sorted values identify a value up to that order.
\<close>

theorem sort_json_value_canonical:
  assumes "json_wf v" and "json_wf w"
  shows "sort_json_value v = sort_json_value w \<longleftrightarrow> json_equiv v w"
  using assms json_equiv_sort sort_json_equiv by blast

theorem sort_json_value_canonical_witness:
  "json_equiv (JObject [(''b'', JNull), (''a'', JArray [JBool True])])
     (JObject [(''a'', JArray [JBool True]), (''b'', JNull)])"
proof -
  let ?v = "JObject [(''b'', JNull), (''a'', JArray [JBool True])]"
  let ?w = "JObject [(''a'', JArray [JBool True]), (''b'', JNull)]"
  have "json_wf ?v" "json_wf ?w" "sort_json_value ?v = sort_json_value ?w" by code_simp+
  then show ?thesis using sort_json_value_canonical[of ?v ?w] by blast
qed

text \<open>With a hash function that returns 32 bytes, every request hash is a canonical digest
  the validator accepts, member order never changes it, and two requests have equal hashes only
  if the hash function already gave equal bytes for their canonical texts.
\<close>

theorem canonical_request_hash_digest:
  assumes "\<And>bytes. length (sha256 bytes) = 32"
    and "json_wf v" and "json_wf w"
  shows "is_canonical_sha256_digest (canonical_request_hash to_vec sha256 v) \<and>
    (json_equiv v w \<longrightarrow>
       canonical_request_hash to_vec sha256 v = canonical_request_hash to_vec sha256 w) \<and>
    (canonical_request_hash to_vec sha256 v = canonical_request_hash to_vec sha256 w \<longleftrightarrow>
       sha256 (canonical_json_bytes to_vec v) = sha256 (canonical_json_bytes to_vec w))"
proof -
  have "is_canonical_sha256_hex (lowercase_hex (sha256 bytes))" for bytes
    using lowercase_hex_alphabet[of "sha256 bytes"] assms(1) by (simp add: is_canonical_sha256_hex_def)
  then show ?thesis
    using json_equiv_sort[of v w] assms(2) lowercase_hex_inj
    by (auto simp: is_canonical_sha256_digest_iff canonical_request_hash_def
        canonical_json_sha256_def canonical_json_bytes_def)
qed

theorem canonical_request_hash_digest_witness:
  "is_canonical_sha256_digest
     (canonical_request_hash (\<lambda>_. '''') (\<lambda>_. replicate 32 0) (JObject [(''a'', JNull)]))"
proof -
  have "json_wf (JObject [(''a'', JNull)])" by code_simp
  then show ?thesis
    using canonical_request_hash_digest[of "\<lambda>_. replicate 32 0"
        "JObject [(''a'', JNull)]" "JObject [(''a'', JNull)]" "\<lambda>_. ''''"]
    by (simp only: length_replicate simp_thms)
qed

text \<open>A Git object id is accepted exactly when it has 40 or 64 hexadecimal characters; the
  accepted spelling is lowercase, has the same length, is accepted again unchanged, and does not
  depend on the letter case of the input.
\<close>

theorem canonical_git_object_id_normal_form:
  "case canonical_git_object_id s of
     Ok c \<Rightarrow> length c \<in> {40, 64} \<and> length c = length s \<and>
       list_all (\<lambda>b. is_ascii_digit b \<or> byte_in 97 102 b) c \<and>
       canonical_git_object_id c = Ok c \<and>
       canonical_git_object_id (to_ascii_lowercase s) = Ok c
   | Err _ \<Rightarrow> length s \<notin> {40, 64} \<or> list_ex (\<lambda>b. \<not> is_ascii_hexdigit b) s"
  by (auto simp: canonical_git_object_id_def to_ascii_lowercase_def list_all_iff list_ex_iff
      lower_hexdigit lower_idem hexdigit_lower comp_def)

theorem canonical_git_object_id_normal_form_witness:
  "canonical_git_object_id (replicate 40 (CHR ''A'')) = Ok (replicate 40 (CHR ''a'')) \<and>
   canonical_git_object_id (replicate 40 (CHR ''a'')) = Ok (replicate 40 (CHR ''a'')) \<and>
   canonical_git_object_id (replicate 39 (CHR ''a'')) = Err GitObjectIdError"
proof -
  have "canonical_git_object_id (replicate 40 (CHR ''A'')) = Ok (replicate 40 (CHR ''a''))"
    "canonical_git_object_id (replicate 39 (CHR ''a'')) = Err GitObjectIdError"
    by code_simp+
  with canonical_git_object_id_normal_form[of "replicate 40 (CHR ''A'')"] show ?thesis by simp
qed

text \<open>For every coherent scalar specification the generated invalid corpus contains no value
  the specification accepts; the specification of \<open>BaselineRef\<close> is coherent.
\<close>

theorem generated_invalid_corpus_rejected:
  assumes "corpus_coherent spec"
  shows "list_all (\<lambda>v. \<not> accepts spec v) (generated_invalid_corpus spec)"
proof -
  have "\<not> accepts spec v" if v: "v \<in> set (generated_invalid_corpus spec)" for v
    using generated_invalid_corpus_cases[OF v] assms
    by (auto simp: corpus_coherent_def list_all_iff accepts_def list_ex_iff
        simp del: upt_rec_numeral set_upt)
  then show ?thesis by (simp add: list_all_iff)
qed

theorem generated_invalid_corpus_rejected_witness:
  "list_all (\<lambda>v. \<not> accepts BASELINE_REF_SPEC v) (generated_invalid_corpus BASELINE_REF_SPEC)"
  using generated_invalid_corpus_rejected[of BASELINE_REF_SPEC] corpus_coherent_baseline by blast

end
