(* ===== verification/ProductPath.thy ===== *)
theory ProductPath
  imports Prelude
begin

text \<open>
  Repository-relative product paths (\<open>volicord-types/src/product_path.rs\<close>): lexical validation,
  the containment relation, the allowed/denied path scope of a Write Ticket and the
  authorization test over path lists.  Containment is characterised by component prefixes, it is
  an instance of the \<open>containment\<close> interface, and a constructed scope never allows a path that it
  also denies.
\<close>

datatype ProductRelativePath = ProductRelativePath (as_str: string)

datatype ProductPathError =
    Empty | Absolute | PlatformPrefix | Backslash | EmptyComponent | CurrentDirectory
  | ParentTraversal | Nul

datatype WriteTicketPathScopeError =
    DuplicateAllowedPath | DuplicateDeniedPath | AllowedDeniedOverlap

record WriteTicketPathScope =
  allowed :: "ProductRelativePath list"
  denied :: "ProductRelativePath list"

instantiation ProductRelativePath :: linorder
begin

definition less_eq_ProductRelativePath :: "ProductRelativePath \<Rightarrow> ProductRelativePath \<Rightarrow> bool" where
  "p \<le> q \<longleftrightarrow> as_str p \<le> as_str q"

definition less_ProductRelativePath :: "ProductRelativePath \<Rightarrow> ProductRelativePath \<Rightarrow> bool" where
  "p < q \<longleftrightarrow> as_str p < as_str q"

instance
  by standard
    (auto simp: less_eq_ProductRelativePath_def less_ProductRelativePath_def
      intro: ProductRelativePath.expand)

end

subsection \<open>Operations\<close>

definition slash :: char where
  "slash = CHR ''/''"

definition has_windows_drive_prefix :: "string \<Rightarrow> bool" where
  "has_windows_drive_prefix value =
     (case value of
        a # b # _ \<Rightarrow> is_ascii_alphabetic a \<and> b = CHR '':''
      | _ \<Rightarrow> False)"

fun validate_components :: "string list \<Rightarrow> (unit, ProductPathError) result" where
  "validate_components [] = Ok ()"
| "validate_components (component # rest) =
     (if component = '''' then Err EmptyComponent
      else if component = ''.'' then Err CurrentDirectory
      else if component = ''..'' then Err ParentTraversal
      else validate_components rest)"

definition validate_product_relative_path :: "string \<Rightarrow> (unit, ProductPathError) result" where
  "validate_product_relative_path value =
     (if value = [] \<or> trim value = [] then Err Empty
      else if CHR 0x00 \<in> set value then Err Nul
      else if CHR 0x5C \<in> set value then Err Backslash
      else if starts_with_byte slash value then Err Absolute
      else if has_windows_drive_prefix value then Err PlatformPrefix
      else validate_components (split_on slash value))"

definition parse :: "string \<Rightarrow> (ProductRelativePath, ProductPathError) result" where
  "parse value = and_then (validate_product_relative_path value) (\<lambda>_. Ok (ProductRelativePath value))"

definition is_within :: "ProductRelativePath \<Rightarrow> ProductRelativePath \<Rightarrow> bool" where
  "is_within p scope \<longleftrightarrow>
     p = scope \<or>
     (case strip_prefix_of (as_str scope) (as_str p) of
        Some rest \<Rightarrow> starts_with_byte slash rest
      | None \<Rightarrow> False)"

definition new_path_scope ::
  "ProductRelativePath list \<Rightarrow> ProductRelativePath list \<Rightarrow>
     (WriteTicketPathScope, WriteTicketPathScopeError) result" where
  "new_path_scope allowed_paths denied_paths =
     (if length (btree_set allowed_paths) \<noteq> length allowed_paths then Err DuplicateAllowedPath
      else if length (btree_set denied_paths) \<noteq> length denied_paths then Err DuplicateDeniedPath
      else if list_ex (\<lambda>a. list_ex (\<lambda>d. is_within a d \<or> is_within d a) denied_paths) allowed_paths
        then Err AllowedDeniedOverlap
      else Ok \<lparr>allowed = allowed_paths, denied = denied_paths\<rparr>)"

definition parse_product_paths ::
  "string list \<Rightarrow> (ProductRelativePath list, ProductPathError) result" where
  "parse_product_paths raw_paths = collect_results parse raw_paths"

definition path_is_within :: "string \<Rightarrow> string \<Rightarrow> bool" where
  "path_is_within path scope =
     (case (parse path, parse scope) of
        (Ok p, Ok s) \<Rightarrow> is_within p s
      | _ \<Rightarrow> False)"

definition paths_are_authorized :: "string list \<Rightarrow> string list \<Rightarrow> bool" where
  "paths_are_authorized observed_paths authorized_paths \<longleftrightarrow>
     observed_paths \<noteq> [] \<and> authorized_paths \<noteq> [] \<and>
     list_all (\<lambda>path. list_ex (\<lambda>authorized. path_is_within path authorized) authorized_paths)
       observed_paths"

text \<open>The declarative reading of a valid path and its components.\<close>

definition path_components :: "ProductRelativePath \<Rightarrow> string list" where
  "path_components p = split_on slash (as_str p)"

definition normalized_path :: "string \<Rightarrow> bool" where
  "normalized_path s \<longleftrightarrow>
     trim s \<noteq> [] \<and> CHR 0x00 \<notin> set s \<and> CHR 0x5C \<notin> set s \<and> \<not> has_windows_drive_prefix s \<and>
     list_all (\<lambda>c. c \<noteq> '''' \<and> c \<noteq> ''.'' \<and> c \<noteq> ''..'') (split_on slash s)"

text \<open>
  What a filesystem does with the components of a relative path, lexically: an empty or \<open>.\<close>
  component is skipped and \<open>..\<close> leaves the current directory.
\<close>

fun resolve_components :: "string list \<Rightarrow> string list \<Rightarrow> string list" where
  "resolve_components directory [] = directory"
| "resolve_components directory (component # rest) =
     resolve_components
       (if component = '''' \<or> component = ''.'' then directory
        else if component = ''..'' then butlast directory
        else directory @ [component]) rest"

subsection \<open>Containment interface\<close>

text \<open>
  What the callers of \<open>is_within\<close> rely on: containment is a partial order in which the scopes
  around one path form a chain.
\<close>

locale containment =
  fixes within :: "'p \<Rightarrow> 'p \<Rightarrow> bool"
  assumes within_refl: "within p p"
    and within_trans: "within p q \<Longrightarrow> within q r \<Longrightarrow> within p r"
    and within_antisym: "within p q \<Longrightarrow> within q p \<Longrightarrow> p = q"
    and within_chain: "within p a \<Longrightarrow> within p b \<Longrightarrow> within a b \<or> within b a"
begin

definition covered :: "'p list \<Rightarrow> 'p \<Rightarrow> bool" where
  "covered scopes p \<longleftrightarrow> list_ex (within p) scopes"

lemma covered_iff: "covered scopes p \<longleftrightarrow> (\<exists>s\<in>set scopes. within p s)"
  by (simp add: covered_def list_ex_iff)

lemma covered_down: "covered scopes p \<Longrightarrow> within q p \<Longrightarrow> covered scopes q"
  by (auto simp: covered_iff intro: within_trans)

lemma covered_widen:
  "covered scopes p \<Longrightarrow> (\<And>s. s \<in> set scopes \<Longrightarrow> covered wider s) \<Longrightarrow> covered wider p"
  by (auto simp: covered_iff intro: within_trans)

lemma separated_scopes_disjoint:
  assumes "\<not> list_ex (\<lambda>a. list_ex (\<lambda>d. within a d \<or> within d a) ds) as"
  shows "\<not> (covered as p \<and> covered ds p)"
proof
  assume "covered as p \<and> covered ds p"
  then obtain a d where "a \<in> set as" "d \<in> set ds" "within p a" "within p d"
    by (auto simp: covered_iff)
  with assms within_chain[of p a d] show False by (auto simp: list_ex_iff)
qed

end

subsection \<open>Library lemmas\<close>

lemma ProductRelativePath_eq_iff: "p = q \<longleftrightarrow> as_str p = as_str q"
  by (auto intro: ProductRelativePath.expand)

lemma validate_components_Ok_iff [path_simps]:
  "validate_components cs = Ok u \<longleftrightarrow> list_all (\<lambda>c. c \<noteq> '''' \<and> c \<noteq> ''.'' \<and> c \<noteq> ''..'') cs"
  by (induction cs) auto

lemma starts_with_slash_component: "starts_with_byte slash s \<Longrightarrow> [] \<in> set (split_on slash s)"
  by (cases s) (auto split: list.splits)

lemma trim_Nil [simp]: "trim [] = []"
  by (simp add: trim_def)

lemma validate_product_relative_path_Ok_iff [path_simps]:
  "validate_product_relative_path s = Ok u \<longleftrightarrow> normalized_path s"
  using starts_with_slash_component[of s]
  by (auto simp: validate_product_relative_path_def normalized_path_def path_simps list_all_iff)

lemma parse_Ok_iff [path_simps]:
  "parse s = Ok p \<longleftrightarrow> normalized_path s \<and> p = ProductRelativePath s"
  by (auto simp: parse_def path_simps)

lemma split_prefix_iff:
  "prefix (split_on c t) (split_on c s) \<longleftrightarrow> s = t \<or> (\<exists>r. s = t @ c # r)"
proof
  assume "prefix (split_on c t) (split_on c s)"
  then obtain ys where ys: "split_on c s = split_on c t @ ys" by (auto simp: prefix_def)
  show "s = t \<or> (\<exists>r. s = t @ c # r)"
  proof (cases ys)
    case Nil
    with ys show ?thesis by (simp add: split_on_inj)
  next
    case (Cons z zs)
    have "\<forall>y\<in>set ys. c \<notin> set y"
      using split_on_no_sep[of _ c s] ys by auto
    with Cons have "split_on c (t @ c # join_with c ys) = split_on c t @ ys"
      by (simp only: split_on_append_sep) (metis list.distinct(1) split_join_with)
    with ys have "s = t @ c # join_with c ys" by (metis split_on_inj)
    then show ?thesis by blast
  qed
qed (auto simp: split_on_append_sep prefix_def)

lemma is_within_prefix: "is_within p q \<longleftrightarrow> prefix (path_components q) (path_components p)"
  by (auto simp: is_within_def path_components_def split_prefix_iff ProductRelativePath_eq_iff
      starts_with_byte_iff strip_prefix_of_Some_iff split: option.splits)

lemma path_components_inj: "path_components p = path_components q \<longleftrightarrow> p = q"
  by (simp add: path_components_def split_on_inj ProductRelativePath_eq_iff)

interpretation product_path: containment is_within
proof
  show "is_within p q \<or> is_within q p" if "is_within r p" "is_within r q" for p q r
    using that by (auto simp: is_within_prefix dest: prefix_same_cases)
  show "p = q" if "is_within p q" "is_within q p" for p q
    using that prefix_order.antisym path_components_inj by (metis is_within_prefix)
qed (auto simp: is_within_prefix)

lemma parse_ErrD: "parse s = Err e \<Longrightarrow> \<not> normalized_path s"
  using parse_Ok_iff[of s "ProductRelativePath s"] by auto

lemma path_is_within_iff [path_simps]:
  "path_is_within p s \<longleftrightarrow>
     normalized_path p \<and> normalized_path s \<and> prefix (split_on slash s) (split_on slash p)"
  by (auto simp: path_is_within_def parse_Ok_iff is_within_prefix path_components_def
      dest: parse_ErrD split: result.splits)

lemma new_path_scope_Ok_iff:
  "new_path_scope as ds = Ok sc \<longleftrightarrow>
     distinct as \<and> distinct ds \<and> sc = \<lparr>allowed = as, denied = ds\<rparr> \<and>
     \<not> list_ex (\<lambda>a. list_ex (\<lambda>d. is_within a d \<or> is_within d a) ds) as"
  by (auto simp: new_path_scope_def length_btree_set_eq_iff)

lemma resolve_components_plain:
  "list_all (\<lambda>c. c \<noteq> '''' \<and> c \<noteq> ''.'' \<and> c \<noteq> ''..'') components \<Longrightarrow>
     resolve_components directory components = directory @ components"
  by (induction components arbitrary: directory) auto

subsection \<open>Properties\<close>

text \<open>C36: A path the parser accepts cannot leave the repository lexically: resolved from any
  directory it is that directory followed by exactly its components, none of which is skipped or
  climbs out, and its text is kept as given.
\<close>

theorem accepted_path_stays_inside:
  assumes "parse raw = Ok p"
  shows "as_str p = raw \<and> split_on slash raw \<noteq> [] \<and>
    resolve_components root (split_on slash raw) = root @ path_components p"
  using assms
  by (auto simp: parse_Ok_iff normalized_path_def path_components_def resolve_components_plain)

theorem accepted_path_stays_inside_witness:
  "parse ''src/domain/model.rs'' = Ok (ProductRelativePath ''src/domain/model.rs'') \<and>
   resolve_components [''repo''] (split_on slash ''src/domain/model.rs'') =
     [''repo''] @ path_components (ProductRelativePath ''src/domain/model.rs'')"
proof -
  have "parse ''src/domain/model.rs'' = Ok (ProductRelativePath ''src/domain/model.rs'')"
    by code_simp
  then show ?thesis using accepted_path_stays_inside[of "''src/domain/model.rs''"] by blast
qed

text \<open>C35: A write-ticket path scope that can be constructed never contradicts itself: its lists
  are the given ones without repetition, and no path at all lies both below an allowed and below
  a denied path.
\<close>

theorem path_scope_never_contradicts_itself:
  assumes "new_path_scope as ds = Ok scope"
  shows "allowed scope = as \<and> denied scope = ds \<and> distinct as \<and> distinct ds \<and>
    \<not> (\<exists>p a d. a \<in> set (allowed scope) \<and> d \<in> set (denied scope) \<and> is_within p a \<and> is_within p d)"
  using assms product_path.separated_scopes_disjoint[of ds as]
  by (auto simp: new_path_scope_Ok_iff product_path.covered_iff)

theorem path_scope_never_contradicts_itself_witness:
  "\<not> (\<exists>p. is_within p (ProductRelativePath ''src'') \<and> is_within p (ProductRelativePath ''tests''))"
proof -
  have "new_path_scope [ProductRelativePath ''src''] [ProductRelativePath ''tests''] =
      Ok \<lparr>allowed = [ProductRelativePath ''src''], denied = [ProductRelativePath ''tests'']\<rparr>"
    by code_simp
  from path_scope_never_contradicts_itself[OF this] show ?thesis by simp
qed

text \<open>C37: Observed paths are authorized exactly when there are some, and every one of them is a
  normalized path whose component list extends that of a normalized authorized path.  Textual
  prefixes that end inside a component, such as \<open>src/domains\<close> below \<open>src/domain\<close>, do not count.
\<close>

theorem paths_are_authorized_by_components:
  "paths_are_authorized observed authorized \<longleftrightarrow>
     observed \<noteq> [] \<and>
     list_all (\<lambda>path. normalized_path path \<and>
       list_ex (\<lambda>scope. normalized_path scope \<and> prefix (split_on slash scope) (split_on slash path))
         authorized) observed"
  by (cases observed; cases authorized)
    (auto simp: paths_are_authorized_def list_all_iff list_ex_iff path_is_within_iff)

end
