(* ===== verification/Values.thy ===== *)
theory Values
  imports Canonical ProductPath
begin

text \<open>
  The controlled values (\<open>volicord-types/src/values.rs\<close>) as datatypes with the source's
  constructors, and the public state shapes (\<open>volicord-types/src/schema.rs\<close>) as records.  A
  constructor that would hide a constant of HOL carries a suffix (\<open>None_redaction\<close>).  Field names
  are global in Isabelle, so every record's fields carry a prefix.  \<open>RequiredNullable\<close> is
  \<^typ>\<open>'a option\<close>, \<open>UtcTimestamp\<close> is a linearly ordered instant, and a \<open>SourceRef\<close>, which no
  modelled operation inspects, is its JSON value.
\<close>

type_synonym ProjectId = string
type_synonym TaskId = string
type_synonym RecordId = string
type_synonym ChangeUnitId = string
type_synonym RunId = string
type_synonym RiskId = string
type_synonym ArtifactId = string
type_synonym BaselineRef = string
type_synonym AgentConnectionId = string
type_synonym WriteTicketId = string
type_synonym AcceptanceCriterionId = string
type_synonym EvidenceClaimId = string
type_synonym EvidenceObservationId = string
type_synonym UserActionRequestId = string
type_synonym UserActionResolutionId = string
type_synonym UserActionOptionId = string
type_synonym StorageRef = string
type_synonym SourceRef = json

subsection \<open>Controlled values\<close>

datatype MethodName =
    Intake | UpdateScope | RecordShapingCheckpoint | FinalizeAdvice | AdvanceTask | Status
  | GetOperationResult | CheckClose | PrepareEvidenceCapture | PrepareWrite | StageArtifact
  | RecordRun | RequestUserAction | ResolveUserAction | ReconcileChanges | CloseTask

datatype ActorSource = AgentConnection AgentConnectionId | LocalUser | System

datatype NextActionKind =
    UpdateScope | FinalizeAdvice | PrepareWrite | StageArtifact | RecordRun | RequestUserAction
  | ResolveUserAction | ReconcileChanges | CloseTask

datatype OperationCategory = Read | AgentWorkflow | UserOnly | AdminLocal | LocalRecovery

datatype StateRecordKind =
    ProjectState | Task | ChangeUnit | ShapingCheckpoint | ShapingGap
  | ShapingDecisionApplication | ShapingAuthorityReauthorization | WriteTicket
  | UserActionRequest | UserActionResolution | Run | EvidenceSummary | EvidenceObservation
  | EvidenceCaptureIntent | EvidenceProducer | Artifact | Blocker | TaskEvent | AgentConnection
  | UnrecordedChange | ProjectContinuityRecord

datatype TaskMode = Advisor | Direct | Work

datatype RequestedMode = Advisor | Direct | Work | Auto

datatype RequestedControlLevel = Auto | Observe | Light | Tracked | Sensitive

datatype TaskControlLevel = Observe | Light | Tracked | Sensitive

datatype WorkPhase = Shaping | Implementation

datatype AcceptancePolicy = Required | NotRequired | PolicyDependent

datatype TaskLifecyclePhase =
    Shaping | Ready | Executing | WaitingUser | Blocked | Completed | Cancelled | Superseded

datatype CloseState = Ready | Blocked | Closed | Cancelled | Superseded

datatype ChangeUnitEffectKind =
    ProductFileWrite | ArtifactRegistration | RunRecording | UserActionRequest | EvidenceUpdate
  | SensitiveAction | ExternalNetwork | SecretAccess

datatype CloseIntent = Check | Complete | Cancel | Supersede

datatype PrepareWriteDecision = Allowed | Blocked | ApprovalRequired | DecisionRequired

datatype WriteTicketStatus = Active | Consumed | Invalidated | Revoked

datatype WriteTicketInvalidationReason =
    ScopeRevisionChanged | ChangeUnitChanged | BaselineChanged | WorkspaceChanged
  | ApprovalBasisChanged | IdleTimeout | TaskClosed | ExplicitRevoke

datatype WriteDecisionCategory =
    Scope | Workspace | UserAction | SensitiveApproval | WriteCompatibility | Baseline
  | EffectContract | ConnectionCapability

datatype CloseReadinessBlockerCategory =
    Task | OpenRun | Scope | UserAction | PendingUserAction | SensitiveApproval
  | WriteCompatibility | Baseline | ConnectionCapability | Evidence | EvidenceClaim
  | EvidenceProvenance | ArtifactAvailability | FinalAcceptance | ResidualRiskVisibility
  | ResidualRiskAcceptance | Recovery

datatype EvidenceStatus = Unknown | Insufficient | Sufficient | Blocked

datatype EvidenceDisplayState = Prepared | Attached | AcceptedForClose

datatype EvidenceGateState =
    NotRequired | OptionalNone | RequiredMissing | Partial | Sufficient | Stale | Blocked

datatype EvidenceCoverageState =
    Unsupported | Partial | Supported | Contradicted | NotApplicable | Stale

datatype EvidenceRequirement = Required | Optional | NotRequired

datatype EvidenceSourceKind =
    AgentReport | ExternalTool | UserObservation | ReusedEvidence | UnverifiedClaim

datatype EvidenceAssuranceLevel =
    CooperativeReport | ExternalToolResult | UserObserved | Unverified

datatype EvidenceProducerKind =
    UnverifiedCaller | UserChannelObservation | VerifiedToolInvocation
  | VerifiedCommandExecution | ReusedEvidence

datatype EvidenceRelevanceStatus = Unassessed | Supported | Contradicted

datatype RedactionState = None_redaction | Redacted | SecretOmitted | Blocked

datatype ArtifactAvailability =
    Available | Unavailable | Missing | IntegrityFailed | Blocked | Unusable

datatype ArtifactIntegrityStatus = Verified | Corrupt

datatype JudgmentKind =
    ProductDecision | TechnicalDecision | ScopeDecision | SensitiveApproval | FinalAcceptance
  | ResidualRiskAcceptance | Cancellation

datatype UserActionKind =
    ProductDecision | TechnicalDecision | ScopeDecision | SensitiveApproval | FinalAcceptance
  | ResidualRiskAcceptance | Cancellation | EvidenceObservation

datatype UserActionRequiredFor =
    ScopeUpdate | AdvanceTask | FinalizeAdvice | PrepareWrite | RecordRun | CloseComplete
  | CloseCancel | CloseSupersede | Informational

datatype UserActionStatus = Pending | Resolved | Stale | Superseded | Expired

datatype JudgmentResolutionOutcome = Accepted | Rejected | Deferred

datatype UserActionOptionAction = Accept | Reject | Defer

datatype UserActionBasisStatus = Current | Stale | Superseded

datatype UserActionVerificationBasis = CliDirectUserChannel

subsection \<open>Operations on controlled values\<close>

text \<open>\<open>#[derive(PartialOrd, Ord)]\<close> on \<open>TaskControlLevel\<close>: declaration order.\<close>

fun control_rank :: "TaskControlLevel \<Rightarrow> nat" where
  "control_rank TaskControlLevel.Observe = 0"
| "control_rank TaskControlLevel.Light = 1"
| "control_rank TaskControlLevel.Tracked = 2"
| "control_rank TaskControlLevel.Sensitive = 3"

instantiation TaskControlLevel :: linorder
begin

definition less_eq_TaskControlLevel :: "TaskControlLevel \<Rightarrow> TaskControlLevel \<Rightarrow> bool" where
  "a \<le> b \<longleftrightarrow> control_rank a \<le> control_rank b"

definition less_TaskControlLevel :: "TaskControlLevel \<Rightarrow> TaskControlLevel \<Rightarrow> bool" where
  "a < b \<longleftrightarrow> control_rank a < control_rank b"

lemma control_rank_inj: "control_rank a = control_rank b \<longleftrightarrow> a = b"
  by (cases a; cases b) auto

instance
  by standard (auto simp: less_eq_TaskControlLevel_def less_TaskControlLevel_def control_rank_inj)

end

lemmas control_order_defs = less_eq_TaskControlLevel_def less_TaskControlLevel_def max_def

fun to_canonical_string :: "ActorSource \<Rightarrow> string" where
  "to_canonical_string (ActorSource.AgentConnection connection_id) =
     ''agent_connection:'' @ connection_id"
| "to_canonical_string ActorSource.LocalUser = ''local_user''"
| "to_canonical_string ActorSource.System = ''system''"

datatype ActorSourceParseError = ActorSourceParseError

definition actor_source_from_str :: "string \<Rightarrow> (ActorSource, ActorSourceParseError) result" where
  "actor_source_from_str raw =
     (if raw = ''local_user'' then Ok ActorSource.LocalUser
      else if raw = ''system'' then Ok ActorSource.System
      else case strip_prefix_of ''agent_connection:'' raw of
          None \<Rightarrow> Err ActorSourceParseError
        | Some connection_id \<Rightarrow>
            if connection_id = [] then Err ActorSourceParseError
            else Ok (ActorSource.AgentConnection connection_id))"

fun resolution_outcome :: "UserActionOptionAction \<Rightarrow> JudgmentResolutionOutcome" where
  "resolution_outcome UserActionOptionAction.Accept = JudgmentResolutionOutcome.Accepted"
| "resolution_outcome UserActionOptionAction.Reject = JudgmentResolutionOutcome.Rejected"
| "resolution_outcome UserActionOptionAction.Defer = JudgmentResolutionOutcome.Deferred"

fun user_action_kind_of :: "JudgmentKind \<Rightarrow> UserActionKind" where
  "user_action_kind_of JudgmentKind.ProductDecision = UserActionKind.ProductDecision"
| "user_action_kind_of JudgmentKind.TechnicalDecision = UserActionKind.TechnicalDecision"
| "user_action_kind_of JudgmentKind.ScopeDecision = UserActionKind.ScopeDecision"
| "user_action_kind_of JudgmentKind.SensitiveApproval = UserActionKind.SensitiveApproval"
| "user_action_kind_of JudgmentKind.FinalAcceptance = UserActionKind.FinalAcceptance"
| "user_action_kind_of JudgmentKind.ResidualRiskAcceptance = UserActionKind.ResidualRiskAcceptance"
| "user_action_kind_of JudgmentKind.Cancellation = UserActionKind.Cancellation"

fun judgment_kind :: "UserActionKind \<Rightarrow> JudgmentKind option" where
  "judgment_kind UserActionKind.ProductDecision = Some JudgmentKind.ProductDecision"
| "judgment_kind UserActionKind.TechnicalDecision = Some JudgmentKind.TechnicalDecision"
| "judgment_kind UserActionKind.ScopeDecision = Some JudgmentKind.ScopeDecision"
| "judgment_kind UserActionKind.SensitiveApproval = Some JudgmentKind.SensitiveApproval"
| "judgment_kind UserActionKind.FinalAcceptance = Some JudgmentKind.FinalAcceptance"
| "judgment_kind UserActionKind.ResidualRiskAcceptance = Some JudgmentKind.ResidualRiskAcceptance"
| "judgment_kind UserActionKind.Cancellation = Some JudgmentKind.Cancellation"
| "judgment_kind UserActionKind.EvidenceObservation = None"

fun is_compatible_with_required_for :: "UserActionKind \<Rightarrow> UserActionRequiredFor \<Rightarrow> bool" where
  "is_compatible_with_required_for kind UserActionRequiredFor.ScopeUpdate \<longleftrightarrow>
     kind \<in> {UserActionKind.ProductDecision, UserActionKind.TechnicalDecision,
       UserActionKind.ScopeDecision}"
| "is_compatible_with_required_for kind UserActionRequiredFor.PrepareWrite \<longleftrightarrow>
     kind \<in> {UserActionKind.ProductDecision, UserActionKind.TechnicalDecision,
       UserActionKind.ScopeDecision, UserActionKind.SensitiveApproval}"
| "is_compatible_with_required_for kind UserActionRequiredFor.AdvanceTask \<longleftrightarrow>
     kind \<in> {UserActionKind.ProductDecision, UserActionKind.TechnicalDecision,
       UserActionKind.ScopeDecision, UserActionKind.SensitiveApproval}"
| "is_compatible_with_required_for kind UserActionRequiredFor.FinalizeAdvice \<longleftrightarrow>
     kind \<in> {UserActionKind.ProductDecision, UserActionKind.TechnicalDecision,
       UserActionKind.SensitiveApproval}"
| "is_compatible_with_required_for kind UserActionRequiredFor.RecordRun \<longleftrightarrow>
     kind \<in> {UserActionKind.ProductDecision, UserActionKind.TechnicalDecision,
       UserActionKind.ScopeDecision, UserActionKind.SensitiveApproval,
       UserActionKind.EvidenceObservation}"
| "is_compatible_with_required_for kind UserActionRequiredFor.CloseComplete \<longleftrightarrow>
     kind \<in> {UserActionKind.ProductDecision, UserActionKind.TechnicalDecision,
       UserActionKind.ScopeDecision, UserActionKind.SensitiveApproval,
       UserActionKind.FinalAcceptance, UserActionKind.ResidualRiskAcceptance,
       UserActionKind.EvidenceObservation}"
| "is_compatible_with_required_for kind UserActionRequiredFor.CloseCancel \<longleftrightarrow>
     kind = UserActionKind.Cancellation"
| "is_compatible_with_required_for kind UserActionRequiredFor.CloseSupersede \<longleftrightarrow>
     kind \<in> {UserActionKind.ProductDecision, UserActionKind.TechnicalDecision,
       UserActionKind.ScopeDecision, UserActionKind.SensitiveApproval}"
| "is_compatible_with_required_for kind UserActionRequiredFor.Informational \<longleftrightarrow> True"

definition effective_user_action_status ::
  "UserActionBasisStatus \<Rightarrow> UtcTimestamp \<Rightarrow> UtcTimestamp option \<Rightarrow> bool \<Rightarrow> UtcTimestamp \<Rightarrow>
     UserActionStatus option" where
  "effective_user_action_status basis_status created_at expires_at has_resolution now =
     (if now < created_at then None
      else Some (case basis_status of
          UserActionBasisStatus.Stale \<Rightarrow> UserActionStatus.Stale
        | UserActionBasisStatus.Superseded \<Rightarrow> UserActionStatus.Superseded
        | UserActionBasisStatus.Current \<Rightarrow>
            if has_resolution then UserActionStatus.Resolved
            else (case expires_at of
                Some e \<Rightarrow> if now \<ge> e then UserActionStatus.Expired else UserActionStatus.Pending
              | None \<Rightarrow> UserActionStatus.Pending)))"

end
