(* ===== verification/Schema.thy ===== *)
theory Schema
  imports Values
begin

text \<open>
  The public state shapes of \<open>volicord-types/src/schema.rs\<close> that the policy layers read and
  build: references, write-ticket bases, evidence, close basis, blockers and user-action bases.
\<close>

subsection \<open>References\<close>

record StateRecordRef =
  ref_record_kind :: StateRecordKind
  ref_record_id :: RecordId
  ref_project_id :: ProjectId
  ref_task_id :: "TaskId option"
  ref_produced_at_state_version :: "u64 option"

record UserActionResolutionIdentity =
  identity_project_id :: ProjectId
  identity_task_id :: TaskId
  identity_resolution_id :: UserActionResolutionId

record UserActionResolutionRef =
  resolution_ref_record_id :: UserActionResolutionId
  resolution_ref_project_id :: ProjectId
  resolution_ref_task_id :: TaskId
  resolution_ref_produced_at :: u64

definition resolution_identity :: "UserActionResolutionRef \<Rightarrow> UserActionResolutionIdentity" where
  "resolution_identity r = \<lparr>
     identity_project_id = resolution_ref_project_id r,
     identity_task_id = resolution_ref_task_id r,
     identity_resolution_id = resolution_ref_record_id r\<rparr>"

record ArtifactRef =
  art_artifact_id :: ArtifactId
  art_project_id :: ProjectId
  art_task_id :: TaskId
  art_display_name :: string
  art_content_type :: "string option"
  art_sha256 :: "string option"
  art_size_bytes :: "u64 option"
  art_integrity_status :: ArtifactIntegrityStatus
  art_redaction_state :: RedactionState
  art_availability :: ArtifactAvailability
  art_created_by_run_ref :: "StateRecordRef option"
  art_created_by_actor_source :: "ActorSource option"
  art_storage_ref :: "StorageRef option"

subsection \<open>Change Units and write tickets\<close>

record ChangeUnitEffectContract =
  ec_allowed_effects :: "ChangeUnitEffectKind list"
  ec_forbidden_effects :: "ChangeUnitEffectKind list"
  ec_allowed_paths :: "string list"
  ec_expected_outputs :: "string list"
  ec_invariants :: "string list"
  ec_evidence_expectations :: "string list"
  ec_sensitive_action_expectations :: "string list"

record WriteTicketPathPatterns =
  pp_allowed :: "string list"
  pp_denied :: "string list"

record WriteTicketValidityBasis =
  vb_task_id :: TaskId
  vb_change_unit_id :: ChangeUnitId
  vb_scope_revision :: u64
  vb_baseline_ref :: "BaselineRef option"
  vb_workspace_context_sha256 :: "string option"
  vb_write_authority_fingerprint :: string
  vb_approval_basis_refs :: "UserActionResolutionRef list"

record WriteTicketAttemptScope =
  as_task_id :: TaskId
  as_change_unit_id :: ChangeUnitId
  as_intended_operation :: string
  as_intended_paths :: "ProductRelativePath list"
  as_product_file_write_intended :: bool
  as_sensitive_categories :: "string list"
  as_baseline_ref :: "BaselineRef option"

record WriteDecisionReason =
  wdr_category :: WriteDecisionCategory
  wdr_code :: string
  wdr_message :: string
  wdr_related_refs :: "StateRecordRef list"

subsection \<open>Evidence\<close>

record AcceptanceCriterion =
  ac_acceptance_criterion_id :: AcceptanceCriterionId
  ac_statement :: string
  ac_evidence_requirement :: EvidenceRequirement

datatype EvidenceTarget =
    AcceptanceCriterion AcceptanceCriterionId
  | SupplementalClaim EvidenceClaimId string

record EvidenceCoverageItem =
  eci_target :: EvidenceTarget
  eci_coverage_state :: EvidenceCoverageState
  eci_supporting_run_refs :: "StateRecordRef list"
  eci_observation_refs :: "StateRecordRef list"
  eci_supporting_artifact_refs :: "ArtifactRef list"
  eci_gap_refs :: "StateRecordRef list"

record EvidenceSummary =
  es_evidence_state :: "EvidenceDisplayState option"
  es_status :: EvidenceStatus
  es_coverage_items :: "EvidenceCoverageItem list"
  es_artifact_refs :: "ArtifactRef list"
  es_observation_refs :: "StateRecordRef list"
  es_updated_by_run_ref :: "StateRecordRef option"

record EvidenceProducerAnchor =
  epa_producer_kind :: EvidenceProducerKind
  epa_producer_ref :: "StateRecordRef option"
  epa_output_artifact_refs :: "ArtifactRef list"
  epa_verification_basis :: "string option"

record EvidenceRelevanceAssessment =
  era_status :: EvidenceRelevanceStatus
  era_assessment_ref :: "StateRecordRef option"
  era_assessed_by_actor_source :: "ActorSource option"

record EvidenceObservation =
  eo_observation_id :: EvidenceObservationId
  eo_project_id :: ProjectId
  eo_task_id :: TaskId
  eo_change_unit_id :: "ChangeUnitId option"
  eo_run_ref :: "StateRecordRef option"
  eo_target :: EvidenceTarget
  eo_source_kind :: EvidenceSourceKind
  eo_assurance_level :: EvidenceAssuranceLevel
  eo_producer_anchor :: EvidenceProducerAnchor
  eo_relevance_assessment :: EvidenceRelevanceAssessment
  eo_observed_by_actor_source :: "ActorSource option"
  eo_tool_name :: "string option"
  eo_tool_invocation_id :: "string option"
  eo_tool_metadata :: JsonObject
  eo_input_refs :: "StateRecordRef list"
  eo_source_refs :: "SourceRef list"
  eo_output_artifact_refs :: "ArtifactRef list"
  eo_limitations :: "string list"
  eo_observed_at :: UtcTimestamp
  eo_recorded_at :: UtcTimestamp

record ObservedChanges =
  oc_changed_paths :: "string list"
  oc_product_file_write_observed :: bool
  oc_sensitive_categories :: "string list"
  oc_baseline_ref :: "BaselineRef option"

record UserActionEvidenceObservation =
  uaeo_target :: EvidenceTarget
  uaeo_relevance_status :: EvidenceRelevanceStatus
  uaeo_output_artifact_refs :: "ArtifactRef list"
  uaeo_summary :: string

subsection \<open>Close basis and blockers\<close>

record ResidualRisk =
  rr_risk_id :: RiskId
  rr_summary :: string
  rr_consequence :: string
  rr_acceptance_required :: bool
  rr_source_refs :: "StateRecordRef list"

record SensitiveActionRequirement =
  sar_action_kind :: string
  sar_normalized_paths :: "string list"
  sar_sensitive_categories :: "string list"
  sar_baseline_ref :: "BaselineRef option"
  sar_change_unit_id :: ChangeUnitId
  sar_source_run_ref :: StateRecordRef
  sar_source_write_ticket_ref :: StateRecordRef

record CurrentCloseBasis =
  ccb_close_basis_revision :: u64
  ccb_scope_revision :: u64
  ccb_task_id :: TaskId
  ccb_change_unit_id :: ChangeUnitId
  ccb_baseline_ref :: "BaselineRef option"
  ccb_result_summary :: string
  ccb_result_refs :: "StateRecordRef list"
  ccb_evidence_refs :: "StateRecordRef list"
  ccb_evidence_summary_ref :: "StateRecordRef option"
  ccb_residual_risks :: "ResidualRisk list"
  ccb_sensitive_categories :: "string list"
  ccb_sensitive_action_requirements :: "SensitiveActionRequirement list"
  ccb_recovery_constraints :: "string list"
  ccb_source_run_ref :: "StateRecordRef option"
  ccb_shaping_checkpoint_ref :: "StateRecordRef option"
  ccb_shaping_decision_application_refs :: "StateRecordRef list"
  ccb_updated_at :: UtcTimestamp

record RiskAcceptanceCoverage =
  rac_risk_id :: RiskId
  rac_accepted :: bool
  rac_accepted_by_user_action_resolution_refs :: "StateRecordRef list"
  rac_missing_reason :: "string option"

record NextActionSummary =
  nas_action_kind :: NextActionKind
  nas_owner_method :: "MethodName option"
  nas_allowed_operation_categories :: "OperationCategory list"
  nas_label :: string
  nas_blocking_question :: "string option"
  nas_expected_state_version :: "u64 option"
  nas_required_refs :: "StateRecordRef list"

record CloseReadinessBlocker =
  crb_category :: CloseReadinessBlockerCategory
  crb_code :: string
  crb_message :: string
  crb_related_refs :: "StateRecordRef list"
  crb_next_actions :: "NextActionSummary list"

subsection \<open>User actions\<close>

record SensitiveActionScope =
  sas_action_kind :: string
  sas_description :: string
  sas_intended_paths :: "string list"
  sas_sensitive_categories :: "string list"
  sas_command_or_tool_summary :: "string option"
  sas_network_or_host_summary :: "string option"
  sas_secret_or_credential_summary :: "string option"
  sas_capability_claim :: string
  sas_expires_at :: "UtcTimestamp option"

record UserActionBasisCoordinates =
  coord_task_id :: TaskId
  coord_change_unit_id :: "ChangeUnitId option"
  coord_scope_revision :: u64
  coord_baseline_ref :: "BaselineRef option"
  coord_created_at_state_version :: u64
  coord_compatibility_status :: UserActionBasisStatus

record UserActionChoiceBasis =
  cb_coordinates :: UserActionBasisCoordinates
  cb_close_basis_revision :: "u64 option"
  cb_result_refs :: "StateRecordRef list"
  cb_residual_risk_ids :: "RiskId list"
  cb_sensitive_action_scope :: "SensitiveActionScope option"

record UserActionEvidenceObservationBasis =
  ob_coordinates :: UserActionBasisCoordinates
  ob_target_candidates :: "EvidenceTarget list"
  ob_artifact_candidates :: "ArtifactRef list"

datatype UserActionBasis =
    Choice UserActionChoiceBasis
  | EvidenceObservation UserActionEvidenceObservationBasis

fun basis_coordinates :: "UserActionBasis \<Rightarrow> UserActionBasisCoordinates" where
  "basis_coordinates (UserActionBasis.Choice choice) = cb_coordinates choice"
| "basis_coordinates (UserActionBasis.EvidenceObservation observation) = ob_coordinates observation"

fun basis_compatibility_status :: "UserActionBasis \<Rightarrow> UserActionBasisStatus" where
  "basis_compatibility_status (UserActionBasis.Choice choice) =
     coord_compatibility_status (cb_coordinates choice)"
| "basis_compatibility_status (UserActionBasis.EvidenceObservation observation) =
     coord_compatibility_status (ob_coordinates observation)"

fun basis_close_basis_revision :: "UserActionBasis \<Rightarrow> u64 option" where
  "basis_close_basis_revision (UserActionBasis.Choice choice) = cb_close_basis_revision choice"
| "basis_close_basis_revision (UserActionBasis.EvidenceObservation _) = None"

fun basis_result_refs :: "UserActionBasis \<Rightarrow> StateRecordRef list" where
  "basis_result_refs (UserActionBasis.Choice choice) = cb_result_refs choice"
| "basis_result_refs (UserActionBasis.EvidenceObservation _) = []"

fun basis_residual_risk_ids :: "UserActionBasis \<Rightarrow> RiskId list" where
  "basis_residual_risk_ids (UserActionBasis.Choice choice) = cb_residual_risk_ids choice"
| "basis_residual_risk_ids (UserActionBasis.EvidenceObservation _) = []"

fun basis_sensitive_action_scope :: "UserActionBasis \<Rightarrow> SensitiveActionScope option" where
  "basis_sensitive_action_scope (UserActionBasis.Choice choice) = cb_sensitive_action_scope choice"
| "basis_sensitive_action_scope (UserActionBasis.EvidenceObservation _) = None"

record ChoiceResolution =
  cr_selected_option_id :: UserActionOptionId
  cr_machine_action :: UserActionOptionAction
  cr_resolution_outcome :: JudgmentResolutionOutcome
  cr_note :: "string option"
  cr_accepted_risk_ids :: "RiskId list"

datatype UserActionResolutionBody =
    Choice ChoiceResolution
  | EvidenceObservation UserActionEvidenceObservation

end
