(* ===== verification/StoreRecords.thy ===== *)
theory StoreRecords
  imports Schema
begin

text \<open>
  The stored rows that the core policies read, strictly decoded
  (\<open>volicord-store/src/core_pipeline/\<close>: \<open>tasks.rs\<close>, \<open>change_units.rs\<close>, \<open>runs.rs\<close>, \<open>evidence.rs\<close>,
  \<open>write_tickets.rs\<close>, \<open>project_state.rs\<close>), and the canonical range of a stored instant.
\<close>

datatype CloseReason =
    None_reason | CompletedSelfChecked | CompletedWithRiskAccepted | Cancelled | Superseded

datatype TaskResult = None_result | AdviceOnly | Completed | Cancelled | Superseded

datatype TaskLineageRelation =
    Continues | DerivedFrom | SplitFrom | Replaces | ImplementsAdviceFrom

datatype CarryForwardKind =
    Scope | NonGoals | UserDecisions | SourceRefs | ContextRefs | KnownLimitations
  | UnresolvedObligations | ResidualRisks | Baseline

datatype CarryForwardDispositionStatus = Applied | ReferenceOnly

datatype ChangeUnitStatus = Proposed | Active | Replaced | Closed

datatype RunStatus = Recorded

datatype AcceptanceCriterionStatus = Active | Retired

record CarryForwardDisposition =
  cfd_kind :: CarryForwardKind
  cfd_status :: CarryForwardDispositionStatus
  cfd_source_refs :: "StateRecordRef list"

record PersistedCloseSummary =
  pcs_close_reason :: CloseReason
  pcs_closed_at :: "UtcTimestamp option"
  pcs_intent :: "CloseIntent option"
  pcs_user_note :: "string option"
  pcs_superseding_task_id :: "TaskId option"
  pcs_required_sensitive_categories :: "string list"
  pcs_sensitive_categories :: "string list"
  pcs_baseline_stale :: bool
  pcs_baseline_status :: "string option"
  pcs_recovery_required :: bool
  pcs_visible_risks :: "json list"
  pcs_residual_risk_visible :: bool
  pcs_residual_risks :: "json list"
  pcs_residual_risk_present :: bool

definition default_close_summary :: PersistedCloseSummary where
  "default_close_summary = \<lparr>
     pcs_close_reason = None_reason, pcs_closed_at = None, pcs_intent = None,
     pcs_user_note = None, pcs_superseding_task_id = None,
     pcs_required_sensitive_categories = [], pcs_sensitive_categories = [],
     pcs_baseline_stale = False, pcs_baseline_status = None, pcs_recovery_required = False,
     pcs_visible_risks = [], pcs_residual_risk_visible = False, pcs_residual_risks = [],
     pcs_residual_risk_present = False\<rparr>"

record TaskShapingFacts =
  shaping_goal_summary :: "string option"
  shaping_scope_summary :: "string option"
  shaping_non_goals :: "string list"
  shaping_baseline_ref :: "BaselineRef option"
  shaping_autonomy_boundary :: "string option"
  shaping_initial_context_refs :: "StateRecordRef list"
  shaping_initial_source_refs :: "SourceRef list"

record TaskRecord =
  task_project_id :: ProjectId
  task_task_id :: TaskId
  task_mode :: TaskMode
  task_requested_control_level :: RequestedControlLevel
  task_effective_control_level :: TaskControlLevel
  task_control_level_reason :: string
  task_work_phase :: WorkPhase
  task_acceptance_policy :: AcceptancePolicy
  task_acceptance_policy_reason :: string
  task_predecessor_task_id :: "string option"
  task_lineage_relation :: "TaskLineageRelation option"
  task_lineage_reason :: "string option"
  task_carry_forward :: "CarryForwardDisposition list"
  task_lifecycle_phase :: TaskLifecyclePhase
  task_result :: "TaskResult option"
  task_title :: "string option"
  task_summary :: "string option"
  task_shaping :: TaskShapingFacts
  task_bounded_context :: JsonObject
  task_autonomy_boundary :: "string option"
  task_scope_revision :: u64
  task_close_basis_revision :: u64
  task_close_basis :: "CurrentCloseBasis option"
  task_close_summary :: PersistedCloseSummary
  task_current_change_unit_id :: "string option"
  task_closed_at :: "UtcTimestamp option"
  task_metadata :: JsonObject

record GitWorkspaceContext =
  git_common_dir :: string
  git_worktree_id :: string
  git_branch_ref :: "string option"
  git_head_sha :: "string option"
  git_workspace_fingerprint :: string

record StoredChangeUnitScopeSummary =
  cuss_scope_summary :: "string option"
  cuss_affected_areas :: "string list"
  cuss_constraints :: "string list"

record StoredChangeUnitWriteBasis =
  cuwb_baseline_ref :: "BaselineRef option"
  cuwb_git_workspace_context :: "GitWorkspaceContext option"

record ChangeUnitRecord =
  cu_project_id :: ProjectId
  cu_change_unit_id :: ChangeUnitId
  cu_task_id :: TaskId
  cu_status :: ChangeUnitStatus
  cu_is_current :: bool
  cu_basis_state_version :: u64
  cu_scope_summary :: StoredChangeUnitScopeSummary
  cu_bounded_paths :: "string list"
  cu_write_basis :: StoredChangeUnitWriteBasis
  cu_effect_contract :: "ChangeUnitEffectContract option"
  cu_recovery_required :: bool

record RunRecord =
  run_project_id :: ProjectId
  run_run_id :: RunId
  run_task_id :: TaskId
  run_change_unit_id :: "ChangeUnitId option"
  run_scope_revision :: u64
  run_baseline_ref :: "BaselineRef option"
  run_status :: RunStatus

record AcceptanceCriterionRecord =
  acr_project_id :: ProjectId
  acr_acceptance_criterion_id :: AcceptanceCriterionId
  acr_task_id :: TaskId
  acr_statement :: string
  acr_evidence_requirement :: EvidenceRequirement
  acr_position :: u64
  acr_status :: AcceptanceCriterionStatus

record EvidenceSummaryRecord =
  esr_project_id :: ProjectId
  esr_evidence_summary_id :: string
  esr_task_id :: TaskId
  esr_change_unit_id :: "ChangeUnitId option"
  esr_produced_at_state_version :: u64
  esr_status :: EvidenceStatus
  esr_coverage :: "EvidenceCoverageItem list"
  esr_supporting_refs :: "StateRecordRef list"
  esr_gap_refs :: "StateRecordRef list"
  esr_updated_by_run_id :: RunId

record StoredWriteTicket =
  wt_project_id :: ProjectId
  wt_write_ticket_id :: WriteTicketId
  wt_task_id :: TaskId
  wt_change_unit_id :: ChangeUnitId
  wt_basis_state_version :: u64
  wt_status :: WriteTicketStatus
  wt_validity_basis :: WriteTicketValidityBasis
  wt_path_scope :: WriteTicketPathScope
  wt_attempt_scope :: WriteTicketAttemptScope
  wt_created_by_actor_source :: ActorSource
  wt_created_by_user_action_resolution_id :: "string option"
  wt_idle_expires_at :: "UtcTimestamp option"
  wt_invalidation_reason :: "WriteTicketInvalidationReason option"
  wt_consumed_by_run_id :: "string option"
  wt_consumed_at :: "UtcTimestamp option"
  wt_revoked_at :: "UtcTimestamp option"
  wt_created_at :: UtcTimestamp
  wt_metadata :: JsonObject

record ProjectStateHeader =
  psh_project_id :: ProjectId
  psh_state_version :: u64
  psh_active_task_id :: "TaskId option"
  psh_updated_at :: UtcTimestamp

text \<open>
  Instants are nanoseconds since the Unix epoch.  The canonical RFC 3339 range is the years
  0 to 9999.
\<close>

definition canonical_rfc3339_representable :: "UtcTimestamp \<Rightarrow> bool" where
  "canonical_rfc3339_representable t \<longleftrightarrow>
     - 62167219200 * 1000000000 \<le> t \<and> t < 253402300800 * 1000000000"

datatype UtcTimestampRangeError = UtcTimestampRangeError

definition timestamp_checked_add ::
  "UtcTimestamp \<Rightarrow> int \<Rightarrow> (UtcTimestamp, UtcTimestampRangeError) result" where
  "timestamp_checked_add t duration =
     (if canonical_rfc3339_representable (t + duration) then Ok (t + duration)
      else Err UtcTimestampRangeError)"

subsection \<open>Sample records\<close>

definition sample_task :: TaskRecord where
  "sample_task = \<lparr>
     task_project_id = ''p'', task_task_id = ''task_1'', task_mode = TaskMode.Work,
     task_requested_control_level = RequestedControlLevel.Auto,
     task_effective_control_level = TaskControlLevel.Tracked,
     task_control_level_reason = '''', task_work_phase = WorkPhase.Implementation,
     task_acceptance_policy = AcceptancePolicy.Required, task_acceptance_policy_reason = '''',
     task_predecessor_task_id = None, task_lineage_relation = None, task_lineage_reason = None,
     task_carry_forward = [], task_lifecycle_phase = TaskLifecyclePhase.Ready,
     task_result = None, task_title = None, task_summary = None,
     task_shaping = \<lparr>shaping_goal_summary = None, shaping_scope_summary = None,
       shaping_non_goals = [], shaping_baseline_ref = Some ''base_1'',
       shaping_autonomy_boundary = None, shaping_initial_context_refs = [],
       shaping_initial_source_refs = []\<rparr>,
     task_bounded_context = [], task_autonomy_boundary = None,
     task_scope_revision = 2, task_close_basis_revision = 1, task_close_basis = None,
     task_close_summary = default_close_summary, task_current_change_unit_id = Some ''cu_1'',
     task_closed_at = None, task_metadata = []\<rparr>"

definition sample_project_state :: ProjectStateHeader where
  "sample_project_state = \<lparr>psh_project_id = ''p'', psh_state_version = 7,
     psh_active_task_id = Some ''task_1'', psh_updated_at = 500\<rparr>"

end
