(* ===== verification/WorkflowPolicy.thy ===== *)
theory WorkflowPolicy
  imports StoreRecords
begin

text \<open>
  Project workflow policy and invocation access: \<open>volicord-core/src/policy/workflow.rs\<close>,
  \<open>policy/access.rs\<close>, \<open>task_policy.rs\<close>, the structural validation of
  \<open>volicord-types/src/workflow_policy.rs\<close> and the reevaluation mark of
  \<open>volicord-store/src/workflow_records.rs\<close>.  Control levels and acceptance policies are both instances
  of the \<open>upward_choice\<close> interface: a resolution picks the strongest of its demands, so it never
  lowers what a Task already has.  Strict JSON decoding of a reevaluation mark is third-party code
  and the parameter \<open>from_value\<close>.
\<close>

subsection \<open>Project workflow policy\<close>

datatype ProjectWorkflowPolicySource = ProjectDatabase | VolicordInit

fun policy_source_as_str :: "ProjectWorkflowPolicySource \<Rightarrow> string" where
  "policy_source_as_str ProjectDatabase = ''project_database''"
| "policy_source_as_str VolicordInit = ''volicord_init''"

fun control_as_str :: "TaskControlLevel \<Rightarrow> string" where
  "control_as_str TaskControlLevel.Observe = ''observe''"
| "control_as_str TaskControlLevel.Light = ''light''"
| "control_as_str TaskControlLevel.Tracked = ''tracked''"
| "control_as_str TaskControlLevel.Sensitive = ''sensitive''"

fun requested_control_as_str :: "RequestedControlLevel \<Rightarrow> string" where
  "requested_control_as_str RequestedControlLevel.Auto = ''auto''"
| "requested_control_as_str RequestedControlLevel.Observe = ''observe''"
| "requested_control_as_str RequestedControlLevel.Light = ''light''"
| "requested_control_as_str RequestedControlLevel.Tracked = ''tracked''"
| "requested_control_as_str RequestedControlLevel.Sensitive = ''sensitive''"

record LightWorkflowPolicySettings =
  lwps_enabled :: bool
  lwps_max_intended_paths :: u64
  lwps_allowed_path_patterns :: "ProductRelativePath list"
  lwps_denied_path_patterns :: "ProductRelativePath list"
  lwps_final_acceptance :: AcceptancePolicy

record WorkflowPolicySettings =
  wps_default_direct_control :: TaskControlLevel
  wps_default_work_control :: TaskControlLevel
  wps_light :: LightWorkflowPolicySettings
  wps_idle_timeout_minutes :: "u64 option"

datatype GuardHookPhase = PreTool | PostTool | PromptCapture

definition REQUIRED_PHASES :: "GuardHookPhase list" where
  "REQUIRED_PHASES = [PreTool, PostTool, PromptCapture]"

text \<open>The policy document; the closed enumerations that \<open>validate\<close> does not read are left out.\<close>

record WorkflowPolicyDocument =
  doc_repo_root :: string
  doc_connection_id :: string
  doc_guard_installation_id :: string
  doc_mcp_command :: string
  doc_host_hook_enabled :: bool
  doc_host_hook_commands :: "GuardHookPhase \<Rightarrow> string"
  doc_workflow :: WorkflowPolicySettings

fun first_blank_field :: "(string \<times> string) list \<Rightarrow> string option" where
  "first_blank_field [] = None"
| "first_blank_field ((field, value) # rest) =
     (if trim value = [] then Some field else first_blank_field rest)"

text \<open>The error is the offending field.  \<open>usize\<close> has 64 bits, so \<open>try_from\<close> never fails.\<close>

definition validate_policy :: "WorkflowPolicyDocument \<Rightarrow> (unit, string) result" where
  "validate_policy doc =
     (case first_blank_field
        [(''repo_root'', doc_repo_root doc), (''connection_id'', doc_connection_id doc),
         (''guard_installation_id'', doc_guard_installation_id doc),
         (''mcp.command'', doc_mcp_command doc)] of
        Some field \<Rightarrow> Err field
      | None \<Rightarrow>
          if \<not> doc_host_hook_enabled doc then Err ''host_hook.enabled''
          else if list_ex (\<lambda>phase. trim (doc_host_hook_commands doc phase) = []) REQUIRED_PHASES
            then Err ''host_hook.commands.command''
          else if lwps_max_intended_paths (wps_light (doc_workflow doc)) = 0
            then Err ''workflow.light.max_intended_paths''
          else if wps_idle_timeout_minutes (doc_workflow doc) = Some 0
            then Err ''workflow.write_ticket.idle_timeout_minutes''
          else Ok ())"

record ProjectWorkflowPolicyRecord =
  pwpr_project_id :: ProjectId
  pwpr_policy_version :: u64
  pwpr_policy :: WorkflowPolicyDocument
  pwpr_policy_fingerprint :: string
  pwpr_source :: ProjectWorkflowPolicySource
  pwpr_applied_at :: UtcTimestamp
  pwpr_created_at :: UtcTimestamp
  pwpr_write_authority_fingerprint :: string

record ProjectWorkflowPolicySummary =
  pwps_policy_schema :: string
  pwps_policy_version :: u64
  pwps_policy_fingerprint :: string
  pwps_source :: string

record LightWorkflowPolicy =
  light_enabled :: bool
  light_max_intended_paths :: nat
  light_allowed_path_patterns :: "string list"
  light_denied_path_patterns :: "string list"
  light_final_acceptance :: AcceptancePolicy

record ProjectWorkflowPolicy =
  pwp_summary :: "ProjectWorkflowPolicySummary option"
  pwp_default_direct_control :: TaskControlLevel
  pwp_default_work_control :: TaskControlLevel
  pwp_light :: LightWorkflowPolicy
  pwp_write_ticket_idle_timeout_minutes :: "u64 option"
  pwp_write_authority_fingerprint :: string

definition conservative_default :: "string \<Rightarrow> ProjectWorkflowPolicy" where
  "conservative_default default_fingerprint = \<lparr>
     pwp_summary = None,
     pwp_default_direct_control = TaskControlLevel.Tracked,
     pwp_default_work_control = TaskControlLevel.Tracked,
     pwp_light = \<lparr>
       light_enabled = False, light_max_intended_paths = 3,
       light_allowed_path_patterns = [], light_denied_path_patterns = [],
       light_final_acceptance = AcceptancePolicy.PolicyDependent\<rparr>,
     pwp_write_ticket_idle_timeout_minutes = None,
     pwp_write_authority_fingerprint = default_fingerprint\<rparr>"

text \<open>
  The fingerprint of the absent policy is a SHA-256 digest computed by the store and the
  parameter \<open>default_fingerprint\<close>.
\<close>

definition project_workflow_policy ::
  "string \<Rightarrow> ProjectWorkflowPolicyRecord option \<Rightarrow> ProjectWorkflowPolicy" where
  "project_workflow_policy default_fingerprint stored =
     (case stored of
        None \<Rightarrow> conservative_default default_fingerprint
      | Some r \<Rightarrow>
          let workflow = doc_workflow (pwpr_policy r); light = wps_light workflow in \<lparr>
            pwp_summary = Some \<lparr>
              pwps_policy_schema = ''volicord.workflow_policy'',
              pwps_policy_version = pwpr_policy_version r,
              pwps_policy_fingerprint = pwpr_policy_fingerprint r,
              pwps_source = policy_source_as_str (pwpr_source r)\<rparr>,
            pwp_default_direct_control = wps_default_direct_control workflow,
            pwp_default_work_control = wps_default_work_control workflow,
            pwp_light = \<lparr>
              light_enabled = lwps_enabled light,
              light_max_intended_paths = unat (lwps_max_intended_paths light),
              light_allowed_path_patterns = map as_str (lwps_allowed_path_patterns light),
              light_denied_path_patterns = map as_str (lwps_denied_path_patterns light),
              light_final_acceptance = lwps_final_acceptance light\<rparr>,
            pwp_write_ticket_idle_timeout_minutes = wps_idle_timeout_minutes workflow,
            pwp_write_authority_fingerprint = pwpr_write_authority_fingerprint r\<rparr>)"

definition light_paths_are_allowed :: "ProjectWorkflowPolicy \<Rightarrow> string list \<Rightarrow> bool" where
  "light_paths_are_allowed policy intended_paths \<longleftrightarrow>
     light_enabled (pwp_light policy) \<and>
     length intended_paths \<le> light_max_intended_paths (pwp_light policy) \<and>
     list_all (\<lambda>path.
       list_ex (\<lambda>allowed. path_is_within path allowed) (light_allowed_path_patterns (pwp_light policy)) \<and>
       \<not> list_ex (\<lambda>denied. path_is_within path denied) (light_denied_path_patterns (pwp_light policy)))
       intended_paths"

definition has_denied_path :: "ProjectWorkflowPolicy \<Rightarrow> string list \<Rightarrow> bool" where
  "has_denied_path policy intended_paths =
     list_ex (\<lambda>path. list_ex (\<lambda>denied. path_is_within path denied)
       (light_denied_path_patterns (pwp_light policy))) intended_paths"

subsection \<open>Control and acceptance resolution\<close>

record TaskPolicyControlReevaluation =
  mark_policy_version :: u64
  mark_policy_fingerprint :: string
  mark_required_effective_control_level :: TaskControlLevel
  mark_required_acceptance_policy :: "AcceptancePolicy option"
  mark_marked_at :: UtcTimestamp

datatype MarkError = CorruptOwnerStateJson TaskId

definition canonical_sha256 :: "string \<Rightarrow> bool" where
  "canonical_sha256 value \<longleftrightarrow>
     length value = 71 \<and> take 7 value = ''sha256:'' \<and>
     list_all (\<lambda>b. is_ascii_digit b \<or> byte_in 97 102 b) (drop 7 value)"

definition task_policy_control_reevaluation ::
  "(json \<Rightarrow> TaskPolicyControlReevaluation option) \<Rightarrow> TaskRecord \<Rightarrow>
     (TaskPolicyControlReevaluation option, MarkError) result" where
  "task_policy_control_reevaluation from_value task =
     (case map_of (task_metadata task) ''policy_control_reevaluation'' of
        None \<Rightarrow> Ok None
      | Some value \<Rightarrow>
          (case from_value value of
             None \<Rightarrow> Err (CorruptOwnerStateJson (task_task_id task))
           | Some mark \<Rightarrow>
               if mark_policy_version mark = 0 \<or> \<not> canonical_sha256 (mark_policy_fingerprint mark)
                 then Err (CorruptOwnerStateJson (task_task_id task))
               else if \<not> canonical_rfc3339_representable (mark_marked_at mark)
                 then Err (CorruptOwnerStateJson (task_task_id task))
               else Ok (Some mark)))"

definition effective_control_level ::
  "TaskMode \<Rightarrow> RequestedControlLevel \<Rightarrow> ProjectWorkflowPolicy \<Rightarrow> TaskControlLevel \<times> string" where
  "effective_control_level mode requested policy =
     (if mode = TaskMode.Advisor then
        (TaskControlLevel.Observe,
         ''Advisor mode is observe-only and cannot authorize product writes.'')
      else
        let requested_level = (case requested of
              RequestedControlLevel.Auto \<Rightarrow> (case mode of
                  TaskMode.Advisor \<Rightarrow> TaskControlLevel.Observe
                | TaskMode.Direct \<Rightarrow> pwp_default_direct_control policy
                | TaskMode.Work \<Rightarrow> pwp_default_work_control policy)
            | RequestedControlLevel.Observe \<Rightarrow> TaskControlLevel.Observe
            | RequestedControlLevel.Light \<Rightarrow> TaskControlLevel.Light
            | RequestedControlLevel.Tracked \<Rightarrow> TaskControlLevel.Tracked
            | RequestedControlLevel.Sensitive \<Rightarrow> TaskControlLevel.Sensitive);
          project_minimum = (case mode of
              TaskMode.Advisor \<Rightarrow> TaskControlLevel.Observe
            | TaskMode.Direct \<Rightarrow> pwp_default_direct_control policy
            | TaskMode.Work \<Rightarrow> max (pwp_default_work_control policy) TaskControlLevel.Tracked);
          effective = max requested_level project_minimum;
          effective = (if effective = TaskControlLevel.Light \<and> \<not> light_enabled (pwp_light policy)
                       then TaskControlLevel.Tracked else effective);
          reason = (if effective > requested_level
            then ''Core raised requested control `'' @ requested_control_as_str requested @
              ''` to `'' @ control_as_str effective @
              ''` for the selected mode and project workflow policy.''
            else ''Core selected effective control `'' @ control_as_str effective @
              ''` from the caller request and project workflow policy.'')
        in (effective, reason))"

definition acceptance_policy_for_control ::
  "TaskControlLevel \<Rightarrow> ProjectWorkflowPolicy \<Rightarrow> AcceptancePolicy" where
  "acceptance_policy_for_control control policy =
     (case control of
        TaskControlLevel.Observe \<Rightarrow> AcceptancePolicy.NotRequired
      | TaskControlLevel.Light \<Rightarrow> light_final_acceptance (pwp_light policy)
      | TaskControlLevel.Tracked \<Rightarrow> AcceptancePolicy.Required
      | TaskControlLevel.Sensitive \<Rightarrow> AcceptancePolicy.Required)"

fun acceptance_policy_rank :: "AcceptancePolicy \<Rightarrow> nat" where
  "acceptance_policy_rank AcceptancePolicy.NotRequired = 0"
| "acceptance_policy_rank AcceptancePolicy.PolicyDependent = 1"
| "acceptance_policy_rank AcceptancePolicy.Required = 2"

definition max_acceptance_policy :: "AcceptancePolicy \<Rightarrow> AcceptancePolicy \<Rightarrow> AcceptancePolicy" where
  "max_acceptance_policy left right =
     (if acceptance_policy_rank left \<ge> acceptance_policy_rank right then left else right)"

record ResolvedTaskControlAuthority =
  rtca_effective_control_level :: TaskControlLevel
  rtca_acceptance_policy :: AcceptancePolicy
  rtca_control_level_reason :: string
  rtca_acceptance_policy_reason :: string
  rtca_control_raised :: bool
  rtca_acceptance_raised :: bool
  rtca_policy_reevaluation_marked :: bool
  rtca_pending_policy_reevaluation :: bool

definition resolve_with_mark ::
  "TaskRecord \<Rightarrow> ProjectWorkflowPolicy \<Rightarrow> TaskPolicyControlReevaluation option \<Rightarrow>
     ResolvedTaskControlAuthority" where
  "resolve_with_mark task policy mark =
     (let current_control = task_effective_control_level task;
          current_acceptance = task_acceptance_policy task;
          (policy_control, policy_reason) =
            effective_control_level (task_mode task) (task_requested_control_level task) policy;
          marked_control = map_option mark_required_effective_control_level mark;
          marked_acceptance = Option.bind mark mark_required_acceptance_policy;
          policy_selected_control = max current_control policy_control;
          effective = (case marked_control of
              Some level \<Rightarrow> max policy_selected_control level
            | None \<Rightarrow> policy_selected_control);
          control_acceptance = acceptance_policy_for_control effective policy;
          acceptance = max_acceptance_policy
            (max_acceptance_policy current_acceptance control_acceptance)
            (case marked_acceptance of Some required \<Rightarrow> required | None \<Rightarrow> current_acceptance);
          control_raised = (effective > current_control);
          acceptance_raised =
            (acceptance_policy_rank acceptance > acceptance_policy_rank current_acceptance);
          pending = (is_some_and marked_control (\<lambda>level. level > current_control) \<or>
            is_some_and marked_acceptance (\<lambda>required.
              acceptance_policy_rank required > acceptance_policy_rank current_acceptance));
          mark_determined_control_raise = is_some_and marked_control
            (\<lambda>level. level > max current_control policy_control);
          mark_determined_acceptance_raise = is_some_and marked_acceptance (\<lambda>required.
            acceptance_policy_rank required >
              acceptance_policy_rank (max_acceptance_policy current_acceptance control_acceptance))
      in \<lparr>
        rtca_effective_control_level = effective,
        rtca_acceptance_policy = acceptance,
        rtca_control_level_reason =
          (if control_raised then
             (if mark_determined_control_raise
              then ''Core raised control to `'' @ control_as_str effective @
                ''` for a pending project-policy reevaluation.''
              else policy_reason)
           else task_control_level_reason task),
        rtca_acceptance_policy_reason =
          (if acceptance_raised then
             (if mark_determined_acceptance_raise
              then ''A pending project-policy reevaluation requires final acceptance for the current close basis.''
              else ''Effective control `'' @ control_as_str effective @
                ''` requires final acceptance for the current close basis.'')
           else task_acceptance_policy_reason task),
        rtca_control_raised = control_raised,
        rtca_acceptance_raised = acceptance_raised,
        rtca_policy_reevaluation_marked = (mark \<noteq> None),
        rtca_pending_policy_reevaluation = pending\<rparr>)"

definition resolve_task_control_authority ::
  "(json \<Rightarrow> TaskPolicyControlReevaluation option) \<Rightarrow> TaskRecord \<Rightarrow> ProjectWorkflowPolicy \<Rightarrow>
     (ResolvedTaskControlAuthority, MarkError) result" where
  "resolve_task_control_authority from_value task policy =
     and_then (task_policy_control_reevaluation from_value task)
       (\<lambda>mark. Ok (resolve_with_mark task policy mark))"

subsection \<open>Task modes and lifecycle transitions\<close>

fun resolve_requested_mode :: "RequestedMode \<Rightarrow> TaskMode" where
  "resolve_requested_mode RequestedMode.Advisor = TaskMode.Advisor"
| "resolve_requested_mode RequestedMode.Direct = TaskMode.Direct"
| "resolve_requested_mode RequestedMode.Work = TaskMode.Work"
| "resolve_requested_mode RequestedMode.Auto = TaskMode.Work"

fun initial_work_phase :: "TaskMode \<Rightarrow> WorkPhase" where
  "initial_work_phase TaskMode.Direct = WorkPhase.Implementation"
| "initial_work_phase TaskMode.Advisor = WorkPhase.Shaping"
| "initial_work_phase TaskMode.Work = WorkPhase.Shaping"

record TaskLifecycleTransition =
  tlt_task_id :: TaskId
  tlt_from :: TaskLifecyclePhase
  tlt_to :: TaskLifecyclePhase

record TaskLifecycleFacts =
  tlf_task_id :: TaskId
  tlf_current :: TaskLifecyclePhase

definition lifecycle_facts :: "TaskRecord \<Rightarrow> TaskLifecycleFacts" where
  "lifecycle_facts task =
     \<lparr>tlf_task_id = task_task_id task, tlf_current = task_lifecycle_phase task\<rparr>"

datatype LifecycleError = Invariant TaskId TaskLifecyclePhase TaskLifecyclePhase

definition user_action_transition_valid ::
  "TaskLifecyclePhase \<Rightarrow> TaskLifecyclePhase \<Rightarrow> bool" where
  "user_action_transition_valid from_phase target \<longleftrightarrow>
     from_phase \<in> {TaskLifecyclePhase.Shaping, TaskLifecyclePhase.Ready,
       TaskLifecyclePhase.Executing, TaskLifecyclePhase.Blocked} \<and>
       target = TaskLifecyclePhase.WaitingUser \<or>
     from_phase = TaskLifecyclePhase.WaitingUser \<and>
       target \<in> {TaskLifecyclePhase.Shaping, TaskLifecyclePhase.Ready}"

definition plan_user_action_lifecycle_transition ::
  "TaskLifecycleFacts \<Rightarrow> TaskLifecyclePhase \<Rightarrow>
     (TaskLifecycleTransition option, LifecycleError) result" where
  "plan_user_action_lifecycle_transition facts target =
     (let from_phase = tlf_current facts in
      if from_phase = target then Ok None
      else if \<not> user_action_transition_valid from_phase target
        then Err (Invariant (tlf_task_id facts) from_phase target)
      else Ok (Some \<lparr>tlt_task_id = tlf_task_id facts, tlt_from = from_phase, tlt_to = target\<rparr>))"

subsection \<open>Invocation access\<close>

datatype ErrorCode = InvocationContextMismatch

record ToolError =
  te_code :: ErrorCode
  te_message :: string
  te_retryable :: bool
  te_details :: "JsonObject option"

fun operation_category_as_str :: "OperationCategory \<Rightarrow> string" where
  "operation_category_as_str OperationCategory.Read = ''read''"
| "operation_category_as_str OperationCategory.AgentWorkflow = ''agent_workflow''"
| "operation_category_as_str OperationCategory.UserOnly = ''user_only''"
| "operation_category_as_str OperationCategory.AdminLocal = ''admin_local''"
| "operation_category_as_str OperationCategory.LocalRecovery = ''local_recovery''"

definition invocation_context_mismatch_error :: "string \<Rightarrow> ToolError" where
  "invocation_context_mismatch_error field = \<lparr>
     te_code = InvocationContextMismatch,
     te_message = ''invocation context does not match Core preflight requirements'',
     te_retryable = False,
     te_details = Some [(''field'', JString field)]\<rparr>"

definition operation_category_mismatch_error ::
  "OperationCategory \<Rightarrow> OperationCategory \<Rightarrow> ToolError" where
  "operation_category_mismatch_error required actual = \<lparr>
     te_code = InvocationContextMismatch,
     te_message = ''invocation operation_category does not match the method operation category'',
     te_retryable = False,
     te_details = Some [(''field'', JString ''invocation.operation_category''),
       (''required_operation_category'', JString (operation_category_as_str required)),
       (''actual_operation_category'', JString (operation_category_as_str actual))]\<rparr>"

definition actor_source_mismatch_error ::
  "string \<Rightarrow> OperationCategory \<Rightarrow> ActorSource \<Rightarrow> ToolError" where
  "actor_source_mismatch_error field category actor = \<lparr>
     te_code = InvocationContextMismatch,
     te_message = ''actor_source is not allowed for the method operation category'',
     te_retryable = False,
     te_details = Some [(''field'', JString field),
       (''operation_category'', JString (operation_category_as_str category)),
       (''actor_source'', JString (to_canonical_string actor))]\<rparr>"

datatype UserActionChannelKind = Cli

record ValidatedAgentSession =
  vas_connection_id :: AgentConnectionId
  vas_project_id :: ProjectId
  vas_runtime_session_id :: string
  vas_project_session_id :: string
  vas_integration_revision :: string

datatype InvocationAuthority =
    LocalUser UserActionChannelKind
  | AgentConnection ValidatedAgentSession

record InvocationContext =
  inv_project_id :: ProjectId
  inv_operation_category :: OperationCategory
  inv_authority :: InvocationAuthority
  inv_session_id :: "string option"
  inv_git_workspace_context :: "GitWorkspaceContext option"

record VerifiedInvocationContext =
  vic_project_id :: ProjectId
  vic_actor_source :: ActorSource
  vic_operation_category :: OperationCategory
  vic_verification_basis :: string
  vic_assurance_level :: string
  vic_session_id :: "string option"
  vic_git_workspace_context :: "GitWorkspaceContext option"

fun authority_actor_source :: "InvocationAuthority \<Rightarrow> ActorSource" where
  "authority_actor_source (InvocationAuthority.LocalUser channel) = ActorSource.LocalUser"
| "authority_actor_source (InvocationAuthority.AgentConnection session) =
     ActorSource.AgentConnection (vas_connection_id session)"

definition session_verification_basis :: "ValidatedAgentSession \<Rightarrow> string" where
  "session_verification_basis s =
     ''connection:'' @ vas_connection_id s @ ''/session:'' @ vas_project_session_id s @
     ''/revision:'' @ vas_integration_revision s"

fun channel_verification_basis :: "UserActionChannelKind \<Rightarrow> UserActionVerificationBasis" where
  "channel_verification_basis Cli = CliDirectUserChannel"

fun verification_basis_as_str :: "UserActionVerificationBasis \<Rightarrow> string" where
  "verification_basis_as_str CliDirectUserChannel = ''cli_direct_user_channel''"

definition verified_binding_basis ::
  "InvocationContext \<Rightarrow> (string \<times> string option, ToolError) result" where
  "verified_binding_basis invocation =
     (case inv_authority invocation of
        InvocationAuthority.AgentConnection validated \<Rightarrow>
          if vas_project_id validated \<noteq> inv_project_id invocation
          then Err (invocation_context_mismatch_error ''invocation.validated_agent_session'')
          else Ok (session_verification_basis validated, Some (vas_project_session_id validated))
      | InvocationAuthority.LocalUser channel \<Rightarrow>
          Ok (verification_basis_as_str (channel_verification_basis channel),
              inv_session_id invocation))"

definition validate_git_workspace_context ::
  "GitWorkspaceContext \<Rightarrow> (GitWorkspaceContext, ToolError) result" where
  "validate_git_workspace_context workspace =
     (if trim (git_common_dir workspace) = [] \<or> \<not> starts_with_byte slash (git_common_dir workspace)
      then Err (invocation_context_mismatch_error ''invocation.git_workspace_context.git_common_dir'')
      else if \<not> is_canonical_sha256_digest (git_worktree_id workspace)
      then Err (invocation_context_mismatch_error ''invocation.git_workspace_context.worktree_id'')
      else if is_some_and (git_branch_ref workspace) (\<lambda>reference.
          strip_prefix_of ''refs/'' reference = None \<or>
          list_ex (\<lambda>b. byte_val b \<in> {0, 10, 13 :: nat}) reference \<or>
          trim reference \<noteq> reference)
      then Err (invocation_context_mismatch_error ''invocation.git_workspace_context.branch_ref'')
      else and_then
        (case git_head_sha workspace of
           None \<Rightarrow> Ok workspace
         | Some head_sha \<Rightarrow>
             (case canonical_git_object_id head_sha of
                Err _ \<Rightarrow> Err (invocation_context_mismatch_error ''invocation.git_workspace_context.head_sha'')
              | Ok canonical \<Rightarrow> Ok (workspace\<lparr>git_head_sha := Some canonical\<rparr>)))
        (\<lambda>workspace.
          if \<not> is_canonical_sha256_digest (git_workspace_fingerprint workspace)
          then Err (invocation_context_mismatch_error
            ''invocation.git_workspace_context.workspace_fingerprint'')
          else Ok workspace))"

definition validate_actor_source ::
  "ActorSource \<Rightarrow> OperationCategory \<Rightarrow> (unit, ToolError) result" where
  "validate_actor_source actor category =
     (let mismatch = Err (actor_source_mismatch_error ''invocation.actor_source'' category actor) in
      case (category, actor) of
        (OperationCategory.Read, ActorSource.AgentConnection connection_id) \<Rightarrow>
          if trim connection_id \<noteq> [] then Ok () else mismatch
      | (OperationCategory.Read, ActorSource.LocalUser) \<Rightarrow> Ok ()
      | (OperationCategory.AgentWorkflow, ActorSource.AgentConnection connection_id) \<Rightarrow>
          if trim connection_id \<noteq> [] then Ok () else mismatch
      | (OperationCategory.UserOnly, ActorSource.LocalUser) \<Rightarrow> Ok ()
      | (OperationCategory.AdminLocal, ActorSource.LocalUser) \<Rightarrow> Ok ()
      | (OperationCategory.LocalRecovery, ActorSource.LocalUser) \<Rightarrow> Ok ()
      | _ \<Rightarrow> mismatch)"

fun actor_assurance_level :: "ActorSource \<Rightarrow> string" where
  "actor_assurance_level (ActorSource.AgentConnection _) = ''agent_connection_cooperative''"
| "actor_assurance_level ActorSource.LocalUser = ''local_user_channel''"
| "actor_assurance_level ActorSource.System = ''system''"

definition derive_verified_invocation ::
  "ProjectStateHeader \<Rightarrow> ProjectId \<Rightarrow> InvocationContext \<Rightarrow> OperationCategory \<Rightarrow>
     (VerifiedInvocationContext, ToolError) result" where
  "derive_verified_invocation project_state envelope_project_id invocation policy_category =
     (if envelope_project_id \<noteq> inv_project_id invocation
      then Err (invocation_context_mismatch_error ''envelope.project_id'')
      else if psh_project_id project_state \<noteq> inv_project_id invocation
      then Err (invocation_context_mismatch_error ''project_state.project_id'')
      else if inv_operation_category invocation \<noteq> policy_category
      then Err (operation_category_mismatch_error policy_category (inv_operation_category invocation))
      else let actor = authority_actor_source (inv_authority invocation) in
        and_then (validate_actor_source actor policy_category) (\<lambda>_.
        and_then (verified_binding_basis invocation) (\<lambda>(verification_basis, session_id).
        and_then
          (case inv_git_workspace_context invocation of
             None \<Rightarrow> Ok None
           | Some workspace \<Rightarrow>
               and_then (validate_git_workspace_context workspace) (\<lambda>w. Ok (Some w)))
          (\<lambda>workspace. Ok \<lparr>
             vic_project_id = inv_project_id invocation,
             vic_actor_source = actor,
             vic_operation_category = inv_operation_category invocation,
             vic_verification_basis = verification_basis,
             vic_assurance_level = actor_assurance_level actor,
             vic_session_id = session_id,
             vic_git_workspace_context = workspace\<rparr>))))"

subsection \<open>Upward-only choice\<close>

text \<open>
  A choice between two demands that always returns one of them, namely one of the highest rank.
  Folding it over a list of demands gives the strongest demand and never goes below the start.
\<close>

locale upward_choice =
  fixes rank :: "'a \<Rightarrow> nat" and pick :: "'a \<Rightarrow> 'a \<Rightarrow> 'a"
  assumes pick_one: "pick a b = a \<or> pick a b = b"
    and pick_rank: "rank (pick a b) = max (rank a) (rank b)"
begin

definition strongest :: "'a \<Rightarrow> 'a list \<Rightarrow> 'a" where
  "strongest start demands = fold (\<lambda>d acc. pick acc d) demands start"

lemma strongest_Nil [simp]: "strongest a [] = a"
  by (simp add: strongest_def)

lemma strongest_Cons [simp]: "strongest a (d # ds) = strongest (pick a d) ds"
  by (simp add: strongest_def)

lemma strongest_rank: "rank (strongest a ds) = Max (insert (rank a) (rank ` set ds))"
proof (induction ds arbitrary: a)
  case (Cons d ds)
  then show ?case by (cases "ds = []") (simp_all add: pick_rank max.assoc)
qed simp

lemma strongest_member: "strongest a ds \<in> insert a (set ds)"
proof (induction ds arbitrary: a)
  case (Cons d ds)
  show ?case using pick_one[of a d] Cons[of "pick a d"] by auto
qed simp

lemma never_lowers: "rank a \<le> rank (strongest a ds)"
  by (simp add: strongest_rank)

lemma meets_demand: "d \<in> set ds \<Longrightarrow> rank d \<le> rank (strongest a ds)"
  by (simp add: strongest_rank)

end

interpretation control_choice: upward_choice control_rank max
  by unfold_locales (auto simp: control_order_defs)

interpretation acceptance_choice: upward_choice acceptance_policy_rank max_acceptance_policy
  by unfold_locales (auto simp: max_acceptance_policy_def)

lemma acceptance_policy_rank_inj: "acceptance_policy_rank a = acceptance_policy_rank b \<longleftrightarrow> a = b"
  by (cases a; cases b) auto

lemma resolve_with_mark_control:
  "rtca_effective_control_level (resolve_with_mark task policy mark) =
     control_choice.strongest (task_effective_control_level task)
       (fst (effective_control_level (task_mode task) (task_requested_control_level task) policy) #
        (case mark of None \<Rightarrow> [] | Some m \<Rightarrow> [mark_required_effective_control_level m]))"
  by (simp add: resolve_with_mark_def Let_def split_beta split: option.splits)

lemma resolve_with_mark_acceptance:
  "rtca_acceptance_policy (resolve_with_mark task policy mark) =
     acceptance_choice.strongest (task_acceptance_policy task)
       (acceptance_policy_for_control
          (rtca_effective_control_level (resolve_with_mark task policy mark)) policy #
        (case Option.bind mark mark_required_acceptance_policy of
           None \<Rightarrow> [] | Some required \<Rightarrow> [required]))"
proof -
  have absorb: "max_acceptance_policy (max_acceptance_policy a b) a = max_acceptance_policy a b" for a b
    by (cases a; cases b) (auto simp: max_acceptance_policy_def)
  show ?thesis
    by (simp add: resolve_with_mark_def Let_def split_beta absorb split: option.splits)
qed

lemma effective_control_level_bounds:
  assumes "mode \<noteq> TaskMode.Advisor"
  shows "fst (effective_control_level mode requested policy) = TaskControlLevel.Light \<Longrightarrow>
      light_enabled (pwp_light policy)"
    and "mode = TaskMode.Direct \<Longrightarrow>
      pwp_default_direct_control policy \<le> fst (effective_control_level mode requested policy)"
    and "mode = TaskMode.Work \<Longrightarrow>
      max (pwp_default_work_control policy) TaskControlLevel.Tracked
        \<le> fst (effective_control_level mode requested policy)"
  using assms
  by (auto simp: effective_control_level_def Let_def control_order_defs
      split: if_splits TaskMode.splits RequestedControlLevel.splits)

lemma validate_actor_source_Ok_iff:
  "validate_actor_source actor category = Ok u \<longleftrightarrow>
     (actor = ActorSource.LocalUser \<and> category \<noteq> OperationCategory.AgentWorkflow \<or>
      (\<exists>c. actor = ActorSource.AgentConnection c \<and> trim c \<noteq> [] \<and>
         category \<in> {OperationCategory.Read, OperationCategory.AgentWorkflow}))"
  by (cases category; cases actor) (auto simp: validate_actor_source_def Let_def)

lemma validate_git_workspace_context_Ok:
  assumes "validate_git_workspace_context w = Ok w'"
  shows "git_common_dir w' = git_common_dir w" "git_worktree_id w' = git_worktree_id w"
    "git_branch_ref w' = git_branch_ref w"
    "git_workspace_fingerprint w' = git_workspace_fingerprint w"
    "is_canonical_sha256_digest (git_worktree_id w')"
    "is_canonical_sha256_digest (git_workspace_fingerprint w')"
    "git_head_sha w' = map_option to_ascii_lowercase (git_head_sha w)"
  using assms
  by (auto simp: validate_git_workspace_context_def canonical_git_object_id_def
      split: if_splits option.splits result.splits)

lemma control_rank_le: "control_rank a \<le> control_rank b \<longleftrightarrow> a \<le> b"
  by (simp add: control_order_defs)

lemma resolve_task_control_authority_Ok:
  assumes "resolve_task_control_authority from_value task policy = Ok r"
  obtains mark where "task_policy_control_reevaluation from_value task = Ok mark"
    and "r = resolve_with_mark task policy mark"
  using assms by (auto simp: resolve_task_control_authority_def)

lemma resolve_with_mark_bounds:
  shows "task_effective_control_level task \<le> rtca_effective_control_level (resolve_with_mark task policy mark)"
    and "fst (effective_control_level (task_mode task) (task_requested_control_level task) policy) \<le>
      rtca_effective_control_level (resolve_with_mark task policy mark)"
  unfolding resolve_with_mark_control control_rank_le[symmetric]
  by (rule control_choice.never_lowers, rule control_choice.meets_demand) simp

lemma resolve_with_mark_acceptance_bounds:
  shows "acceptance_policy_rank (task_acceptance_policy task) \<le>
      acceptance_policy_rank (rtca_acceptance_policy (resolve_with_mark task policy mark))"
    and "acceptance_policy_rank (acceptance_policy_for_control
        (rtca_effective_control_level (resolve_with_mark task policy mark)) policy) \<le>
      acceptance_policy_rank (rtca_acceptance_policy (resolve_with_mark task policy mark))"
  unfolding resolve_with_mark_acceptance[of task policy mark]
  by (rule acceptance_choice.never_lowers, rule acceptance_choice.meets_demand) simp

subsection \<open>Properties\<close>

text \<open>C32: The control resolved for a Task is the strongest of what the Task already has, what the
  project policy demands for its mode and request, and what a pending reevaluation mark demands;
  it is always one of these, and neither the control nor the acceptance policy is ever lowered.
\<close>

theorem control_authority_is_strongest_demand:
  assumes "resolve_task_control_authority from_value task policy = Ok r"
    and "task_policy_control_reevaluation from_value task = Ok mark"
  shows "rtca_effective_control_level r = Max
      ({task_effective_control_level task,
        fst (effective_control_level (task_mode task) (task_requested_control_level task) policy)} \<union>
       set_option (map_option mark_required_effective_control_level mark)) \<and>
    task_effective_control_level task \<le> rtca_effective_control_level r \<and>
    (rtca_control_raised r \<longleftrightarrow> rtca_effective_control_level r \<noteq> task_effective_control_level task) \<and>
    acceptance_policy_rank (task_acceptance_policy task) \<le>
      acceptance_policy_rank (rtca_acceptance_policy r) \<and>
    acceptance_policy_rank (acceptance_policy_for_control (rtca_effective_control_level r) policy) \<le>
      acceptance_policy_rank (rtca_acceptance_policy r) \<and>
    (rtca_acceptance_raised r \<longleftrightarrow> rtca_acceptance_policy r \<noteq> task_acceptance_policy task)"
proof -
  have r: "r = resolve_with_mark task policy mark"
    using assms by (simp add: resolve_task_control_authority_def)
  have "rtca_effective_control_level r = Max
      ({task_effective_control_level task,
        fst (effective_control_level (task_mode task) (task_requested_control_level task) policy)} \<union>
       set_option (map_option mark_required_effective_control_level mark))"
    unfolding r resolve_with_mark_control by (cases mark) (simp_all add: ac_simps)
  moreover have "rtca_control_raised r \<longleftrightarrow>
      rtca_effective_control_level r > task_effective_control_level task"
    and "rtca_acceptance_raised r \<longleftrightarrow> acceptance_policy_rank (rtca_acceptance_policy r) >
      acceptance_policy_rank (task_acceptance_policy task)"
    by (simp_all add: r resolve_with_mark_def Let_def split_beta)
  ultimately show ?thesis
    using resolve_with_mark_bounds(1)[of task policy mark, folded r]
      resolve_with_mark_acceptance_bounds[of task policy mark, folded r]
    by (simp only: order.strict_iff_order acceptance_policy_rank_inj) metis
qed

theorem control_authority_is_strongest_demand_witness:
  "rtca_effective_control_level (resolve_with_mark sample_task (conservative_default ''f'') None) =
     Max {TaskControlLevel.Tracked, fst (effective_control_level TaskMode.Work
       RequestedControlLevel.Auto (conservative_default ''f''))}"
proof -
  have "resolve_task_control_authority (\<lambda>_. None) sample_task (conservative_default ''f'') =
      Ok (resolve_with_mark sample_task (conservative_default ''f'') None)"
    and "task_policy_control_reevaluation (\<lambda>_. None) sample_task = Ok None"
    by (simp_all add: resolve_task_control_authority_def task_policy_control_reevaluation_def
        sample_task_def)
  from control_authority_is_strongest_demand[OF this] show ?thesis by (simp add: sample_task_def)
qed

text \<open>A Task in work mode is always resolved to at least tracked control with final acceptance
  required, whatever the caller requested and whatever the project policy says; a Task in direct
  mode is resolved at least to the control the policy sets for direct work.
\<close>

theorem work_mode_is_tracked:
  assumes "resolve_task_control_authority from_value task policy = Ok r"
  shows "(task_mode task = TaskMode.Work \<longrightarrow>
      TaskControlLevel.Tracked \<le> rtca_effective_control_level r \<and>
      rtca_acceptance_policy r = AcceptancePolicy.Required) \<and>
    (task_mode task = TaskMode.Direct \<longrightarrow>
      pwp_default_direct_control policy \<le> rtca_effective_control_level r)"
proof -
  obtain mark where r: "r = resolve_with_mark task policy mark"
    using assms by (rule resolve_task_control_authority_Ok)
  have required: "rtca_acceptance_policy r = AcceptancePolicy.Required"
    if "TaskControlLevel.Tracked \<le> rtca_effective_control_level r"
    using that resolve_with_mark_acceptance_bounds(2)[of task policy mark, folded r]
    by (cases "rtca_effective_control_level r"; cases "rtca_acceptance_policy r")
      (auto simp: acceptance_policy_for_control_def control_order_defs)
  show ?thesis
    using resolve_with_mark_bounds(2)[of task policy mark, folded r] effective_control_level_bounds(2,3)[of "task_mode task" policy "task_requested_control_level task"]
      required by (auto intro: order_trans)
qed

theorem work_mode_is_tracked_witness:
  "task_mode sample_task = TaskMode.Work \<and>
   rtca_acceptance_policy (resolve_with_mark sample_task (conservative_default ''f'') None) =
     AcceptancePolicy.Required"
proof -
  have "resolve_task_control_authority (\<lambda>_. None) sample_task (conservative_default ''f'') =
      Ok (resolve_with_mark sample_task (conservative_default ''f'') None)"
    by (simp add: resolve_task_control_authority_def task_policy_control_reevaluation_def
        sample_task_def)
  from work_mode_is_tracked[OF this] show ?thesis by (simp add: sample_task_def)
qed

text \<open>C33: A verified invocation carries the project of the envelope, of the stored state and of
  the invocation; a user-only, administrative or recovery operation is verified only for the local
  user over the direct channel, an agent-workflow operation only for a named agent connection whose
  validated session belongs to the project, and every verified workspace has canonical digests.
\<close>

theorem verified_invocation_is_authorized:
  assumes "derive_verified_invocation state envelope_project invocation category = Ok v"
  shows "vic_project_id v = envelope_project \<and> vic_project_id v = psh_project_id state \<and>
    vic_operation_category v = category \<and>
    (category \<in> {OperationCategory.UserOnly, OperationCategory.AdminLocal,
        OperationCategory.LocalRecovery} \<longrightarrow>
      vic_actor_source v = ActorSource.LocalUser \<and>
      vic_verification_basis v = ''cli_direct_user_channel'') \<and>
    (category = OperationCategory.AgentWorkflow \<longrightarrow>
      (\<exists>session. inv_authority invocation = InvocationAuthority.AgentConnection session \<and>
         trim (vas_connection_id session) \<noteq> [] \<and> vas_project_id session = envelope_project \<and>
         vic_actor_source v = ActorSource.AgentConnection (vas_connection_id session) \<and>
         vic_session_id v = Some (vas_project_session_id session))) \<and>
    vic_actor_source v \<noteq> ActorSource.System \<and>
    (\<forall>w. vic_git_workspace_context v = Some w \<longrightarrow>
       is_canonical_sha256_digest (git_worktree_id w) \<and>
       is_canonical_sha256_digest (git_workspace_fingerprint w))"
proof -
  let ?actor = "authority_actor_source (inv_authority invocation)"
  obtain basis session workspace where ok:
      "envelope_project = inv_project_id invocation" "psh_project_id state = inv_project_id invocation"
      "inv_operation_category invocation = category"
      "validate_actor_source ?actor category = Ok ()"
      "verified_binding_basis invocation = Ok (basis, session)"
      "(case inv_git_workspace_context invocation of None \<Rightarrow> Ok None
        | Some w \<Rightarrow> and_then (validate_git_workspace_context w) (\<lambda>w. Ok (Some w))) = Ok workspace"
    and v: "vic_project_id v = inv_project_id invocation" "vic_actor_source v = ?actor"
      "vic_operation_category v = category" "vic_verification_basis v = basis"
      "vic_session_id v = session" "vic_git_workspace_context v = workspace"
    using assms by (auto simp: derive_verified_invocation_def Let_def split: if_splits)
  have "\<forall>w. workspace = Some w \<longrightarrow> is_canonical_sha256_digest (git_worktree_id w) \<and>
      is_canonical_sha256_digest (git_workspace_fingerprint w)"
    using ok(6) by (auto split: option.splits dest: validate_git_workspace_context_Ok)
  moreover have "verification_basis_as_str (channel_verification_basis c) = ''cli_direct_user_channel''" for c
    by (cases c) simp
  ultimately show ?thesis
    using ok v by (cases "inv_authority invocation")
      (auto simp: validate_actor_source_Ok_iff verified_binding_basis_def split: if_splits)
qed

theorem verified_invocation_is_authorized_witness:
  "\<exists>v. derive_verified_invocation sample_project_state ''p''
     \<lparr>inv_project_id = ''p'', inv_operation_category = OperationCategory.UserOnly,
       inv_authority = InvocationAuthority.LocalUser Cli, inv_session_id = None,
       inv_git_workspace_context = None\<rparr> OperationCategory.UserOnly = Ok v \<and>
     vic_actor_source v = ActorSource.LocalUser"
proof -
  let ?inv = "\<lparr>inv_project_id = ''p'', inv_operation_category = OperationCategory.UserOnly,
       inv_authority = InvocationAuthority.LocalUser Cli, inv_session_id = None,
       inv_git_workspace_context = None\<rparr>"
  have "is_ok (derive_verified_invocation sample_project_state ''p'' ?inv OperationCategory.UserOnly)"
    by code_simp
  then obtain v where v: "derive_verified_invocation sample_project_state ''p'' ?inv
      OperationCategory.UserOnly = Ok v"
    by (cases "derive_verified_invocation sample_project_state ''p'' ?inv OperationCategory.UserOnly") auto
  with verified_invocation_is_authorized[OF v] show ?thesis by simp
qed

end
