(* ===== verification/UserAction.thy ===== *)
theory UserAction
  imports WorkflowPolicy "HOL-Library.Product_Lexorder" "HOL-Library.Option_ord"
begin

text \<open>
  User authority: the normalized authority facts of one user action and every check that decides
  whether it blocks an operation, keeps a Task waiting, or authorizes a cancellation or a sensitive
  action (\<open>volicord-user-action-service/src/relevance.rs\<close>, \<open>lifecycle.rs\<close>, \<open>authority.rs\<close>,
  \<open>model.rs\<close>), together with the stored request/resolution pair and its validation
  (\<open>volicord-store/src/core_pipeline/user_actions.rs\<close>).
\<close>

subsection \<open>Request bodies and stored records\<close>

record UserActionOption =
  opt_option_id :: UserActionOptionId
  opt_label :: string
  opt_description :: string
  opt_consequence :: string
  opt_machine_action :: UserActionOptionAction
  opt_resolution_outcome :: JudgmentResolutionOutcome
  opt_is_default :: bool

record AcceptedRiskInput =
  ari_risk_id :: RiskId
  ari_summary :: string
  ari_consequence :: string
  ari_related_refs :: "StateRecordRef list"
  ari_accepted_for_close :: bool

record UserActionContext =
  ctx_summary :: string
  ctx_related_refs :: "StateRecordRef list"
  ctx_artifact_refs :: "ArtifactRef list"
  ctx_visible_risks :: "AcceptedRiskInput list"
  ctx_constraints :: "string list"

record UserActionChoiceRequestBody =
  crq_judgment_kind :: JudgmentKind
  crq_question :: string
  crq_options :: "UserActionOption list"
  crq_context :: UserActionContext
  crq_affected_refs :: "StateRecordRef list"
  crq_sensitive_action_scope :: "SensitiveActionScope option"

record UserActionEvidenceObservationRequestBody =
  orq_question :: string
  orq_context_summary :: string
  orq_target_candidates :: "EvidenceTarget list"
  orq_artifact_candidates :: "ArtifactRef list"

datatype UserActionRequestBody =
    Choice UserActionChoiceRequestBody
  | EvidenceObservation UserActionEvidenceObservationRequestBody

fun body_action_kind :: "UserActionRequestBody \<Rightarrow> UserActionKind" where
  "body_action_kind (UserActionRequestBody.Choice choice) =
     user_action_kind_of (crq_judgment_kind choice)"
| "body_action_kind (UserActionRequestBody.EvidenceObservation _) =
     UserActionKind.EvidenceObservation"

fun body_affected_refs :: "UserActionRequestBody \<Rightarrow> StateRecordRef list" where
  "body_affected_refs (UserActionRequestBody.Choice choice) = crq_affected_refs choice"
| "body_affected_refs (UserActionRequestBody.EvidenceObservation _) = []"

record StoredUserActionRequest =
  srq_project_id :: ProjectId
  srq_user_action_request_id :: UserActionRequestId
  srq_task_id :: TaskId
  srq_change_unit_id :: "ChangeUnitId option"
  srq_action_kind :: UserActionKind
  srq_body :: UserActionRequestBody
  srq_basis :: UserActionBasis
  srq_basis_status :: UserActionBasisStatus
  srq_required_for :: "UserActionRequiredFor list"
  srq_requested_by_actor_source :: ActorSource
  srq_source_method :: MethodName
  srq_source_idempotency_key :: string
  srq_requested_at :: UtcTimestamp
  srq_expires_at :: "UtcTimestamp option"

record StoredUserActionResolution =
  srs_project_id :: ProjectId
  srs_user_action_resolution_id :: UserActionResolutionId
  srs_user_action_request_id :: UserActionRequestId
  srs_action_kind :: UserActionKind
  srs_channel_kind :: UserActionChannelKind
  srs_channel_submission_id :: string
  srs_resolution :: UserActionResolutionBody
  srs_resolved_by_actor_source :: ActorSource
  srs_resolved_verification_basis :: UserActionVerificationBasis
  srs_resolved_assurance_level :: string
  srs_resolved_at :: UtcTimestamp

record StoredUserActionRecordSet =
  set_request :: StoredUserActionRequest
  set_resolution :: "StoredUserActionResolution option"
  set_status :: UserActionStatus

text \<open>A corrupt owner value names the table, the row and the field.\<close>

datatype CorruptOwnerState = CorruptOwnerStateValue string string string

definition stored_effective_user_action_status ::
  "StoredUserActionRequest \<Rightarrow> StoredUserActionResolution option \<Rightarrow> UtcTimestamp \<Rightarrow>
     (UserActionStatus, CorruptOwnerState) result" where
  "stored_effective_user_action_status request resolution now =
     (if is_some_and resolution (\<lambda>r. srs_resolved_at r > now)
      then Err (CorruptOwnerStateValue ''user_action_resolutions''
        (srs_user_action_resolution_id (the resolution)) ''resolved_at'')
      else case effective_user_action_status (srq_basis_status request) (srq_requested_at request)
             (srq_expires_at request) (resolution \<noteq> None) now of
          Some status \<Rightarrow> Ok status
        | None \<Rightarrow> Err (CorruptOwnerStateValue ''user_action_requests''
            (srq_user_action_request_id request) ''requested_at''))"

datatype UserActionTimestampOrderFailure =
    ExpiryNotAfterRequest | ResolutionBeforeRequest | ResolutionAtOrAfterExpiry

definition resolution_agrees ::
  "StoredUserActionRequest \<Rightarrow> StoredUserActionResolution \<Rightarrow> bool" where
  "resolution_agrees request resolution =
     (case (srq_body request, srq_basis request, srs_resolution resolution) of
        (UserActionRequestBody.Choice choice, UserActionBasis.Choice choice_basis,
         UserActionResolutionBody.Choice r) \<Rightarrow>
          (case find (\<lambda>option. opt_option_id option = cr_selected_option_id r) (crq_options choice) of
             None \<Rightarrow> False
           | Some option \<Rightarrow>
               let expected_risk_ids =
                 (if srq_action_kind request = UserActionKind.ResidualRiskAcceptance \<and>
                     opt_machine_action option = UserActionOptionAction.Accept
                  then cb_residual_risk_ids choice_basis else [])
               in opt_machine_action option = cr_machine_action r \<and>
                  opt_resolution_outcome option = cr_resolution_outcome r \<and>
                  cr_accepted_risk_ids r = expected_risk_ids)
      | (UserActionRequestBody.EvidenceObservation orq, UserActionBasis.EvidenceObservation ob,
         UserActionResolutionBody.EvidenceObservation observation) \<Rightarrow>
          orq_target_candidates orq = ob_target_candidates ob \<and>
          orq_artifact_candidates orq = ob_artifact_candidates ob \<and>
          uaeo_target observation \<in> set (orq_target_candidates orq) \<and>
          list_all (\<lambda>selected. selected \<in> set (orq_artifact_candidates orq))
            (uaeo_output_artifact_refs observation) \<and>
          distinct (map art_artifact_id (uaeo_output_artifact_refs observation)) \<and>
          uaeo_relevance_status observation \<in>
            {EvidenceRelevanceStatus.Supported, EvidenceRelevanceStatus.Contradicted} \<and>
          trim (uaeo_summary observation) \<noteq> []
      | _ \<Rightarrow> False)"

definition validate_user_action_timestamp_order ::
  "UtcTimestamp \<Rightarrow> UtcTimestamp option \<Rightarrow> UtcTimestamp option \<Rightarrow>
     (unit, UserActionTimestampOrderFailure) result" where
  "validate_user_action_timestamp_order requested_at expires_at resolved_at =
     (if is_some_and expires_at (\<lambda>e. e \<le> requested_at) then Err ExpiryNotAfterRequest
      else if is_some_and resolved_at (\<lambda>r. r < requested_at) then Err ResolutionBeforeRequest
      else if is_some_and resolved_at (\<lambda>r. is_some_and expires_at (\<lambda>e. r \<ge> e))
        then Err ResolutionAtOrAfterExpiry
      else Ok ())"

definition validate_user_action_request_resolution_pair ::
  "StoredUserActionRequest \<Rightarrow> StoredUserActionResolution \<Rightarrow> (unit, CorruptOwnerState) result" where
  "validate_user_action_request_resolution_pair request resolution =
     (let corrupt = (\<lambda>field. CorruptOwnerStateValue ''user_action_resolutions''
            (srs_user_action_resolution_id resolution) field) in
      if srq_project_id request \<noteq> srs_project_id resolution then Err (corrupt ''project_id'')
      else if srq_user_action_request_id request \<noteq> srs_user_action_request_id resolution
        then Err (corrupt ''user_action_request_id'')
      else if srq_action_kind request \<noteq> srs_action_kind resolution then Err (corrupt ''action_kind'')
      else case validate_user_action_timestamp_order (srq_requested_at request)
             (srq_expires_at request) (Some (srs_resolved_at resolution)) of
          Err ExpiryNotAfterRequest \<Rightarrow> Err (CorruptOwnerStateValue ''user_action_requests''
            (srq_user_action_request_id request) ''expires_at'')
        | Err _ \<Rightarrow> Err (corrupt ''resolved_at'')
        | Ok _ \<Rightarrow>
            if \<not> resolution_agrees request resolution then Err (corrupt ''resolution_json'') else Ok ())"

datatype StoreError = InvalidInput

definition with_resolution ::
  "StoredUserActionRecordSet \<Rightarrow> StoredUserActionResolution \<Rightarrow> UtcTimestamp \<Rightarrow>
     (StoredUserActionRecordSet, StoreError) result" where
  "with_resolution r resolution now =
     (if set_resolution r \<noteq> None then Err InvalidInput
      else case validate_user_action_request_resolution_pair (set_request r) resolution of
          Err _ \<Rightarrow> Err InvalidInput
        | Ok _ \<Rightarrow>
            (case stored_effective_user_action_status (set_request r) (Some resolution) now of
               Err _ \<Rightarrow> Err InvalidInput
             | Ok status \<Rightarrow>
                 Ok \<lparr>set_request = set_request r, set_resolution = Some resolution,
                      set_status = status\<rparr>))"

subsection \<open>Authority facts\<close>

record UserActionAuthority =
  ua_project_id :: ProjectId
  ua_user_action_request_id :: UserActionRequestId
  ua_user_action_resolution_id :: "UserActionResolutionId option"
  ua_task_id :: TaskId
  ua_action_kind :: UserActionKind
  ua_status :: UserActionStatus
  ua_required_for :: "UserActionRequiredFor list"
  ua_affected_refs :: "StateRecordRef list"
  ua_machine_action :: "UserActionOptionAction option"
  ua_resolution_outcome :: "JudgmentResolutionOutcome option"
  ua_resolved_by_actor_source :: "ActorSource option"
  ua_resolved_verification_basis :: "UserActionVerificationBasis option"
  ua_resolved_assurance_level :: "string option"
  ua_basis_status :: UserActionBasisStatus
  ua_basis :: "UserActionBasis option"
  ua_resolution :: "UserActionResolutionBody option"
  ua_expires_at :: "UtcTimestamp option"

definition authority_resolution_identity ::
  "UserActionAuthority \<Rightarrow> UserActionResolutionIdentity option" where
  "authority_resolution_identity a =
     map_option (\<lambda>resolution_id. \<lparr>
       identity_project_id = ua_project_id a,
       identity_task_id = ua_task_id a,
       identity_resolution_id = resolution_id\<rparr>) (ua_user_action_resolution_id a)"

definition user_action_authority_from_record ::
  "StoredUserActionRecordSet \<Rightarrow> UserActionAuthority" where
  "user_action_authority_from_record r =
     (let request = set_request r; resolution = set_resolution r;
          body = map_option srs_resolution resolution;
          choice = (case body of
              Some (UserActionResolutionBody.Choice c) \<Rightarrow>
                (Some (cr_machine_action c), Some (cr_resolution_outcome c))
            | _ \<Rightarrow> (None, None))
      in \<lparr>
        ua_project_id = srq_project_id request,
        ua_user_action_request_id = srq_user_action_request_id request,
        ua_user_action_resolution_id = map_option srs_user_action_resolution_id resolution,
        ua_task_id = srq_task_id request,
        ua_action_kind = srq_action_kind request,
        ua_status = set_status r,
        ua_required_for = srq_required_for request,
        ua_affected_refs = body_affected_refs (srq_body request),
        ua_machine_action = fst choice,
        ua_resolution_outcome = snd choice,
        ua_resolved_by_actor_source = map_option srs_resolved_by_actor_source resolution,
        ua_resolved_verification_basis = map_option srs_resolved_verification_basis resolution,
        ua_resolved_assurance_level = map_option srs_resolved_assurance_level resolution,
        ua_basis_status = srq_basis_status request,
        ua_basis = Some (srq_basis request),
        ua_resolution = body,
        ua_expires_at = srq_expires_at request\<rparr>)"

subsection \<open>Operations and requirements\<close>

datatype UserActionOperation =
    ScopeUpdate | PrepareWrite | RecordRun | CloseComplete | CloseSupersede

fun operation_required_for :: "UserActionOperation \<Rightarrow> UserActionRequiredFor" where
  "operation_required_for UserActionOperation.ScopeUpdate = UserActionRequiredFor.ScopeUpdate"
| "operation_required_for UserActionOperation.PrepareWrite = UserActionRequiredFor.PrepareWrite"
| "operation_required_for UserActionOperation.RecordRun = UserActionRequiredFor.RecordRun"
| "operation_required_for UserActionOperation.CloseComplete = UserActionRequiredFor.CloseComplete"
| "operation_required_for UserActionOperation.CloseSupersede = UserActionRequiredFor.CloseSupersede"

record SensitiveApprovalRequirement =
  req_task_id :: TaskId
  req_change_unit_id :: ChangeUnitId
  req_scope_revision :: u64
  req_operation :: string
  req_normalized_paths :: "string list"
  req_sensitive_categories :: "string list"
  req_baseline_ref :: "BaselineRef option"
  req_required_for :: UserActionRequiredFor
  req_now :: UtcTimestamp

record UserActionOperationContext =
  opc_operation :: UserActionOperation
  opc_task_id :: TaskId
  opc_change_unit_id :: "ChangeUnitId option"
  opc_scope_revision :: u64
  opc_close_basis :: "CurrentCloseBasis option"
  opc_operation_refs :: "StateRecordRef list"
  opc_sensitive_approval :: "SensitiveApprovalRequirement option"

record CancellationAuthorityRequirement =
  can_task_id :: TaskId
  can_change_unit_id :: "ChangeUnitId option"
  can_scope_revision :: u64

fun record_kind_debug :: "StateRecordKind \<Rightarrow> string" where
  "record_kind_debug StateRecordKind.ProjectState = ''ProjectState''"
| "record_kind_debug StateRecordKind.Task = ''Task''"
| "record_kind_debug StateRecordKind.ChangeUnit = ''ChangeUnit''"
| "record_kind_debug StateRecordKind.ShapingCheckpoint = ''ShapingCheckpoint''"
| "record_kind_debug StateRecordKind.ShapingGap = ''ShapingGap''"
| "record_kind_debug StateRecordKind.ShapingDecisionApplication = ''ShapingDecisionApplication''"
| "record_kind_debug StateRecordKind.ShapingAuthorityReauthorization =
     ''ShapingAuthorityReauthorization''"
| "record_kind_debug StateRecordKind.WriteTicket = ''WriteTicket''"
| "record_kind_debug StateRecordKind.UserActionRequest = ''UserActionRequest''"
| "record_kind_debug StateRecordKind.UserActionResolution = ''UserActionResolution''"
| "record_kind_debug StateRecordKind.Run = ''Run''"
| "record_kind_debug StateRecordKind.EvidenceSummary = ''EvidenceSummary''"
| "record_kind_debug StateRecordKind.EvidenceObservation = ''EvidenceObservation''"
| "record_kind_debug StateRecordKind.EvidenceCaptureIntent = ''EvidenceCaptureIntent''"
| "record_kind_debug StateRecordKind.EvidenceProducer = ''EvidenceProducer''"
| "record_kind_debug StateRecordKind.Artifact = ''Artifact''"
| "record_kind_debug StateRecordKind.Blocker = ''Blocker''"
| "record_kind_debug StateRecordKind.TaskEvent = ''TaskEvent''"
| "record_kind_debug StateRecordKind.AgentConnection = ''AgentConnection''"
| "record_kind_debug StateRecordKind.UnrecordedChange = ''UnrecordedChange''"
| "record_kind_debug StateRecordKind.ProjectContinuityRecord = ''ProjectContinuityRecord''"

definition state_ref_key :: "StateRecordRef \<Rightarrow> string \<times> string \<times> string \<times> string option" where
  "state_ref_key r =
     (record_kind_debug (ref_record_kind r), ref_record_id r, ref_project_id r, ref_task_id r)"

definition service_state_refs_match :: "StateRecordRef list \<Rightarrow> StateRecordRef list \<Rightarrow> bool" where
  "service_state_refs_match left right \<longleftrightarrow>
     sort (map state_ref_key left) = sort (map state_ref_key right)"

definition refs_overlap :: "StateRecordRef \<Rightarrow> StateRecordRef \<Rightarrow> bool" where
  "refs_overlap left right =
     (if ref_project_id left \<noteq> ref_project_id right then False
      else if ref_record_kind left = StateRecordKind.Task \<and> ref_task_id right = ref_task_id left
        then True
      else if ref_record_kind right = StateRecordKind.Task \<and> ref_task_id left = ref_task_id right
        then True
      else ref_record_kind left = ref_record_kind right \<and> ref_record_id left = ref_record_id right)"

definition affected_refs_overlap :: "StateRecordRef list \<Rightarrow> StateRecordRef list \<Rightarrow> bool" where
  "affected_refs_overlap user_action_refs operation_refs =
     (if user_action_refs = [] \<or> operation_refs = [] then True
      else list_ex (\<lambda>judgment_ref. list_ex (\<lambda>op_ref. refs_overlap judgment_ref op_ref) operation_refs)
        user_action_refs)"

definition service_final_acceptance_basis_matches_current ::
  "UserActionBasis \<Rightarrow> CurrentCloseBasis \<Rightarrow> bool" where
  "service_final_acceptance_basis_matches_current basis current \<longleftrightarrow>
     (let coordinates = basis_coordinates basis in
      coord_task_id coordinates = ccb_task_id current \<and>
      coord_change_unit_id coordinates = Some (ccb_change_unit_id current) \<and>
      coord_scope_revision coordinates = ccb_scope_revision current \<and>
      basis_close_basis_revision basis = Some (ccb_close_basis_revision current) \<and>
      coord_baseline_ref coordinates = ccb_baseline_ref current \<and>
      service_state_refs_match (basis_result_refs basis) (ccb_result_refs current))"

definition service_residual_risk_basis_matches_current ::
  "UserActionBasis \<Rightarrow> CurrentCloseBasis \<Rightarrow> bool" where
  "service_residual_risk_basis_matches_current basis current \<longleftrightarrow>
     coord_task_id (basis_coordinates basis) = ccb_task_id current \<and>
     basis_close_basis_revision basis = Some (ccb_close_basis_revision current) \<and>
     btree_set (basis_residual_risk_ids basis) =
       btree_set (map rr_risk_id (filter rr_acceptance_required (ccb_residual_risks current)))"

definition basis_matches_operation_context ::
  "UserActionBasis \<Rightarrow> UserActionOperationContext \<Rightarrow> bool" where
  "basis_matches_operation_context basis context =
     (let coordinates = basis_coordinates basis in
      if coord_task_id coordinates \<noteq> opc_task_id context \<or>
         coord_scope_revision coordinates \<noteq> opc_scope_revision context
      then False
      else if is_some_and (opc_change_unit_id context)
          (\<lambda>change_unit_id. coord_change_unit_id coordinates \<noteq> Some change_unit_id)
      then False
      else case opc_operation context of
          UserActionOperation.CloseComplete \<Rightarrow>
            (case opc_close_basis context of
               Some close_basis \<Rightarrow>
                 basis_close_basis_revision basis = None \<or>
                 service_final_acceptance_basis_matches_current basis close_basis \<or>
                 service_residual_risk_basis_matches_current basis close_basis
             | None \<Rightarrow> True)
        | UserActionOperation.PrepareWrite \<Rightarrow> True
        | UserActionOperation.RecordRun \<Rightarrow> True
        | UserActionOperation.CloseSupersede \<Rightarrow> True
        | UserActionOperation.ScopeUpdate \<Rightarrow> True)"

definition sensitive_action_scope_matches_requirement ::
  "SensitiveActionScope \<Rightarrow> SensitiveApprovalRequirement \<Rightarrow> bool" where
  "sensitive_action_scope_matches_requirement scope requirement =
     (if is_some_and (sas_expires_at scope) (\<lambda>expires_at. req_now requirement \<ge> expires_at) \<or>
         sas_action_kind scope \<noteq> trim (req_operation requirement)
      then False
      else if \<not> set (req_sensitive_categories requirement) \<subseteq> set (sas_sensitive_categories scope)
      then False
      else case parse_product_paths (sas_intended_paths scope) of
          Err _ \<Rightarrow> False
        | Ok approved_paths \<Rightarrow>
            list_all (\<lambda>path. list_ex (\<lambda>approved. path_is_within path (as_str approved)) approved_paths)
              (req_normalized_paths requirement))"

definition user_action_has_current_basis :: "UserActionAuthority \<Rightarrow> bool" where
  "user_action_has_current_basis a \<longleftrightarrow>
     ua_basis_status a = UserActionBasisStatus.Current \<and>
     is_some_and (ua_basis a)
       (\<lambda>basis. basis_compatibility_status basis = UserActionBasisStatus.Current)"

definition verified_user_channel_provenance :: "UserActionAuthority \<Rightarrow> bool" where
  "verified_user_channel_provenance a \<longleftrightarrow>
     ua_resolved_by_actor_source a = Some ActorSource.LocalUser \<and>
     ua_resolved_verification_basis a \<noteq> None \<and>
     is_some_and (ua_resolved_assurance_level a) (\<lambda>level. trim level \<noteq> [])"

definition accepted_current_user_authority :: "UserActionAuthority \<Rightarrow> UserActionKind \<Rightarrow> bool" where
  "accepted_current_user_authority a required_kind =
     (if \<not> user_action_has_current_basis a \<or> ua_status a \<noteq> UserActionStatus.Resolved \<or>
         ua_action_kind a \<noteq> required_kind \<or>
         ua_machine_action a \<noteq> Some UserActionOptionAction.Accept \<or>
         ua_resolution_outcome a \<noteq> Some JudgmentResolutionOutcome.Accepted
      then False
      else (case ua_resolution a of
          Some (UserActionResolutionBody.Choice r) \<Rightarrow>
            cr_machine_action r = UserActionOptionAction.Accept \<and>
            cr_resolution_outcome r = JudgmentResolutionOutcome.Accepted
        | _ \<Rightarrow> False) \<and> verified_user_channel_provenance a)"

definition user_action_blocks_operation ::
  "UserActionAuthority \<Rightarrow> UserActionOperationContext \<Rightarrow> bool" where
  "user_action_blocks_operation a context =
     (if ua_status a \<noteq> UserActionStatus.Pending \<or> \<not> user_action_has_current_basis a then False
      else if operation_required_for (opc_operation context) \<notin> set (ua_required_for a) then False
      else if \<not> is_compatible_with_required_for (ua_action_kind a)
          (operation_required_for (opc_operation context)) then False
      else case ua_basis a of
          None \<Rightarrow> False
        | Some basis \<Rightarrow>
            if \<not> basis_matches_operation_context basis context then False
            else if \<not> affected_refs_overlap (ua_affected_refs a) (opc_operation_refs context) then False
            else if ua_action_kind a = UserActionKind.SensitiveApproval then
              (case opc_sensitive_approval context of
                 None \<Rightarrow> False
               | Some requirement \<Rightarrow>
                   if coord_baseline_ref (basis_coordinates basis) \<noteq> req_baseline_ref requirement
                   then False
                   else (case basis_sensitive_action_scope basis of
                       None \<Rightarrow> False
                     | Some scope \<Rightarrow> sensitive_action_scope_matches_requirement scope requirement))
            else True)"

definition user_action_required_for :: "UserActionAuthority \<Rightarrow> UserActionRequiredFor \<Rightarrow> bool" where
  "user_action_required_for a target \<longleftrightarrow> target \<in> set (ua_required_for a)"

definition current_cancellation_authority ::
  "UserActionAuthority \<Rightarrow> CancellationAuthorityRequirement \<Rightarrow> bool" where
  "current_cancellation_authority a requirement =
     (if \<not> accepted_current_user_authority a UserActionKind.Cancellation \<or>
         UserActionRequiredFor.CloseCancel \<notin> set (ua_required_for a)
      then False
      else is_some_and (ua_basis a) (\<lambda>basis.
        let coordinates = basis_coordinates basis in
        coord_task_id coordinates = can_task_id requirement \<and>
        coord_scope_revision coordinates = can_scope_revision requirement \<and>
        coord_change_unit_id coordinates = can_change_unit_id requirement))"

definition current_sensitive_approval ::
  "UserActionAuthority \<Rightarrow> SensitiveApprovalRequirement \<Rightarrow> bool" where
  "current_sensitive_approval a requirement =
     (if \<not> accepted_current_user_authority a UserActionKind.SensitiveApproval \<or>
         req_required_for requirement \<notin> set (ua_required_for a)
      then False
      else case ua_basis a of
          None \<Rightarrow> False
        | Some basis \<Rightarrow>
            let coordinates = basis_coordinates basis in
            if coord_task_id coordinates \<noteq> req_task_id requirement \<or>
               coord_change_unit_id coordinates \<noteq> Some (req_change_unit_id requirement) \<or>
               coord_scope_revision coordinates \<noteq> req_scope_revision requirement \<or>
               coord_baseline_ref coordinates \<noteq> req_baseline_ref requirement
            then False
            else is_some_and (basis_sensitive_action_scope basis)
              (\<lambda>scope. sensitive_action_scope_matches_requirement scope requirement))"

subsection \<open>Waiting for the user\<close>

definition user_action_keeps_task_waiting ::
  "UserActionAuthority \<Rightarrow> TaskId \<Rightarrow> ChangeUnitId option \<Rightarrow> u64 \<Rightarrow> bool" where
  "user_action_keeps_task_waiting a task_id current_change_unit_id scope_revision =
     (if ua_status a \<noteq> UserActionStatus.Pending \<or> \<not> user_action_has_current_basis a \<or>
         ua_task_id a \<noteq> task_id \<or>
         \<not> list_ex (\<lambda>target. target \<noteq> UserActionRequiredFor.Informational) (ua_required_for a)
      then False
      else is_some_and (ua_basis a) (\<lambda>basis.
        let coordinates = basis_coordinates basis in
        coord_task_id coordinates = task_id \<and>
        coord_scope_revision coordinates = scope_revision \<and>
        coord_change_unit_id coordinates = current_change_unit_id))"

definition lifecycle_user_action_keeps_task_waiting ::
  "UserActionAuthority \<Rightarrow> TaskId \<Rightarrow> ChangeUnitId option \<Rightarrow> u64 \<Rightarrow> bool" where
  "lifecycle_user_action_keeps_task_waiting a task_id current_change_unit_id scope_revision =
     (if ua_status a \<noteq> UserActionStatus.Pending \<or>
         ua_basis_status a \<noteq> UserActionBasisStatus.Current \<or>
         ua_task_id a \<noteq> task_id \<or>
         \<not> list_ex (\<lambda>target. target \<noteq> UserActionRequiredFor.Informational) (ua_required_for a)
      then False
      else is_some_and (ua_basis a) (\<lambda>basis.
        basis_compatibility_status basis = UserActionBasisStatus.Current \<and>
        coord_task_id (basis_coordinates basis) = task_id \<and>
        coord_scope_revision (basis_coordinates basis) = scope_revision \<and>
        coord_change_unit_id (basis_coordinates basis) = current_change_unit_id))"

definition is_terminal_lifecycle :: "TaskLifecyclePhase \<Rightarrow> bool" where
  "is_terminal_lifecycle phase \<longleftrightarrow>
     phase \<in> {TaskLifecyclePhase.Completed, TaskLifecyclePhase.Cancelled,
       TaskLifecyclePhase.Superseded}"

definition projected_user_action_lifecycle_phase ::
  "ProjectStateHeader \<Rightarrow> TaskRecord \<Rightarrow> ChangeUnitRecord option \<Rightarrow> UserActionAuthority list \<Rightarrow>
     TaskLifecyclePhase option" where
  "projected_user_action_lifecycle_phase project_state task current_change_unit pending =
     (if psh_active_task_id project_state \<noteq> Some (task_task_id task) \<or>
         is_terminal_lifecycle (task_lifecycle_phase task)
      then None
      else
        let waits_for_user = list_ex (\<lambda>a. lifecycle_user_action_keeps_task_waiting a
              (task_task_id task) (map_option cu_change_unit_id current_change_unit)
              (task_scope_revision task)) pending
        in
          if waits_for_user then
            (if task_lifecycle_phase task \<noteq> TaskLifecyclePhase.WaitingUser
             then Some TaskLifecyclePhase.WaitingUser else None)
          else if task_lifecycle_phase task = TaskLifecyclePhase.WaitingUser then
            Some (if current_change_unit \<noteq> None then TaskLifecyclePhase.Ready
                  else TaskLifecyclePhase.Shaping)
          else None)"

text \<open>The requirement an operation context carries repeats the coordinates of the context.\<close>

definition requirement_of_operation ::
  "SensitiveApprovalRequirement \<Rightarrow> UserActionOperationContext \<Rightarrow> bool" where
  "requirement_of_operation req ctx \<longleftrightarrow>
     opc_sensitive_approval ctx = Some req \<and> req_task_id req = opc_task_id ctx \<and>
     opc_change_unit_id ctx = Some (req_change_unit_id req) \<and>
     req_scope_revision req = opc_scope_revision ctx \<and>
     req_required_for req = operation_required_for (opc_operation ctx)"

subsection \<open>Sample records\<close>

definition sample_scope :: SensitiveActionScope where
  "sample_scope = \<lparr>sas_action_kind = ''deploy'', sas_description = ''deploy'',
     sas_intended_paths = [''src''], sas_sensitive_categories = [''network''],
     sas_command_or_tool_summary = None, sas_network_or_host_summary = None,
     sas_secret_or_credential_summary = None, sas_capability_claim = '''',
     sas_expires_at = Some 1000\<rparr>"

definition sample_option :: UserActionOption where
  "sample_option = \<lparr>opt_option_id = ''opt_accept'', opt_label = ''Accept'', opt_description = '''',
     opt_consequence = '''', opt_machine_action = UserActionOptionAction.Accept,
     opt_resolution_outcome = JudgmentResolutionOutcome.Accepted, opt_is_default = False\<rparr>"

definition sample_request :: StoredUserActionRequest where
  "sample_request = \<lparr>
     srq_project_id = ''p'', srq_user_action_request_id = ''uar_1'', srq_task_id = ''task_1'',
     srq_change_unit_id = Some ''cu_1'', srq_action_kind = UserActionKind.SensitiveApproval,
     srq_body = UserActionRequestBody.Choice \<lparr>
       crq_judgment_kind = JudgmentKind.SensitiveApproval, crq_question = ''approve?'',
       crq_options = [sample_option],
       crq_context = \<lparr>ctx_summary = '''', ctx_related_refs = [], ctx_artifact_refs = [],
         ctx_visible_risks = [], ctx_constraints = []\<rparr>,
       crq_affected_refs = [], crq_sensitive_action_scope = Some sample_scope\<rparr>,
     srq_basis = UserActionBasis.Choice \<lparr>
       cb_coordinates = \<lparr>coord_task_id = ''task_1'', coord_change_unit_id = Some ''cu_1'',
         coord_scope_revision = 2, coord_baseline_ref = Some ''base_1'',
         coord_created_at_state_version = 5,
         coord_compatibility_status = UserActionBasisStatus.Current\<rparr>,
       cb_close_basis_revision = None, cb_result_refs = [], cb_residual_risk_ids = [],
       cb_sensitive_action_scope = Some sample_scope\<rparr>,
     srq_basis_status = UserActionBasisStatus.Current,
     srq_required_for = [UserActionRequiredFor.PrepareWrite],
     srq_requested_by_actor_source = ActorSource.AgentConnection ''conn_1'',
     srq_source_method = MethodName.RequestUserAction, srq_source_idempotency_key = ''k'',
     srq_requested_at = 100, srq_expires_at = Some 1000\<rparr>"

definition sample_resolution :: StoredUserActionResolution where
  "sample_resolution = \<lparr>
     srs_project_id = ''p'', srs_user_action_resolution_id = ''uares_1'',
     srs_user_action_request_id = ''uar_1'', srs_action_kind = UserActionKind.SensitiveApproval,
     srs_channel_kind = Cli, srs_channel_submission_id = ''sub_1'',
     srs_resolution = UserActionResolutionBody.Choice \<lparr>
       cr_selected_option_id = ''opt_accept'', cr_machine_action = UserActionOptionAction.Accept,
       cr_resolution_outcome = JudgmentResolutionOutcome.Accepted, cr_note = None,
       cr_accepted_risk_ids = []\<rparr>,
     srs_resolved_by_actor_source = ActorSource.LocalUser,
     srs_resolved_verification_basis = CliDirectUserChannel,
     srs_resolved_assurance_level = ''local_user_channel'', srs_resolved_at = 200\<rparr>"

definition sample_pending :: StoredUserActionRecordSet where
  "sample_pending = \<lparr>set_request = sample_request, set_resolution = None,
     set_status = UserActionStatus.Pending\<rparr>"

definition sample_resolved :: StoredUserActionRecordSet where
  "sample_resolved = \<lparr>set_request = sample_request, set_resolution = Some sample_resolution,
     set_status = UserActionStatus.Resolved\<rparr>"

definition sample_requirement :: SensitiveApprovalRequirement where
  "sample_requirement = \<lparr>
     req_task_id = ''task_1'', req_change_unit_id = ''cu_1'', req_scope_revision = 2,
     req_operation = ''deploy'', req_normalized_paths = [''src/main.rs''],
     req_sensitive_categories = [''network''], req_baseline_ref = Some ''base_1'',
     req_required_for = UserActionRequiredFor.PrepareWrite, req_now = 300\<rparr>"

definition sample_operation :: UserActionOperationContext where
  "sample_operation = \<lparr>
     opc_operation = UserActionOperation.PrepareWrite, opc_task_id = ''task_1'',
     opc_change_unit_id = Some ''cu_1'', opc_scope_revision = 2, opc_close_basis = None,
     opc_operation_refs = [], opc_sensitive_approval = Some sample_requirement\<rparr>"

subsection \<open>Library lemmas\<close>

lemma record_kind_debug_inj: "record_kind_debug a = record_kind_debug b \<longleftrightarrow> a = b"
proof -
  have "inj record_kind_debug"
    by (rule injI) (auto elim!: record_kind_debug.elims)
  then show ?thesis by (rule inj_eq)
qed

lemma sort_eq_iff: "sort xs = sort ys \<longleftrightarrow> mset xs = mset (ys :: 'a::linorder list)"
proof
  assume "sort xs = sort ys"
  then have "mset (sort xs) = mset (sort ys)" by simp
  then show "mset xs = mset ys" by simp
next
  assume "mset xs = mset ys"
  then show "sort xs = sort ys" by (simp flip: sorted_list_of_multiset_mset)
qed

lemma service_state_refs_match_iff:
  "service_state_refs_match l r \<longleftrightarrow> mset (map state_ref_key l) = mset (map state_ref_key r)"
  unfolding service_state_refs_match_def by (rule sort_eq_iff)

lemma accepted_current_user_authority_iff [authority_simps]:
  "accepted_current_user_authority a k \<longleftrightarrow>
     user_action_has_current_basis a \<and> ua_status a = UserActionStatus.Resolved \<and>
     ua_action_kind a = k \<and>
     ua_machine_action a = Some UserActionOptionAction.Accept \<and>
     ua_resolution_outcome a = Some JudgmentResolutionOutcome.Accepted \<and>
     (\<exists>r. ua_resolution a = Some (UserActionResolutionBody.Choice r) \<and>
        cr_machine_action r = UserActionOptionAction.Accept \<and>
        cr_resolution_outcome r = JudgmentResolutionOutcome.Accepted) \<and>
     verified_user_channel_provenance a"
  by (auto simp: accepted_current_user_authority_def split: option.splits UserActionResolutionBody.splits)

lemma pending_is_not_accepted:
  "ua_status a = UserActionStatus.Pending \<Longrightarrow> \<not> accepted_current_user_authority a k"
  by (simp add: authority_simps)

lemma user_action_blocks_operation_pendingD:
  "user_action_blocks_operation a c \<Longrightarrow>
     ua_status a = UserActionStatus.Pending \<and> user_action_has_current_basis a"
  by (auto simp: user_action_blocks_operation_def split: if_splits)

lemma current_sensitive_approval_iff [authority_simps]:
  "current_sensitive_approval a req \<longleftrightarrow>
     accepted_current_user_authority a UserActionKind.SensitiveApproval \<and>
     req_required_for req \<in> set (ua_required_for a) \<and>
     (\<exists>basis scope. ua_basis a = Some basis \<and>
        coord_task_id (basis_coordinates basis) = req_task_id req \<and>
        coord_change_unit_id (basis_coordinates basis) = Some (req_change_unit_id req) \<and>
        coord_scope_revision (basis_coordinates basis) = req_scope_revision req \<and>
        coord_baseline_ref (basis_coordinates basis) = req_baseline_ref req \<and>
        basis_sensitive_action_scope basis = Some scope \<and>
        sensitive_action_scope_matches_requirement scope req)"
  by (auto simp: current_sensitive_approval_def Let_def is_some_and_iff split: option.splits)

lemma scope_matches_iff [authority_simps]:
  "sensitive_action_scope_matches_requirement scope req \<longleftrightarrow>
     (\<forall>e. sas_expires_at scope = Some e \<longrightarrow> req_now req < e) \<and>
     sas_action_kind scope = trim (req_operation req) \<and>
     set (req_sensitive_categories req) \<subseteq> set (sas_sensitive_categories scope) \<and>
     list_all normalized_path (sas_intended_paths scope) \<and>
     (\<forall>path\<in>set (req_normalized_paths req). \<exists>s\<in>set (sas_intended_paths scope). path_is_within path s)"
proof (cases "parse_product_paths (sas_intended_paths scope)")
  case (Ok ps)
  then have "list_all2 (\<lambda>x y. normalized_path x \<and> y = ProductRelativePath x) (sas_intended_paths scope) ps"
    by (simp add: parse_product_paths_def collect_results_Ok_iff parse_Ok_iff)
  then have "ps = map ProductRelativePath (sas_intended_paths scope)"
    and "list_all normalized_path (sas_intended_paths scope)"
    by (auto simp: list_all2_conv_all_nth list_all_length list_eq_iff_nth_eq)
  then show ?thesis
    using Ok by (auto simp: sensitive_action_scope_matches_requirement_def is_some_and_iff
        list_all_iff list_ex_iff not_le)
next
  case (Err e)
  then have "\<not> list_all normalized_path (sas_intended_paths scope)"
    unfolding parse_product_paths_def
    by (auto dest!: collect_results_ErrD parse_ErrD simp: list_all_iff)
  then show ?thesis
    using Err by (simp add: sensitive_action_scope_matches_requirement_def)
qed

lemma validate_pair_Ok:
  "validate_user_action_request_resolution_pair req res = Ok u \<Longrightarrow>
     srq_project_id req = srs_project_id res \<and>
     srq_user_action_request_id req = srs_user_action_request_id res \<and>
     srq_action_kind req = srs_action_kind res \<and> resolution_agrees req res"
  by (simp add: validate_user_action_request_resolution_pair_def Let_def split: if_splits result.splits
      UserActionTimestampOrderFailure.splits)

lemma stored_status_resolved:
  "stored_effective_user_action_status req (Some res) now = Ok s \<Longrightarrow>
   srq_basis_status req = UserActionBasisStatus.Current \<Longrightarrow> s = UserActionStatus.Resolved"
  by (simp add: stored_effective_user_action_status_def effective_user_action_status_def split: if_splits)

lemma with_resolution_Ok:
  assumes "with_resolution r res now = Ok r'"
  shows "set_request r' = set_request r" "set_resolution r = None" "set_resolution r' = Some res"
    "validate_user_action_request_resolution_pair (set_request r) res = Ok ()"
    "stored_effective_user_action_status (set_request r) (Some res) now = Ok (set_status r')"
  using assms by (auto simp: with_resolution_def split: if_splits result.splits)

lemma resolution_agrees_choice:
  assumes "resolution_agrees req res" and "srs_resolution res = UserActionResolutionBody.Choice c"
  shows "\<exists>choice opt. srq_body req = UserActionRequestBody.Choice choice \<and>
    opt \<in> set (crq_options choice) \<and> opt_option_id opt = cr_selected_option_id c \<and>
    opt_machine_action opt = cr_machine_action c \<and>
    opt_resolution_outcome opt = cr_resolution_outcome c"
  using assms
  by (auto simp: resolution_agrees_def find_Some_iff split: UserActionRequestBody.splits
      UserActionBasis.splits option.splits) (metis nth_mem)

lemma authority_from_record_simps [authority_simps]:
  "ua_status (user_action_authority_from_record r) = set_status r"
  "ua_action_kind (user_action_authority_from_record r) = srq_action_kind (set_request r)"
  "ua_basis (user_action_authority_from_record r) = Some (srq_basis (set_request r))"
  "ua_basis_status (user_action_authority_from_record r) = srq_basis_status (set_request r)"
  "ua_required_for (user_action_authority_from_record r) = srq_required_for (set_request r)"
  "ua_resolution (user_action_authority_from_record r) = map_option srs_resolution (set_resolution r)"
  "ua_resolved_by_actor_source (user_action_authority_from_record r) =
     map_option srs_resolved_by_actor_source (set_resolution r)"
  "ua_resolved_verification_basis (user_action_authority_from_record r) =
     map_option srs_resolved_verification_basis (set_resolution r)"
  "ua_resolved_assurance_level (user_action_authority_from_record r) =
     map_option srs_resolved_assurance_level (set_resolution r)"
  by (simp_all add: user_action_authority_from_record_def Let_def)

lemma basis_matches_operation_contextD:
  assumes "basis_matches_operation_context basis ctx"
  shows "coord_task_id (basis_coordinates basis) = opc_task_id ctx \<and>
    coord_scope_revision (basis_coordinates basis) = opc_scope_revision ctx \<and>
    (\<forall>c. opc_change_unit_id ctx = Some c \<longrightarrow> coord_change_unit_id (basis_coordinates basis) = Some c)"
  using assms by (auto simp: basis_matches_operation_context_def Let_def split: if_splits)

lemma blocking_approval_facts:
  assumes "user_action_blocks_operation a ctx"
    and "ua_action_kind a = UserActionKind.SensitiveApproval"
    and "opc_sensitive_approval ctx = Some req"
  shows "\<exists>basis scope. ua_basis a = Some basis \<and> user_action_has_current_basis a \<and>
    operation_required_for (opc_operation ctx) \<in> set (ua_required_for a) \<and>
    coord_task_id (basis_coordinates basis) = opc_task_id ctx \<and>
    coord_scope_revision (basis_coordinates basis) = opc_scope_revision ctx \<and>
    (\<forall>c. opc_change_unit_id ctx = Some c \<longrightarrow>
      coord_change_unit_id (basis_coordinates basis) = Some c) \<and>
    coord_baseline_ref (basis_coordinates basis) = req_baseline_ref req \<and>
    basis_sensitive_action_scope basis = Some scope \<and>
    sensitive_action_scope_matches_requirement scope req"
  using assms
  by (simp add: user_action_blocks_operation_def basis_matches_operation_contextD
      split: if_splits option.splits) (metis basis_matches_operation_contextD)

subsection \<open>Properties\<close>



text \<open>C15: A pending sensitive approval that blocks an operation is exactly what the operation needs:
  once the local user resolves the stored request by accepting, the same record authorizes the
  operation's requirement, and it blocks no operation any more.
\<close>

theorem accepting_a_blocking_approval_unblocks:
  assumes "user_action_blocks_operation (user_action_authority_from_record r) ctx"
    and "srq_action_kind (set_request r) = UserActionKind.SensitiveApproval"
    and "requirement_of_operation req ctx"
    and "with_resolution r res now = Ok r'"
    and "srs_resolution res = UserActionResolutionBody.Choice c"
    and "cr_machine_action c = UserActionOptionAction.Accept"
    and "cr_resolution_outcome c = JudgmentResolutionOutcome.Accepted"
    and "srs_resolved_by_actor_source res = ActorSource.LocalUser"
    and "trim (srs_resolved_assurance_level res) \<noteq> []"
  shows "current_sensitive_approval (user_action_authority_from_record r') req \<and>
    \<not> user_action_blocks_operation (user_action_authority_from_record r') any"
proof -
  note stored = with_resolution_Ok[OF assms(4)]
  let ?basis = "srq_basis (set_request r)"
  obtain scope where facts: "user_action_has_current_basis (user_action_authority_from_record r)"
      "operation_required_for (opc_operation ctx) \<in> set (srq_required_for (set_request r))"
      "coord_task_id (basis_coordinates ?basis) = opc_task_id ctx"
      "coord_scope_revision (basis_coordinates ?basis) = opc_scope_revision ctx"
      "coord_change_unit_id (basis_coordinates ?basis) = Some (req_change_unit_id req)"
      "coord_baseline_ref (basis_coordinates ?basis) = req_baseline_ref req"
      "basis_sensitive_action_scope ?basis = Some scope"
      "sensitive_action_scope_matches_requirement scope req"
    using blocking_approval_facts[OF assms(1)] assms(2,3)
    by (auto simp: requirement_of_operation_def authority_from_record_simps)
  have current: "user_action_has_current_basis (user_action_authority_from_record r')"
      "srq_basis_status (set_request r) = UserActionBasisStatus.Current"
    using facts(1) stored(1) by (auto simp: user_action_has_current_basis_def authority_from_record_simps)
  have status: "set_status r' = UserActionStatus.Resolved"
    using stored_status_resolved[OF stored(5) current(2)] .
  have "accepted_current_user_authority (user_action_authority_from_record r') UserActionKind.SensitiveApproval"
    using current status stored assms
    by (simp add: accepted_current_user_authority_iff authority_from_record_simps
        verified_user_channel_provenance_def user_action_authority_from_record_def Let_def)
  then show ?thesis
    using facts stored assms(3) status user_action_blocks_operation_pendingD
    by (fastforce simp: current_sensitive_approval_iff authority_from_record_simps
        requirement_of_operation_def)
qed

theorem accepting_a_blocking_approval_unblocks_witness:
  "user_action_blocks_operation (user_action_authority_from_record sample_pending) sample_operation \<and>
   current_sensitive_approval (user_action_authority_from_record sample_resolved) sample_requirement"
proof -
  have blocks: "user_action_blocks_operation (user_action_authority_from_record sample_pending)
      sample_operation" by code_simp
  have ok: "with_resolution sample_pending sample_resolution 250 = Ok sample_resolved" by code_simp
  have req: "requirement_of_operation sample_requirement sample_operation" by code_simp
  have kind: "srq_action_kind (set_request sample_pending) = UserActionKind.SensitiveApproval"
    by code_simp
  have res: "srs_resolution sample_resolution = UserActionResolutionBody.Choice
      \<lparr>cr_selected_option_id = ''opt_accept'', cr_machine_action = UserActionOptionAction.Accept,
       cr_resolution_outcome = JudgmentResolutionOutcome.Accepted, cr_note = None,
       cr_accepted_risk_ids = []\<rparr>"
    and by_user: "srs_resolved_by_actor_source sample_resolution = ActorSource.LocalUser"
    by (simp_all add: sample_resolution_def)
  have assured: "trim (srs_resolved_assurance_level sample_resolution) \<noteq> []" by code_simp
  show ?thesis
    using accepting_a_blocking_approval_unblocks[OF blocks kind req ok res _ _ by_user assured] blocks
    by simp
qed

text \<open>A sensitive approval covers everything smaller: a requirement of the same operation with fewer
  categories, with paths that lie below already covered paths, and at any earlier time.\<close>

lemma current_sensitive_approval_mono:
  assumes "current_sensitive_approval a req"
    and "set (req_sensitive_categories req') \<subseteq> set (req_sensitive_categories req)"
    and "\<forall>path \<in> set (req_normalized_paths req'). \<exists>wider \<in> set (req_normalized_paths req).
      path_is_within path wider"
    and "req_now req' \<le> req_now req"
    and "req_task_id req' = req_task_id req" "req_change_unit_id req' = req_change_unit_id req"
      "req_scope_revision req' = req_scope_revision req" "req_operation req' = req_operation req"
      "req_baseline_ref req' = req_baseline_ref req" "req_required_for req' = req_required_for req"
  shows "current_sensitive_approval a req'"
proof -
  have trans: "path_is_within p s" if "path_is_within p q" "path_is_within q s" for p q s
    using that by (auto simp: path_is_within_iff)
  have "sensitive_action_scope_matches_requirement scope req'"
    if "sensitive_action_scope_matches_requirement scope req" for scope
    using that assms(2-4,8) trans by (simp add: scope_matches_iff) (meson order_le_less_trans subset_trans)
  then show ?thesis using assms(1,5-) unfolding current_sensitive_approval_iff by fastforce
qed

text \<open>The relevance check and the lifecycle projection keep a private copy each of the rule
  that decides whether a user action keeps a Task waiting; the two rules agree on every input.
\<close>

theorem keeps_task_waiting_rules_agree:
  "user_action_keeps_task_waiting a task_id change_unit_id scope_revision =
   lifecycle_user_action_keeps_task_waiting a task_id change_unit_id scope_revision"
  by (auto simp: user_action_keeps_task_waiting_def lifecycle_user_action_keeps_task_waiting_def
      user_action_has_current_basis_def is_some_and_iff Let_def)

text \<open>C38: Whenever the lifecycle projection asks for a phase, the transition planner accepts it as
  a change of that Task, a terminal Task is never moved, and once the phase is stored the
  projection asks for nothing more.
\<close>

theorem projected_lifecycle_phase_is_plannable:
  assumes "projected_user_action_lifecycle_phase state task change_unit pending = Some phase"
  shows "plan_user_action_lifecycle_transition (lifecycle_facts task) phase =
      Ok (Some \<lparr>tlt_task_id = task_task_id task, tlt_from = task_lifecycle_phase task, tlt_to = phase\<rparr>) \<and>
    \<not> is_terminal_lifecycle (task_lifecycle_phase task) \<and>
    projected_user_action_lifecycle_phase state (task\<lparr>task_lifecycle_phase := phase\<rparr>) change_unit pending =
      None"
  using assms
  by (cases "task_lifecycle_phase task")
    (auto simp: projected_user_action_lifecycle_phase_def plan_user_action_lifecycle_transition_def
      lifecycle_facts_def user_action_transition_valid_def is_terminal_lifecycle_def Let_def
      split: if_splits)

theorem projected_lifecycle_phase_is_plannable_witness:
  "projected_user_action_lifecycle_phase sample_project_state
     (sample_task\<lparr>task_lifecycle_phase := TaskLifecyclePhase.WaitingUser\<rparr>) None [] =
     Some TaskLifecyclePhase.Shaping \<and>
   is_ok (plan_user_action_lifecycle_transition
     (lifecycle_facts (sample_task\<lparr>task_lifecycle_phase := TaskLifecyclePhase.WaitingUser\<rparr>))
     TaskLifecyclePhase.Shaping)"
proof -
  have p: "projected_user_action_lifecycle_phase sample_project_state
     (sample_task\<lparr>task_lifecycle_phase := TaskLifecyclePhase.WaitingUser\<rparr>) None [] =
     Some TaskLifecyclePhase.Shaping" by code_simp
  with projected_lifecycle_phase_is_plannable[OF p] show ?thesis by simp
qed

end
