(* ===== verification/EvidencePolicy.thy ===== *)
theory EvidencePolicy
  imports UserAction
begin

text \<open>
  Evidence policy (\<open>volicord-core/src/policy/\<close>: \<open>evidence.rs\<close>, \<open>evidence_target.rs\<close>,
  \<open>evidence_relevance.rs\<close>, \<open>evidence_provenance.rs\<close>, \<open>close_readiness_evidence.rs\<close>), the change-unit
  effect contract (\<open>effect_contract.rs\<close>) and the reference helpers of
  \<open>volicord-core/src/record_refs.rs\<close> and \<open>task_state.rs\<close>.
\<close>

subsection \<open>References\<close>

fun record_kind_serde :: "StateRecordKind \<Rightarrow> string" where
  "record_kind_serde StateRecordKind.ProjectState = ''project_state''"
| "record_kind_serde StateRecordKind.Task = ''task''"
| "record_kind_serde StateRecordKind.ChangeUnit = ''change_unit''"
| "record_kind_serde StateRecordKind.ShapingCheckpoint = ''shaping_checkpoint''"
| "record_kind_serde StateRecordKind.ShapingGap = ''shaping_gap''"
| "record_kind_serde StateRecordKind.ShapingDecisionApplication = ''shaping_decision_application''"
| "record_kind_serde StateRecordKind.ShapingAuthorityReauthorization =
     ''shaping_authority_reauthorization''"
| "record_kind_serde StateRecordKind.WriteTicket = ''write_ticket''"
| "record_kind_serde StateRecordKind.UserActionRequest = ''user_action_request''"
| "record_kind_serde StateRecordKind.UserActionResolution = ''user_action_resolution''"
| "record_kind_serde StateRecordKind.Run = ''run''"
| "record_kind_serde StateRecordKind.EvidenceSummary = ''evidence_summary''"
| "record_kind_serde StateRecordKind.EvidenceObservation = ''evidence_observation''"
| "record_kind_serde StateRecordKind.EvidenceCaptureIntent = ''evidence_capture_intent''"
| "record_kind_serde StateRecordKind.EvidenceProducer = ''evidence_producer''"
| "record_kind_serde StateRecordKind.Artifact = ''artifact''"
| "record_kind_serde StateRecordKind.Blocker = ''blocker''"
| "record_kind_serde StateRecordKind.TaskEvent = ''task_event''"
| "record_kind_serde StateRecordKind.AgentConnection = ''agent_connection''"
| "record_kind_serde StateRecordKind.UnrecordedChange = ''unrecorded_change''"
| "record_kind_serde StateRecordKind.ProjectContinuityRecord = ''project_continuity_record''"

text \<open>The serialized kind is a JSON string, so it carries its quotes.\<close>

definition state_record_ref_identity_key :: "StateRecordRef \<Rightarrow> string \<times> string \<times> string" where
  "state_record_ref_identity_key r =
     (ref_project_id r, CHR 0x22 # record_kind_serde (ref_record_kind r) @ [CHR 0x22],
      ref_record_id r)"

definition state_ref ::
  "StateRecordKind \<Rightarrow> string \<Rightarrow> ProjectId \<Rightarrow> TaskId option \<Rightarrow> u64 option \<Rightarrow> StateRecordRef" where
  "state_ref kind record_id project_id task_id state_version = \<lparr>
     ref_record_kind = kind, ref_record_id = record_id, ref_project_id = project_id,
     ref_task_id = task_id, ref_produced_at_state_version = state_version\<rparr>"

definition change_unit_ref ::
  "ProjectId \<Rightarrow> TaskId \<Rightarrow> ChangeUnitRecord \<Rightarrow> u64 \<Rightarrow> StateRecordRef" where
  "change_unit_ref project_id task_id change_unit state_version =
     state_ref StateRecordKind.ChangeUnit (cu_change_unit_id change_unit) project_id (Some task_id)
       (Some state_version)"

definition write_ticket_ref :: "StoredWriteTicket \<Rightarrow> u64 \<Rightarrow> StateRecordRef" where
  "write_ticket_ref r state_version =
     state_ref StateRecordKind.WriteTicket (wt_write_ticket_id r) (wt_project_id r)
       (Some (wt_task_id r)) (Some state_version)"

definition sorted_unique :: "string list \<Rightarrow> string list" where
  "sorted_unique values = btree_set values"

definition unique_state_refs :: "StateRecordRef list \<Rightarrow> StateRecordRef list" where
  "unique_state_refs = unique_by state_record_ref_identity_key"

definition unique_state_record_refs :: "StateRecordRef list \<Rightarrow> StateRecordRef list" where
  "unique_state_record_refs = unique_by state_record_ref_identity_key"

definition unique_artifact_refs :: "ArtifactRef list \<Rightarrow> ArtifactRef list" where
  "unique_artifact_refs = unique_by art_artifact_id"

definition normalize_scope_text_option :: "string option \<Rightarrow> string option" where
  "normalize_scope_text_option value =
     (case map_option trim value of Some v \<Rightarrow> if v = [] then None else Some v | None \<Rightarrow> None)"

definition normalize_display_string_list :: "string list \<Rightarrow> string list" where
  "normalize_display_string_list values =
     btree_set (filter (\<lambda>v. v \<noteq> []) (map trim values))"

definition normalize_scope_string_list :: "string list \<Rightarrow> string list" where
  "normalize_scope_string_list values =
     btree_set (List.map_filter (\<lambda>v. normalize_scope_text_option (Some v)) values)"

subsection \<open>Coverage items\<close>

definition evidence_status_for_items :: "EvidenceCoverageItem list \<Rightarrow> EvidenceStatus" where
  "evidence_status_for_items items =
     (if list_ex (\<lambda>item. eci_coverage_state item = EvidenceCoverageState.Contradicted) items
      then EvidenceStatus.Blocked
      else if items = [] then EvidenceStatus.Unknown
      else if list_all (\<lambda>item. eci_coverage_state item \<in>
          {EvidenceCoverageState.Supported, EvidenceCoverageState.NotApplicable}) items
      then EvidenceStatus.Sufficient
      else EvidenceStatus.Insufficient)"

definition evidence_item_has_no_support :: "EvidenceCoverageItem \<Rightarrow> bool" where
  "evidence_item_has_no_support item \<longleftrightarrow>
     eci_supporting_run_refs item = [] \<and> eci_observation_refs item = [] \<and>
     eci_supporting_artifact_refs item = [] \<and> eci_gap_refs item = []"

definition artifact_state_ref :: "ArtifactRef \<Rightarrow> StateRecordRef" where
  "artifact_state_ref artifact = \<lparr>
     ref_record_kind = StateRecordKind.Artifact,
     ref_record_id = art_artifact_id artifact,
     ref_project_id = art_project_id artifact,
     ref_task_id = Some (art_task_id artifact),
     ref_produced_at_state_version =
       Option.bind (art_created_by_run_ref artifact) ref_produced_at_state_version\<rparr>"

definition evidence_item_related_refs :: "EvidenceCoverageItem \<Rightarrow> StateRecordRef list" where
  "evidence_item_related_refs item =
     eci_observation_refs item @ eci_supporting_run_refs item @ eci_gap_refs item @
     map artifact_state_ref (eci_supporting_artifact_refs item)"

subsection \<open>Relevance and provenance\<close>

datatype EvidenceSupportClass = Supported | Unsupported | Unassessed

fun classify_evidence_support :: "EvidenceRelevanceStatus \<Rightarrow> EvidenceSupportClass" where
  "classify_evidence_support EvidenceRelevanceStatus.Supported = EvidenceSupportClass.Supported"
| "classify_evidence_support EvidenceRelevanceStatus.Contradicted = EvidenceSupportClass.Unsupported"
| "classify_evidence_support EvidenceRelevanceStatus.Unassessed = EvidenceSupportClass.Unassessed"

definition relevance_supports_claim :: "EvidenceRelevanceAssessment \<Rightarrow> bool" where
  "relevance_supports_claim relevance \<longleftrightarrow>
     classify_evidence_support (era_status relevance) = EvidenceSupportClass.Supported"

definition capture_outcome_relevance :: "bool \<Rightarrow> EvidenceRelevanceStatus" where
  "capture_outcome_relevance matches_expected_outcome =
     (if matches_expected_outcome then EvidenceRelevanceStatus.Unassessed
      else EvidenceRelevanceStatus.Contradicted)"

definition capture_relevance_is_unsupported ::
  "EvidenceProducerKind \<Rightarrow> EvidenceRelevanceAssessment \<Rightarrow> bool" where
  "capture_relevance_is_unsupported producer_kind relevance \<longleftrightarrow>
     producer_kind \<in> {EvidenceProducerKind.VerifiedToolInvocation,
       EvidenceProducerKind.VerifiedCommandExecution} \<and>
     \<not> relevance_supports_claim relevance"

datatype EvidenceProvenanceClass = Strong | CooperativeAgentReport | Weak

record EvidenceProvenanceFacts =
  epf_basis_matches :: bool
  epf_source_kind :: EvidenceSourceKind
  epf_assurance_level :: EvidenceAssuranceLevel
  epf_artifact_binding_matches :: bool
  epf_producer_binding_matches :: bool

fun evidence_assurance_matches_source ::
  "EvidenceSourceKind \<Rightarrow> EvidenceAssuranceLevel \<Rightarrow> bool" where
  "evidence_assurance_matches_source EvidenceSourceKind.AgentReport level \<longleftrightarrow>
     level = EvidenceAssuranceLevel.CooperativeReport"
| "evidence_assurance_matches_source EvidenceSourceKind.ExternalTool level \<longleftrightarrow>
     level = EvidenceAssuranceLevel.ExternalToolResult"
| "evidence_assurance_matches_source EvidenceSourceKind.UserObservation level \<longleftrightarrow>
     level = EvidenceAssuranceLevel.UserObserved"
| "evidence_assurance_matches_source EvidenceSourceKind.ReusedEvidence level \<longleftrightarrow>
     level \<in> {EvidenceAssuranceLevel.ExternalToolResult, EvidenceAssuranceLevel.UserObserved}"
| "evidence_assurance_matches_source EvidenceSourceKind.UnverifiedClaim level \<longleftrightarrow>
     level = EvidenceAssuranceLevel.Unverified"

definition classify_evidence_provenance :: "EvidenceProvenanceFacts \<Rightarrow> EvidenceProvenanceClass" where
  "classify_evidence_provenance facts =
     (if \<not> epf_basis_matches facts \<or>
         \<not> evidence_assurance_matches_source (epf_source_kind facts) (epf_assurance_level facts)
      then EvidenceProvenanceClass.Weak
      else if epf_source_kind facts = EvidenceSourceKind.AgentReport \<and>
         epf_assurance_level facts = EvidenceAssuranceLevel.CooperativeReport
      then EvidenceProvenanceClass.CooperativeAgentReport
      else if (epf_source_kind facts = EvidenceSourceKind.ExternalTool \<and>
           epf_assurance_level facts = EvidenceAssuranceLevel.ExternalToolResult \<or>
         epf_source_kind facts = EvidenceSourceKind.UserObservation \<and>
           epf_assurance_level facts = EvidenceAssuranceLevel.UserObserved \<or>
         epf_source_kind facts = EvidenceSourceKind.ReusedEvidence \<and>
           epf_assurance_level facts \<in>
             {EvidenceAssuranceLevel.ExternalToolResult, EvidenceAssuranceLevel.UserObserved}) \<and>
         epf_artifact_binding_matches facts \<and> epf_producer_binding_matches facts
      then EvidenceProvenanceClass.Strong
      else EvidenceProvenanceClass.Weak)"

subsection \<open>Targets and close-basis context\<close>

text \<open>
  Of the stored observation row the fields the policy reads; \<open>metadata\<close> contributes its producer
  anchor and relevance assessment.
\<close>

record EvidenceObservationRecord =
  eor_project_id :: ProjectId
  eor_evidence_observation_id :: string
  eor_task_id :: TaskId
  eor_change_unit_id :: "ChangeUnitId option"
  eor_run_id :: "RunId option"
  eor_acceptance_criterion_id :: "AcceptanceCriterionId option"
  eor_evidence_claim_id :: "EvidenceClaimId option"
  eor_source_kind :: EvidenceSourceKind
  eor_assurance_level :: EvidenceAssuranceLevel
  eor_producer_anchor :: EvidenceProducerAnchor
  eor_relevance_assessment :: EvidenceRelevanceAssessment

fun stored_observation_target_matches ::
  "EvidenceObservationRecord \<Rightarrow> EvidenceTarget \<Rightarrow> bool" where
  "stored_observation_target_matches r (EvidenceTarget.AcceptanceCriterion criterion_id) \<longleftrightarrow>
     eor_acceptance_criterion_id r = Some criterion_id \<and> eor_evidence_claim_id r = None"
| "stored_observation_target_matches r (EvidenceTarget.SupplementalClaim claim_id _) \<longleftrightarrow>
     eor_evidence_claim_id r = Some claim_id \<and> eor_acceptance_criterion_id r = None"

definition acceptance_criterion_target_is_current ::
  "AcceptanceCriterionRecord option \<Rightarrow> TaskId \<Rightarrow> bool" where
  "acceptance_criterion_target_is_current r task_id =
     is_some_and r (\<lambda>r. acr_task_id r = task_id \<and> acr_status r = AcceptanceCriterionStatus.Active)"

definition projected_observation_matches_close_basis ::
  "EvidenceObservation \<Rightarrow> CurrentCloseBasis \<Rightarrow> EvidenceTarget \<Rightarrow> bool" where
  "projected_observation_matches_close_basis observation basis target \<longleftrightarrow>
     eo_change_unit_id observation = Some (ccb_change_unit_id basis) \<and>
     is_some_and (eo_run_ref observation) (\<lambda>run_ref.
       is_some_and (ccb_source_run_ref basis) (\<lambda>source. ref_record_id run_ref = ref_record_id source)) \<and>
     eo_target observation = target"

definition stored_observation_matches_close_basis ::
  "EvidenceObservationRecord \<Rightarrow> CurrentCloseBasis \<Rightarrow> EvidenceTarget \<Rightarrow> bool" where
  "stored_observation_matches_close_basis r basis target \<longleftrightarrow>
     eor_change_unit_id r = Some (ccb_change_unit_id basis) \<and>
     is_some_and (ccb_source_run_ref basis) (\<lambda>source. eor_run_id r = Some (ref_record_id source)) \<and>
     stored_observation_target_matches r target"

definition close_basis_is_current ::
  "CurrentCloseBasis \<Rightarrow> TaskId \<Rightarrow> ChangeUnitId option \<Rightarrow> u64 \<Rightarrow> u64 \<Rightarrow> BaselineRef option \<Rightarrow> bool" where
  "close_basis_is_current basis task_id current_change_unit_id scope_revision close_basis_revision
     baseline_ref \<longleftrightarrow>
     ccb_task_id basis = task_id \<and>
     current_change_unit_id = Some (ccb_change_unit_id basis) \<and>
     ccb_scope_revision basis = scope_revision \<and>
     ccb_close_basis_revision basis = close_basis_revision \<and>
     ccb_baseline_ref basis = baseline_ref"

definition is_run_ref :: "StateRecordRef \<Rightarrow> bool" where
  "is_run_ref r \<longleftrightarrow> ref_record_kind r = StateRecordKind.Run"

definition close_basis_run_refs :: "CurrentCloseBasis \<Rightarrow> StateRecordRef list" where
  "close_basis_run_refs basis =
     (case ccb_source_run_ref basis of
        Some source \<Rightarrow> if is_run_ref source then [source] else []
      | None \<Rightarrow> []) @
     filter is_run_ref (ccb_result_refs basis) @
     filter is_run_ref (concat (map rr_source_refs (ccb_residual_risks basis)))"

definition run_record_matches_close_basis_context ::
  "RunRecord \<Rightarrow> ProjectId \<Rightarrow> TaskId \<Rightarrow> ChangeUnitId \<Rightarrow> u64 \<Rightarrow> BaselineRef option \<Rightarrow> bool" where
  "run_record_matches_close_basis_context r project_id task_id change_unit_id scope_revision
     baseline_ref \<longleftrightarrow>
     run_project_id r = project_id \<and> run_task_id r = task_id \<and>
     run_change_unit_id r = Some change_unit_id \<and>
     run_scope_revision r = scope_revision \<and>
     run_baseline_ref r = baseline_ref \<and> run_status r = Recorded"

record EvidenceClaimRecord =
  ecr_project_id :: ProjectId
  ecr_evidence_claim_id :: EvidenceClaimId
  ecr_task_id :: TaskId
  ecr_statement :: string

definition supplemental_claim_target_matches :: "EvidenceClaimRecord option \<Rightarrow> string \<Rightarrow> bool" where
  "supplemental_claim_target_matches r statement \<longleftrightarrow>
     (case r of None \<Rightarrow> True | Some r \<Rightarrow> ecr_statement r = statement)"

record EvidenceObservationBasis =
  eob_project_id :: ProjectId
  eob_task_id :: TaskId
  eob_change_unit_id :: ChangeUnitId
  eob_scope_revision :: u64
  eob_baseline_ref :: "BaselineRef option"
  eob_target :: EvidenceTarget
  eob_now :: UtcTimestamp

definition projected_observation_matches_basis ::
  "EvidenceObservation \<Rightarrow> EvidenceObservationBasis \<Rightarrow> bool" where
  "projected_observation_matches_basis observation basis \<longleftrightarrow>
     eo_project_id observation = eob_project_id basis \<and>
     eo_task_id observation = eob_task_id basis \<and>
     eo_change_unit_id observation = Some (eob_change_unit_id basis) \<and>
     eo_target observation = eob_target basis"

definition stored_observation_matches_basis ::
  "EvidenceObservationRecord \<Rightarrow> RunRecord option \<Rightarrow> EvidenceObservationBasis \<Rightarrow> bool" where
  "stored_observation_matches_basis r source_run basis \<longleftrightarrow>
     eor_project_id r = eob_project_id basis \<and>
     eor_task_id r = eob_task_id basis \<and>
     eor_change_unit_id r = Some (eob_change_unit_id basis) \<and>
     stored_observation_target_matches r (eob_target basis) \<and>
     is_some_and source_run (\<lambda>run. run_record_matches_close_basis_context run
       (eob_project_id basis) (eob_task_id basis) (eob_change_unit_id basis)
       (eob_scope_revision basis) (eob_baseline_ref basis))"

subsection \<open>Interpretation of a coverage item\<close>

datatype CloseEvidenceIssueKind =
    Missing | Unsupported | Stale | AgentReportOnly | InsufficientProvenance

datatype CloseEvidenceObservationDisposition =
    StrongSupported | UnsupportedRelevance | CooperativeAgentReport | Weak | Stale

definition interpret_close_evidence_item ::
  "EvidenceCoverageItem \<Rightarrow> AcceptanceCriterionId list \<Rightarrow> bool \<Rightarrow>
     CloseEvidenceObservationDisposition list \<Rightarrow> CloseEvidenceIssueKind option" where
  "interpret_close_evidence_item item required_criterion_ids has_current_close_basis dispositions =
     (case eci_target item of
        EvidenceTarget.SupplementalClaim _ _ \<Rightarrow> None
      | EvidenceTarget.AcceptanceCriterion criterion_id \<Rightarrow>
          if criterion_id \<notin> set required_criterion_ids then None
          else if eci_coverage_state item \<noteq> EvidenceCoverageState.Supported then
            Some (if eci_coverage_state item = EvidenceCoverageState.Stale
                  then CloseEvidenceIssueKind.Stale
                  else if evidence_item_has_no_support item then CloseEvidenceIssueKind.Missing
                  else CloseEvidenceIssueKind.Unsupported)
          else if \<not> has_current_close_basis then Some CloseEvidenceIssueKind.Missing
          else if dispositions = [] then Some CloseEvidenceIssueKind.InsufficientProvenance
          else if CloseEvidenceObservationDisposition.StrongSupported \<in> set dispositions then None
          else if CloseEvidenceObservationDisposition.UnsupportedRelevance \<in> set dispositions
          then Some CloseEvidenceIssueKind.Unsupported
          else
            let has_cooperative =
                  CloseEvidenceObservationDisposition.CooperativeAgentReport \<in> set dispositions;
                has_weak = CloseEvidenceObservationDisposition.Weak \<in> set dispositions;
                has_stale = CloseEvidenceObservationDisposition.Stale \<in> set dispositions
            in Some (if has_cooperative \<and> \<not> has_weak then CloseEvidenceIssueKind.AgentReportOnly
                     else if has_stale \<and> \<not> has_cooperative \<and> \<not> has_weak
                     then CloseEvidenceIssueKind.Stale
                     else CloseEvidenceIssueKind.InsufficientProvenance))"

subsection \<open>Evidence summary at close\<close>

text \<open>The source's \<open>BTreeSet<String>\<close> of criterion ids is its ascending list.\<close>

definition criterion_ids_requiring ::
  "EvidenceRequirement \<Rightarrow> AcceptanceCriterion list \<Rightarrow> AcceptanceCriterionId list" where
  "criterion_ids_requiring requirement criteria =
     btree_set (map ac_acceptance_criterion_id
       (filter (\<lambda>c. ac_evidence_requirement c = requirement) criteria))"

definition required_acceptance_criterion_ids ::
  "AcceptanceCriterion list \<Rightarrow> AcceptanceCriterionId list" where
  "required_acceptance_criterion_ids criteria =
     criterion_ids_requiring EvidenceRequirement.Required criteria"

definition targets_criterion :: "AcceptanceCriterionId \<Rightarrow> EvidenceCoverageItem \<Rightarrow> bool" where
  "targets_criterion criterion_id item \<longleftrightarrow>
     eci_target item = EvidenceTarget.AcceptanceCriterion criterion_id"

definition unsupported_item :: "AcceptanceCriterionId \<Rightarrow> EvidenceCoverageItem" where
  "unsupported_item criterion_id = \<lparr>
     eci_target = EvidenceTarget.AcceptanceCriterion criterion_id,
     eci_coverage_state = EvidenceCoverageState.Unsupported,
     eci_supporting_run_refs = [], eci_observation_refs = [],
     eci_supporting_artifact_refs = [], eci_gap_refs = []\<rparr>"

fun add_required_items ::
  "AcceptanceCriterionId list \<Rightarrow> EvidenceCoverageItem list \<Rightarrow> EvidenceCoverageItem list" where
  "add_required_items [] items = items"
| "add_required_items (criterion_id # rest) items =
     add_required_items rest
       (if list_ex (targets_criterion criterion_id) items then items
        else items @ [unsupported_item criterion_id])"

definition empty_evidence_summary :: EvidenceSummary where
  "empty_evidence_summary = \<lparr>
     es_evidence_state = None, es_status = EvidenceStatus.Unknown, es_coverage_items = [],
     es_artifact_refs = [], es_observation_refs = [], es_updated_by_run_ref = None\<rparr>"

definition evidence_summary_with_required_ids ::
  "EvidenceSummary option \<Rightarrow> AcceptanceCriterionId list \<Rightarrow> EvidenceSummary option" where
  "evidence_summary_with_required_ids summary required =
     (if summary = None \<and> required = [] then None
      else
        let s = (case summary of Some s \<Rightarrow> s | None \<Rightarrow> empty_evidence_summary);
            items = add_required_items required (es_coverage_items s)
        in Some (s\<lparr>es_coverage_items := items, es_status := evidence_status_for_items items\<rparr>))"

definition evidence_summary_with_required_criteria ::
  "EvidenceSummary option \<Rightarrow> AcceptanceCriterion list \<Rightarrow> EvidenceSummary option" where
  "evidence_summary_with_required_criteria summary criteria =
     evidence_summary_with_required_ids summary (required_acceptance_criterion_ids criteria)"

record CloseEvidenceRunFacts =
  cerf_project_id :: string
  cerf_task_id :: string
  cerf_change_unit_id :: "string option"
  cerf_scope_revision :: u64

record CloseEvidenceSummaryFacts =
  cesf_task_project_id :: string
  cesf_task_id :: string
  cesf_task_change_unit_id :: "string option"
  cesf_task_scope_revision :: u64
  cesf_summary_change_unit_id :: "string option"
  cesf_updated_by_run_declared :: bool
  cesf_updated_by_run :: "CloseEvidenceRunFacts option"
  cesf_updated_by_run_ref :: "StateRecordRef option"
  cesf_coverage_items :: "EvidenceCoverageItem list"

definition evidence_scope_is_stale :: "CloseEvidenceSummaryFacts \<Rightarrow> bool" where
  "evidence_scope_is_stale facts =
     (if cesf_updated_by_run_declared facts then
        (case cesf_updated_by_run facts of
           None \<Rightarrow> True
         | Some run \<Rightarrow>
             cerf_project_id run \<noteq> cesf_task_project_id facts \<or>
             cerf_task_id run \<noteq> cesf_task_id facts \<or>
             cerf_scope_revision run \<noteq> cesf_task_scope_revision facts \<or>
             cerf_change_unit_id run \<noteq> cesf_task_change_unit_id facts \<or>
             cesf_summary_change_unit_id facts \<noteq> cesf_task_change_unit_id facts)
      else False)"

definition artifact_is_usable :: "ArtifactRef \<Rightarrow> bool" where
  "artifact_is_usable artifact \<longleftrightarrow>
     art_availability artifact = ArtifactAvailability.Available \<and>
     art_integrity_status artifact = ArtifactIntegrityStatus.Verified"

definition age_coverage_item :: "bool \<Rightarrow> EvidenceCoverageItem \<Rightarrow> EvidenceCoverageItem" where
  "age_coverage_item scope_is_stale item =
     (if eci_coverage_state item = EvidenceCoverageState.Supported \<and>
         (scope_is_stale \<or>
          list_ex (\<lambda>artifact. \<not> artifact_is_usable artifact) (eci_supporting_artifact_refs item))
      then item\<lparr>eci_coverage_state := EvidenceCoverageState.Stale\<rparr>
      else item)"

definition project_close_evidence_summary ::
  "CloseEvidenceSummaryFacts \<Rightarrow> AcceptanceCriterionId list \<Rightarrow> EvidenceSummary option" where
  "project_close_evidence_summary facts required_criterion_ids =
     (let items = map (age_coverage_item (evidence_scope_is_stale facts)) (cesf_coverage_items facts);
          summary =
            (if items = [] then None
             else Some \<lparr>
               es_evidence_state = None,
               es_status = evidence_status_for_items items,
               es_coverage_items = items,
               es_artifact_refs =
                 unique_artifact_refs (concat (map eci_supporting_artifact_refs items)),
               es_observation_refs =
                 unique_state_record_refs (concat (map eci_observation_refs items)),
               es_updated_by_run_ref = cesf_updated_by_run_ref facts\<rparr>)
      in evidence_summary_with_required_ids summary required_criterion_ids)"

subsection \<open>Evidence gate\<close>

record EvidenceGateSummary =
  egs_state :: EvidenceGateState

definition criterion_item ::
  "EvidenceCoverageItem list \<Rightarrow> AcceptanceCriterionId \<Rightarrow> EvidenceCoverageItem option" where
  "criterion_item coverage_items criterion_id = find (targets_criterion criterion_id) coverage_items"

definition required_coverage_items ::
  "AcceptanceCriterionId list \<Rightarrow> EvidenceCoverageItem list \<Rightarrow> EvidenceCoverageItem list" where
  "required_coverage_items required_ids coverage_items =
     filter (\<lambda>item. case eci_target item of
         EvidenceTarget.AcceptanceCriterion criterion_id \<Rightarrow> criterion_id \<in> set required_ids
       | EvidenceTarget.SupplementalClaim _ _ \<Rightarrow> False) coverage_items"

definition evidence_provenance_stale :: string where
  "evidence_provenance_stale = ''evidence_provenance_stale''"

definition blocker_blocks_evidence :: "string list \<Rightarrow> CloseReadinessBlocker \<Rightarrow> bool" where
  "blocker_blocks_evidence required_artifact_ids blocker \<longleftrightarrow>
     crb_category blocker = CloseReadinessBlockerCategory.Evidence \<or>
     crb_category blocker = CloseReadinessBlockerCategory.ArtifactAvailability \<and>
       list_ex (\<lambda>r. ref_record_kind r = StateRecordKind.Artifact \<and>
         ref_record_id r \<in> set required_artifact_ids) (crb_related_refs blocker) \<or>
     crb_category blocker = CloseReadinessBlockerCategory.EvidenceProvenance \<and>
       crb_code blocker \<noteq> evidence_provenance_stale"

definition item_is_sufficient :: "EvidenceCoverageItem \<Rightarrow> bool" where
  "item_is_sufficient item \<longleftrightarrow> eci_coverage_state item = EvidenceCoverageState.Supported"

definition item_has_recorded_evidence :: "EvidenceCoverageItem \<Rightarrow> bool" where
  "item_has_recorded_evidence item \<longleftrightarrow> \<not> evidence_item_has_no_support item"

definition has_blocking_evidence_condition ::
  "EvidenceCoverageItem list \<Rightarrow> CloseReadinessBlocker list \<Rightarrow> bool" where
  "has_blocking_evidence_condition required_items close_blockers \<longleftrightarrow>
     list_ex (blocker_blocks_evidence
       (map art_artifact_id (concat (map eci_supporting_artifact_refs required_items))))
       close_blockers \<or>
     list_ex (\<lambda>item. eci_coverage_state item = EvidenceCoverageState.Contradicted) required_items"

definition has_stale_evidence ::
  "EvidenceCoverageItem list \<Rightarrow> CloseReadinessBlocker list \<Rightarrow> bool" where
  "has_stale_evidence required_items close_blockers \<longleftrightarrow>
     list_ex (\<lambda>blocker. crb_category blocker = CloseReadinessBlockerCategory.EvidenceProvenance \<and>
       crb_code blocker = evidence_provenance_stale) close_blockers \<or>
     list_ex (\<lambda>item. eci_coverage_state item = EvidenceCoverageState.Stale) required_items"

definition evaluate_evidence_gate ::
  "AcceptanceCriterion list \<Rightarrow> EvidenceSummary option \<Rightarrow> CloseReadinessBlocker list \<Rightarrow>
     EvidenceGateSummary" where
  "evaluate_evidence_gate criteria evidence_summary close_blockers =
     (let required_ids = criterion_ids_requiring EvidenceRequirement.Required criteria;
          optional_ids = criterion_ids_requiring EvidenceRequirement.Optional criteria;
          coverage_items = (case evidence_summary of Some s \<Rightarrow> es_coverage_items s | None \<Rightarrow> []);
          required_items = required_coverage_items required_ids coverage_items
      in
      \<lparr>egs_state =
        (if required_ids = [] \<and> optional_ids = [] then EvidenceGateState.NotRequired
         else if has_blocking_evidence_condition required_items close_blockers
         then EvidenceGateState.Blocked
         else if has_stale_evidence required_items close_blockers then EvidenceGateState.Stale
         else if required_ids \<noteq> [] then
           (if \<not> list_ex (\<lambda>blocker. crb_category blocker =
                 CloseReadinessBlockerCategory.EvidenceClaim) close_blockers \<and>
               list_all (\<lambda>i. is_some_and (criterion_item coverage_items i) item_is_sufficient)
                 required_ids
            then EvidenceGateState.Sufficient
            else if list_ex (\<lambda>i. is_some_and (criterion_item coverage_items i)
                item_has_recorded_evidence) required_ids
            then EvidenceGateState.Partial
            else EvidenceGateState.RequiredMissing)
         else
           let optional_items = filter item_has_recorded_evidence
                 (List.map_filter (criterion_item coverage_items) optional_ids)
           in if optional_items = [] then EvidenceGateState.OptionalNone
              else if list_all item_is_sufficient optional_items then EvidenceGateState.Sufficient
              else EvidenceGateState.Partial)\<rparr>)"

subsection \<open>Effect contract of a change unit\<close>

datatype EffectContractValidationError =
    ConflictingEffect ChangeUnitEffectKind
  | EmptyText string

datatype EffectContractViolation = FileWriteForbidden | FileWriteNotAllowed | PathNotAllowed

definition has_empty_text :: "string list \<Rightarrow> bool" where
  "has_empty_text values = list_ex (\<lambda>v. trim v = []) values"

definition validate_effect_contract ::
  "ChangeUnitEffectContract \<Rightarrow> (unit, EffectContractValidationError) result" where
  "validate_effect_contract contract =
     (case find (\<lambda>effect. effect \<in> set (ec_forbidden_effects contract))
         (ec_allowed_effects contract) of
        Some effect \<Rightarrow> Err (ConflictingEffect effect)
      | None \<Rightarrow>
          (case find (\<lambda>(field, values). has_empty_text values)
              [(''allowed_paths'', ec_allowed_paths contract),
               (''expected_outputs'', ec_expected_outputs contract),
               (''invariants'', ec_invariants contract),
               (''evidence_expectations'', ec_evidence_expectations contract),
               (''sensitive_action_expectations'', ec_sensitive_action_expectations contract)] of
             Some (field, values) \<Rightarrow> Err (EmptyText field)
           | None \<Rightarrow> Ok ()))"

definition dedupe_violations :: "EffectContractViolation list \<Rightarrow> EffectContractViolation list" where
  "dedupe_violations = unique_by (\<lambda>violation. violation)"

definition product_write_violations ::
  "ChangeUnitEffectContract \<Rightarrow> bool \<Rightarrow> string list \<Rightarrow>
     (EffectContractViolation list, ProductPathError) result" where
  "product_write_violations contract product_file_write_intended intended_paths =
     (if \<not> product_file_write_intended then Ok []
      else
        let forbidden = (if ProductFileWrite \<in> set (ec_forbidden_effects contract)
              then [FileWriteForbidden] else []);
            not_allowed = (if ec_allowed_effects contract \<noteq> [] \<and>
                ProductFileWrite \<notin> set (ec_allowed_effects contract)
              then [FileWriteNotAllowed] else [])
        in if ec_allowed_paths contract \<noteq> [] \<and> intended_paths \<noteq> [] then
             and_then (parse_product_paths (ec_allowed_paths contract)) (\<lambda>allowed.
               Ok (dedupe_violations (forbidden @ not_allowed @
                 (if list_ex (\<lambda>path. list_all (\<lambda>p. \<not> path_is_within path (as_str p)) allowed)
                     intended_paths
                  then [PathNotAllowed] else []))))
           else Ok (dedupe_violations (forbidden @ not_allowed)))"

subsection \<open>Sample inputs\<close>

definition sample_criterion :: AcceptanceCriterion where
  "sample_criterion = \<lparr>ac_acceptance_criterion_id = ''ac_1'', ac_statement = ''tests pass'',
     ac_evidence_requirement = EvidenceRequirement.Required\<rparr>"

definition sample_coverage_item :: EvidenceCoverageItem where
  "sample_coverage_item = (unsupported_item ''ac_1'')\<lparr>
     eci_coverage_state := EvidenceCoverageState.Supported,
     eci_observation_refs := [state_ref StateRecordKind.EvidenceObservation ''obs_1'' ''p''
       (Some ''task_1'') (Some 4)]\<rparr>"

definition sample_summary_facts :: CloseEvidenceSummaryFacts where
  "sample_summary_facts = \<lparr>
     cesf_task_project_id = ''p'', cesf_task_id = ''task_1'',
     cesf_task_change_unit_id = Some ''cu_1'', cesf_task_scope_revision = 2,
     cesf_summary_change_unit_id = Some ''cu_1'', cesf_updated_by_run_declared = True,
     cesf_updated_by_run = Some \<lparr>cerf_project_id = ''p'', cerf_task_id = ''task_1'',
       cerf_change_unit_id = Some ''cu_1'', cerf_scope_revision = 2\<rparr>,
     cesf_updated_by_run_ref = None,
     cesf_coverage_items = [sample_coverage_item]\<rparr>"

subsection \<open>Library lemmas\<close>

lemma record_kind_serde_inj: "record_kind_serde a = record_kind_serde b \<longleftrightarrow> a = b"
proof -
  have "inj record_kind_serde"
    by (rule injI) (auto elim!: record_kind_serde.elims)
  then show ?thesis by (rule inj_eq)
qed

lemma identity_key_eq_iff:
  "state_record_ref_identity_key a = state_record_ref_identity_key b \<longleftrightarrow>
     ref_project_id a = ref_project_id b \<and> ref_record_kind a = ref_record_kind b \<and>
     ref_record_id a = ref_record_id b"
  by (simp add: state_record_ref_identity_key_def record_kind_serde_inj)

interpretation state_refs: keyed_dedup state_record_ref_identity_key unique_state_refs
  unfolding unique_state_refs_def by (rule unique_by.keyed_dedup_axioms)

interpretation state_record_refs: keyed_dedup state_record_ref_identity_key unique_state_record_refs
  unfolding unique_state_record_refs_def by (rule unique_by.keyed_dedup_axioms)

interpretation artifact_refs: keyed_dedup art_artifact_id unique_artifact_refs
  unfolding unique_artifact_refs_def by (rule unique_by.keyed_dedup_axioms)

interpretation violations: keyed_dedup "\<lambda>violation. violation" dedupe_violations
  unfolding dedupe_violations_def by (rule unique_by.keyed_dedup_axioms)

lemma classify_provenance_Strong_iff [evidence_simps]:
  "classify_evidence_provenance facts = EvidenceProvenanceClass.Strong \<longleftrightarrow>
     epf_basis_matches facts \<and> epf_artifact_binding_matches facts \<and>
     epf_producer_binding_matches facts \<and>
     evidence_assurance_matches_source (epf_source_kind facts) (epf_assurance_level facts) \<and>
     epf_source_kind facts \<noteq> EvidenceSourceKind.AgentReport \<and>
     epf_source_kind facts \<noteq> EvidenceSourceKind.UnverifiedClaim"
  by (cases "epf_source_kind facts"; cases "epf_assurance_level facts")
    (simp_all add: classify_evidence_provenance_def)

lemma interpret_item_clear_iff [evidence_simps]:
  assumes "eci_target item = EvidenceTarget.AcceptanceCriterion c" and "c \<in> set required"
  shows "interpret_close_evidence_item item required has_basis dispositions = None \<longleftrightarrow>
     eci_coverage_state item = EvidenceCoverageState.Supported \<and> has_basis \<and>
     CloseEvidenceObservationDisposition.StrongSupported \<in> set dispositions"
  using assms by (auto simp: interpret_close_evidence_item_def Let_def)

lemma targets_unsupported_item [simp]: "targets_criterion c (unsupported_item d) \<longleftrightarrow> c = d"
  by (auto simp: targets_criterion_def unsupported_item_def)

lemma add_required_items_append: "\<exists>added. add_required_items required items = items @ map unsupported_item added"
proof (induction required arbitrary: items)
  case (Cons c rest)
  obtain added where "add_required_items rest
      (if list_ex (targets_criterion c) items then items else items @ [unsupported_item c]) =
      (if list_ex (targets_criterion c) items then items else items @ [unsupported_item c]) @
      map unsupported_item added"
    using Cons.IH by blast
  then have "add_required_items (c # rest) items = items @ map unsupported_item
      (if list_ex (targets_criterion c) items then added else c # added)" by simp
  then show ?case by blast
qed (simp add: exI[of _ "[]"])

lemma add_required_items_supported:
  "item \<in> set (add_required_items required items) \<Longrightarrow>
     eci_coverage_state item = EvidenceCoverageState.Supported \<Longrightarrow> item \<in> set items"
  using add_required_items_append[of required items] by (auto simp: unsupported_item_def)

lemma add_required_items_targets_mono:
  "list_ex (targets_criterion c) items \<Longrightarrow> list_ex (targets_criterion c) (add_required_items required items)"
  using add_required_items_append[of required items] by auto

lemma add_required_items_covers:
  "c \<in> set required \<Longrightarrow> list_ex (targets_criterion c) (add_required_items required items)"
proof (induction required arbitrary: items)
  case (Cons d rest)
  show ?case
  proof (cases "c = d")
    case True
    then show ?thesis by (simp add: add_required_items_targets_mono)
  next
    case False
    with Cons show ?thesis by simp
  qed
qed simp

lemma criterion_item_SomeD:
  "criterion_item items c = Some item \<Longrightarrow> item \<in> set items \<and> targets_criterion c item"
  by (auto simp: criterion_item_def find_Some_iff)

lemma age_coverage_item_supported:
  "eci_coverage_state (age_coverage_item stale item) = EvidenceCoverageState.Supported \<longleftrightarrow>
     eci_coverage_state item = EvidenceCoverageState.Supported \<and> \<not> stale \<and>
     list_all artifact_is_usable (eci_supporting_artifact_refs item)"
  by (auto simp: age_coverage_item_def list_all_iff list_ex_iff)

lemma age_coverage_item_target [simp]: "eci_target (age_coverage_item stale item) = eci_target item"
  by (simp add: age_coverage_item_def)

lemma gate_state_required:
  assumes "criterion_ids_requiring EvidenceRequirement.Required criteria \<noteq> []"
    and "egs_state (evaluate_evidence_gate criteria (Some s) blockers) = EvidenceGateState.Sufficient"
    and "c \<in> set (criterion_ids_requiring EvidenceRequirement.Required criteria)"
  shows "is_some_and (criterion_item (es_coverage_items s) c) item_is_sufficient"
  using assms
  by (simp add: evaluate_evidence_gate_def Let_def list_all_iff split: if_splits)

lemma gate_sufficient_blockers:
  assumes "criterion_ids_requiring EvidenceRequirement.Required criteria \<noteq> []"
    and "egs_state (evaluate_evidence_gate criteria summary blockers) = EvidenceGateState.Sufficient"
    and "b \<in> set blockers"
  shows "crb_category b \<notin> {CloseReadinessBlockerCategory.Evidence,
    CloseReadinessBlockerCategory.EvidenceClaim, CloseReadinessBlockerCategory.EvidenceProvenance}"
  using assms
  by (auto simp: evaluate_evidence_gate_def Let_def has_blocking_evidence_condition_def
      has_stale_evidence_def blocker_blocks_evidence_def list_ex_iff split: if_splits)

lemma projected_summary_items:
  "es_coverage_items (the (project_close_evidence_summary facts required)) =
     add_required_items required
       (map (age_coverage_item (evidence_scope_is_stale facts)) (cesf_coverage_items facts))"
  if "required \<noteq> []"
  using that
  by (simp add: project_close_evidence_summary_def evidence_summary_with_required_ids_def Let_def
      empty_evidence_summary_def)

lemma projected_summary_exists:
  "required \<noteq> [] \<Longrightarrow> \<exists>s. project_close_evidence_summary facts required = Some s"
  by (simp add: project_close_evidence_summary_def evidence_summary_with_required_ids_def Let_def)

lemma parse_product_paths_as_str:
  "parse_product_paths raw = Ok ps \<Longrightarrow> map as_str ps = raw"
  by (auto simp: parse_product_paths_def collect_results_Ok_iff parse_Ok_iff
      list_all2_conv_all_nth intro!: nth_equalityI)

subsection \<open>Properties\<close>



text \<open>A product write raises no effect-contract violation exactly when file writes are not
  forbidden, are among the allowed effects (if any are listed), and every intended path is
  contained in an allowed path (if any are listed).
\<close>

theorem product_write_clean_iff:
  "product_write_violations contract True paths = Ok [] \<longleftrightarrow>
     ProductFileWrite \<notin> set (ec_forbidden_effects contract) \<and>
     (ec_allowed_effects contract = [] \<or> ProductFileWrite \<in> set (ec_allowed_effects contract)) \<and>
     (ec_allowed_paths contract = [] \<or> paths = [] \<or>
      is_ok (parse_product_paths (ec_allowed_paths contract)) \<and>
      paths_are_authorized paths (ec_allowed_paths contract))"
proof (cases "ec_allowed_paths contract = [] \<or> paths = []")
  case True
  then show ?thesis by (auto simp: product_write_violations_def violations.empty_iff)
next
  case False
  have *: "list_ex (\<lambda>path. list_all (\<lambda>p. \<not> path_is_within path (as_str p)) ps) paths \<longleftrightarrow>
      \<not> paths_are_authorized paths (ec_allowed_paths contract)"
    if "parse_product_paths (ec_allowed_paths contract) = Ok ps" for ps
    using False parse_product_paths_as_str[OF that, symmetric]
    by (auto simp: paths_are_authorized_def list_ex_iff list_all_iff)
  show ?thesis
  proof (cases "parse_product_paths (ec_allowed_paths contract)")
    case (Ok ps)
    with False *[OF Ok] show ?thesis
      by (auto simp: product_write_violations_def violations.empty_iff)
  next
    case (Err e)
    with False show ?thesis by (simp add: product_write_violations_def)
  qed
qed

end
