(* ===== verification/WriteTicket.thy ===== *)
theory WriteTicket
  imports EvidencePolicy
begin

text \<open>
  Write tickets after they are stored (\<open>volicord-core/src/write_ticket/\<close>: \<open>semantic.rs\<close>,
  \<open>approval.rs\<close>, \<open>current_validity.rs\<close>, \<open>policy.rs\<close>, \<open>facts.rs\<close>, \<open>admission.rs\<close>, \<open>selection.rs\<close>,
  \<open>service.rs\<close>): the type states a stored ticket moves through, the approval basis a ticket rests on,
  the admission of a recorded run and the selection of one ticket.  The digest of a Git workspace
  context is computed by serialization and SHA-256; it is the parameter \<open>workspace_digest\<close>.
\<close>

subsection \<open>Semantic facts\<close>

record WriteTicketSemanticFacts =
  sem_project_id :: ProjectId
  sem_basis_state_version :: u64
  sem_validity_basis :: WriteTicketValidityBasis
  sem_path_scope :: WriteTicketPathScope
  sem_attempt_scope :: WriteTicketAttemptScope
  sem_idle_expires_at :: "UtcTimestamp option"

record StoredWriteTicketFacts =
  swf_write_ticket_id :: WriteTicketId
  swf_ticket :: WriteTicketSemanticFacts
  swf_status :: WriteTicketStatus
  swf_invalidation_reason :: "WriteTicketInvalidationReason option"
  swf_consumed_by_run_id :: "RunId option"

definition from_record :: "StoredWriteTicket \<Rightarrow> StoredWriteTicketFacts" where
  "from_record r = \<lparr>
     swf_write_ticket_id = wt_write_ticket_id r,
     swf_ticket = \<lparr>
       sem_project_id = wt_project_id r,
       sem_basis_state_version = wt_basis_state_version r,
       sem_validity_basis = wt_validity_basis r,
       sem_path_scope = wt_path_scope r,
       sem_attempt_scope = wt_attempt_scope r,
       sem_idle_expires_at = wt_idle_expires_at r\<rparr>,
     swf_status = wt_status r,
     swf_invalidation_reason = wt_invalidation_reason r,
     swf_consumed_by_run_id = wt_consumed_by_run_id r\<rparr>"

subsection \<open>Approval basis\<close>

text \<open>A \<open>BTreeSet\<close> of resolution identities is its ascending list.\<close>

definition identity_key :: "UserActionResolutionIdentity \<Rightarrow> string \<times> string \<times> string" where
  "identity_key i = (identity_project_id i, identity_task_id i, identity_resolution_id i)"

definition identity_set ::
  "UserActionResolutionIdentity list \<Rightarrow> UserActionResolutionIdentity list" where
  "identity_set identities = sort_key identity_key (remdups identities)"

record WriteTicketApprovalRequirement =
  war_project_id :: ProjectId
  war_scope_revision :: u64
  war_effective_control_level :: TaskControlLevel
  war_scope :: WriteTicketAttemptScope
  war_normalized_paths :: "string list"
  war_observed_at :: UtcTimestamp

definition new_approval_requirement ::
  "ProjectId \<Rightarrow> u64 \<Rightarrow> TaskControlLevel \<Rightarrow> WriteTicketAttemptScope \<Rightarrow> UtcTimestamp \<Rightarrow>
     WriteTicketApprovalRequirement" where
  "new_approval_requirement project_id scope_revision control scope observed_at = \<lparr>
     war_project_id = project_id, war_scope_revision = scope_revision,
     war_effective_control_level = control, war_scope = scope,
     war_normalized_paths = map as_str (as_intended_paths scope), war_observed_at = observed_at\<rparr>"

definition approval_is_required :: "WriteTicketApprovalRequirement \<Rightarrow> bool" where
  "approval_is_required r \<longleftrightarrow>
     war_effective_control_level r = TaskControlLevel.Sensitive \<or>
     as_sensitive_categories (war_scope r) \<noteq> []"

definition sensitive_requirement ::
  "WriteTicketApprovalRequirement \<Rightarrow> SensitiveApprovalRequirement" where
  "sensitive_requirement r = \<lparr>
     req_task_id = as_task_id (war_scope r),
     req_change_unit_id = as_change_unit_id (war_scope r),
     req_scope_revision = war_scope_revision r,
     req_operation = as_intended_operation (war_scope r),
     req_normalized_paths = war_normalized_paths r,
     req_sensitive_categories = as_sensitive_categories (war_scope r),
     req_baseline_ref = as_baseline_ref (war_scope r),
     req_required_for = UserActionRequiredFor.PrepareWrite,
     req_now = war_observed_at r\<rparr>"

definition has_current_owner ::
  "WriteTicketApprovalRequirement \<Rightarrow> UserActionAuthority \<Rightarrow> bool" where
  "has_current_owner r authority \<longleftrightarrow>
     ua_project_id authority = war_project_id r \<and> ua_task_id authority = as_task_id (war_scope r)"

definition requirement_matches ::
  "WriteTicketApprovalRequirement \<Rightarrow> UserActionAuthority \<Rightarrow> bool" where
  "requirement_matches r authority \<longleftrightarrow>
     has_current_owner r authority \<and>
     current_sensitive_approval authority (sensitive_requirement r)"

record CurrentSensitiveApprovals =
  csa_identities :: "UserActionResolutionIdentity list"
  csa_scope_candidate_identities :: "UserActionResolutionIdentity list"

definition new_current_approvals ::
  "UserActionAuthority list \<Rightarrow> WriteTicketApprovalRequirement \<Rightarrow> CurrentSensitiveApprovals" where
  "new_current_approvals authorities requirement =
     (let owned = filter (has_current_owner requirement) authorities;
          identified = (\<lambda>P. List.map_filter authority_resolution_identity (filter P owned))
      in \<lparr>
        csa_identities = identity_set (identified (requirement_matches requirement)),
        csa_scope_candidate_identities = identity_set (identified (\<lambda>authority.
          accepted_current_user_authority authority UserActionKind.SensitiveApproval \<and>
          UserActionRequiredFor.PrepareWrite \<in> set (ua_required_for authority)))\<rparr>)"

record NonEmptyApprovalBasis =
  nab_identities :: "UserActionResolutionIdentity list"
  nab_primary :: UserActionResolutionIdentity

definition one_approval_basis :: "UserActionResolutionIdentity \<Rightarrow> NonEmptyApprovalBasis" where
  "one_approval_basis identity = \<lparr>nab_identities = [identity], nab_primary = identity\<rparr>"

definition primary_basis :: "CurrentSensitiveApprovals \<Rightarrow> NonEmptyApprovalBasis option" where
  "primary_basis approvals =
     (case csa_identities approvals of
        [] \<Rightarrow> None
      | identity # _ \<Rightarrow> Some (one_approval_basis identity))"

definition from_store_valid_refs ::
  "UserActionResolutionRef list \<Rightarrow> NonEmptyApprovalBasis option" where
  "from_store_valid_refs refs =
     (case identity_set (map resolution_identity refs) of
        [] \<Rightarrow> None
      | primary # rest \<Rightarrow> Some \<lparr>nab_identities = primary # rest, nab_primary = primary\<rparr>)"

definition resolution_refs ::
  "NonEmptyApprovalBasis \<Rightarrow> u64 \<Rightarrow> UserActionResolutionRef list" where
  "resolution_refs basis produced_at =
     map (\<lambda>identity. \<lparr>
       resolution_ref_record_id = identity_resolution_id identity,
       resolution_ref_project_id = identity_project_id identity,
       resolution_ref_task_id = identity_task_id identity,
       resolution_ref_produced_at = produced_at\<rparr>) (nab_identities basis)"

datatype ApprovalBasisChangeReason =
    ApprovalNowRequired
  | NoCurrentResolution
  | ApprovalScopeChanged UserActionResolutionIdentity
  | BasisResolutionNoLongerCurrent UserActionResolutionIdentity

datatype WriteTicketApprovalAssessment =
    NotRequired
  | Current NonEmptyApprovalBasis
  | Changed ApprovalBasisChangeReason

definition current_write_ticket_approval_basis ::
  "WriteTicketApprovalRequirement \<Rightarrow> UserActionAuthority list \<Rightarrow> NonEmptyApprovalBasis option" where
  "current_write_ticket_approval_basis requirement authorities =
     primary_basis (new_current_approvals authorities requirement)"

definition assess_write_ticket_approval ::
  "WriteTicketApprovalRequirement \<Rightarrow> UserActionAuthority list \<Rightarrow> UserActionResolutionRef list \<Rightarrow>
     WriteTicketApprovalAssessment" where
  "assess_write_ticket_approval requirement authorities persisted_refs =
     (let current = new_current_approvals authorities requirement in
      case from_store_valid_refs persisted_refs of
        None \<Rightarrow>
          if approval_is_required requirement
          then WriteTicketApprovalAssessment.Changed ApprovalNowRequired
          else WriteTicketApprovalAssessment.NotRequired
      | Some basis \<Rightarrow>
          if list_all (\<lambda>identity. identity \<in> set (csa_identities current)) (nab_identities basis)
          then WriteTicketApprovalAssessment.Current basis
          else (case find (\<lambda>identity. identity \<notin> set (csa_identities current))
                  (nab_identities basis) of
              None \<Rightarrow> WriteTicketApprovalAssessment.Current basis
            | Some missing \<Rightarrow>
                WriteTicketApprovalAssessment.Changed
                  (if missing \<in> set (csa_scope_candidate_identities current)
                   then ApprovalScopeChanged missing
                   else if csa_identities current = [] then NoCurrentResolution
                   else BasisResolutionNoLongerCurrent missing)))"

subsection \<open>Type states of a stored ticket\<close>

datatype WriteTicketAuthorityState =
    NotApplicable | Current | WriteAuthorityChanged | PendingPolicyReevaluation

record StoredWriteTicketState =
  sts_write_ticket_id :: WriteTicketId
  sts_ticket :: WriteTicketSemanticFacts

datatype ActiveStoredWriteTicketCandidate =
  ActiveStoredWriteTicketCandidate (cand_stored: StoredWriteTicketState)

datatype ReusableStoredWriteTicket =
  ReusableStoredWriteTicket (reusable_stored: StoredWriteTicketState)

record InvalidatedStoredWriteTicket =
  ivd_stored :: StoredWriteTicketState
  ivd_invalidation :: WriteTicketInvalidationReason
  ivd_authority :: WriteTicketAuthorityState

record ConsumedStoredWriteTicket =
  con_stored :: StoredWriteTicketState
  con_consumed_by_run_id :: RunId

record RevokedStoredWriteTicket =
  rev_stored :: StoredWriteTicketState
  rev_invalidation :: WriteTicketInvalidationReason

datatype StoredWriteTicketEvaluation =
    Reusable ReusableStoredWriteTicket
  | Invalidated InvalidatedStoredWriteTicket
  | Consumed ConsumedStoredWriteTicket
  | Revoked RevokedStoredWriteTicket

datatype TerminalStoredWriteTicketEvaluation =
    Invalidated InvalidatedStoredWriteTicket
  | Consumed ConsumedStoredWriteTicket
  | Revoked RevokedStoredWriteTicket

datatype ActiveStoredWriteTicketEvaluation =
    Reusable ReusableStoredWriteTicket
  | Invalidated InvalidatedStoredWriteTicket

datatype StoredTicketPreEvaluation =
    Complete TerminalStoredWriteTicketEvaluation
  | NeedsCurrentFacts ActiveStoredWriteTicketCandidate

datatype StoredWriteTicketStateError =
    ActiveLifecycleDetails | MissingInvalidationReason | MissingConsumingRun
  | UnexpectedConsumingRun

fun evaluation_stored :: "StoredWriteTicketEvaluation \<Rightarrow> StoredWriteTicketState" where
  "evaluation_stored (StoredWriteTicketEvaluation.Reusable t) = reusable_stored t"
| "evaluation_stored (StoredWriteTicketEvaluation.Invalidated t) = ivd_stored t"
| "evaluation_stored (StoredWriteTicketEvaluation.Consumed t) = con_stored t"
| "evaluation_stored (StoredWriteTicketEvaluation.Revoked t) = rev_stored t"

definition evaluation_write_ticket_id :: "StoredWriteTicketEvaluation \<Rightarrow> WriteTicketId" where
  "evaluation_write_ticket_id e = sts_write_ticket_id (evaluation_stored e)"

definition evaluation_semantic_facts ::
  "StoredWriteTicketEvaluation \<Rightarrow> WriteTicketSemanticFacts" where
  "evaluation_semantic_facts e = sts_ticket (evaluation_stored e)"

fun evaluation_status :: "StoredWriteTicketEvaluation \<Rightarrow> WriteTicketStatus" where
  "evaluation_status (StoredWriteTicketEvaluation.Reusable _) = WriteTicketStatus.Active"
| "evaluation_status (StoredWriteTicketEvaluation.Invalidated _) = WriteTicketStatus.Invalidated"
| "evaluation_status (StoredWriteTicketEvaluation.Consumed _) = WriteTicketStatus.Consumed"
| "evaluation_status (StoredWriteTicketEvaluation.Revoked _) = WriteTicketStatus.Revoked"

fun evaluation_invalidation ::
  "StoredWriteTicketEvaluation \<Rightarrow> WriteTicketInvalidationReason option" where
  "evaluation_invalidation (StoredWriteTicketEvaluation.Reusable _) = None"
| "evaluation_invalidation (StoredWriteTicketEvaluation.Consumed _) = None"
| "evaluation_invalidation (StoredWriteTicketEvaluation.Invalidated t) = Some (ivd_invalidation t)"
| "evaluation_invalidation (StoredWriteTicketEvaluation.Revoked t) = Some (rev_invalidation t)"

fun evaluation_consumed_by_run_id :: "StoredWriteTicketEvaluation \<Rightarrow> RunId option" where
  "evaluation_consumed_by_run_id (StoredWriteTicketEvaluation.Consumed t) =
     Some (con_consumed_by_run_id t)"
| "evaluation_consumed_by_run_id (StoredWriteTicketEvaluation.Reusable _) = None"
| "evaluation_consumed_by_run_id (StoredWriteTicketEvaluation.Invalidated _) = None"
| "evaluation_consumed_by_run_id (StoredWriteTicketEvaluation.Revoked _) = None"

fun as_reusable :: "StoredWriteTicketEvaluation \<Rightarrow> ReusableStoredWriteTicket option" where
  "as_reusable (StoredWriteTicketEvaluation.Reusable t) = Some t"
| "as_reusable (StoredWriteTicketEvaluation.Invalidated _) = None"
| "as_reusable (StoredWriteTicketEvaluation.Consumed _) = None"
| "as_reusable (StoredWriteTicketEvaluation.Revoked _) = None"

fun as_consumed :: "StoredWriteTicketEvaluation \<Rightarrow> ConsumedStoredWriteTicket option" where
  "as_consumed (StoredWriteTicketEvaluation.Consumed t) = Some t"
| "as_consumed (StoredWriteTicketEvaluation.Reusable _) = None"
| "as_consumed (StoredWriteTicketEvaluation.Invalidated _) = None"
| "as_consumed (StoredWriteTicketEvaluation.Revoked _) = None"

fun terminal_into_evaluation ::
  "TerminalStoredWriteTicketEvaluation \<Rightarrow> StoredWriteTicketEvaluation" where
  "terminal_into_evaluation (TerminalStoredWriteTicketEvaluation.Invalidated t) =
     StoredWriteTicketEvaluation.Invalidated t"
| "terminal_into_evaluation (TerminalStoredWriteTicketEvaluation.Consumed t) =
     StoredWriteTicketEvaluation.Consumed t"
| "terminal_into_evaluation (TerminalStoredWriteTicketEvaluation.Revoked t) =
     StoredWriteTicketEvaluation.Revoked t"

fun active_into_evaluation ::
  "ActiveStoredWriteTicketEvaluation \<Rightarrow> StoredWriteTicketEvaluation" where
  "active_into_evaluation (ActiveStoredWriteTicketEvaluation.Reusable t) =
     StoredWriteTicketEvaluation.Reusable t"
| "active_into_evaluation (ActiveStoredWriteTicketEvaluation.Invalidated t) =
     StoredWriteTicketEvaluation.Invalidated t"

fun active_semantic_facts :: "ActiveStoredWriteTicketEvaluation \<Rightarrow> WriteTicketSemanticFacts" where
  "active_semantic_facts (ActiveStoredWriteTicketEvaluation.Reusable t) =
     sts_ticket (reusable_stored t)"
| "active_semantic_facts (ActiveStoredWriteTicketEvaluation.Invalidated t) =
     sts_ticket (ivd_stored t)"

fun into_reusable ::
  "ActiveStoredWriteTicketEvaluation \<Rightarrow>
     (ReusableStoredWriteTicket, InvalidatedStoredWriteTicket) result" where
  "into_reusable (ActiveStoredWriteTicketEvaluation.Reusable t) = Ok t"
| "into_reusable (ActiveStoredWriteTicketEvaluation.Invalidated t) = Err t"

definition write_ticket_is_idle_expired :: "UtcTimestamp option \<Rightarrow> UtcTimestamp \<Rightarrow> bool" where
  "write_ticket_is_idle_expired idle_expires_at observed_at =
     is_some_and idle_expires_at (\<lambda>expires_at. observed_at \<ge> expires_at)"

definition pre_evaluate_stored_write_ticket ::
  "StoredWriteTicketFacts \<Rightarrow> UtcTimestamp \<Rightarrow>
     (StoredTicketPreEvaluation, StoredWriteTicketStateError) result" where
  "pre_evaluate_stored_write_ticket ticket observed_at =
     (let stored = \<lparr>sts_write_ticket_id = swf_write_ticket_id ticket,
                    sts_ticket = swf_ticket ticket\<rparr>;
          invalidated = (\<lambda>reason. Ok (Complete (TerminalStoredWriteTicketEvaluation.Invalidated
            \<lparr>ivd_stored = stored, ivd_invalidation = reason,
             ivd_authority = WriteTicketAuthorityState.NotApplicable\<rparr>)))
      in case swf_status ticket of
        WriteTicketStatus.Active \<Rightarrow>
          if swf_invalidation_reason ticket \<noteq> None \<or> swf_consumed_by_run_id ticket \<noteq> None
          then Err ActiveLifecycleDetails
          else if write_ticket_is_idle_expired (sem_idle_expires_at (swf_ticket ticket)) observed_at
          then invalidated WriteTicketInvalidationReason.IdleTimeout
          else Ok (NeedsCurrentFacts (ActiveStoredWriteTicketCandidate stored))
      | WriteTicketStatus.Invalidated \<Rightarrow>
          if swf_consumed_by_run_id ticket \<noteq> None then Err UnexpectedConsumingRun
          else (case swf_invalidation_reason ticket of
              None \<Rightarrow> Err MissingInvalidationReason
            | Some reason \<Rightarrow> invalidated reason)
      | WriteTicketStatus.Consumed \<Rightarrow>
          if swf_invalidation_reason ticket \<noteq> None then Err UnexpectedConsumingRun
          else (case swf_consumed_by_run_id ticket of
              None \<Rightarrow> Err MissingConsumingRun
            | Some run_id \<Rightarrow> Ok (Complete (TerminalStoredWriteTicketEvaluation.Consumed
                \<lparr>con_stored = stored, con_consumed_by_run_id = run_id\<rparr>)))
      | WriteTicketStatus.Revoked \<Rightarrow>
          if swf_consumed_by_run_id ticket \<noteq> None then Err UnexpectedConsumingRun
          else (case swf_invalidation_reason ticket of
              None \<Rightarrow> Err MissingInvalidationReason
            | Some reason \<Rightarrow> Ok (Complete (TerminalStoredWriteTicketEvaluation.Revoked
                \<lparr>rev_stored = stored, rev_invalidation = reason\<rparr>))))"

record WriteTicketCurrentFacts =
  wcf_pending_policy_reevaluation :: bool
  wcf_write_authority_fingerprint :: string

definition evaluate_active_candidate ::
  "ActiveStoredWriteTicketCandidate \<Rightarrow> WriteTicketCurrentFacts \<Rightarrow> WriteTicketApprovalAssessment \<Rightarrow>
     ActiveStoredWriteTicketEvaluation" where
  "evaluate_active_candidate candidate current approval =
     (let stored = cand_stored candidate;
          basis = sem_validity_basis (sts_ticket stored);
          invalidated = (\<lambda>reason authority. ActiveStoredWriteTicketEvaluation.Invalidated
            \<lparr>ivd_stored = stored, ivd_invalidation = reason, ivd_authority = authority\<rparr>)
      in
      if vb_write_authority_fingerprint basis \<noteq> wcf_write_authority_fingerprint current
      then invalidated WriteTicketInvalidationReason.ExplicitRevoke
        WriteTicketAuthorityState.WriteAuthorityChanged
      else if wcf_pending_policy_reevaluation current
      then invalidated WriteTicketInvalidationReason.ExplicitRevoke
        WriteTicketAuthorityState.PendingPolicyReevaluation
      else case approval of
          WriteTicketApprovalAssessment.Changed _ \<Rightarrow>
            invalidated WriteTicketInvalidationReason.ApprovalBasisChanged
              WriteTicketAuthorityState.Current
        | _ \<Rightarrow> ActiveStoredWriteTicketEvaluation.Reusable (ReusableStoredWriteTicket stored))"

definition project_stored_write_ticket_consumption ::
  "ReusableStoredWriteTicket \<Rightarrow> RunId \<Rightarrow> StoredWriteTicketEvaluation" where
  "project_stored_write_ticket_consumption ticket run_id =
     StoredWriteTicketEvaluation.Consumed
       \<lparr>con_stored = reusable_stored ticket, con_consumed_by_run_id = run_id\<rparr>"

subsection \<open>Prepare-write decision and run compatibility\<close>

datatype WriteTicketDecisionCode =
    ScopeNotCurrent | PathOutOfScope | SensitiveApprovalMissing | UserActionUnresolved
  | BaselineMismatch | WorkspaceContextMismatch | EffectContractForbidsProductFileWrite
  | EffectContractEffectNotAllowed | EffectContractPathNotAllowed | ProductWriteFlagMismatch
  | CompatibleWriteTicketAmbiguous

datatype WriteTicketRelatedRecord =
    Task TaskId
  | CurrentChangeUnit TaskId ChangeUnitId
  | UserActionRequest TaskId UserActionRequestId
  | WriteTicket TaskId WriteTicketId

record WriteTicketDecisionReason =
  dr_category :: WriteDecisionCategory
  dr_code :: WriteTicketDecisionCode
  dr_message :: string
  dr_related_records :: "WriteTicketRelatedRecord list"

definition write_decision_reason ::
  "WriteDecisionCategory \<Rightarrow> WriteTicketDecisionCode \<Rightarrow> string \<Rightarrow> WriteTicketRelatedRecord list \<Rightarrow>
     WriteTicketDecisionReason" where
  "write_decision_reason category code message related_records = \<lparr>
     dr_category = category, dr_code = code, dr_message = message,
     dr_related_records = related_records\<rparr>"

definition prepare_write_decision :: "WriteTicketDecisionReason list \<Rightarrow> PrepareWriteDecision" where
  "prepare_write_decision reasons =
     (if reasons = [] then PrepareWriteDecision.Allowed
      else if list_ex (\<lambda>r. dr_code r = UserActionUnresolved) reasons
      then PrepareWriteDecision.DecisionRequired
      else if list_ex (\<lambda>r. dr_code r = SensitiveApprovalMissing) reasons
      then PrepareWriteDecision.ApprovalRequired
      else PrepareWriteDecision.Blocked)"

datatype WriteTicketInvalidReason =
    Missing | Incompatible | Consumed | Invalidated WriteTicketInvalidationReason | Revoked
  | WorkspaceContextMismatch | PolicyAuthorityMismatch | TaskMismatch | ChangeUnitMismatch
  | ScopeRevisionChanged | BaselineMismatch | ProductWriteFlagMismatch | OperationMismatch
  | SensitiveCategoryMismatch | PathMismatch | ApprovalBasisChanged

definition normalized_string_set :: "string list \<Rightarrow> string list" where
  "normalized_string_set values = btree_set (filter (\<lambda>v. v \<noteq> []) (map trim values))"

record RunWriteTicketAttempt =
  rwa_task_id :: TaskId
  rwa_change_unit_id :: ChangeUnitId
  rwa_baseline_ref :: BaselineRef
  rwa_performed_operation :: "string option"
  rwa_performed_operation_required :: bool
  rwa_observed_changes :: ObservedChanges
  rwa_normalized_scope_paths :: "string list"

record RunWriteTicketMismatch =
  rwm_reason :: WriteTicketInvalidReason
  rwm_message :: string

definition run_mismatch :: "WriteTicketInvalidReason \<Rightarrow> string \<Rightarrow> RunWriteTicketMismatch" where
  "run_mismatch reason message = \<lparr>rwm_reason = reason, rwm_message = message\<rparr>"

definition run_write_ticket_mismatch ::
  "WriteTicketAttemptScope \<Rightarrow> RunWriteTicketAttempt \<Rightarrow> RunWriteTicketMismatch option" where
  "run_write_ticket_mismatch scope attempt =
     (let observed = rwa_observed_changes attempt in
      if as_task_id scope \<noteq> rwa_task_id attempt
      then Some (run_mismatch WriteTicketInvalidReason.TaskMismatch
        ''write ticket task is not compatible with the recorded run'')
      else if as_change_unit_id scope \<noteq> rwa_change_unit_id attempt
      then Some (run_mismatch WriteTicketInvalidReason.ChangeUnitMismatch
        ''write ticket Change Unit is not compatible with the recorded run'')
      else if as_product_file_write_intended scope \<noteq> oc_product_file_write_observed observed
      then Some (run_mismatch WriteTicketInvalidReason.ProductWriteFlagMismatch
        ''write ticket product-file intent is not compatible with the recorded run'')
      else if as_baseline_ref scope \<noteq> Some (rwa_baseline_ref attempt)
      then Some (run_mismatch WriteTicketInvalidReason.BaselineMismatch
        ''write ticket baseline is not compatible with the recorded run'')
      else if is_some_and (rwa_performed_operation attempt)
            (\<lambda>operation. operation \<noteq> as_intended_operation scope) \<or>
          rwa_performed_operation_required attempt \<and> rwa_performed_operation attempt = None
      then Some (run_mismatch WriteTicketInvalidReason.OperationMismatch
        ''performed operation does not exactly match the write ticket operation'')
      else if set (normalized_string_set (as_sensitive_categories scope)) \<noteq>
          set (oc_sensitive_categories observed)
      then Some (run_mismatch WriteTicketInvalidReason.SensitiveCategoryMismatch
        ''write ticket sensitive categories are not compatible with the recorded run'')
      else if oc_product_file_write_observed observed \<and>
          \<not> paths_are_authorized (oc_changed_paths observed) (rwa_normalized_scope_paths attempt)
      then Some (run_mismatch WriteTicketInvalidReason.PathMismatch
        ''write ticket paths are not compatible with the recorded run'')
      else None)"

subsection \<open>Facts of the current change unit\<close>

definition stored_scope_baseline_ref :: "TaskRecord \<Rightarrow> BaselineRef option" where
  "stored_scope_baseline_ref task = shaping_baseline_ref (task_shaping task)"

definition baseline_matches :: "ChangeUnitRecord \<Rightarrow> TaskRecord \<Rightarrow> BaselineRef \<Rightarrow> bool" where
  "baseline_matches change_unit task baseline_ref \<longleftrightarrow>
     cuwb_baseline_ref (cu_write_basis change_unit) = Some baseline_ref \<and>
     stored_scope_baseline_ref task = Some baseline_ref"

definition workspace_context_matches ::
  "ChangeUnitRecord \<Rightarrow> GitWorkspaceContext option \<Rightarrow> bool" where
  "workspace_context_matches change_unit git_workspace_context =
     (case (cuwb_git_workspace_context (cu_write_basis change_unit), git_workspace_context) of
        (None, None) \<Rightarrow> True
      | (Some stored, Some current) \<Rightarrow>
          git_common_dir stored = git_common_dir current \<and>
          git_worktree_id stored = git_worktree_id current \<and>
          git_branch_ref stored = git_branch_ref current \<and>
          git_head_sha stored = git_head_sha current \<and>
          git_workspace_fingerprint stored = git_workspace_fingerprint current
      | _ \<Rightarrow> False)"

definition paths_match_current_change_unit :: "string list \<Rightarrow> ChangeUnitRecord \<Rightarrow> bool" where
  "paths_match_current_change_unit intended_paths change_unit =
     (if intended_paths = [] then True
      else if cu_bounded_paths change_unit = [] then False
      else list_all (\<lambda>path. list_ex (\<lambda>scope. path_is_within path scope)
        (cu_bounded_paths change_unit)) intended_paths)"

subsection \<open>Admission of a recorded run\<close>

datatype WriteTicketAdmissionError =
    Core string
  | Invalid WriteTicketInvalidReason string

record RecordRunWriteAdmission =
  rra_task_id :: TaskId
  rra_change_unit_id :: ChangeUnitId
  rra_baseline_ref :: BaselineRef
  rra_performed_operation :: "string option"
  rra_task :: TaskRecord
  rra_change_unit :: ChangeUnitRecord
  rra_git_workspace_context :: "GitWorkspaceContext option"
  rra_observed_changes :: ObservedChanges

datatype AdmissibleStoredWriteTicket =
  AdmissibleStoredWriteTicket (adm_reusable: ReusableStoredWriteTicket)

datatype CompatibleRecordRunAttempt =
  CompatibleRecordRunAttempt (compatible_write_ticket_id: WriteTicketId)

definition admit_record_run ::
  "ReusableStoredWriteTicket \<Rightarrow> CompatibleRecordRunAttempt \<Rightarrow>
     (AdmissibleStoredWriteTicket, WriteTicketAdmissionError) result" where
  "admit_record_run reusable compatible_attempt =
     (if sts_write_ticket_id (reusable_stored reusable) \<noteq>
         compatible_write_ticket_id compatible_attempt
      then Err (Core ''Record Run compatibility proof names another reusable Write Ticket'')
      else Ok (AdmissibleStoredWriteTicket reusable))"

definition record_run_attempt ::
  "WriteTicketSemanticFacts \<Rightarrow> RecordRunWriteAdmission \<Rightarrow> RunWriteTicketAttempt" where
  "record_run_attempt ticket context = \<lparr>
     rwa_task_id = rra_task_id context,
     rwa_change_unit_id = rra_change_unit_id context,
     rwa_baseline_ref = rra_baseline_ref context,
     rwa_performed_operation = rra_performed_operation context,
     rwa_performed_operation_required =
       (\<not> oc_product_file_write_observed (rra_observed_changes context) \<and>
        task_effective_control_level (rra_task context) = TaskControlLevel.Sensitive),
     rwa_observed_changes = rra_observed_changes context,
     rwa_normalized_scope_paths = map as_str (allowed (sem_path_scope ticket))\<rparr>"

definition validate_record_run_attempt ::
  "(GitWorkspaceContext \<Rightarrow> string) \<Rightarrow> WriteTicketId \<Rightarrow> WriteTicketSemanticFacts \<Rightarrow>
     RecordRunWriteAdmission \<Rightarrow> (CompatibleRecordRunAttempt, WriteTicketAdmissionError) result" where
  "validate_record_run_attempt workspace_digest ticket_id ticket context =
     (let basis = sem_validity_basis ticket in
      if vb_task_id basis \<noteq> rra_task_id context
      then Err (Invalid WriteTicketInvalidReason.TaskMismatch
        ''write ticket validity basis names another Task'')
      else if vb_change_unit_id basis \<noteq> rra_change_unit_id context
      then Err (Invalid WriteTicketInvalidReason.ChangeUnitMismatch
        ''write ticket validity basis names another Change Unit'')
      else if vb_scope_revision basis \<noteq> task_scope_revision (rra_task context)
      then Err (Invalid WriteTicketInvalidReason.ScopeRevisionChanged
        ''write ticket scope revision is no longer current'')
      else if vb_baseline_ref basis \<noteq> Some (rra_baseline_ref context)
      then Err (Invalid WriteTicketInvalidReason.BaselineMismatch
        ''write ticket baseline is no longer current'')
      else if vb_workspace_context_sha256 basis \<noteq>
          map_option workspace_digest (rra_git_workspace_context context)
      then Err (Invalid WriteTicketInvalidReason.WorkspaceContextMismatch
        ''write ticket workspace context is no longer current'')
      else (case run_write_ticket_mismatch (sem_attempt_scope ticket)
              (record_run_attempt ticket context) of
          Some mismatch \<Rightarrow> Err (Invalid (rwm_reason mismatch) (rwm_message mismatch))
        | None \<Rightarrow>
            if list_ex (\<lambda>path. list_ex (\<lambda>d. path_is_within path (as_str d))
                (denied (sem_path_scope ticket))) (oc_changed_paths (rra_observed_changes context))
            then Err (Invalid WriteTicketInvalidReason.PathMismatch
              ''write ticket denied path prefixes do not cover the recorded run'')
            else Ok (CompatibleRecordRunAttempt ticket_id)))"

fun terminal_admission_error ::
  "TerminalStoredWriteTicketEvaluation \<Rightarrow> WriteTicketAdmissionError" where
  "terminal_admission_error (TerminalStoredWriteTicketEvaluation.Invalidated t) =
     Invalid (WriteTicketInvalidReason.Invalidated (ivd_invalidation t)) ''write ticket is invalidated''"
| "terminal_admission_error (TerminalStoredWriteTicketEvaluation.Consumed t) =
     Invalid WriteTicketInvalidReason.Consumed ''write ticket is already consumed''"
| "terminal_admission_error (TerminalStoredWriteTicketEvaluation.Revoked t) =
     Invalid WriteTicketInvalidReason.Revoked ''write ticket is revoked''"

definition active_record_run_candidate ::
  "StoredWriteTicket \<Rightarrow> UtcTimestamp \<Rightarrow>
     (ActiveStoredWriteTicketCandidate, WriteTicketAdmissionError) result" where
  "active_record_run_candidate r observed_at =
     (case pre_evaluate_stored_write_ticket (from_record r) observed_at of
        Err _ \<Rightarrow> Err (Core ''Store-validated Write Ticket could not enter the Core stored type-state family'')
      | Ok (NeedsCurrentFacts candidate) \<Rightarrow> Ok candidate
      | Ok (Complete terminal) \<Rightarrow> Err (terminal_admission_error terminal))"

definition evaluate_record_run_candidate ::
  "(GitWorkspaceContext \<Rightarrow> string) \<Rightarrow> ActiveStoredWriteTicketCandidate \<Rightarrow> UserActionAuthority list \<Rightarrow>
     TaskRecord \<Rightarrow> string \<Rightarrow> UtcTimestamp \<Rightarrow> RecordRunWriteAdmission \<Rightarrow>
     (ReusableStoredWriteTicket \<times> CompatibleRecordRunAttempt, WriteTicketAdmissionError) result" where
  "evaluate_record_run_candidate workspace_digest candidate authorities task
     write_authority_fingerprint observed_at admission =
     (let stored = cand_stored candidate; ticket = sts_ticket stored in
      if \<not> workspace_context_matches (rra_change_unit admission) (rra_git_workspace_context admission)
      then Err (Invalid WriteTicketInvalidReason.WorkspaceContextMismatch
        ''current Git workspace context differs from the write ticket Change Unit basis'')
      else if vb_write_authority_fingerprint (sem_validity_basis ticket) \<noteq>
          write_authority_fingerprint
      then Err (Invalid WriteTicketInvalidReason.PolicyAuthorityMismatch
        ''write ticket policy authority is no longer current'')
      else and_then (validate_record_run_attempt workspace_digest (sts_write_ticket_id stored)
          ticket admission) (\<lambda>compatible_attempt.
        let requirement = new_approval_requirement (sem_project_id ticket)
              (task_scope_revision task) (task_effective_control_level task)
              (sem_attempt_scope ticket) observed_at;
            assessment = assess_write_ticket_approval requirement authorities
              (vb_approval_basis_refs (sem_validity_basis ticket))
        in case into_reusable (evaluate_active_candidate candidate
              \<lparr>wcf_pending_policy_reevaluation = False,
               wcf_write_authority_fingerprint = write_authority_fingerprint\<rparr> assessment) of
            Ok reusable \<Rightarrow> Ok (reusable, compatible_attempt)
          | Err t \<Rightarrow>
              if ivd_authority t \<in> {WriteTicketAuthorityState.WriteAuthorityChanged,
                  WriteTicketAuthorityState.PendingPolicyReevaluation}
              then Err (Invalid WriteTicketInvalidReason.PolicyAuthorityMismatch
                ''write ticket policy authority is no longer current'')
              else Err (Invalid WriteTicketInvalidReason.ApprovalBasisChanged
                ''write ticket approval basis is no longer current'')))"

subsection \<open>Selection\<close>

datatype CompatibleWriteTicketSelection =
    None_compatible
  | One ReusableStoredWriteTicket
  | Ambiguous "WriteTicketId list"

datatype PrepareWriteCandidateEvaluation =
    Incompatible
  | Compatible ReusableStoredWriteTicket
  | StaleApproval WriteTicketId
  | StaleWorkspace WriteTicketId
  | StalePolicy WriteTicketId

record PrepareWriteCandidateSelection =
  sel_compatibility :: CompatibleWriteTicketSelection
  sel_stale_approval_ticket_ids :: "WriteTicketId list"
  sel_stale_workspace_ticket_ids :: "WriteTicketId list"
  sel_stale_policy_ticket_ids :: "WriteTicketId list"

definition select_prepare_write_candidates ::
  "PrepareWriteCandidateEvaluation list \<Rightarrow> PrepareWriteCandidateSelection" where
  "select_prepare_write_candidates candidates =
     (let compatible = List.map_filter (\<lambda>c. case c of
            PrepareWriteCandidateEvaluation.Compatible t \<Rightarrow> Some t | _ \<Rightarrow> None) candidates;
          ticket_id = (\<lambda>t. sts_write_ticket_id (reusable_stored t))
      in \<lparr>
        sel_compatibility = (case compatible of
            [] \<Rightarrow> None_compatible
          | [first] \<Rightarrow> One first
          | first # second # remaining \<Rightarrow>
              Ambiguous (sort (ticket_id first # ticket_id second # map ticket_id remaining))),
        sel_stale_approval_ticket_ids = sort (List.map_filter (\<lambda>c. case c of
            PrepareWriteCandidateEvaluation.StaleApproval i \<Rightarrow> Some i | _ \<Rightarrow> None) candidates),
        sel_stale_workspace_ticket_ids = sort (List.map_filter (\<lambda>c. case c of
            PrepareWriteCandidateEvaluation.StaleWorkspace i \<Rightarrow> Some i | _ \<Rightarrow> None) candidates),
        sel_stale_policy_ticket_ids = sort (List.map_filter (\<lambda>c. case c of
            PrepareWriteCandidateEvaluation.StalePolicy i \<Rightarrow> Some i | _ \<Rightarrow> None) candidates)\<rparr>)"

fun status_priority :: "WriteTicketStatus \<Rightarrow> nat" where
  "status_priority WriteTicketStatus.Active = 0"
| "status_priority WriteTicketStatus.Invalidated = 1"
| "status_priority WriteTicketStatus.Consumed = 2"
| "status_priority WriteTicketStatus.Revoked = 3"

text \<open>\<open>Ordering\<close> as the strict comparison \<open>left < right\<close> of the source.\<close>

definition candidate_less ::
  "StoredWriteTicketEvaluation \<Rightarrow> StoredWriteTicketEvaluation \<Rightarrow> bool" where
  "candidate_less left right \<longleftrightarrow>
     (let p = status_priority (evaluation_status left); q = status_priority (evaluation_status right);
          v = sem_basis_state_version (evaluation_semantic_facts left);
          w = sem_basis_state_version (evaluation_semantic_facts right)
      in p < q \<or> p = q \<and> (w < v \<or> v = w \<and>
         evaluation_write_ticket_id left < evaluation_write_ticket_id right))"

text \<open>\<open>Iterator::min_by\<close> keeps the first of several minimal elements.\<close>

fun min_by :: "('a \<Rightarrow> 'a \<Rightarrow> bool) \<Rightarrow> 'a \<Rightarrow> 'a list \<Rightarrow> 'a" where
  "min_by lt best [] = best"
| "min_by lt best (x # xs) = min_by lt (if lt x best then x else best) xs"

definition select_stored_write_ticket ::
  "StoredWriteTicketEvaluation list \<Rightarrow> StoredWriteTicketEvaluation option" where
  "select_stored_write_ticket candidates =
     (case candidates of [] \<Rightarrow> None | c # cs \<Rightarrow> Some (min_by candidate_less c cs))"

subsection \<open>Evaluation of all stored tickets of a task\<close>

record WriteTicketTaskFacts =
  wtf_scope_revision :: u64
  wtf_effective_control_level :: TaskControlLevel
  wtf_pending_policy_reevaluation :: bool

definition load_write_ticket_control_facts ::
  "(json \<Rightarrow> TaskPolicyControlReevaluation option) \<Rightarrow> TaskRecord \<Rightarrow> ProjectWorkflowPolicy \<Rightarrow>
     (WriteTicketTaskFacts \<times> string, MarkError) result" where
  "load_write_ticket_control_facts from_value task workflow =
     and_then (resolve_task_control_authority from_value task workflow) (\<lambda>resolved.
       Ok (\<lparr>wtf_scope_revision = task_scope_revision task,
            wtf_effective_control_level = rtca_effective_control_level resolved,
            wtf_pending_policy_reevaluation = rtca_pending_policy_reevaluation resolved\<rparr>,
           pwp_write_authority_fingerprint workflow))"

datatype TicketLoadError =
    StoredState StoredWriteTicketStateError
  | ControlMark MarkError
  | TaskNotFound TaskId

fun split_pre_evaluations ::
  "StoredTicketPreEvaluation list \<Rightarrow>
     StoredWriteTicketEvaluation list \<times> ActiveStoredWriteTicketCandidate list" where
  "split_pre_evaluations [] = ([], [])"
| "split_pre_evaluations (Complete terminal # rest) =
     (let (evaluated, active) = split_pre_evaluations rest
      in (terminal_into_evaluation terminal # evaluated, active))"
| "split_pre_evaluations (NeedsCurrentFacts candidate # rest) =
     (let (evaluated, active) = split_pre_evaluations rest
      in (evaluated, candidate # active))"

definition evaluate_current_candidate ::
  "WriteTicketTaskFacts \<Rightarrow> string \<Rightarrow> UserActionAuthority list \<Rightarrow> UtcTimestamp \<Rightarrow>
     ActiveStoredWriteTicketCandidate \<Rightarrow> StoredWriteTicketEvaluation" where
  "evaluate_current_candidate task write_authority_fingerprint approvals observed_at candidate =
     (let ticket = sts_ticket (cand_stored candidate);
          requirement = new_approval_requirement (sem_project_id ticket) (wtf_scope_revision task)
            (wtf_effective_control_level task) (sem_attempt_scope ticket) observed_at;
          assessment = assess_write_ticket_approval requirement approvals
            (vb_approval_basis_refs (sem_validity_basis ticket))
      in active_into_evaluation (evaluate_active_candidate candidate
           \<lparr>wcf_pending_policy_reevaluation = wtf_pending_policy_reevaluation task,
            wcf_write_authority_fingerprint = write_authority_fingerprint\<rparr> assessment))"

definition load_evaluated_stored_write_tickets ::
  "(json \<Rightarrow> TaskPolicyControlReevaluation option) \<Rightarrow> TaskId \<Rightarrow> StoredWriteTicket list \<Rightarrow>
     TaskRecord option \<Rightarrow> ProjectWorkflowPolicy \<Rightarrow> UserActionAuthority list \<Rightarrow> UtcTimestamp \<Rightarrow>
     (StoredWriteTicketEvaluation list, TicketLoadError) result" where
  "load_evaluated_stored_write_tickets from_value task_id tickets task workflow approvals observed_at =
     (case collect_results (\<lambda>r. pre_evaluate_stored_write_ticket (from_record r) observed_at) tickets of
        Err e \<Rightarrow> Err (StoredState e)
      | Ok pre \<Rightarrow>
          let (evaluated, active) = split_pre_evaluations pre in
          if active = [] then Ok evaluated
          else case task of
              None \<Rightarrow> Err (TaskNotFound task_id)
            | Some t \<Rightarrow>
                (case load_write_ticket_control_facts from_value t workflow of
                   Err e \<Rightarrow> Err (ControlMark e)
                 | Ok (facts, fingerprint) \<Rightarrow>
                     Ok (evaluated @
                       map (evaluate_current_candidate facts fingerprint approvals observed_at) active)))"

subsection \<open>Sample records\<close>

definition sample_attempt_scope :: WriteTicketAttemptScope where
  "sample_attempt_scope = \<lparr>
     as_task_id = ''task_1'', as_change_unit_id = ''cu_1'', as_intended_operation = ''deploy'',
     as_intended_paths = [ProductRelativePath ''src/main.rs''],
     as_product_file_write_intended = True, as_sensitive_categories = [''network''],
     as_baseline_ref = Some ''base_1''\<rparr>"

definition sample_ticket :: StoredWriteTicket where
  "sample_ticket = \<lparr>
     wt_project_id = ''p'', wt_write_ticket_id = ''wt_1'', wt_task_id = ''task_1'',
     wt_change_unit_id = ''cu_1'', wt_basis_state_version = 6,
     wt_status = WriteTicketStatus.Active,
     wt_validity_basis = \<lparr>
       vb_task_id = ''task_1'', vb_change_unit_id = ''cu_1'', vb_scope_revision = 2,
       vb_baseline_ref = Some ''base_1'', vb_workspace_context_sha256 = None,
       vb_write_authority_fingerprint = ''sha256:'' @ replicate 64 (CHR ''a''),
       vb_approval_basis_refs = [\<lparr>resolution_ref_record_id = ''uares_1'',
         resolution_ref_project_id = ''p'', resolution_ref_task_id = ''task_1'',
         resolution_ref_produced_at = 6\<rparr>]\<rparr>,
     wt_path_scope = \<lparr>allowed = [ProductRelativePath ''src/main.rs''], denied = []\<rparr>,
     wt_attempt_scope = sample_attempt_scope,
     wt_created_by_actor_source = ActorSource.AgentConnection ''conn_1'',
     wt_created_by_user_action_resolution_id = Some ''uares_1'',
     wt_idle_expires_at = Some 900, wt_invalidation_reason = None, wt_consumed_by_run_id = None,
     wt_consumed_at = None, wt_revoked_at = None, wt_created_at = 250, wt_metadata = []\<rparr>"

definition sample_change_unit :: ChangeUnitRecord where
  "sample_change_unit = \<lparr>
     cu_project_id = ''p'', cu_change_unit_id = ''cu_1'', cu_task_id = ''task_1'',
     cu_status = ChangeUnitStatus.Active, cu_is_current = True, cu_basis_state_version = 3,
     cu_scope_summary = \<lparr>cuss_scope_summary = None, cuss_affected_areas = [], cuss_constraints = []\<rparr>,
     cu_bounded_paths = [''src''],
     cu_write_basis = \<lparr>cuwb_baseline_ref = Some ''base_1'', cuwb_git_workspace_context = None\<rparr>,
     cu_effect_contract = None, cu_recovery_required = False\<rparr>"

definition sample_admission :: RecordRunWriteAdmission where
  "sample_admission = \<lparr>
     rra_task_id = ''task_1'', rra_change_unit_id = ''cu_1'', rra_baseline_ref = ''base_1'',
     rra_performed_operation = None, rra_task = sample_task, rra_change_unit = sample_change_unit,
     rra_git_workspace_context = None,
     rra_observed_changes = \<lparr>oc_changed_paths = [''src/main.rs''],
       oc_product_file_write_observed = True, oc_sensitive_categories = [''network''],
       oc_baseline_ref = Some ''base_1''\<rparr>\<rparr>"

subsection \<open>Library lemmas\<close>

lemma set_identity_set [simp]: "set (identity_set xs) = set xs"
  by (simp add: identity_set_def)

lemma set_map_filter: "set (List.map_filter f xs) = {y. \<exists>x \<in> set xs. f x = Some y}"
  by (induction xs) (auto simp: List.map_filter_simps split: option.splits)

lemma csa_identities_iff [ticket_simps]:
  "i \<in> set (csa_identities (new_current_approvals authorities r)) \<longleftrightarrow>
     (\<exists>a \<in> set authorities. requirement_matches r a \<and> authority_resolution_identity a = Some i)"
  by (auto simp: new_current_approvals_def Let_def set_map_filter requirement_matches_def)

lemma from_store_valid_refs_None [ticket_simps]: "from_store_valid_refs refs = None \<longleftrightarrow> refs = []"
proof -
  have "identity_set (map resolution_identity refs) = [] \<longleftrightarrow> refs = []"
    by (metis map_is_Nil_conv set_empty set_identity_set)
  then show ?thesis by (auto simp: from_store_valid_refs_def split: list.splits)
qed

lemma from_store_valid_refs_Some:
  "from_store_valid_refs refs = Some basis \<Longrightarrow>
     set (nab_identities basis) = resolution_identity ` set refs \<and> nab_identities basis \<noteq> []"
proof (cases "identity_set (map resolution_identity refs)")
  case (Cons primary rest)
  assume "from_store_valid_refs refs = Some basis"
  then show ?thesis
    using set_identity_set[of "map resolution_identity refs", unfolded Cons] Cons
    by (auto simp: from_store_valid_refs_def)
qed (simp add: from_store_valid_refs_def)

lemma assess_not_changed:
  assumes "\<And>reason. assess_write_ticket_approval r authorities refs \<noteq>
      WriteTicketApprovalAssessment.Changed reason"
    and "approval_is_required r"
  shows "refs \<noteq> [] \<and> (\<forall>ref \<in> set refs. \<exists>a \<in> set authorities. requirement_matches r a \<and>
    authority_resolution_identity a = Some (resolution_identity ref))"
proof (cases "from_store_valid_refs refs")
  case None
  with assms(1)[of ApprovalNowRequired] assms(2) show ?thesis
    by (simp add: assess_write_ticket_approval_def)
next
  case (Some basis)
  let ?current = "new_current_approvals authorities r"
  have "list_all (\<lambda>i. i \<in> set (csa_identities ?current)) (nab_identities basis)"
  proof (rule ccontr)
    assume not_all: "\<not> list_all (\<lambda>i. i \<in> set (csa_identities ?current)) (nab_identities basis)"
    then obtain missing where "find (\<lambda>i. i \<notin> set (csa_identities ?current)) (nab_identities basis) = Some missing"
      by (cases "find (\<lambda>i. i \<notin> set (csa_identities ?current)) (nab_identities basis)")
        (auto simp: find_None_iff list_all_iff)
    with not_all Some have "\<exists>reason. assess_write_ticket_approval r authorities refs =
        WriteTicketApprovalAssessment.Changed reason"
      by (simp add: assess_write_ticket_approval_def Let_def)
    with assms(1) show False by blast
  qed
  then show ?thesis
    using from_store_valid_refs_Some[OF Some] from_store_valid_refs_None[of refs] Some
    by (auto simp: list_all_iff csa_identities_iff)
qed

lemma evaluate_active_candidate_Reusable:
  assumes "evaluate_active_candidate candidate current approval =
      ActiveStoredWriteTicketEvaluation.Reusable t"
  shows "reusable_stored t = cand_stored candidate"
    and "vb_write_authority_fingerprint (sem_validity_basis (sts_ticket (cand_stored candidate))) =
      wcf_write_authority_fingerprint current"
    and "\<not> wcf_pending_policy_reevaluation current"
    and "approval \<noteq> WriteTicketApprovalAssessment.Changed reason"
  using assms
  by (auto simp: evaluate_active_candidate_def Let_def split: if_splits
      WriteTicketApprovalAssessment.splits)

lemma into_reusable_Ok [ticket_simps]:
  "into_reusable e = Ok t \<longleftrightarrow> e = ActiveStoredWriteTicketEvaluation.Reusable t"
  by (cases e) auto

lemma pre_evaluate_NeedsCurrentFacts:
  assumes "pre_evaluate_stored_write_ticket ticket now = Ok (NeedsCurrentFacts candidate)"
  shows "swf_status ticket = WriteTicketStatus.Active \<and> swf_consumed_by_run_id ticket = None \<and>
    swf_invalidation_reason ticket = None \<and>
    \<not> write_ticket_is_idle_expired (sem_idle_expires_at (swf_ticket ticket)) now \<and>
    cand_stored candidate =
      \<lparr>sts_write_ticket_id = swf_write_ticket_id ticket, sts_ticket = swf_ticket ticket\<rparr>"
  using assms
  by (cases "swf_status ticket")
    (auto simp: pre_evaluate_stored_write_ticket_def Let_def split: if_splits option.splits)

lemma active_record_run_candidate_Ok:
  assumes "active_record_run_candidate r now = Ok candidate"
  shows "pre_evaluate_stored_write_ticket (from_record r) now = Ok (NeedsCurrentFacts candidate)"
  using assms
  by (auto simp: active_record_run_candidate_def split: result.splits StoredTicketPreEvaluation.splits)

lemma run_write_ticket_mismatch_None:
  assumes "run_write_ticket_mismatch scope attempt = None"
  shows "oc_product_file_write_observed (rwa_observed_changes attempt) \<Longrightarrow>
      paths_are_authorized (oc_changed_paths (rwa_observed_changes attempt))
        (rwa_normalized_scope_paths attempt)"
    and "as_product_file_write_intended scope =
      oc_product_file_write_observed (rwa_observed_changes attempt)"
    and "set (normalized_string_set (as_sensitive_categories scope)) =
      set (oc_sensitive_categories (rwa_observed_changes attempt))"
    and "rwa_performed_operation_required attempt \<Longrightarrow>
      rwa_performed_operation attempt = Some (as_intended_operation scope)"
    and "as_task_id scope = rwa_task_id attempt"
    and "as_change_unit_id scope = rwa_change_unit_id attempt"
    and "as_baseline_ref scope = Some (rwa_baseline_ref attempt)"
  using assms
  by (auto simp: run_write_ticket_mismatch_def Let_def is_some_and_iff split: if_splits)

lemma validate_record_run_attempt_Ok:
  assumes "validate_record_run_attempt digest ticket_id ticket context = Ok attempt"
  shows "attempt = CompatibleRecordRunAttempt ticket_id"
    and "run_write_ticket_mismatch (sem_attempt_scope ticket) (record_run_attempt ticket context) = None"
    and "\<not> list_ex (\<lambda>path. list_ex (\<lambda>d. path_is_within path (as_str d))
      (denied (sem_path_scope ticket))) (oc_changed_paths (rra_observed_changes context))"
    and "vb_task_id (sem_validity_basis ticket) = rra_task_id context"
    and "vb_change_unit_id (sem_validity_basis ticket) = rra_change_unit_id context"
    and "vb_scope_revision (sem_validity_basis ticket) = task_scope_revision (rra_task context)"
    and "vb_baseline_ref (sem_validity_basis ticket) = Some (rra_baseline_ref context)"
    and "vb_workspace_context_sha256 (sem_validity_basis ticket) =
      map_option digest (rra_git_workspace_context context)"
  using assms
  by (auto simp: validate_record_run_attempt_def Let_def split: if_splits option.splits)

lemma evaluate_record_run_candidate_Ok:
  assumes "evaluate_record_run_candidate digest candidate authorities task fingerprint now admission =
      Ok (reusable, attempt)"
  defines "ticket \<equiv> sts_ticket (cand_stored candidate)"
  shows "validate_record_run_attempt digest (sts_write_ticket_id (cand_stored candidate)) ticket
      admission = Ok attempt"
    and "reusable_stored reusable = cand_stored candidate"
    and "vb_write_authority_fingerprint (sem_validity_basis ticket) = fingerprint"
    and "assess_write_ticket_approval (new_approval_requirement (sem_project_id ticket)
        (task_scope_revision task) (task_effective_control_level task) (sem_attempt_scope ticket) now)
        authorities (vb_approval_basis_refs (sem_validity_basis ticket)) \<noteq>
      WriteTicketApprovalAssessment.Changed reason"
proof -
  let ?assessment = "assess_write_ticket_approval (new_approval_requirement (sem_project_id ticket)
        (task_scope_revision task) (task_effective_control_level task) (sem_attempt_scope ticket) now)
        authorities (vb_approval_basis_refs (sem_validity_basis ticket))"
  let ?e = "evaluate_active_candidate candidate \<lparr>wcf_pending_policy_reevaluation = False,
        wcf_write_authority_fingerprint = fingerprint\<rparr> ?assessment"
  have steps: "vb_write_authority_fingerprint (sem_validity_basis ticket) = fingerprint"
      "validate_record_run_attempt digest (sts_write_ticket_id (cand_stored candidate)) ticket
        admission = Ok attempt"
      "?e = ActiveStoredWriteTicketEvaluation.Reusable reusable"
    using assms(1) unfolding into_reusable_Ok[symmetric]
    by (cases "into_reusable ?e";
        auto simp: evaluate_record_run_candidate_def Let_def ticket_def split: if_splits)+
  show "validate_record_run_attempt digest (sts_write_ticket_id (cand_stored candidate)) ticket
      admission = Ok attempt" "vb_write_authority_fingerprint (sem_validity_basis ticket) = fingerprint"
    using steps by auto
  show "reusable_stored reusable = cand_stored candidate"
    "?assessment \<noteq> WriteTicketApprovalAssessment.Changed reason"
    using evaluate_active_candidate_Reusable[OF steps(3)] by auto
qed

lemma min_by_member: "min_by lt b xs \<in> insert b (set xs)"
  by (induction xs arbitrary: b) auto


lemma candidate_less_trans: "candidate_less a b \<Longrightarrow> candidate_less b c \<Longrightarrow> candidate_less a c"
  by (auto simp: candidate_less_def Let_def)

lemma candidate_less_irrefl: "\<not> candidate_less a a"
  by (simp add: candidate_less_def Let_def)

lemma candidate_less_cotrans: "candidate_less a c \<Longrightarrow> candidate_less a b \<or> candidate_less b c"
  by (auto simp: candidate_less_def Let_def) 

lemma min_by_minimal:
  assumes "\<And>a. \<not> lt a a" and "\<And>a b c. lt a c \<Longrightarrow> lt a b \<or> lt b c" and "\<And>a b c. lt a b \<Longrightarrow> lt b c \<Longrightarrow> lt a c"
  shows "x \<in> insert b (set xs) \<Longrightarrow> \<not> lt x (min_by lt b xs)"
proof (induction xs arbitrary: b x)
  case (Cons y ys)
  show ?case
  proof (cases "x \<in> insert (if lt y b then y else b) (set ys)")
    case True
    then show ?thesis using Cons.IH[of x "if lt y b then y else b"] by simp
  next
    case False
    let ?m = "min_by lt (if lt y b then y else b) ys"
    have "\<not> lt (if lt y b then y else b) ?m" using Cons.IH by blast
    moreover have "\<not> lt x (if lt y b then y else b)"
      using False Cons.prems assms(1,3) by (auto split: if_splits)
    ultimately show ?thesis using assms(2)[of x ?m "if lt y b then y else b"] by auto
  qed
qed (use assms(1) in auto)

lemma split_pre_evaluations_spec:
  "split_pre_evaluations pre = (evaluated, active) \<Longrightarrow>
     set evaluated = terminal_into_evaluation ` {t. Complete t \<in> set pre} \<and>
     set active = {c. NeedsCurrentFacts c \<in> set pre} \<and>
     length evaluated + length active = length pre"
proof (induction pre arbitrary: evaluated active rule: split_pre_evaluations.induct)
  case (2 terminal rest)
  then show ?case by (auto split: prod.splits)
next
  case (3 candidate rest)
  then show ?case by (auto split: prod.splits)
qed simp

lemma as_reusable_terminal [simp]: "as_reusable (terminal_into_evaluation t) = None"
  by (cases t) auto

lemma as_reusable_active:
  "as_reusable (active_into_evaluation e) = Some t \<longleftrightarrow> e = ActiveStoredWriteTicketEvaluation.Reusable t"
  by (cases e) auto

lemma pre_evaluations_of_tickets:
  assumes "collect_results (\<lambda>r. pre_evaluate_stored_write_ticket (from_record r) now) tickets = Ok pre"
    and "p \<in> set pre"
  shows "\<exists>r \<in> set tickets. pre_evaluate_stored_write_ticket (from_record r) now = Ok p"
proof -
  obtain i where "i < length pre" "pre ! i = p" using assms(2) by (auto simp: in_set_conv_nth)
  then show ?thesis
    using assms(1) unfolding collect_results_Ok_iff list_all2_conv_all_nth
    by (intro bexI[of _ "tickets ! i"]) auto
qed

lemma evaluate_current_candidate_reusable:
  assumes "as_reusable (evaluate_current_candidate task fingerprint approvals now candidate) = Some t"
  shows "reusable_stored t = cand_stored candidate \<and>
    vb_write_authority_fingerprint (sem_validity_basis (sts_ticket (cand_stored candidate))) = fingerprint \<and>
    \<not> wtf_pending_policy_reevaluation task"
  using assms
  by (auto simp: evaluate_current_candidate_def Let_def as_reusable_active
      dest: evaluate_active_candidate_Reusable)

lemma reusable_evaluation_ticket:
  assumes pre: "collect_results (\<lambda>r. pre_evaluate_stored_write_ticket (from_record r) now) tickets = Ok pre"
    and split: "split_pre_evaluations pre = (evaluated, active)" and active: "candidate \<in> set active"
    and reusable: "as_reusable (evaluate_current_candidate facts fingerprint approvals now candidate) \<noteq> None"
  shows "\<exists>r \<in> set tickets. evaluation_stored (evaluate_current_candidate facts fingerprint approvals now candidate) =
      \<lparr>sts_write_ticket_id = wt_write_ticket_id r, sts_ticket = swf_ticket (from_record r)\<rparr> \<and>
    wt_status r = WriteTicketStatus.Active \<and> \<not> write_ticket_is_idle_expired (wt_idle_expires_at r) now \<and>
    vb_write_authority_fingerprint (wt_validity_basis r) = fingerprint \<and> \<not> wtf_pending_policy_reevaluation facts"
proof -
  let ?e = "evaluate_current_candidate facts fingerprint approvals now candidate"
  obtain ticket where ticket: "as_reusable ?e = Some ticket" using reusable by auto
  have "\<exists>r \<in> set tickets. cand_stored candidate = \<lparr>sts_write_ticket_id = wt_write_ticket_id r,
      sts_ticket = swf_ticket (from_record r)\<rparr> \<and> wt_status r = WriteTicketStatus.Active \<and>
    \<not> write_ticket_is_idle_expired (wt_idle_expires_at r) now"
    using active split_pre_evaluations_spec[OF split] pre_evaluations_of_tickets[OF pre] pre_evaluate_NeedsCurrentFacts
    by (fastforce simp: from_record_def)
  moreover have "evaluation_stored ?e = reusable_stored ticket" using ticket by (cases ?e) auto
  ultimately show ?thesis
    using evaluate_current_candidate_reusable[of facts fingerprint approvals now candidate ticket] ticket
    by (auto simp: from_record_def)
qed

subsection \<open>Properties\<close>

text \<open>C1: A run is admitted on a stored ticket only with current authority.  When a ticket becomes a
  candidate and its evaluation for a run succeeds, the final admission step accepts it; the ticket
  is active, unconsumed and not idle-expired; its scope revision, task, change unit, baseline and
  policy fingerprint are the current ones; every changed path of an observed write lies below an
  allowed path, and no changed path lies below a denied one; and when the control level or the
  declared categories demand approval, the local user has given one for exactly this scope.
\<close>

theorem admitted_run_is_authorized:
  assumes "active_record_run_candidate r now = Ok candidate"
    and "evaluate_record_run_candidate digest candidate authorities task fingerprint now admission =
      Ok (reusable, attempt)"
  shows "admit_record_run reusable attempt = Ok (AdmissibleStoredWriteTicket reusable) \<and>
    wt_status r = WriteTicketStatus.Active \<and> wt_consumed_by_run_id r = None \<and>
    \<not> write_ticket_is_idle_expired (wt_idle_expires_at r) now \<and>
    vb_task_id (wt_validity_basis r) = rra_task_id admission \<and>
    vb_change_unit_id (wt_validity_basis r) = rra_change_unit_id admission \<and>
    vb_scope_revision (wt_validity_basis r) = task_scope_revision (rra_task admission) \<and>
    vb_baseline_ref (wt_validity_basis r) = Some (rra_baseline_ref admission) \<and>
    vb_write_authority_fingerprint (wt_validity_basis r) = fingerprint \<and>
    (\<forall>path \<in> set (oc_changed_paths (rra_observed_changes admission)).
       (oc_product_file_write_observed (rra_observed_changes admission) \<longrightarrow>
          (\<exists>a \<in> set (allowed (wt_path_scope r)). path_is_within path (as_str a))) \<and>
       \<not> (\<exists>d \<in> set (denied (wt_path_scope r)). path_is_within path (as_str d))) \<and>
    (approval_is_required (new_approval_requirement (wt_project_id r) (task_scope_revision task)
        (task_effective_control_level task) (wt_attempt_scope r) now) \<longrightarrow>
       (\<exists>a \<in> set authorities. ua_resolved_by_actor_source a = Some ActorSource.LocalUser \<and>
          current_sensitive_approval a (sensitive_requirement (new_approval_requirement
            (wt_project_id r) (task_scope_revision task) (task_effective_control_level task)
            (wt_attempt_scope r) now))))"
proof -
  note pre = pre_evaluate_NeedsCurrentFacts[OF active_record_run_candidate_Ok[OF assms(1)]]
  note run = evaluate_record_run_candidate_Ok[OF assms(2)]
  note valid = validate_record_run_attempt_Ok[OF run(1)]
  let ?req = "new_approval_requirement (wt_project_id r) (task_scope_revision task)
        (task_effective_control_level task) (wt_attempt_scope r) now"
  have stored: "cand_stored candidate = \<lparr>sts_write_ticket_id = wt_write_ticket_id r,
      sts_ticket = swf_ticket (from_record r)\<rparr>"
    using pre by (simp add: from_record_def)
  have "\<exists>a \<in> set authorities. requirement_matches ?req a" if "approval_is_required ?req"
    using assess_not_changed[OF _ that] run(4) stored
    by (fastforce simp: from_record_def neq_Nil_conv)
  then have approval: "\<exists>a \<in> set authorities. ua_resolved_by_actor_source a = Some ActorSource.LocalUser \<and>
      current_sensitive_approval a (sensitive_requirement ?req)" if "approval_is_required ?req"
    using that by (force simp: requirement_matches_def current_sensitive_approval_iff
        accepted_current_user_authority_iff verified_user_channel_provenance_def)
  have paths: "\<exists>a \<in> set (allowed (wt_path_scope r)). path_is_within path (as_str a)"
    if "path \<in> set (oc_changed_paths (rra_observed_changes admission))"
      "oc_product_file_write_observed (rra_observed_changes admission)" for path
    using run_write_ticket_mismatch_None(1)[OF valid(2)] that stored
    by (auto simp: record_run_attempt_def paths_are_authorized_def list_all_iff list_ex_iff
        from_record_def)
  have "admit_record_run reusable attempt = Ok (AdmissibleStoredWriteTicket reusable)"
    using valid(1) run(2) by (simp add: admit_record_run_def)
  then show ?thesis
    using pre valid(3-8) run(3) stored approval paths
    by (simp add: from_record_def list_ex_iff)
qed

theorem admitted_run_is_authorized_witness:
  "\<exists>candidate reusable attempt. active_record_run_candidate sample_ticket 300 = Ok candidate \<and>
     evaluate_record_run_candidate (\<lambda>_. '''') candidate
       [user_action_authority_from_record sample_resolved] sample_task
       (''sha256:'' @ replicate 64 (CHR ''a'')) 300 sample_admission = Ok (reusable, attempt) \<and>
     admit_record_run reusable attempt = Ok (AdmissibleStoredWriteTicket reusable) \<and>
     ua_resolved_by_actor_source (user_action_authority_from_record sample_resolved) =
       Some ActorSource.LocalUser"
proof -
  let ?authorities = "[user_action_authority_from_record sample_resolved]"
  let ?fingerprint = "''sha256:'' @ replicate 64 (CHR ''a'')"
  have "is_ok (active_record_run_candidate sample_ticket 300)" by code_simp
  then obtain candidate where c: "active_record_run_candidate sample_ticket 300 = Ok candidate"
    by (cases "active_record_run_candidate sample_ticket 300") auto
  have "is_ok (and_then (active_record_run_candidate sample_ticket 300) (\<lambda>candidate.
      map_err (\<lambda>_. Core '''') (evaluate_record_run_candidate (\<lambda>_. '''') candidate ?authorities sample_task ?fingerprint 300
        sample_admission)))" by code_simp
  then obtain reusable attempt where e: "evaluate_record_run_candidate (\<lambda>_. '''') candidate ?authorities
      sample_task ?fingerprint 300 sample_admission = Ok (reusable, attempt)"
    using c by (cases "evaluate_record_run_candidate (\<lambda>_. '''') candidate ?authorities
      sample_task ?fingerprint 300 sample_admission") auto
  have required: "approval_is_required (new_approval_requirement (wt_project_id sample_ticket)
      (task_scope_revision sample_task) (task_effective_control_level sample_task)
      (wt_attempt_scope sample_ticket) 300)" by code_simp
  from admitted_run_is_authorized[OF c e] required c e show ?thesis by auto
qed


text \<open>C16: Evaluating all tickets of a task loses none and invents no authority: there are as many
  evaluations as stored tickets, and every reusable one is a stored active ticket, not expired at
  the observation time, bound to the current policy fingerprint of a task with no pending policy
  reevaluation.
\<close>

theorem reusable_evaluations_are_current:
  assumes "load_evaluated_stored_write_tickets from_value task_id tickets task workflow approvals now =
      Ok evaluations"
  shows "length evaluations = length tickets \<and>
    (\<forall>e \<in> set evaluations. as_reusable e \<noteq> None \<longrightarrow>
       (\<exists>r \<in> set tickets. evaluation_stored e = \<lparr>sts_write_ticket_id = wt_write_ticket_id r,
            sts_ticket = swf_ticket (from_record r)\<rparr> \<and>
          wt_status r = WriteTicketStatus.Active \<and>
          \<not> write_ticket_is_idle_expired (wt_idle_expires_at r) now \<and>
          vb_write_authority_fingerprint (wt_validity_basis r) = pwp_write_authority_fingerprint workflow \<and>
          (\<exists>t facts. task = Some t \<and> load_write_ticket_control_facts from_value t workflow =
             Ok (facts, pwp_write_authority_fingerprint workflow) \<and>
             \<not> wtf_pending_policy_reevaluation facts)))"
proof -
  obtain pre where pre: "collect_results
      (\<lambda>r. pre_evaluate_stored_write_ticket (from_record r) now) tickets = Ok pre"
    using assms by (auto simp: load_evaluated_stored_write_tickets_def split: result.splits)
  obtain evaluated active where split: "split_pre_evaluations pre = (evaluated, active)" by fastforce
  note spec = split_pre_evaluations_spec[OF split]
  have length: "length pre = length tickets" using pre by (rule collect_results_Ok_length)
  show ?thesis
  proof (cases "active = []")
    case True
    then show ?thesis using assms pre split spec length
      by (auto simp: load_evaluated_stored_write_tickets_def)
  next
    case False
    obtain t facts fingerprint where t: "task = Some t"
        "load_write_ticket_control_facts from_value t workflow = Ok (facts, fingerprint)"
        "evaluations = evaluated @ map (evaluate_current_candidate facts fingerprint approvals now) active"
      using assms pre split False
      by (auto simp: load_evaluated_stored_write_tickets_def split: option.splits result.splits)
    have fingerprint: "fingerprint = pwp_write_authority_fingerprint workflow"
      using t(2) by (auto simp: load_write_ticket_control_facts_def)
    have "length evaluations = length tickets" using t(3) spec length by simp
    moreover have "\<exists>r \<in> set tickets. evaluation_stored e = \<lparr>sts_write_ticket_id = wt_write_ticket_id r,
            sts_ticket = swf_ticket (from_record r)\<rparr> \<and>
          wt_status r = WriteTicketStatus.Active \<and>
          \<not> write_ticket_is_idle_expired (wt_idle_expires_at r) now \<and>
          vb_write_authority_fingerprint (wt_validity_basis r) = fingerprint \<and>
          \<not> wtf_pending_policy_reevaluation facts"
      if e: "e \<in> set evaluations" "as_reusable e \<noteq> None" for e
    proof -
      obtain c where c: "c \<in> set active" "e = evaluate_current_candidate facts fingerprint approvals now c"
        using e t(3) spec by auto
      show ?thesis
        using reusable_evaluation_ticket[OF pre split c(1), of facts fingerprint approvals] e(2) c(2) by auto
    qed
    ultimately show ?thesis using t(1,2) fingerprint by blast
  qed
qed

theorem reusable_evaluations_are_current_witness:
  "\<exists>evaluations. load_evaluated_stored_write_tickets (\<lambda>_. None) ''task_1'' [sample_ticket]
     (Some sample_task) (conservative_default (''sha256:'' @ replicate 64 (CHR ''a'')))
     [user_action_authority_from_record sample_resolved] 300 = Ok evaluations \<and>
     length evaluations = 1"
proof -
  let ?load = "load_evaluated_stored_write_tickets (\<lambda>_. None) ''task_1'' [sample_ticket]
     (Some sample_task) (conservative_default (''sha256:'' @ replicate 64 (CHR ''a'')))
     [user_action_authority_from_record sample_resolved] 300"
  have "is_ok ?load" by code_simp
  then obtain evaluations where ok: "?load = Ok evaluations" by (cases ?load) auto
  with reusable_evaluations_are_current[OF ok] show ?thesis by simp
qed

end
