(* ===== verification/Transitions.thy ===== *)
theory Transitions
  imports Prelude
begin

text \<open>
  Components that change state one operation at a time: a fallible step, runs of steps, and the two
  contracts shared by such components.  \<open>preserved\<close> is the contract of an invariant, \<open>evolving\<close> adds a
  reflexive and transitive relation between earlier and later states.  A guard names what the caller
  of a step promises; a failed step leaves the state as it was, so only successful steps matter.
\<close>

fun run_steps :: "('e \<Rightarrow> 's \<Rightarrow> ('s, 'x) result) \<Rightarrow> 'e list \<Rightarrow> 's \<Rightarrow> 's" where
  "run_steps step [] s = s"
| "run_steps step (e # es) s =
     (case step e s of Ok s' \<Rightarrow> run_steps step es s' | Err _ \<Rightarrow> run_steps step es s)"

fun admissible ::
  "('e \<Rightarrow> 's \<Rightarrow> bool) \<Rightarrow> ('e \<Rightarrow> 's \<Rightarrow> ('s, 'x) result) \<Rightarrow> 'e list \<Rightarrow> 's \<Rightarrow> bool" where
  "admissible guard step [] s = True"
| "admissible guard step (e # es) s =
     (guard e s \<and>
      (case step e s of Ok s' \<Rightarrow> admissible guard step es s' | Err _ \<Rightarrow> admissible guard step es s))"

lemma run_steps_append:
  "run_steps step (es @ fs) s = run_steps step fs (run_steps step es s)"
  by (induction es arbitrary: s) (auto split: result.splits)

locale preserved =
  fixes step :: "'e \<Rightarrow> 's \<Rightarrow> ('s, 'x) result"
    and guard :: "'e \<Rightarrow> 's \<Rightarrow> bool"
    and inv :: "'s \<Rightarrow> bool"
  assumes inv_step: "\<lbrakk>inv s; guard e s; step e s = Ok s'\<rbrakk> \<Longrightarrow> inv s'"
begin

lemma run_inv: "\<lbrakk>inv s; admissible guard step es s\<rbrakk> \<Longrightarrow> inv (run_steps step es s)"
  by (induction es arbitrary: s) (auto split: result.splits intro: inv_step)

end

locale evolving = preserved +
  fixes evolves :: "'s \<Rightarrow> 's \<Rightarrow> bool"
  assumes evolves_refl: "evolves s s"
    and evolves_trans: "\<lbrakk>evolves s t; evolves t u\<rbrakk> \<Longrightarrow> evolves s u"
    and evolves_step: "\<lbrakk>inv s; guard e s; step e s = Ok s'\<rbrakk> \<Longrightarrow> evolves s s'"
begin

lemma run_evolves: "\<lbrakk>inv s; admissible guard step es s\<rbrakk> \<Longrightarrow> evolves s (run_steps step es s)"
proof (induction es arbitrary: s)
  case (Cons e es)
  then show ?case
    by (cases "step e s")
      (auto intro: inv_step evolves_trans[OF evolves_step])
qed (simp add: evolves_refl)

end

end
