(* ===== verification/TicketStore.thy ===== *)
theory TicketStore
  imports WriteTicket Transitions
begin

text \<open>
  The write-ticket table of \<open>crates/volicord-store/src/core_pipeline/write_tickets.rs\<close>: the check every
  ticket passes when it is written and again when it is read, and the five mutations a Core commit
  can apply to the table.  A row is kept with its columns already decoded to their types; the JSON
  and timestamp text of a column is the concern of \<open>serde_json\<close> and \<open>chrono\<close>.
\<close>

section \<open>Validation\<close>

datatype WriteTicketInvariant =
    TaskIdentityAgreement | ChangeUnitIdentityAgreement | ApprovalOwnerAgreement
  | ApprovalResolutionIdentity | DuplicateApprovalResolutionIdentity | ScopeRevisionAgreement
  | BaselineAgreement | TimestampOrder | DuplicateIntendedPaths | DuplicateAllowedPaths
  | DuplicateDeniedPaths | AllowedDeniedPathDisjointness | IntendedPathCoverage
  | ProductFileWriteIntentAgreement | StatusLifecycleAgreement

datatype WriteTicketFieldKind = Json | Value

datatype WriteTicketValidationFailure =
    Field string WriteTicketFieldKind
  | Invariant WriteTicketInvariant

definition nonempty_stored_identifier :: "string \<Rightarrow> bool" where
  "nonempty_stored_identifier value \<longleftrightarrow> trim value \<noteq> []"

definition lowercase_sha256_hex :: "string \<Rightarrow> bool" where
  "lowercase_sha256_hex value \<longleftrightarrow>
     length value = 64 \<and> list_all (\<lambda>b. is_ascii_digit b \<or> byte_in 97 102 b) value"

text \<open>The Rust code slices \<open>value[7..]\<close> after checking the ASCII prefix, so the slice never panics.\<close>

definition canonical_write_authority_fingerprint :: "string \<Rightarrow> bool" where
  "canonical_write_authority_fingerprint value \<longleftrightarrow>
     length value = 71 \<and> strip_prefix_of ''sha256:'' value \<noteq> None \<and>
     list_all (\<lambda>b. is_ascii_digit b \<or> byte_in 97 102 b) (drop 7 value)"

definition status_columns_are_valid :: "StoredWriteTicket \<Rightarrow> bool" where
  "status_columns_are_valid r =
     (case wt_status r of
        WriteTicketStatus.Active \<Rightarrow>
          wt_invalidation_reason r = None \<and> wt_consumed_by_run_id r = None \<and>
          wt_consumed_at r = None \<and> wt_revoked_at r = None
      | WriteTicketStatus.Consumed \<Rightarrow>
          wt_invalidation_reason r = None \<and> wt_consumed_by_run_id r \<noteq> None \<and>
          wt_consumed_at r \<noteq> None \<and> wt_revoked_at r = None
      | WriteTicketStatus.Invalidated \<Rightarrow>
          wt_invalidation_reason r \<noteq> None \<and> wt_consumed_by_run_id r = None \<and>
          wt_consumed_at r = None \<and> wt_revoked_at r = None
      | WriteTicketStatus.Revoked \<Rightarrow>
          wt_invalidation_reason r \<noteq> None \<and> wt_consumed_by_run_id r = None \<and>
          wt_consumed_at r = None \<and> wt_revoked_at r \<noteq> None)"

definition timestamps_are_representable :: "StoredWriteTicket \<Rightarrow> (unit, WriteTicketValidationFailure) result" where
  "timestamps_are_representable r =
     and_then (ensure (canonical_rfc3339_representable (wt_created_at r)) (Field ''created_at'' Value)) (\<lambda>_.
     and_then (ensure (\<not> is_some_and (wt_idle_expires_at r) (\<lambda>t. \<not> canonical_rfc3339_representable t))
       (Field ''idle_expires_at'' Value)) (\<lambda>_.
     and_then (ensure (\<not> is_some_and (wt_consumed_at r) (\<lambda>t. \<not> canonical_rfc3339_representable t))
       (Field ''consumed_at'' Value)) (\<lambda>_.
     ensure (\<not> is_some_and (wt_revoked_at r) (\<lambda>t. \<not> canonical_rfc3339_representable t))
       (Field ''revoked_at'' Value))))"

definition validate_write_ticket_record ::
  "StoredWriteTicket \<Rightarrow> (unit, WriteTicketValidationFailure) result" where
  "validate_write_ticket_record r =
     (let basis = wt_validity_basis r; scope = wt_attempt_scope r; refs = vb_approval_basis_refs basis in
     and_then (ensure (wt_basis_state_version r \<noteq> 0) (Field ''basis_state_version'' Value)) (\<lambda>_.
     and_then (ensure (vb_scope_revision basis \<noteq> 0) (Field ''validity_basis_json'' Json)) (\<lambda>_.
     and_then (ensure (trim (as_intended_operation scope) \<noteq> []) (Field ''attempt_scope_json'' Json)) (\<lambda>_.
     and_then (ensure (canonical_write_authority_fingerprint (vb_write_authority_fingerprint basis) \<and>
         \<not> is_some_and (vb_workspace_context_sha256 basis) (\<lambda>digest. \<not> lowercase_sha256_hex digest))
       (Field ''validity_basis_json'' Json)) (\<lambda>_.
     and_then (timestamps_are_representable r) (\<lambda>_.
     and_then (ensure (vb_task_id basis = wt_task_id r \<and> as_task_id scope = wt_task_id r)
       (Invariant TaskIdentityAgreement)) (\<lambda>_.
     and_then (ensure (\<not> list_ex (\<lambda>ref. resolution_ref_project_id ref \<noteq> wt_project_id r \<or>
         resolution_ref_task_id ref \<noteq> wt_task_id r) refs)
       (Invariant ApprovalOwnerAgreement)) (\<lambda>_.
     and_then (ensure (\<not> list_ex (\<lambda>ref. \<not> nonempty_stored_identifier (resolution_ref_record_id ref)) refs)
       (Invariant ApprovalResolutionIdentity)) (\<lambda>_.
     and_then (ensure (length (identity_set (map resolution_identity refs)) = length refs)
       (Invariant DuplicateApprovalResolutionIdentity)) (\<lambda>_.
     and_then (ensure (vb_change_unit_id basis = wt_change_unit_id r \<and>
         as_change_unit_id scope = wt_change_unit_id r)
       (Invariant ChangeUnitIdentityAgreement)) (\<lambda>_.
     and_then (ensure (\<not> vb_scope_revision basis > wt_basis_state_version r)
       (Invariant ScopeRevisionAgreement)) (\<lambda>_.
     and_then (ensure (vb_baseline_ref basis = as_baseline_ref scope) (Invariant BaselineAgreement)) (\<lambda>_.
     and_then (ensure (\<not> (is_some_and (wt_idle_expires_at r) (\<lambda>t. t \<le> wt_created_at r) \<or>
         is_some_and (wt_consumed_at r) (\<lambda>t. t < wt_created_at r) \<or>
         is_some_and (wt_revoked_at r) (\<lambda>t. t < wt_created_at r)))
       (Invariant TimestampOrder)) (\<lambda>_.
     and_then (ensure (length (btree_set (as_intended_paths scope)) = length (as_intended_paths scope))
       (Invariant DuplicateIntendedPaths)) (\<lambda>_.
     and_then (ensure (\<not> list_ex (\<lambda>intended. \<not> list_ex (is_within intended) (allowed (wt_path_scope r)) \<or>
         list_ex (is_within intended) (denied (wt_path_scope r))) (as_intended_paths scope))
       (Invariant IntendedPathCoverage)) (\<lambda>_.
     and_then (ensure (as_product_file_write_intended scope = (as_intended_paths scope \<noteq> []))
       (Invariant ProductFileWriteIntentAgreement)) (\<lambda>_.
     ensure (status_columns_are_valid r) (Invariant StatusLifecycleAgreement))))))))))))))))))"

fun write_ticket_path_scope_invariant :: "WriteTicketPathScopeError \<Rightarrow> WriteTicketInvariant" where
  "write_ticket_path_scope_invariant DuplicateAllowedPath = DuplicateAllowedPaths"
| "write_ticket_path_scope_invariant DuplicateDeniedPath = DuplicateDeniedPaths"
| "write_ticket_path_scope_invariant AllowedDeniedOverlap = AllowedDeniedPathDisjointness"

datatype StoreError =
    InvalidInput string
  | InconsistentTicket WriteTicketValidationFailure
  | CorruptTicket WriteTicketId WriteTicketValidationFailure
  | SchemaInvariant string
  | NotFound WriteTicketId
  | Conflict WriteTicketId
  | IntegerRange string
  | CorruptOwnerState string string
  | ConstraintViolation string

definition optional_identifier :: "string option \<Rightarrow> bool" where
  "optional_identifier value \<longleftrightarrow> \<not> is_some_and value (\<lambda>v. \<not> nonempty_stored_identifier v)"

text \<open>Decoding a row: the identifier columns, the path scope and the record as a whole are checked.\<close>

definition decode_write_ticket_record ::
  "StoredWriteTicket \<Rightarrow> (StoredWriteTicket, StoreError) result" where
  "decode_write_ticket_record r =
     (let corrupt = (\<lambda>failure. CorruptTicket (wt_write_ticket_id r) failure);
          corrupt_value = (\<lambda>column. corrupt (Field column Value)) in
     and_then (ensure (nonempty_stored_identifier (wt_project_id r)) (corrupt_value ''project_id'')) (\<lambda>_.
     and_then (ensure (nonempty_stored_identifier (wt_write_ticket_id r))
       (corrupt_value ''write_ticket_id'')) (\<lambda>_.
     and_then (ensure (nonempty_stored_identifier (wt_task_id r)) (corrupt_value ''task_id'')) (\<lambda>_.
     and_then (ensure (nonempty_stored_identifier (wt_change_unit_id r))
       (corrupt_value ''change_unit_id'')) (\<lambda>_.
     and_then (map_err (\<lambda>e. corrupt (Invariant (write_ticket_path_scope_invariant e)))
       (new_path_scope (allowed (wt_path_scope r)) (denied (wt_path_scope r)))) (\<lambda>path_scope.
     and_then (ensure (optional_identifier (wt_created_by_user_action_resolution_id r))
       (corrupt_value ''created_by_user_action_resolution_id'')) (\<lambda>_.
     and_then (ensure (optional_identifier (wt_consumed_by_run_id r))
       (corrupt_value ''consumed_by_run_id'')) (\<lambda>_.
     and_then (map_err corrupt (validate_write_ticket_record (r\<lparr>wt_path_scope := path_scope\<rparr>))) (\<lambda>_.
     Ok (r\<lparr>wt_path_scope := path_scope\<rparr>))))))))))"

section \<open>Reading the table\<close>

type_synonym TicketTable = "StoredWriteTicket list"

definition row_is :: "ProjectId \<Rightarrow> WriteTicketId \<Rightarrow> StoredWriteTicket \<Rightarrow> bool" where
  "row_is project_id write_ticket_id r \<longleftrightarrow>
     wt_project_id r = project_id \<and> wt_write_ticket_id r = write_ticket_id"

definition write_ticket_record ::
  "TicketTable \<Rightarrow> ProjectId \<Rightarrow> WriteTicketId \<Rightarrow> (StoredWriteTicket option, StoreError) result" where
  "write_ticket_record rows project_id write_ticket_id =
     (case find (row_is project_id write_ticket_id) rows of
        None \<Rightarrow> Ok None
      | Some row \<Rightarrow> and_then (decode_write_ticket_record row) (\<lambda>r. Ok (Some r)))"

definition active_write_tickets ::
  "TicketTable \<Rightarrow> ProjectId \<Rightarrow> TaskId \<Rightarrow> (StoredWriteTicket list, StoreError) result" where
  "active_write_tickets rows project_id task_id =
     and_then (collect_results decode_write_ticket_record
       (sort_key wt_write_ticket_id
         (filter (\<lambda>r. wt_project_id r = project_id \<and> wt_task_id r = task_id) rows)))
     (\<lambda>records. Ok (filter (\<lambda>r. wt_status r = WriteTicketStatus.Active) records))"

text \<open>\<open>ORDER BY basis_state_version DESC, write_ticket_id\<close>.\<close>

definition write_tickets_for_task ::
  "TicketTable \<Rightarrow> ProjectId \<Rightarrow> TaskId \<Rightarrow> (StoredWriteTicket list, StoreError) result" where
  "write_tickets_for_task rows project_id task_id =
     collect_results decode_write_ticket_record
       (sort_key (\<lambda>r. (- int (unat (wt_basis_state_version r)), wt_write_ticket_id r))
         (filter (\<lambda>r. wt_project_id r = project_id \<and> wt_task_id r = task_id) rows))"

section \<open>Mutations\<close>

record WriteTicketInsert =
  wti_write_ticket_id :: WriteTicketId
  wti_task_id :: TaskId
  wti_change_unit_id :: ChangeUnitId
  wti_validity_basis :: WriteTicketValidityBasis
  wti_path_scope :: WriteTicketPathScope
  wti_attempt_scope :: WriteTicketAttemptScope
  wti_created_by_actor_source :: ActorSource
  wti_created_by_user_action_resolution_id :: "UserActionResolutionId option"
  wti_idle_expires_at :: "UtcTimestamp option"
  wti_created_at :: UtcTimestamp
  wti_metadata :: JsonObject

record WriteTicketInvalidation =
  wtv_task_id :: TaskId
  wtv_invalidation_reason :: WriteTicketInvalidationReason

record WriteTicketByIdInvalidation =
  wtb_write_ticket_id :: WriteTicketId
  wtb_invalidation_reason :: WriteTicketInvalidationReason

record WriteTicketConsumption =
  wtc_write_ticket_id :: WriteTicketId
  wtc_run_id :: RunId
  wtc_expected_basis_state_version :: u64
  wtc_expected_write_authority_fingerprint :: string

datatype WriteTicketMutation =
    MarkActiveStale TaskId
  | InvalidateActive WriteTicketInvalidation
  | InvalidateById WriteTicketByIdInvalidation
  | Insert WriteTicketInsert
  | Consume WriteTicketConsumption

text \<open>
  What a mutation reads besides the table: the project and commit time of the transaction, the
  write-authority fingerprint of the project policy, and whether the rows of other tables a new
  ticket refers to exist (the foreign keys checked at once; the one to the run is deferred).
\<close>

record TicketMutationContext =
  tmc_project_id :: ProjectId
  tmc_committed_at :: UtcTimestamp
  tmc_write_authority_fingerprint :: string
  tmc_foreign_rows_exist :: "StoredWriteTicket \<Rightarrow> bool"

definition validate_identifier :: "string \<Rightarrow> string \<Rightarrow> (unit, StoreError) result" where
  "validate_identifier field value = ensure (trim value \<noteq> []) (InvalidInput field)"

definition u64_to_i64 :: "string \<Rightarrow> u64 \<Rightarrow> (int, StoreError) result" where
  "u64_to_i64 field value =
     (if uint value < 2 ^ 63 then Ok (uint value) else Err (IntegerRange field))"

text \<open>\<open>UPDATE ... WHERE\<close>: the new rows and the number of rows changed.\<close>

definition sql_update ::
  "('r \<Rightarrow> bool) \<Rightarrow> ('r \<Rightarrow> 'r) \<Rightarrow> 'r list \<Rightarrow> 'r list \<times> nat" where
  "sql_update cond change rows =
     (map (\<lambda>r. if cond r then change r else r) rows, length (filter cond rows))"

definition invalidated_row ::
  "WriteTicketInvalidationReason \<Rightarrow> StoredWriteTicket \<Rightarrow> StoredWriteTicket" where
  "invalidated_row reason r =
     r\<lparr>wt_status := WriteTicketStatus.Invalidated, wt_invalidation_reason := Some reason\<rparr>"

fun invalidate_active_write_ticket_ids_in_tx ::
  "ProjectId \<Rightarrow> WriteTicketId list \<Rightarrow> WriteTicketInvalidationReason \<Rightarrow> TicketTable \<Rightarrow>
     (TicketTable, StoreError) result" where
  "invalidate_active_write_ticket_ids_in_tx project_id [] reason rows = Ok rows"
| "invalidate_active_write_ticket_ids_in_tx project_id (write_ticket_id # ids) reason rows =
     (let (rows', changed) = sql_update
            (\<lambda>r. row_is project_id write_ticket_id r \<and> wt_status r = WriteTicketStatus.Active)
            (invalidated_row reason) rows
      in if changed \<noteq> 1
         then Err (SchemaInvariant ''identified active Write Ticket invalidation changed no rows'')
         else invalidate_active_write_ticket_ids_in_tx project_id ids reason rows')"

definition invalidate_active_write_tickets ::
  "WriteTicketInvalidation \<Rightarrow> TicketMutationContext \<Rightarrow> TicketTable \<Rightarrow>
     (TicketTable, StoreError) result" where
  "invalidate_active_write_tickets input context rows =
     and_then (validate_identifier ''task_id'' (wtv_task_id input)) (\<lambda>_.
     and_then (active_write_tickets rows (tmc_project_id context) (wtv_task_id input)) (\<lambda>records.
     invalidate_active_write_ticket_ids_in_tx (tmc_project_id context)
       (map wt_write_ticket_id records) (wtv_invalidation_reason input) rows))"

definition mark_active_write_tickets_stale ::
  "TaskId \<Rightarrow> TicketMutationContext \<Rightarrow> TicketTable \<Rightarrow> (TicketTable, StoreError) result" where
  "mark_active_write_tickets_stale task_id =
     invalidate_active_write_tickets \<lparr>wtv_task_id = task_id,
       wtv_invalidation_reason = WriteTicketInvalidationReason.ScopeRevisionChanged\<rparr>"

definition invalidate_write_ticket ::
  "WriteTicketByIdInvalidation \<Rightarrow> TicketMutationContext \<Rightarrow> TicketTable \<Rightarrow>
     (TicketTable, StoreError) result" where
  "invalidate_write_ticket input context rows =
     and_then (validate_identifier ''write_ticket_id'' (wtb_write_ticket_id input)) (\<lambda>_.
     and_then (write_ticket_record rows (tmc_project_id context) (wtb_write_ticket_id input)) (\<lambda>found.
     let unchanged = SchemaInvariant ''identified active write ticket invalidation changed no rows'' in
     case found of
       None \<Rightarrow> Err unchanged
     | Some r \<Rightarrow>
         and_then (ensure (wt_status r = WriteTicketStatus.Active) unchanged) (\<lambda>_.
         invalidate_active_write_ticket_ids_in_tx (tmc_project_id context)
           [wtb_write_ticket_id input] (wtb_invalidation_reason input) rows)))"

definition active_write_ticket_record ::
  "ProjectId \<Rightarrow> WriteTicketInsert \<Rightarrow> u64 \<Rightarrow> StoredWriteTicket" where
  "active_write_ticket_record project_id input basis_state_version = \<lparr>
     wt_project_id = project_id,
     wt_write_ticket_id = wti_write_ticket_id input,
     wt_task_id = wti_task_id input,
     wt_change_unit_id = wti_change_unit_id input,
     wt_basis_state_version = basis_state_version,
     wt_status = WriteTicketStatus.Active,
     wt_validity_basis = wti_validity_basis input,
     wt_path_scope = wti_path_scope input,
     wt_attempt_scope = wti_attempt_scope input,
     wt_created_by_actor_source = wti_created_by_actor_source input,
     wt_created_by_user_action_resolution_id = wti_created_by_user_action_resolution_id input,
     wt_idle_expires_at = wti_idle_expires_at input,
     wt_invalidation_reason = None,
     wt_consumed_by_run_id = None,
     wt_consumed_at = None,
     wt_revoked_at = None,
     wt_created_at = wti_created_at input,
     wt_metadata = wti_metadata input\<rparr>"

text \<open>The \<open>INSERT\<close> fails on a key that is taken and on a missing row of another table.\<close>

definition insert_write_ticket_record ::
  "TicketMutationContext \<Rightarrow> StoredWriteTicket \<Rightarrow> TicketTable \<Rightarrow> (TicketTable, StoreError) result" where
  "insert_write_ticket_record context r rows =
     and_then (u64_to_i64 ''basis_state_version'' (wt_basis_state_version r)) (\<lambda>_.
     and_then (ensure (\<not> list_ex (row_is (wt_project_id r) (wt_write_ticket_id r)) rows)
       (ConstraintViolation ''primary key'')) (\<lambda>_.
     and_then (ensure (tmc_foreign_rows_exist context r) (ConstraintViolation ''foreign key'')) (\<lambda>_.
     Ok (rows @ [r]))))"

definition insert_write_ticket ::
  "WriteTicketInsert \<Rightarrow> u64 \<Rightarrow> TicketMutationContext \<Rightarrow> TicketTable \<Rightarrow>
     (TicketTable, StoreError) result" where
  "insert_write_ticket input committed_state_version context rows =
     and_then (validate_identifier ''write_ticket_id'' (wti_write_ticket_id input)) (\<lambda>_.
     and_then (validate_identifier ''task_id'' (wti_task_id input)) (\<lambda>_.
     and_then (validate_identifier ''change_unit_id'' (wti_change_unit_id input)) (\<lambda>_.
     and_then (case wti_created_by_user_action_resolution_id input of
         None \<Rightarrow> Ok ()
       | Some resolution_id \<Rightarrow>
           validate_identifier ''created_by_user_action_resolution_id'' resolution_id) (\<lambda>_.
     let r = active_write_ticket_record (tmc_project_id context) input committed_state_version in
     and_then (map_err InconsistentTicket (validate_write_ticket_record r)) (\<lambda>_.
     insert_write_ticket_record context r rows)))))"

definition consumed_row :: "RunId \<Rightarrow> UtcTimestamp \<Rightarrow> StoredWriteTicket \<Rightarrow> StoredWriteTicket" where
  "consumed_row run_id committed_at r =
     r\<lparr>wt_status := WriteTicketStatus.Consumed, wt_consumed_by_run_id := Some run_id,
       wt_consumed_at := Some committed_at\<rparr>"

text \<open>The unique index on the consuming run makes the \<open>UPDATE\<close> fail when the run already consumed a
  ticket of the project.\<close>

definition consume_write_ticket ::
  "WriteTicketConsumption \<Rightarrow> TicketMutationContext \<Rightarrow> TicketTable \<Rightarrow>
     (TicketTable, StoreError) result" where
  "consume_write_ticket input context rows =
     and_then (validate_identifier ''write_ticket_id'' (wtc_write_ticket_id input)) (\<lambda>_.
     and_then (validate_identifier ''run_id'' (wtc_run_id input)) (\<lambda>_.
     and_then (write_ticket_record rows (tmc_project_id context) (wtc_write_ticket_id input)) (\<lambda>found.
     case found of
       None \<Rightarrow> Err (NotFound (wtc_write_ticket_id input))
     | Some ticket \<Rightarrow>
         and_then (ensure (\<not> (wt_status ticket \<noteq> WriteTicketStatus.Active \<or>
             wt_basis_state_version ticket \<noteq> wtc_expected_basis_state_version input \<or>
             vb_write_authority_fingerprint (wt_validity_basis ticket) \<noteq>
               wtc_expected_write_authority_fingerprint input \<or>
             tmc_write_authority_fingerprint context \<noteq> wtc_expected_write_authority_fingerprint input))
           (Conflict (wtc_write_ticket_id input))) (\<lambda>_.
         and_then (u64_to_i64 ''write_tickets.basis_state_version''
           (wtc_expected_basis_state_version input)) (\<lambda>_.
         and_then (ensure (\<not> list_ex (\<lambda>r. wt_project_id r = tmc_project_id context \<and>
             wt_consumed_by_run_id r = Some (wtc_run_id input)) rows)
           (ConstraintViolation ''idx_write_tickets_consumed_run'')) (\<lambda>_.
         let (rows', changed) = sql_update
               (\<lambda>r. row_is (tmc_project_id context) (wtc_write_ticket_id input) r \<and>
                 wt_status r = WriteTicketStatus.Active \<and>
                 wt_basis_state_version r = wtc_expected_basis_state_version input)
               (consumed_row (wtc_run_id input) (tmc_committed_at context)) rows
         in if changed = 1 then Ok rows'
            else Err (SchemaInvariant ''active Write Ticket consumption changed no rows'')))))))"

fun apply_write_ticket_mutation ::
  "WriteTicketMutation \<Rightarrow> TicketMutationContext \<Rightarrow> u64 \<Rightarrow> TicketTable \<Rightarrow>
     (TicketTable, StoreError) result" where
  "apply_write_ticket_mutation (MarkActiveStale task_id) context version rows =
     mark_active_write_tickets_stale task_id context rows"
| "apply_write_ticket_mutation (InvalidateActive input) context version rows =
     invalidate_active_write_tickets input context rows"
| "apply_write_ticket_mutation (InvalidateById input) context version rows =
     invalidate_write_ticket input context rows"
| "apply_write_ticket_mutation (Insert input) context version rows =
     insert_write_ticket input version context rows"
| "apply_write_ticket_mutation (Consume input) context version rows =
     consume_write_ticket input context rows"

section \<open>The table as a transition system\<close>

text \<open>One applied mutation, and the table with the time of the last commit.\<close>

record TicketEvent =
  tev_context :: TicketMutationContext
  tev_state_version :: u64
  tev_mutation :: WriteTicketMutation

record TicketStoreState =
  tss_rows :: TicketTable
  tss_committed_at :: UtcTimestamp

definition ticket_step ::
  "TicketEvent \<Rightarrow> TicketStoreState \<Rightarrow> (TicketStoreState, StoreError) result" where
  "ticket_step e s =
     and_then (apply_write_ticket_mutation (tev_mutation e) (tev_context e) (tev_state_version e)
       (tss_rows s))
     (\<lambda>rows. Ok \<lparr>tss_rows = rows, tss_committed_at = tmc_committed_at (tev_context e)\<rparr>)"

definition path_scope_constructed :: "WriteTicketPathScope \<Rightarrow> bool" where
  "path_scope_constructed sc \<longleftrightarrow> new_path_scope (allowed sc) (denied sc) = Ok sc"

text \<open>What a transaction promises: commit times never go back and can be printed, the project has an
  id, and an inserted ticket carries a constructed path scope and was created no later than now.\<close>

definition ticket_event_ok :: "TicketEvent \<Rightarrow> TicketStoreState \<Rightarrow> bool" where
  "ticket_event_ok e s \<longleftrightarrow>
     tss_committed_at s \<le> tmc_committed_at (tev_context e) \<and>
     canonical_rfc3339_representable (tmc_committed_at (tev_context e)) \<and>
     nonempty_stored_identifier (tmc_project_id (tev_context e)) \<and>
     (case tev_mutation e of
        Insert input \<Rightarrow> path_scope_constructed (wti_path_scope input) \<and>
          wti_created_at input \<le> tmc_committed_at (tev_context e)
      | _ \<Rightarrow> True)"

text \<open>The flat form of the record check.\<close>

definition write_ticket_wf :: "StoredWriteTicket \<Rightarrow> bool" where
  "write_ticket_wf r \<longleftrightarrow>
     (let basis = wt_validity_basis r; scope = wt_attempt_scope r; refs = vb_approval_basis_refs basis in
     wt_basis_state_version r \<noteq> 0 \<and> vb_scope_revision basis \<noteq> 0 \<and>
     trim (as_intended_operation scope) \<noteq> [] \<and>
     canonical_write_authority_fingerprint (vb_write_authority_fingerprint basis) \<and>
     (\<forall>digest. vb_workspace_context_sha256 basis = Some digest \<longrightarrow> lowercase_sha256_hex digest) \<and>
     canonical_rfc3339_representable (wt_created_at r) \<and>
     (\<forall>t. wt_idle_expires_at r = Some t \<longrightarrow> canonical_rfc3339_representable t) \<and>
     (\<forall>t. wt_consumed_at r = Some t \<longrightarrow> canonical_rfc3339_representable t) \<and>
     (\<forall>t. wt_revoked_at r = Some t \<longrightarrow> canonical_rfc3339_representable t) \<and>
     vb_task_id basis = wt_task_id r \<and> as_task_id scope = wt_task_id r \<and>
     (\<forall>ref \<in> set refs. resolution_ref_project_id ref = wt_project_id r \<and>
        resolution_ref_task_id ref = wt_task_id r) \<and>
     (\<forall>ref \<in> set refs. nonempty_stored_identifier (resolution_ref_record_id ref)) \<and>
     distinct (map resolution_identity refs) \<and>
     vb_change_unit_id basis = wt_change_unit_id r \<and> as_change_unit_id scope = wt_change_unit_id r \<and>
     vb_scope_revision basis \<le> wt_basis_state_version r \<and>
     vb_baseline_ref basis = as_baseline_ref scope \<and>
     (\<forall>t. wt_idle_expires_at r = Some t \<longrightarrow> wt_created_at r < t) \<and>
     (\<forall>t. wt_consumed_at r = Some t \<longrightarrow> wt_created_at r \<le> t) \<and>
     (\<forall>t. wt_revoked_at r = Some t \<longrightarrow> wt_created_at r \<le> t) \<and>
     distinct (as_intended_paths scope) \<and>
     (\<forall>p \<in> set (as_intended_paths scope).
        (\<exists>a \<in> set (allowed (wt_path_scope r)). is_within p a) \<and>
        (\<forall>d \<in> set (denied (wt_path_scope r)). \<not> is_within p d)) \<and>
     as_product_file_write_intended scope = (as_intended_paths scope \<noteq> []) \<and>
     status_columns_are_valid r)"

text \<open>A stored row: it decodes, to itself.\<close>

definition row_ok :: "StoredWriteTicket \<Rightarrow> bool" where
  "row_ok r \<longleftrightarrow> decode_write_ticket_record r = Ok r"

definition row_key :: "StoredWriteTicket \<Rightarrow> ProjectId \<times> WriteTicketId" where
  "row_key r = (wt_project_id r, wt_write_ticket_id r)"

definition consuming_runs :: "TicketTable \<Rightarrow> (ProjectId \<times> RunId option) list" where
  "consuming_runs rows =
     map (\<lambda>r. (wt_project_id r, wt_consumed_by_run_id r))
       (filter (\<lambda>r. wt_consumed_by_run_id r \<noteq> None) rows)"

definition ticket_table_ok :: "TicketStoreState \<Rightarrow> bool" where
  "ticket_table_ok s \<longleftrightarrow>
     list_all row_ok (tss_rows s) \<and> distinct (map row_key (tss_rows s)) \<and>
     distinct (consuming_runs (tss_rows s)) \<and>
     list_all (\<lambda>r. wt_created_at r \<le> tss_committed_at s) (tss_rows s)"

text \<open>How one row may change: not at all, or once, from active to a terminal status.\<close>

inductive ticket_evolves :: "StoredWriteTicket \<Rightarrow> StoredWriteTicket \<Rightarrow> bool" where
  kept: "ticket_evolves r r"
| invalidated: "wt_status r = WriteTicketStatus.Active \<Longrightarrow> ticket_evolves r (invalidated_row reason r)"
| consumed: "wt_status r = WriteTicketStatus.Active \<Longrightarrow> ticket_evolves r (consumed_row run_id now r)"

inductive_cases ticket_evolvesE: "ticket_evolves r r'"

definition table_evolves :: "TicketStoreState \<Rightarrow> TicketStoreState \<Rightarrow> bool" where
  "table_evolves s s' \<longleftrightarrow>
     list_all2 ticket_evolves (tss_rows s) (take (length (tss_rows s)) (tss_rows s'))"

text \<open>The abstract table: a map from keys to tickets, on which a mutation is one update.\<close>

definition table_map :: "TicketTable \<Rightarrow> (ProjectId \<times> WriteTicketId) \<rightharpoonup> StoredWriteTicket" where
  "table_map rows = map_of (map (\<lambda>r. (row_key r, r)) rows)"

definition spec_invalidate_task ::
  "ProjectId \<Rightarrow> TaskId \<Rightarrow> WriteTicketInvalidationReason \<Rightarrow>
     ((ProjectId \<times> WriteTicketId) \<rightharpoonup> StoredWriteTicket) \<Rightarrow>
     (ProjectId \<times> WriteTicketId) \<rightharpoonup> StoredWriteTicket" where
  "spec_invalidate_task project_id task_id reason m = (\<lambda>k. map_option (\<lambda>r.
     if wt_project_id r = project_id \<and> wt_task_id r = task_id \<and> wt_status r = WriteTicketStatus.Active
     then invalidated_row reason r else r) (m k))"

fun spec_mutation ::
  "WriteTicketMutation \<Rightarrow> TicketMutationContext \<Rightarrow> u64 \<Rightarrow>
     ((ProjectId \<times> WriteTicketId) \<rightharpoonup> StoredWriteTicket) \<Rightarrow>
     (ProjectId \<times> WriteTicketId) \<rightharpoonup> StoredWriteTicket" where
  "spec_mutation (MarkActiveStale task_id) c version m =
     spec_invalidate_task (tmc_project_id c) task_id
       WriteTicketInvalidationReason.ScopeRevisionChanged m"
| "spec_mutation (InvalidateActive input) c version m =
     spec_invalidate_task (tmc_project_id c) (wtv_task_id input) (wtv_invalidation_reason input) m"
| "spec_mutation (InvalidateById input) c version m =
     m((tmc_project_id c, wtb_write_ticket_id input) :=
       map_option (invalidated_row (wtb_invalidation_reason input))
         (m (tmc_project_id c, wtb_write_ticket_id input)))"
| "spec_mutation (Insert input) c version m =
     m((tmc_project_id c, wti_write_ticket_id input) \<mapsto>
       active_write_ticket_record (tmc_project_id c) input version)"
| "spec_mutation (Consume input) c version m =
     m((tmc_project_id c, wtc_write_ticket_id input) :=
       map_option (consumed_row (wtc_run_id input) (tmc_committed_at c))
         (m (tmc_project_id c, wtc_write_ticket_id input)))"

text \<open>The invariant, the evolution of the rows and the abstract update in one statement.\<close>

definition sound_update ::
  "UtcTimestamp \<Rightarrow> UtcTimestamp \<Rightarrow> TicketTable \<Rightarrow> TicketTable \<Rightarrow>
     ((ProjectId \<times> WriteTicketId) \<rightharpoonup> StoredWriteTicket) \<Rightarrow> bool" where
  "sound_update clock now rows rows' m \<longleftrightarrow>
     ticket_table_ok \<lparr>tss_rows = rows', tss_committed_at = now\<rparr> \<and>
     list_all2 ticket_evolves rows (take (length rows) rows') \<and> table_map rows' = m"

text \<open>A ticket that is inserted and then consumed.\<close>

definition sample_ticket_insert :: WriteTicketInsert where
  "sample_ticket_insert = \<lparr>
     wti_write_ticket_id = wt_write_ticket_id sample_ticket, wti_task_id = wt_task_id sample_ticket,
     wti_change_unit_id = wt_change_unit_id sample_ticket,
     wti_validity_basis = wt_validity_basis sample_ticket,
     wti_path_scope = wt_path_scope sample_ticket, wti_attempt_scope = wt_attempt_scope sample_ticket,
     wti_created_by_actor_source = wt_created_by_actor_source sample_ticket,
     wti_created_by_user_action_resolution_id = wt_created_by_user_action_resolution_id sample_ticket,
     wti_idle_expires_at = wt_idle_expires_at sample_ticket,
     wti_created_at = wt_created_at sample_ticket, wti_metadata = wt_metadata sample_ticket\<rparr>"

definition sample_ticket_context :: "UtcTimestamp \<Rightarrow> TicketMutationContext" where
  "sample_ticket_context committed_at = \<lparr>
     tmc_project_id = ''p'', tmc_committed_at = committed_at,
     tmc_write_authority_fingerprint = ''sha256:'' @ replicate 64 (CHR ''a''),
     tmc_foreign_rows_exist = (\<lambda>_. True)\<rparr>"

definition sample_insert_event :: TicketEvent where
  "sample_insert_event = \<lparr>tev_context = sample_ticket_context 250, tev_state_version = 6,
     tev_mutation = Insert sample_ticket_insert\<rparr>"

definition sample_consumption :: WriteTicketConsumption where
  "sample_consumption = \<lparr>wtc_write_ticket_id = ''wt_1'', wtc_run_id = ''run_1'',
     wtc_expected_basis_state_version = 6,
     wtc_expected_write_authority_fingerprint = ''sha256:'' @ replicate 64 (CHR ''a'')\<rparr>"

definition sample_consume_event :: TicketEvent where
  "sample_consume_event = \<lparr>tev_context = sample_ticket_context 300, tev_state_version = 7,
     tev_mutation = Consume sample_consumption\<rparr>"

definition sample_ticket_store :: TicketStoreState where
  "sample_ticket_store = \<lparr>tss_rows = [sample_ticket], tss_committed_at = 250\<rparr>"

section \<open>Lemmas\<close>

lemma identity_set_length:
  "length (identity_set xs) = length xs \<longleftrightarrow> distinct xs"
  by (simp add: identity_set_def length_remdups_eq_iff)

lemma timestamps_are_representable_iff [store_simps]:
  "timestamps_are_representable r = Ok u \<longleftrightarrow>
     canonical_rfc3339_representable (wt_created_at r) \<and>
     (\<forall>t. wt_idle_expires_at r = Some t \<longrightarrow> canonical_rfc3339_representable t) \<and>
     (\<forall>t. wt_consumed_at r = Some t \<longrightarrow> canonical_rfc3339_representable t) \<and>
     (\<forall>t. wt_revoked_at r = Some t \<longrightarrow> canonical_rfc3339_representable t)"
  by (auto simp: timestamps_are_representable_def is_some_and_iff)

lemma identity_set_length_map:
  "length (identity_set (map f xs)) = length xs \<longleftrightarrow> distinct (map f xs)"
  using identity_set_length[of "map f xs"] by simp

lemma validate_write_ticket_record_iff [store_simps]:
  "validate_write_ticket_record r = Ok u \<longleftrightarrow> write_ticket_wf r"
  unfolding validate_write_ticket_record_def write_ticket_wf_def Let_def
  by (simp add: timestamps_are_representable_iff is_some_and_iff identity_set_length_map
      length_btree_set_eq_iff list_ex_iff not_less not_le)

lemma optional_identifier_simps [simp]:
  "optional_identifier None" "optional_identifier (Some v) \<longleftrightarrow> nonempty_stored_identifier v"
  by (simp_all add: optional_identifier_def)

lemma new_path_scope_again:
  "new_path_scope (allowed sc) (denied sc) = Ok sc' \<longleftrightarrow> sc' = sc \<and> path_scope_constructed sc"
  by (auto simp: path_scope_constructed_def new_path_scope_Ok_iff)

lemma row_ok_iff [store_simps]:
  "row_ok r \<longleftrightarrow>
     nonempty_stored_identifier (wt_project_id r) \<and> nonempty_stored_identifier (wt_write_ticket_id r) \<and>
     nonempty_stored_identifier (wt_task_id r) \<and> nonempty_stored_identifier (wt_change_unit_id r) \<and>
     path_scope_constructed (wt_path_scope r) \<and>
     optional_identifier (wt_created_by_user_action_resolution_id r) \<and>
     optional_identifier (wt_consumed_by_run_id r) \<and> write_ticket_wf r"
  by (auto simp: row_ok_def decode_write_ticket_record_def Let_def new_path_scope_again
      validate_write_ticket_record_iff)

lemma row_ok_invalidated:
  "\<lbrakk>row_ok r; wt_status r = WriteTicketStatus.Active\<rbrakk> \<Longrightarrow> row_ok (invalidated_row reason r)"
  by (simp add: row_ok_iff invalidated_row_def write_ticket_wf_def Let_def status_columns_are_valid_def)

lemma row_ok_consumed:
  assumes "row_ok r" "wt_status r = WriteTicketStatus.Active"
    and "nonempty_stored_identifier run_id" "canonical_rfc3339_representable now" "wt_created_at r \<le> now"
  shows "row_ok (consumed_row run_id now r)"
  using assms
  by (simp add: row_ok_iff consumed_row_def write_ticket_wf_def Let_def status_columns_are_valid_def)

lemma row_ok_Active:
  "\<lbrakk>row_ok r; wt_status r = WriteTicketStatus.Active\<rbrakk> \<Longrightarrow> wt_consumed_by_run_id r = None"
  by (simp add: row_ok_iff write_ticket_wf_def Let_def status_columns_are_valid_def)

lemma decode_write_ticket_record_Ok:
  "decode_write_ticket_record r = Ok r' \<longleftrightarrow> row_ok r \<and> r' = r"
  by (auto simp: row_ok_def decode_write_ticket_record_def Let_def new_path_scope_again)

lemma sql_update_one:
  assumes "sql_update cond change rows = (rows', 1)"
  obtains before r after where "rows = before @ r # after" "cond r"
    "rows' = before @ change r # after"
proof -
  have one: "length (filter cond rows) = 1"
    and rows': "rows' = map (\<lambda>r. if cond r then change r else r) rows"
    using assms by (auto simp: sql_update_def)
  then obtain r where r: "filter cond rows = [r]" by (auto simp: length_Suc_conv)
  then obtain before after where split: "rows = before @ r # after" "\<not> list_ex cond before" "cond r"
    "filter cond after = []"
    by (auto simp: filter_eq_Cons_iff list_ex_iff)
  have "map (\<lambda>r. if cond r then change r else r) before = before"
    "map (\<lambda>r. if cond r then change r else r) after = after"
    using split(2,4) by (auto simp: list_ex_iff filter_empty_conv intro!: map_idI)
  with that split rows' show ?thesis by simp
qed

lemma ticket_table_ok_replace:
  assumes ok: "ticket_table_ok \<lparr>tss_rows = before @ r # after, tss_committed_at = clock\<rparr>"
    and row: "row_ok r'" "row_key r' = row_key r" "wt_created_at r' = wt_created_at r"
    and run: "wt_consumed_by_run_id r = None"
    and fresh: "wt_consumed_by_run_id r' \<noteq> None \<longrightarrow>
      (wt_project_id r, wt_consumed_by_run_id r') \<notin> set (consuming_runs (before @ r # after))"
    and later: "clock \<le> now"
  shows "ticket_table_ok \<lparr>tss_rows = before @ r' # after, tss_committed_at = now\<rparr>"
proof -
  have "wt_project_id r' = wt_project_id r" using row(2) by (simp add: row_key_def)
  with assms show ?thesis
    by (auto simp: ticket_table_ok_def consuming_runs_def list_all_iff intro: order_trans)
qed

subsection \<open>Reading a sound table\<close>

lemma collect_decode_ok:
  "list_all row_ok rows \<Longrightarrow> collect_results decode_write_ticket_record rows = Ok rows"
  by (induction rows) (simp_all add: row_ok_def)

lemma active_write_tickets_ok:
  assumes "list_all row_ok rows"
  shows "active_write_tickets rows p t = Ok (filter (\<lambda>r. wt_status r = WriteTicketStatus.Active)
    (sort_key wt_write_ticket_id (filter (\<lambda>r. wt_project_id r = p \<and> wt_task_id r = t) rows)))"
proof -
  have "list_all row_ok (sort_key wt_write_ticket_id (filter (\<lambda>r. wt_project_id r = p \<and> wt_task_id r = t) rows))"
    using assms by (simp add: list_all_iff)
  from collect_decode_ok[OF this] show ?thesis by (simp add: active_write_tickets_def)
qed

lemma write_ticket_record_ok:
  assumes "list_all row_ok rows"
  shows "write_ticket_record rows p i = Ok (find (row_is p i) rows)"
proof (cases "find (row_is p i) rows")
  case (Some r)
  then have "r \<in> set rows" by (metis find_Some_iff nth_mem)
  with assms Some show ?thesis
    by (simp add: write_ticket_record_def decode_write_ticket_record_Ok list_all_iff)
qed (simp add: write_ticket_record_def)

lemma find_row_is:
  assumes "distinct (map row_key rows)" "r \<in> set rows" "row_is p i r"
  shows "find (row_is p i) rows = Some r"
proof -
  obtain r' where "find (row_is p i) rows = Some r'"
    using assms(2,3) by (cases "find (row_is p i) rows") (auto simp: find_None_iff)
  moreover from this have "r' \<in> set rows" "row_is p i r'" by (metis find_Some_iff nth_mem)+
  ultimately show ?thesis
    using assms by (auto simp: row_is_def row_key_def inj_on_def distinct_map)
qed

subsection \<open>The table as a finite map\<close>

lemma table_map_eq_Some:
  "distinct (map row_key rows) \<Longrightarrow> table_map rows k = Some r \<longleftrightarrow> r \<in> set rows \<and> row_key r = k"
  by (auto simp: table_map_def map_of_eq_Some_iff comp_def)

lemma table_map_Cons [simp]: "table_map (r # rows) = (table_map rows)(row_key r \<mapsto> r)"
  by (simp add: table_map_def)

lemma table_map_replace:
  assumes "distinct (map row_key (before @ r # after))" "row_key r' = row_key r"
  shows "table_map (before @ r' # after) = (table_map (before @ r # after))(row_key r \<mapsto> r')"
  using assms by (induction before) (auto simp: fun_upd_twist)

subsection \<open>Mutations of a sound table\<close>

lemma ticket_evolves_trans: "\<lbrakk>ticket_evolves a b; ticket_evolves b c\<rbrakk> \<Longrightarrow> ticket_evolves a c"
  by (auto elim!: ticket_evolvesE intro: ticket_evolves.intros
      simp: invalidated_row_def consumed_row_def)

lemma ticket_evolves_list_refl: "list_all2 ticket_evolves rows rows"
  by (simp add: list_all2_refl kept)

lemma ticket_evolves_replace:
  "ticket_evolves r r' \<Longrightarrow> list_all2 ticket_evolves (before @ r # after) (before @ r' # after)"
  by (simp add: list_all2_append ticket_evolves_list_refl)

lemma ticket_table_ok_later:
  "\<lbrakk>ticket_table_ok \<lparr>tss_rows = rows, tss_committed_at = clock\<rparr>; clock \<le> now\<rbrakk> \<Longrightarrow>
     ticket_table_ok \<lparr>tss_rows = rows, tss_committed_at = now\<rparr>"
  by (auto simp: ticket_table_ok_def list_all_iff)

lemma row_simps [simp]:
  "row_key (invalidated_row reason r) = row_key r" "row_key (consumed_row run now r) = row_key r"
  "wt_created_at (invalidated_row reason r) = wt_created_at r"
  "wt_created_at (consumed_row run now r) = wt_created_at r"
  "wt_consumed_by_run_id (invalidated_row reason r) = wt_consumed_by_run_id r"
  "wt_consumed_by_run_id (consumed_row run now r) = Some run"
  "wt_status (invalidated_row reason r) = WriteTicketStatus.Invalidated"
  "wt_status (consumed_row run now r) = WriteTicketStatus.Consumed"
  "invalidated_row reason (invalidated_row reason r) = invalidated_row reason r"
  by (simp_all add: row_key_def invalidated_row_def consumed_row_def)

lemma sound_update_replace:
  assumes ok: "ticket_table_ok \<lparr>tss_rows = before @ r # after, tss_committed_at = clock\<rparr>"
    and active: "wt_status r = WriteTicketStatus.Active" and later: "clock \<le> now"
    and row: "row_ok r'" "row_key r' = row_key r" "wt_created_at r' = wt_created_at r"
      "ticket_evolves r r'"
    and fresh: "wt_consumed_by_run_id r' \<noteq> None \<longrightarrow>
      (wt_project_id r, wt_consumed_by_run_id r') \<notin> set (consuming_runs (before @ r # after))"
  shows "sound_update clock now (before @ r # after) (before @ r' # after)
    ((table_map (before @ r # after))(row_key r \<mapsto> r'))"
proof -
  have "row_ok r" using ok by (simp add: ticket_table_ok_def)
  with active have "wt_consumed_by_run_id r = None" by (rule row_ok_Active[rotated])
  then show ?thesis
    using assms ticket_table_ok_replace[OF ok row(1-3) _ fresh later]
      table_map_replace[of before r after r']
    by (simp add: sound_update_def ticket_table_ok_def ticket_evolves_replace)
qed

lemma invalidate_ids_sound:
  assumes "ticket_table_ok \<lparr>tss_rows = rows, tss_committed_at = clock\<rparr>" "clock \<le> now"
    and "invalidate_active_write_ticket_ids_in_tx p ids reason rows = Ok rows'"
  shows "sound_update clock now rows rows' (\<lambda>k. if fst k = p \<and> snd k \<in> set ids
    then map_option (invalidated_row reason) (table_map rows k) else table_map rows k)"
  using assms
proof (induction ids arbitrary: rows clock)
  case Nil
  then show ?case
    by (auto simp: sound_update_def ticket_evolves_list_refl intro: ticket_table_ok_later)
next
  case (Cons i ids)
  define cond where "cond = (\<lambda>r. row_is p i r \<and> wt_status r = WriteTicketStatus.Active)"
  from Cons.prems(3) obtain mid where upd: "sql_update cond (invalidated_row reason) rows = (mid, 1)"
    and rest: "invalidate_active_write_ticket_ids_in_tx p ids reason mid = Ok rows'"
    by (auto simp: cond_def Let_def split: prod.splits if_splits)
  obtain before r after where split: "rows = before @ r # after" "cond r"
    "mid = before @ invalidated_row reason r # after"
    by (rule sql_update_one[OF upd])
  have r: "row_ok r" "wt_status r = WriteTicketStatus.Active" "row_key r = (p, i)"
    using Cons.prems(1) split by (auto simp: ticket_table_ok_def cond_def row_is_def row_key_def)
  have first: "sound_update clock now rows mid ((table_map rows)(row_key r \<mapsto> invalidated_row reason r))"
    unfolding split(1,3)
    by (rule sound_update_replace) (use Cons.prems(1,2) split r row_ok_Active in
      \<open>auto intro: row_ok_invalidated invalidated\<close>)
  then have "ticket_table_ok \<lparr>tss_rows = mid, tss_committed_at = now\<rparr>" by (simp add: sound_update_def)
  from Cons.IH[OF this order.refl rest] first
  have "list_all2 ticket_evolves rows (take (length rows) rows')"
    "ticket_table_ok \<lparr>tss_rows = rows', tss_committed_at = now\<rparr>"
    "table_map rows' = (\<lambda>k. if fst k = p \<and> snd k \<in> set ids
      then map_option (invalidated_row reason) (table_map mid k) else table_map mid k)"
    "table_map mid = (table_map rows)(row_key r \<mapsto> invalidated_row reason r)"
    using list_all2_trans[of ticket_evolves ticket_evolves ticket_evolves, OF ticket_evolves_trans]
    by (auto simp: sound_update_def split(1,3))
  moreover have "table_map rows (p, i) = Some r"
    using Cons.prems(1) split r by (simp add: table_map_eq_Some ticket_table_ok_def)
  ultimately show ?case
    using r(3) by (auto simp: sound_update_def fun_eq_iff)
qed

lemma table_rows: "ticket_table_ok \<lparr>tss_rows = rows, tss_committed_at = clock\<rparr> \<Longrightarrow> list_all row_ok rows"
  by (simp add: ticket_table_ok_def)

lemma invalidate_active_sound:
  assumes ok: "ticket_table_ok \<lparr>tss_rows = rows, tss_committed_at = clock\<rparr>" "clock \<le> now"
    and app: "invalidate_active_write_tickets input c rows = Ok rows'"
  shows "sound_update clock now rows rows'
    (spec_invalidate_task (tmc_project_id c) (wtv_task_id input) (wtv_invalidation_reason input) (table_map rows))"
proof -
  define active where "active = filter (\<lambda>r. wt_status r = WriteTicketStatus.Active) (sort_key wt_write_ticket_id
    (filter (\<lambda>r. wt_project_id r = tmc_project_id c \<and> wt_task_id r = wtv_task_id input) rows))"
  have "invalidate_active_write_ticket_ids_in_tx (tmc_project_id c) (map wt_write_ticket_id active)
      (wtv_invalidation_reason input) rows = Ok rows'"
    using app active_write_tickets_ok[OF table_rows[OF ok(1)]]
    by (auto simp: invalidate_active_write_tickets_def active_def)
  note sound = invalidate_ids_sound[OF ok this]
  have "(\<lambda>k. if fst k = tmc_project_id c \<and> snd k \<in> set (map wt_write_ticket_id active)
      then map_option (invalidated_row (wtv_invalidation_reason input)) (table_map rows k)
      else table_map rows k) =
    spec_invalidate_task (tmc_project_id c) (wtv_task_id input) (wtv_invalidation_reason input) (table_map rows)"
  proof (rule ext)
    fix k
    have dist: "distinct (map row_key rows)" using ok(1) by (simp add: ticket_table_ok_def)
    show "(if fst k = tmc_project_id c \<and> snd k \<in> set (map wt_write_ticket_id active)
        then map_option (invalidated_row (wtv_invalidation_reason input)) (table_map rows k)
        else table_map rows k) =
      spec_invalidate_task (tmc_project_id c) (wtv_task_id input) (wtv_invalidation_reason input) (table_map rows) k"
    proof (cases "table_map rows k")
      case (Some r)
      then have r: "r \<in> set rows" "row_key r = k" using dist by (auto simp: table_map_eq_Some)
      have "fst k = tmc_project_id c \<and> snd k \<in> set (map wt_write_ticket_id active) \<longleftrightarrow> r \<in> set active"
        using r dist by (auto simp: active_def row_key_def distinct_map inj_on_def)
      then show ?thesis using Some r by (auto simp: spec_invalidate_task_def active_def)
    qed (simp add: spec_invalidate_task_def)
  qed
  with sound show ?thesis by simp
qed

lemma filter_unique:
  assumes "distinct xs" "x \<in> set xs" "P x" "\<forall>y \<in> set xs. P y \<longrightarrow> y = x"
  shows "filter P xs = [x]"
proof -
  obtain before after where xs: "xs = before @ x # after" using assms(2) by (meson split_list)
  have none: "\<not> P y" if "y \<in> set before \<union> set after" for y
    using that assms(1,4) unfolding xs by force
  then have "filter P before = []" "filter P after = []" unfolding filter_empty_conv by blast+
  then show ?thesis using assms(3) xs by simp
qed

lemma invalidate_ids_total:
  assumes "distinct (map row_key rows)" "distinct ids"
    and "\<forall>i \<in> set ids. \<exists>r \<in> set rows. row_is p i r \<and> wt_status r = WriteTicketStatus.Active"
  shows "\<exists>rows'. invalidate_active_write_ticket_ids_in_tx p ids reason rows = Ok rows'"
  using assms
proof (induction ids arbitrary: rows)
  case (Cons i ids)
  define cond where "cond = (\<lambda>r. row_is p i r \<and> wt_status r = WriteTicketStatus.Active)"
  define mid where "mid = map (\<lambda>r. if cond r then invalidated_row reason r else r) rows"
  obtain r where r: "r \<in> set rows" "cond r" using Cons.prems(3) by (auto simp: cond_def)
  have "filter cond rows = [r]"
    using r Cons.prems(1)
    by (intro filter_unique) (auto simp: cond_def row_is_def row_key_def distinct_map inj_on_def)
  then have upd: "sql_update cond (invalidated_row reason) rows = (mid, 1)"
    by (simp add: sql_update_def mid_def)
  have keys: "map row_key mid = map row_key rows" by (simp add: mid_def comp_def if_distrib cong: if_cong)
  have "\<exists>r \<in> set mid. row_is p j r \<and> wt_status r = WriteTicketStatus.Active" if j: "j \<in> set ids" for j
  proof -
    obtain x where x: "x \<in> set rows" "row_is p j x" "wt_status x = WriteTicketStatus.Active"
      using Cons.prems(3) j by auto
    have "\<not> cond x" using x j Cons.prems(2) by (auto simp: cond_def row_is_def)
    then show ?thesis using x by (auto simp: mid_def intro!: bexI[of _ x])
  qed
  then have "\<exists>rows'. invalidate_active_write_ticket_ids_in_tx p ids reason mid = Ok rows'"
    using Cons.IH[of mid] Cons.prems(1,2) keys by auto
  then show ?case using upd by (simp add: cond_def)
qed simp

lemma invalidate_write_ticket_sound:
  assumes ok: "ticket_table_ok \<lparr>tss_rows = rows, tss_committed_at = clock\<rparr>" "clock \<le> now"
    and app: "invalidate_write_ticket input c rows = Ok rows'"
  shows "sound_update clock now rows rows'
    (spec_mutation (InvalidateById input) c version (table_map rows))"
proof -
  have "invalidate_active_write_ticket_ids_in_tx (tmc_project_id c) [wtb_write_ticket_id input]
      (wtb_invalidation_reason input) rows = Ok rows'"
    using app by (auto simp: invalidate_write_ticket_def Let_def split: option.splits)
  from invalidate_ids_sound[OF ok this] show ?thesis
    by (simp add: sound_update_def fun_eq_iff)
qed

lemma insert_write_ticket_sound:
  assumes ok: "ticket_table_ok \<lparr>tss_rows = rows, tss_committed_at = clock\<rparr>" "clock \<le> now"
    and app: "insert_write_ticket input version c rows = Ok rows'"
    and guard: "nonempty_stored_identifier (tmc_project_id c)" "path_scope_constructed (wti_path_scope input)"
      "wti_created_at input \<le> now"
  shows "sound_update clock now rows rows' (spec_mutation (Insert input) c version (table_map rows))"
proof -
  define r where "r = active_write_ticket_record (tmc_project_id c) input version"
  have rows': "rows' = rows @ [r]" and new: "row_key r \<notin> row_key ` set rows" and wf: "write_ticket_wf r"
    and ids: "nonempty_stored_identifier (wt_write_ticket_id r)" "nonempty_stored_identifier (wt_task_id r)"
      "nonempty_stored_identifier (wt_change_unit_id r)"
      "optional_identifier (wt_created_by_user_action_resolution_id r)"
    using app
    by (auto simp: insert_write_ticket_def insert_write_ticket_record_def Let_def r_def[symmetric]
        validate_identifier_def validate_write_ticket_record_iff list_ex_iff row_is_def row_key_def
        split: option.splits)
      (simp_all add: r_def active_write_ticket_record_def nonempty_stored_identifier_def)
  have r: "row_ok r" "wt_consumed_by_run_id r = None" "wt_created_at r \<le> now"
    "row_key r = (tmc_project_id c, wti_write_ticket_id input)"
    using ids wf guard unfolding row_ok_iff
    by (simp_all add: r_def active_write_ticket_record_def row_key_def)
  have "table_map (rows @ [r]) = (table_map rows)(row_key r \<mapsto> r)"
    using new by (induction rows) (auto simp: fun_upd_twist)
  then show ?thesis
    using ok new r
    by (auto simp: sound_update_def rows' r_def[symmetric] ticket_evolves_list_refl ticket_table_ok_def
        consuming_runs_def list_all_iff intro: order_trans)
qed

lemma consume_write_ticket_Ok:
  assumes "consume_write_ticket input c rows = Ok rows'"
    and "ticket_table_ok \<lparr>tss_rows = rows, tss_committed_at = clock\<rparr>"
  obtains before r after where "rows = before @ r # after"
    "rows' = before @ consumed_row (wtc_run_id input) (tmc_committed_at c) r # after"
    "row_key r = (tmc_project_id c, wtc_write_ticket_id input)" "wt_status r = WriteTicketStatus.Active"
    "nonempty_stored_identifier (wtc_run_id input)"
    "(tmc_project_id c, Some (wtc_run_id input)) \<notin> set (consuming_runs rows)"
proof -
  define cond where "cond = (\<lambda>r. row_is (tmc_project_id c) (wtc_write_ticket_id input) r \<and>
    wt_status r = WriteTicketStatus.Active \<and> wt_basis_state_version r = wtc_expected_basis_state_version input)"
  have upd: "sql_update cond (consumed_row (wtc_run_id input) (tmc_committed_at c)) rows = (rows', 1)"
    and rest: "nonempty_stored_identifier (wtc_run_id input)"
      "(tmc_project_id c, Some (wtc_run_id input)) \<notin> set (consuming_runs rows)"
    using assms(1)
    by (auto simp: consume_write_ticket_def cond_def Let_def validate_identifier_def consuming_runs_def
        nonempty_stored_identifier_def list_ex_iff split: option.splits prod.splits if_splits)
  obtain before r after where split: "rows = before @ r # after" "cond r"
    "rows' = before @ consumed_row (wtc_run_id input) (tmc_committed_at c) r # after"
    by (rule sql_update_one[OF upd])
  show ?thesis
    by (rule that[OF split(1,3) _ _ rest]) (use split(2) in \<open>simp_all add: cond_def row_is_def row_key_def\<close>)
qed

lemma consume_write_ticket_sound:
  assumes ok: "ticket_table_ok \<lparr>tss_rows = rows, tss_committed_at = clock\<rparr>"
    and later: "clock \<le> tmc_committed_at c" "canonical_rfc3339_representable (tmc_committed_at c)"
    and app: "consume_write_ticket input c rows = Ok rows'"
  shows "sound_update clock (tmc_committed_at c) rows rows'
    (spec_mutation (Consume input) c version (table_map rows))"
proof -
  obtain before r after where split: "rows = before @ r # after"
    "rows' = before @ consumed_row (wtc_run_id input) (tmc_committed_at c) r # after"
    and r: "row_key r = (tmc_project_id c, wtc_write_ticket_id input)" "wt_status r = WriteTicketStatus.Active"
      "nonempty_stored_identifier (wtc_run_id input)"
      "(tmc_project_id c, Some (wtc_run_id input)) \<notin> set (consuming_runs rows)"
    by (rule consume_write_ticket_Ok[OF app ok])
  have row: "row_ok r" "wt_created_at r \<le> tmc_committed_at c" "distinct (map row_key rows)"
    using ok split later(1) by (auto simp: ticket_table_ok_def)
  then have found: "table_map rows (row_key r) = Some r" using split by (simp add: table_map_eq_Some)
  have proj: "wt_project_id r = tmc_project_id c" using r(1) by (simp add: row_key_def)
  have "sound_update clock (tmc_committed_at c) rows rows' ((table_map rows)(row_key r \<mapsto>
      consumed_row (wtc_run_id input) (tmc_committed_at c) r))"
    unfolding split
    by (rule sound_update_replace)
      (use ok later r row proj in \<open>auto simp: split intro: row_ok_consumed consumed\<close>)
  with found r(1) show ?thesis by simp
qed

lemma apply_mutation_sound:
  assumes "ticket_table_ok s" "ticket_event_ok e s"
    and "apply_write_ticket_mutation (tev_mutation e) (tev_context e) (tev_state_version e) (tss_rows s) = Ok rows'"
  shows "sound_update (tss_committed_at s) (tmc_committed_at (tev_context e)) (tss_rows s) rows'
    (spec_mutation (tev_mutation e) (tev_context e) (tev_state_version e) (table_map (tss_rows s)))"
proof -
  have ok: "ticket_table_ok \<lparr>tss_rows = tss_rows s, tss_committed_at = tss_committed_at s\<rparr>"
    using assms(1) by (cases s) simp
  have later: "tss_committed_at s \<le> tmc_committed_at (tev_context e)"
    using assms(2) by (simp add: ticket_event_ok_def)
  show ?thesis
  proof (cases "tev_mutation e")
    case (Insert input)
    with assms(2) have "nonempty_stored_identifier (tmc_project_id (tev_context e))"
      "path_scope_constructed (wti_path_scope input)"
      "wti_created_at input \<le> tmc_committed_at (tev_context e)"
      by (simp_all add: ticket_event_ok_def)
    from insert_write_ticket_sound[OF ok later _ this] assms(3) Insert show ?thesis by simp
  next
    case (Consume input)
    with assms(2) have "canonical_rfc3339_representable (tmc_committed_at (tev_context e))"
      by (simp add: ticket_event_ok_def)
    from consume_write_ticket_sound[OF ok later this] assms(3) Consume show ?thesis by simp
  next
    case (MarkActiveStale task_id)
    with invalidate_active_sound[OF ok later] assms(3) show ?thesis
      by (fastforce simp: mark_active_write_tickets_stale_def)
  next
    case (InvalidateActive input)
    with invalidate_active_sound[OF ok later] assms(3) show ?thesis by simp
  next
    case (InvalidateById input)
    with invalidate_write_ticket_sound[OF ok later] assms(3) show ?thesis by simp
  qed
qed

lemma table_evolves_refl: "table_evolves s s"
  by (simp add: table_evolves_def ticket_evolves_list_refl)

lemma table_evolves_trans: "\<lbrakk>table_evolves s t; table_evolves t u\<rbrakk> \<Longrightarrow> table_evolves s u"
proof -
  assume st: "table_evolves s t" and tu: "table_evolves t u"
  define n where "n = length (tss_rows s)"
  have n: "n \<le> length (tss_rows t)"
    using list_all2_lengthD[OF st[unfolded table_evolves_def]] by (simp add: n_def)
  have "list_all2 ticket_evolves (take n (tss_rows t)) (take n (take (length (tss_rows t)) (tss_rows u)))"
    using tu unfolding table_evolves_def by (rule list_all2_takeI)
  then have "list_all2 ticket_evolves (take n (tss_rows t)) (take n (tss_rows u))"
    using n by (simp add: min_def)
  with st show ?thesis
    unfolding table_evolves_def n_def[symmetric] by (blast intro: list_all2_trans ticket_evolves_trans)
qed

interpretation tickets: evolving ticket_step ticket_event_ok ticket_table_ok table_evolves
proof
  fix s e s' assume "ticket_table_ok s" "ticket_event_ok e s" "ticket_step e s = Ok s'"
  then show "ticket_table_ok s'" "table_evolves s s'"
    using apply_mutation_sound[of s e]
    by (auto simp: ticket_step_def sound_update_def table_evolves_def)
qed (auto intro: table_evolves_refl table_evolves_trans)

lemma consuming_runs_nth:
  assumes "distinct (consuming_runs rows)" "i < length rows" "j < length rows"
    and "wt_project_id (rows ! i) = wt_project_id (rows ! j)"
    and "wt_consumed_by_run_id (rows ! i) = wt_consumed_by_run_id (rows ! j)"
    and "wt_consumed_by_run_id (rows ! i) \<noteq> None"
  shows "i = j"
  using assms
proof (induction rows arbitrary: i j)
  case (Cons r rows)
  have mem: "(wt_project_id (rows ! k), wt_consumed_by_run_id (rows ! k)) \<in> set (consuming_runs rows)"
    if "k < length rows" "wt_consumed_by_run_id (rows ! k) \<noteq> None" for k
    using that by (auto simp: consuming_runs_def)
  have tail: "distinct (consuming_runs rows)"
    and head: "wt_consumed_by_run_id r \<noteq> None \<Longrightarrow>
      (wt_project_id r, wt_consumed_by_run_id r) \<notin> set (consuming_runs rows)"
    using Cons.prems(1) by (auto simp: consuming_runs_def split: if_splits)
  show ?case
    using Cons.IH[OF tail, of "i - 1" "j - 1"] Cons.prems mem[of "i - 1"] mem[of "j - 1"] head
    by (cases i; cases j) auto
qed simp

lemma terminal_row_kept:
  assumes "ticket_table_ok s" "admissible ticket_event_ok ticket_step events s" "n < length (tss_rows s)"
    and "wt_status (tss_rows s ! n) \<noteq> WriteTicketStatus.Active"
  shows "n < length (tss_rows (run_steps ticket_step events s)) \<and>
    tss_rows (run_steps ticket_step events s) ! n = tss_rows s ! n"
proof -
  have evolves: "list_all2 ticket_evolves (tss_rows s)
      (take (length (tss_rows s)) (tss_rows (run_steps ticket_step events s)))"
    using tickets.run_evolves[OF assms(1,2)] by (simp add: table_evolves_def)
  then have "n < length (tss_rows (run_steps ticket_step events s))"
    using list_all2_lengthD assms(3) by fastforce
  with list_all2_nthD[OF evolves assms(3)] assms(3,4) show ?thesis by (auto elim!: ticket_evolvesE)
qed

lemma spec_invalidate_task_inactive:
  assumes "ticket_table_ok \<lparr>tss_rows = rows, tss_committed_at = clock\<rparr>"
    and "table_map rows = spec_invalidate_task p t reason m"
    and "r \<in> set rows" "wt_project_id r = p" "wt_task_id r = t"
  shows "wt_status r \<noteq> WriteTicketStatus.Active"
proof -
  have "table_map rows (row_key r) = Some r"
    using assms(1,3) by (simp add: table_map_eq_Some ticket_table_ok_def)
  with assms(2) obtain r0 where "r = (if wt_project_id r0 = p \<and> wt_task_id r0 = t \<and>
      wt_status r0 = WriteTicketStatus.Active then invalidated_row reason r0 else r0)"
    by (auto simp: spec_invalidate_task_def)
  with assms(4,5) show ?thesis by (cases "wt_status r0 = WriteTicketStatus.Active") (auto split: if_splits)
qed

section \<open>Properties\<close>

lemma sample_ticket_store_ok: "ticket_table_ok sample_ticket_store"
  by code_simp

lemma sample_consume_ok: "ticket_event_ok sample_consume_event sample_ticket_store"
  by code_simp

lemma sample_consumed:
  "ticket_step sample_consume_event sample_ticket_store =
     Ok \<lparr>tss_rows = [consumed_row ''run_1'' 300 sample_ticket], tss_committed_at = 300\<rparr>"
  by code_simp



text \<open>C17: Tickets only move forward.  However mutations follow on a sound table, a ticket keeps its
  place and everything it authorizes; a ticket that is consumed, invalidated or revoked never
  changes again, and an active one that changes is consumed or invalidated.
\<close>

theorem terminal_tickets_are_final:
  assumes "ticket_table_ok s" and "admissible ticket_event_ok ticket_step events s"
    and "rows = tss_rows s" and "rows' = tss_rows (run_steps ticket_step events s)"
    and "i < length rows"
  shows "i < length rows' \<and>
    wt_validity_basis (rows' ! i) = wt_validity_basis (rows ! i) \<and>
    wt_attempt_scope (rows' ! i) = wt_attempt_scope (rows ! i) \<and>
    wt_path_scope (rows' ! i) = wt_path_scope (rows ! i) \<and>
    row_key (rows' ! i) = row_key (rows ! i) \<and>
    (wt_status (rows ! i) \<noteq> WriteTicketStatus.Active \<longrightarrow> rows' ! i = rows ! i) \<and>
    (rows' ! i \<noteq> rows ! i \<longrightarrow>
       wt_status (rows' ! i) \<in> {WriteTicketStatus.Consumed, WriteTicketStatus.Invalidated})"
proof -
  have evolves: "list_all2 ticket_evolves rows (take (length rows) rows')"
    using tickets.run_evolves[OF assms(1,2)] by (simp add: table_evolves_def assms(3,4))
  then have "i < length rows'" using list_all2_lengthD assms(5) by fastforce
  moreover have "ticket_evolves (rows ! i) (rows' ! i)"
    using list_all2_nthD[OF evolves assms(5)] assms(5) by simp
  ultimately show ?thesis
    by (auto elim!: ticket_evolvesE simp: invalidated_row_def consumed_row_def row_key_def)
qed

theorem terminal_tickets_are_final_witness:
  "wt_path_scope (tss_rows (run_steps ticket_step [sample_consume_event] sample_ticket_store) ! 0) =
     wt_path_scope sample_ticket"
proof -
  have "admissible ticket_event_ok ticket_step [sample_consume_event] sample_ticket_store"
    using sample_consume_ok sample_consumed by simp
  from terminal_tickets_are_final[OF sample_ticket_store_ok this refl refl, of 0] show ?thesis
    by (simp add: sample_ticket_store_def)
qed

text \<open>C18: A consumption is exclusive.  After a run has consumed a ticket, and after any further
  mutations, no attempt succeeds to consume that ticket again or to consume another ticket of the
  project for the same run.
\<close>

theorem consumption_is_exclusive:
  assumes "ticket_table_ok s" and "ticket_event_ok e s" and "tev_mutation e = Consume input"
    and "ticket_step e s = Ok s'" and "admissible ticket_event_ok ticket_step events s'"
    and "tmc_project_id c = tmc_project_id (tev_context e)"
    and "wtc_write_ticket_id again = wtc_write_ticket_id input \<or> wtc_run_id again = wtc_run_id input"
  shows "\<not> is_ok (consume_write_ticket again c (tss_rows (run_steps ticket_step events s')))"
proof
  define p where "p = tmc_project_id (tev_context e)"
  define t where "t = run_steps ticket_step events s'"
  assume "is_ok (consume_write_ticket again c (tss_rows (run_steps ticket_step events s')))"
  then obtain rows where again: "consume_write_ticket again c (tss_rows t) = Ok rows"
    by (cases "consume_write_ticket again c (tss_rows t)") (auto simp: t_def)
  have s': "ticket_table_ok s'" using assms(1,2,4) by (rule tickets.inv_step)
  then have t: "ticket_table_ok \<lparr>tss_rows = tss_rows t, tss_committed_at = tss_committed_at t\<rparr>"
    using tickets.run_inv[OF s' assms(5)] by (cases t) (simp add: t_def)
  have old: "ticket_table_ok \<lparr>tss_rows = tss_rows s, tss_committed_at = tss_committed_at s\<rparr>"
    using assms(1) by (cases s) simp
  have "consume_write_ticket input (tev_context e) (tss_rows s) = Ok (tss_rows s')"
    using assms(3,4) by (auto simp: ticket_step_def)
  then obtain before r after where
    r: "tss_rows s' = before @ consumed_row (wtc_run_id input) (tmc_committed_at (tev_context e)) r # after"
      "row_key r = (p, wtc_write_ticket_id input)"
    by (rule consume_write_ticket_Ok[OF _ old]) (simp add: p_def)
  define n where "n = length before"
  have n: "n < length (tss_rows s')" "row_key (tss_rows s' ! n) = (p, wtc_write_ticket_id input)"
    "wt_status (tss_rows s' ! n) = WriteTicketStatus.Consumed"
    "wt_consumed_by_run_id (tss_rows s' ! n) = Some (wtc_run_id input)"
    using r by (simp_all add: n_def)
  have kept: "n < length (tss_rows t)" "tss_rows t ! n = tss_rows s' ! n"
    using terminal_row_kept[OF s' assms(5) n(1)] n(3) by (simp_all add: t_def)
  obtain x where x: "x \<in> set (tss_rows t)" "row_key x = (p, wtc_write_ticket_id again)"
      "wt_status x = WriteTicketStatus.Active"
    and fresh: "(p, Some (wtc_run_id again)) \<notin> set (consuming_runs (tss_rows t))"
    using consume_write_ticket_Ok[OF again t] assms(6) by (metis in_set_conv_decomp p_def)
  have "wt_project_id (tss_rows t ! n) = p" using n(2) kept by (simp add: row_key_def)
  then have "(p, Some (wtc_run_id input)) \<in> set (consuming_runs (tss_rows t))"
    using n(4) kept nth_mem[OF kept(1)] by (force simp: consuming_runs_def image_iff)
  with fresh have "wtc_run_id again \<noteq> wtc_run_id input" by auto
  with assms(7) x(2) have "row_key x = row_key (tss_rows t ! n)" using n(2) kept by simp
  with x(1) kept(1) t have "x = tss_rows t ! n"
    by (simp add: ticket_table_ok_def distinct_map inj_on_def)
  with x(3) n(3) kept show False by simp
qed

theorem consumption_is_exclusive_witness:
  "\<not> is_ok (consume_write_ticket sample_consumption (sample_ticket_context 310)
     [consumed_row ''run_1'' 300 sample_ticket])"
proof -
  have e: "tev_mutation sample_consume_event = Consume sample_consumption"
    "tmc_project_id (sample_ticket_context 310) = tmc_project_id (tev_context sample_consume_event)"
    by (simp_all add: sample_consume_event_def sample_ticket_context_def)
  from consumption_is_exclusive[OF sample_ticket_store_ok sample_consume_ok e(1) sample_consumed _ e(2),
      of "[]" sample_consumption]
  show ?thesis by simp
qed

text \<open>C20: Every mutation refines one update of an abstract map from keys to tickets: inserting adds one
  entry, consuming and invalidating by id replace one, and invalidating a task, which the code does
  ticket by ticket, replaces exactly the active tickets of the task at once.
\<close>

theorem ticket_mutations_refine_map_updates:
  assumes "ticket_table_ok s" and "ticket_event_ok e s" and "ticket_step e s = Ok s'"
  shows "table_map (tss_rows s') = spec_mutation (tev_mutation e) (tev_context e)
    (tev_state_version e) (table_map (tss_rows s))"
proof -
  have "apply_write_ticket_mutation (tev_mutation e) (tev_context e) (tev_state_version e)
      (tss_rows s) = Ok (tss_rows s')"
    using assms(3) by (auto simp: ticket_step_def)
  from apply_mutation_sound[OF assms(1,2) this] show ?thesis by (simp add: sound_update_def)
qed

theorem ticket_mutations_refine_map_updates_witness:
  "table_map [consumed_row ''run_1'' 300 sample_ticket] =
     spec_mutation (Consume sample_consumption) (sample_ticket_context 300) 7
       (table_map [sample_ticket])"
  using ticket_mutations_refine_map_updates[OF sample_ticket_store_ok sample_consume_ok sample_consumed]
  by (simp add: sample_consume_event_def sample_ticket_store_def)

text \<open>C25: Invalidating the active tickets of a task cannot fail on a sound table, although it counts
  the rows it changes one by one; afterwards the task has no active ticket.
\<close>

theorem invalidating_a_task_always_succeeds:
  assumes "ticket_table_ok s" and "trim (wtv_task_id input) \<noteq> []"
  shows "\<exists>rows. invalidate_active_write_tickets input c (tss_rows s) = Ok rows \<and>
    active_write_tickets rows (tmc_project_id c) (wtv_task_id input) = Ok []"
proof -
  have ok: "ticket_table_ok \<lparr>tss_rows = tss_rows s, tss_committed_at = tss_committed_at s\<rparr>"
    using assms(1) by (cases s) simp
  define active where "active = filter (\<lambda>r. wt_status r = WriteTicketStatus.Active) (sort_key wt_write_ticket_id
    (filter (\<lambda>r. wt_project_id r = tmc_project_id c \<and> wt_task_id r = wtv_task_id input) (tss_rows s)))"
  have dist: "distinct (map row_key (tss_rows s))" using ok by (simp add: ticket_table_ok_def)
  then have "distinct (map wt_write_ticket_id active)"
    by (auto simp: active_def distinct_map inj_on_def row_key_def)
  then obtain rows where "invalidate_active_write_ticket_ids_in_tx (tmc_project_id c)
      (map wt_write_ticket_id active) (wtv_invalidation_reason input) (tss_rows s) = Ok rows"
    using invalidate_ids_total[OF dist, of "map wt_write_ticket_id active" "tmc_project_id c"]
    by (fastforce simp: active_def row_is_def)
  then have inv: "invalidate_active_write_tickets input c (tss_rows s) = Ok rows"
    using active_write_tickets_ok[OF table_rows[OF ok]] assms(2)
    by (simp add: invalidate_active_write_tickets_def validate_identifier_def ensure_def active_def)
  have after: "ticket_table_ok \<lparr>tss_rows = rows, tss_committed_at = tss_committed_at s\<rparr>"
    "table_map rows = spec_invalidate_task (tmc_project_id c) (wtv_task_id input)
      (wtv_invalidation_reason input) (table_map (tss_rows s))"
    using invalidate_active_sound[OF ok order.refl inv] by (simp_all add: sound_update_def)
  from spec_invalidate_task_inactive[OF after]
  have "active_write_tickets rows (tmc_project_id c) (wtv_task_id input) = Ok []"
    using active_write_tickets_ok[OF table_rows[OF after(1)]] by (auto simp: filter_empty_conv)
  with inv show ?thesis by blast
qed

theorem invalidating_a_task_always_succeeds_witness:
  "\<exists>rows. invalidate_active_write_tickets \<lparr>wtv_task_id = ''task_1'',
     wtv_invalidation_reason = WriteTicketInvalidationReason.TaskClosed\<rparr>
     (sample_ticket_context 300) [sample_ticket] = Ok rows \<and>
   active_write_tickets rows ''p'' ''task_1'' = Ok []"
proof -
  have "trim (wtv_task_id \<lparr>wtv_task_id = ''task_1'',
      wtv_invalidation_reason = WriteTicketInvalidationReason.TaskClosed\<rparr>) \<noteq> []"
    by code_simp
  from invalidating_a_task_always_succeeds[OF sample_ticket_store_ok this, of "sample_ticket_context 300"]
  show ?thesis by (simp add: sample_ticket_store_def sample_ticket_context_def)
qed

text \<open>C24: What the store hands out, the core can classify: on a sound table reading the tickets of a
  task returns exactly its rows, newest basis first, and the type-state evaluation of each of them
  succeeds at every time.
\<close>

theorem stored_tickets_always_evaluate:
  assumes "ticket_table_ok s"
  shows "\<exists>records. write_tickets_for_task (tss_rows s) p t = Ok records \<and>
    set records = {r \<in> set (tss_rows s). wt_project_id r = p \<and> wt_task_id r = t} \<and>
    sorted_wrt (\<lambda>a b. wt_basis_state_version b \<le> wt_basis_state_version a) records \<and>
    list_all (\<lambda>r. is_ok (pre_evaluate_stored_write_ticket (from_record r) now)) records"
proof -
  define records where "records =
    sort_key (\<lambda>r. (- int (unat (wt_basis_state_version r)), wt_write_ticket_id r))
      (filter (\<lambda>r. wt_project_id r = p \<and> wt_task_id r = t) (tss_rows s))"
  have ok: "list_all row_ok records"
    using assms by (auto simp: records_def ticket_table_ok_def list_all_iff)
  then have "write_tickets_for_task (tss_rows s) p t = Ok records"
    using collect_decode_ok by (simp add: write_tickets_for_task_def records_def)
  moreover have "sorted_wrt (\<lambda>a b. wt_basis_state_version b \<le> wt_basis_state_version a) records"
    using sorted_sort_key[of "\<lambda>r. (- int (unat (wt_basis_state_version r)), wt_write_ticket_id r)"]
    unfolding records_def sorted_map
    by (rule sorted_wrt_mono_rel[rotated]) (auto simp: less_eq_prod_def word_le_def)
  moreover have "is_ok (pre_evaluate_stored_write_ticket (from_record r) now)" if "row_ok r" for r
    using that unfolding row_ok_iff write_ticket_wf_def Let_def status_columns_are_valid_def
    by (auto simp: pre_evaluate_stored_write_ticket_def from_record_def Let_def
        split: WriteTicketStatus.splits option.splits)
  ultimately show ?thesis using ok by (auto simp: records_def list_all_iff)
qed

theorem stored_tickets_always_evaluate_witness:
  "\<exists>records. write_tickets_for_task [sample_ticket] ''p'' ''task_1'' = Ok records \<and>
     list_all (\<lambda>r. is_ok (pre_evaluate_stored_write_ticket (from_record r) 300)) records"
  using stored_tickets_always_evaluate[OF sample_ticket_store_ok, of "''p''" "''task_1''" 300]
  by (auto simp: sample_ticket_store_def)

end
