(* ===== verification/DurableId.thy ===== *)
theory DurableId
  imports Prelude "HOL-Library.Word"
begin

unbundle bit_operations_syntax

text \<open>
  Opaque durable identifiers, \<open>volicord-types/src/ids.rs\<close> and \<open>volicord-core/src/identity.rs\<close>: the
  record families and their prefixes, UUIDv4 suffixes rendered from sixteen random bytes, the two
  identifier types that check such a suffix, and the bounded allocation of an unused identifier.
  The random source is the parameter that yields the bytes.
\<close>

section \<open>Definitions\<close>

datatype DurableIdKind =
    Task | ChangeUnit | ShapingCheckpoint | ShapingGap | UserActionRequest | UserActionResolution
  | WriteTicket | Run | Event | AgentSession | McpRuntimeSession | ManagedMcpLaunchLease
  | DiagnosticOccurrence | ConnectionIntegrationInstance | GuardInstallation | GuardEvent
  | GuardIntegrationVerification | PromptCapture | UnrecordedChange | StagedArtifact | Artifact
  | Evidence | AcceptanceCriterion | EvidenceObservation | EvidenceCaptureIntent
  | EvidenceCaptureReceipt | EvidenceProducer | Risk | ProjectContinuityRecord

fun id_prefix :: "DurableIdKind \<Rightarrow> string" where
  "id_prefix DurableIdKind.Task = ''task_''"
| "id_prefix DurableIdKind.ChangeUnit = ''cu_''"
| "id_prefix DurableIdKind.ShapingCheckpoint = ''shaping_''"
| "id_prefix DurableIdKind.ShapingGap = ''shaping_gap_''"
| "id_prefix DurableIdKind.UserActionRequest = ''uar_''"
| "id_prefix DurableIdKind.UserActionResolution = ''ures_''"
| "id_prefix DurableIdKind.WriteTicket = ''wt_''"
| "id_prefix DurableIdKind.Run = ''run_''"
| "id_prefix DurableIdKind.Event = ''evt_''"
| "id_prefix DurableIdKind.AgentSession = ''session_''"
| "id_prefix DurableIdKind.McpRuntimeSession = ''mcp_runtime_''"
| "id_prefix DurableIdKind.ManagedMcpLaunchLease = ''mcp_launch_lease_''"
| "id_prefix DurableIdKind.DiagnosticOccurrence = ''finding.occurrence_''"
| "id_prefix DurableIdKind.ConnectionIntegrationInstance = ''connection_instance_''"
| "id_prefix DurableIdKind.GuardInstallation = ''guard_installation_''"
| "id_prefix DurableIdKind.GuardEvent = ''guard_event_''"
| "id_prefix DurableIdKind.GuardIntegrationVerification = ''guard_verification_''"
| "id_prefix DurableIdKind.PromptCapture = ''prompt_capture_''"
| "id_prefix DurableIdKind.UnrecordedChange = ''unrecorded_change_''"
| "id_prefix DurableIdKind.StagedArtifact = ''staged_''"
| "id_prefix DurableIdKind.Artifact = ''artifact_''"
| "id_prefix DurableIdKind.Evidence = ''evidence_''"
| "id_prefix DurableIdKind.AcceptanceCriterion = ''criterion_''"
| "id_prefix DurableIdKind.EvidenceObservation = ''evidence_observation_''"
| "id_prefix DurableIdKind.EvidenceCaptureIntent = ''evidence_capture_intent_''"
| "id_prefix DurableIdKind.EvidenceCaptureReceipt = ''evidence_capture_receipt_''"
| "id_prefix DurableIdKind.EvidenceProducer = ''evidence_producer_''"
| "id_prefix DurableIdKind.Risk = ''risk_''"
| "id_prefix DurableIdKind.ProjectContinuityRecord = ''continuity_''"

datatype DurableIdError = RandomUnavailable string | DeterministicSequenceExhausted

text \<open>\<open>{:02x}\<close> of a byte, and the five groups of a UUID.\<close>

definition hex_digit :: "nat \<Rightarrow> char" where
  "hex_digit n = (if n < 10 then char_of (48 + n) else char_of (87 + n))"

definition hex_byte :: "8 word \<Rightarrow> string" where
  "hex_byte b = [hex_digit (unat b div 16), hex_digit (unat b mod 16)]"

definition uuid_v4_suffix :: "8 word list \<Rightarrow> string" where
  "uuid_v4_suffix bytes =
     (let group = (\<lambda>from count. concat (map hex_byte (take count (drop from bytes))))
      in group 0 4 @ ''-'' @ group 4 2 @ ''-'' @ group 6 2 @ ''-'' @ group 8 2 @ ''-'' @ group 10 6)"

text \<open>The version and variant bits of byte 6 and byte 8.\<close>

definition stamp_uuid_v4 :: "8 word list \<Rightarrow> 8 word list" where
  "stamp_uuid_v4 bytes =
     bytes[6 := ((bytes ! 6) AND 0x0f) OR 0x40, 8 := ((bytes ! 8) AND 0x3f) OR 0x80]"

definition random_uuid_v4_suffix :: "(8 word list, string) result \<Rightarrow> (string, DurableIdError) result" where
  "random_uuid_v4_suffix filled =
     and_then (map_err RandomUnavailable filled) (\<lambda>bytes. Ok (uuid_v4_suffix (stamp_uuid_v4 bytes)))"

definition prefixed_durable_id :: "DurableIdKind \<Rightarrow> string \<Rightarrow> string" where
  "prefixed_durable_id kind text = id_prefix kind @ text"

definition random_durable_id ::
  "DurableIdKind \<Rightarrow> (8 word list, string) result \<Rightarrow> (string, DurableIdError) result" where
  "random_durable_id kind filled =
     and_then (random_uuid_v4_suffix filled) (\<lambda>text. Ok (prefixed_durable_id kind text))"

definition uuid_digit :: "char \<Rightarrow> bool" where
  "uuid_digit c \<longleftrightarrow> is_ascii_digit c \<or> byte_in 97 102 c"

definition is_uuid_v4_suffix :: "string \<Rightarrow> bool" where
  "is_uuid_v4_suffix value \<longleftrightarrow>
     length value = 36 \<and> value ! 8 = CHR ''-'' \<and> value ! 13 = CHR ''-'' \<and>
     value ! 18 = CHR ''-'' \<and> value ! 23 = CHR ''-'' \<and> value ! 14 = CHR ''4'' \<and>
     value ! 19 \<in> {CHR ''8'', CHR ''9'', CHR ''a'', CHR ''b''} \<and>
     \<not> list_ex (\<lambda>(index, byte). index \<notin> {8, 13, 18, 23} \<and> \<not> uuid_digit byte)
       (enumerate 0 value)"

datatype NoncanonicalId = NoncanonicalId

definition parse_connection_integration_instance_id :: "string \<Rightarrow> (string, NoncanonicalId) result" where
  "parse_connection_integration_instance_id value =
     (case strip_prefix_of (id_prefix DurableIdKind.ConnectionIntegrationInstance) value of
        None \<Rightarrow> Err NoncanonicalId
      | Some text \<Rightarrow>
          if length text \<noteq> 36 \<or> text ! 8 \<noteq> CHR ''-'' \<or> text ! 13 \<noteq> CHR ''-'' \<or>
             text ! 18 \<noteq> CHR ''-'' \<or> text ! 23 \<noteq> CHR ''-'' \<or> text ! 14 \<noteq> CHR ''4'' \<or>
             text ! 19 \<notin> {CHR ''8'', CHR ''9'', CHR ''a'', CHR ''b''} \<or>
             list_ex (\<lambda>(index, byte). index \<notin> {8, 13, 18, 23} \<and> \<not> uuid_digit byte)
               (enumerate 0 text)
          then Err NoncanonicalId else Ok value)"

definition generate_runtime_home_publication_id ::
  "(8 word list, string) result \<Rightarrow> (string, DurableIdError) result" where
  "generate_runtime_home_publication_id filled =
     and_then (random_uuid_v4_suffix filled) (\<lambda>text. Ok (''runtime_home_publication_'' @ text))"

definition parse_runtime_home_publication_id :: "string \<Rightarrow> (string, NoncanonicalId) result" where
  "parse_runtime_home_publication_id value =
     (case strip_prefix_of ''runtime_home_publication_'' value of
        None \<Rightarrow> Err NoncanonicalId
      | Some text \<Rightarrow> if \<not> is_uuid_v4_suffix text then Err NoncanonicalId else Ok value)"

text \<open>Allocation of an unused identifier.  The calls of the generator are numbered, so that it may
  yield a different candidate each time.\<close>

definition DURABLE_ID_RETRY_LIMIT :: nat where
  "DURABLE_ID_RETRY_LIMIT = 8"

datatype 'e AllocationError =
    Generation DurableIdError
  | Lookup 'e
  | GeneratedIdCollision DurableIdKind nat

fun allocate_within ::
  "nat \<Rightarrow> (nat \<Rightarrow> (string, DurableIdError) result) \<Rightarrow> DurableIdKind \<Rightarrow> (string \<Rightarrow> (bool, 'e) result) \<Rightarrow> nat \<Rightarrow>
     (string \<times> nat, 'e AllocationError) result" where
  "allocate_within 0 generate kind exists call =
     Err (GeneratedIdCollision kind DURABLE_ID_RETRY_LIMIT)"
| "allocate_within (Suc attempts) generate kind exists call =
     and_then (map_err Generation (generate call)) (\<lambda>candidate.
     and_then (map_err Lookup (exists candidate)) (\<lambda>taken.
     if \<not> taken then Ok (candidate, Suc call)
     else allocate_within attempts generate kind exists (Suc call)))"

definition allocate_durable_id ::
  "(nat \<Rightarrow> (string, DurableIdError) result) \<Rightarrow> DurableIdKind \<Rightarrow> (string \<Rightarrow> (bool, 'e) result) \<Rightarrow> nat \<Rightarrow>
     (string \<times> nat, 'e AllocationError) result" where
  "allocate_durable_id = allocate_within DURABLE_ID_RETRY_LIMIT"

text \<open>The value of a hexadecimal digit.\<close>

definition unhex :: "char \<Rightarrow> nat" where
  "unhex c = (if is_ascii_digit c then of_char c - 48 else of_char c - 87)"

section \<open>Lemmas\<close>

lemma id_prefix_inj: "id_prefix a = id_prefix b \<longleftrightarrow> a = b"
  by (cases a; cases b) simp_all

lemma hex_digit_inj: "\<lbrakk>m < 16; n < 16\<rbrakk> \<Longrightarrow> hex_digit m = hex_digit n \<longleftrightarrow> m = n"
  by (auto simp: hex_digit_def of_char_of dest!: arg_cong[where f = "of_char :: char \<Rightarrow> nat"]
      split: if_splits)

lemma unat_octet: "unat (b :: 8 word) < 256"
  using unsigned_less[of b, where 'a = nat] by simp

lemma hex_byte_inj: "hex_byte a = hex_byte b \<longleftrightarrow> a = b"
proof -
  have "unat a div 16 < 16" "unat b div 16 < 16"
    using unat_octet[of a] unat_octet[of b] by simp_all
  then have "hex_byte a = hex_byte b \<longleftrightarrow> unat a div 16 = unat b div 16 \<and> unat a mod 16 = unat b mod 16"
    by (simp add: hex_byte_def hex_digit_inj)
  then show ?thesis by (metis mult_div_mod_eq unsigned_word_eqI)
qed

lemma length_hex_byte [simp]: "length (hex_byte b) = 2"
  by (simp add: hex_byte_def)

lemma hex_byte_append_inj: "hex_byte a @ s = hex_byte b @ t \<longleftrightarrow> a = b \<and> s = t"
  by (simp add: hex_byte_inj)

lemma sixteen_bytes:
  assumes "length bytes = 16"
  obtains b0 b1 b2 b3 b4 b5 b6 b7 b8 b9 b10 b11 b12 b13 b14 b15
  where "bytes = [b0, b1, b2, b3, b4, b5, b6, b7, b8, b9, b10, b11, b12, b13, b14, b15]"
  using assms by (auto simp: numeral_eq_Suc length_Suc_conv)

lemma uuid_v4_suffix_bytes:
  "uuid_v4_suffix [b0, b1, b2, b3, b4, b5, b6, b7, b8, b9, b10, b11, b12, b13, b14, b15] =
     hex_byte b0 @ hex_byte b1 @ hex_byte b2 @ hex_byte b3 @ ''-'' @ hex_byte b4 @ hex_byte b5 @ ''-'' @
     hex_byte b6 @ hex_byte b7 @ ''-'' @ hex_byte b8 @ hex_byte b9 @ ''-'' @ hex_byte b10 @
     hex_byte b11 @ hex_byte b12 @ hex_byte b13 @ hex_byte b14 @ hex_byte b15"
  by (simp add: uuid_v4_suffix_def)

lemma uuid_v4_suffix_length: "length bytes = 16 \<Longrightarrow> length (uuid_v4_suffix bytes) = 36"
  by (erule sixteen_bytes) (simp add: uuid_v4_suffix_bytes)

lemma uuid_v4_suffix_inj:
  assumes "length as = 16" "length bs = 16"
  shows "uuid_v4_suffix as = uuid_v4_suffix bs \<longleftrightarrow> as = bs"
  using assms
  by (elim sixteen_bytes)
    (simp only: uuid_v4_suffix_bytes hex_byte_append_inj append_Cons append_Nil list.inject hex_byte_inj
      HOL.simp_thms)

lemma unhex_digit:
  assumes "uuid_digit c"
  shows "unhex c < 16" "hex_digit (unhex c) = c"
  using assms
  by (auto simp: uuid_digit_def unhex_def hex_digit_def is_ascii_digit_def byte_in_def)

lemma uuid_digit_hex_digit: "n < 16 \<Longrightarrow> uuid_digit (hex_digit n)"
  by (auto simp: uuid_digit_def hex_digit_def is_ascii_digit_def byte_in_def of_char_of)

lemma unat_of_byte: "n < 256 \<Longrightarrow> unat (word_of_nat n :: 8 word) = n"
  by (simp add: unsigned_of_nat take_bit_nat_eq_self_iff)

lemma hex_byte_unhex:
  assumes "uuid_digit c" "uuid_digit d"
  shows "hex_byte (word_of_nat (16 * unhex c + unhex d)) = [c, d]"
    and "unat (word_of_nat (16 * unhex c + unhex d) :: 8 word) div 16 = unhex c"
proof -
  have "unat (word_of_nat (16 * unhex c + unhex d) :: 8 word) = 16 * unhex c + unhex d"
    using unhex_digit(1)[OF assms(1)] unhex_digit(1)[OF assms(2)] by (intro unat_of_byte) simp
  then show "unat (word_of_nat (16 * unhex c + unhex d) :: 8 word) div 16 = unhex c"
    and "hex_byte (word_of_nat (16 * unhex c + unhex d)) = [c, d]"
    using unhex_digit[OF assms(1)] unhex_digit[OF assms(2)] by (simp_all add: hex_byte_def)
qed

lemma byte_check:
  assumes "list_all (\<lambda>n. P (word_of_nat n)) [0..<256]"
  shows "P (b :: 8 word)"
proof -
  have "unat b \<in> set [0..<256]" using unat_octet[of b] by simp
  then have "P (word_of_nat (unat b))" using assms unfolding list_all_iff by blast
  then show ?thesis by simp
qed

lemma stamp_version:
  "unat ((b AND 0x0f) OR 0x40 :: 8 word) div 16 = 4 \<and>
   (unat b div 16 = 4 \<longrightarrow> (b AND 0x0f) OR 0x40 = b)"
  by (rule byte_check) code_simp

lemma stamp_variant:
  "unat ((b AND 0x3f) OR 0x80 :: 8 word) div 16 \<in> {8, 9, 10, 11} \<and>
   (unat b div 16 \<in> {8, 9, 10, 11} \<longrightarrow> (b AND 0x3f) OR 0x80 = b)"
  by (rule byte_check) code_simp

lemma is_uuid_v4_suffix_digits:
  "is_uuid_v4_suffix s \<longleftrightarrow>
     length s = 36 \<and> s ! 8 = CHR ''-'' \<and> s ! 13 = CHR ''-'' \<and> s ! 18 = CHR ''-'' \<and> s ! 23 = CHR ''-'' \<and>
     s ! 14 = CHR ''4'' \<and> s ! 19 \<in> {CHR ''8'', CHR ''9'', CHR ''a'', CHR ''b''} \<and>
     (\<forall>i < 36. i \<notin> {8, 13, 18, 23} \<longrightarrow> uuid_digit (s ! i))"
  by (auto simp: is_uuid_v4_suffix_def list_ex_iff in_set_enumerate_eq)

lemma stamped_bytes:
  "stamp_uuid_v4 [b0, b1, b2, b3, b4, b5, b6, b7, b8, b9, b10, b11, b12, b13, b14, b15] =
     [b0, b1, b2, b3, b4, b5, (b6 AND 0x0f) OR 0x40, b7, (b8 AND 0x3f) OR 0x80, b9, b10, b11, b12,
      b13, b14, b15]"
  by (simp add: stamp_uuid_v4_def)

lemma upt_36:
  "[0..<36] = [0, 1, 2, 3, 4, 5, 6, 7, 8, 9, 10, 11, 12, 13, 14, 15, 16, 17, 18, 19, 20, 21, 22, 23,
     24, 25, 26, 27, 28, 29, 30, 31, 32, 33, 34, 35]"
  by code_simp

lemma all_less_36: "(\<forall>i < 36. P i) \<longleftrightarrow> list_all P [0..<36]"
  by (auto simp: list_all_iff)

lemma hex_digits:
  "hex_digit 4 = CHR ''4''" "hex_digit 8 = CHR ''8''" "hex_digit 9 = CHR ''9''"
  "hex_digit 10 = CHR ''a''" "hex_digit 11 = CHR ''b''"
  by code_simp+

lemma uuid_v4_suffix_accepted:
  assumes "length bytes = 16"
  shows "is_uuid_v4_suffix (uuid_v4_suffix (stamp_uuid_v4 bytes))"
proof -
  have high: "uuid_digit (hex_digit (unat b div 16))" for b :: "8 word"
    using unat_octet[of b] by (simp add: uuid_digit_hex_digit)
  have low: "uuid_digit (hex_digit (unat b mod 16))" for b :: "8 word"
    by (simp add: uuid_digit_hex_digit)
  have four: "hex_digit (unat ((b AND 0x0f) OR 0x40 :: 8 word) div 16) = CHR ''4''" for b
    using stamp_version[of b] by (simp add: hex_digits)
  have variant: "hex_digit (unat ((b AND 0x3f) OR 0x80 :: 8 word) div 16) \<in>
      {CHR ''8'', CHR ''9'', CHR ''a'', CHR ''b''}" for b
    using stamp_variant[of b] by (auto simp: hex_digits)
  show ?thesis
    using assms high low four variant uuid_digit_hex_digit[of 4, unfolded hex_digits]
    by (elim sixteen_bytes)
      (simp add: is_uuid_v4_suffix_digits all_less_36 upt_36 stamped_bytes uuid_v4_suffix_bytes hex_byte_def)
qed

lemma accepted_suffix_is_rendered:
  assumes "is_uuid_v4_suffix s"
  shows "\<exists>bytes. length bytes = 16 \<and> s = uuid_v4_suffix (stamp_uuid_v4 bytes)"
proof -
  have len: "length s = 36" and
    sep: "s ! 8 = CHR ''-''" "s ! 13 = CHR ''-''" "s ! 18 = CHR ''-''" "s ! 23 = CHR ''-''" and
    stamps: "s ! 14 = CHR ''4''" "s ! 19 \<in> {CHR ''8'', CHR ''9'', CHR ''a'', CHR ''b''}" and
    digit: "\<And>i. \<lbrakk>i < 36; i \<notin> {8, 13, 18, 23}\<rbrakk> \<Longrightarrow> uuid_digit (s ! i)"
    using assms by (simp_all add: is_uuid_v4_suffix_digits)
  define b where "b = (\<lambda>i. word_of_nat (16 * unhex (s ! i) + unhex (s ! Suc i)) :: 8 word)"
  have pair: "hex_byte (b i) = [s ! i, s ! Suc i] \<and> unat (b i) div 16 = unhex (s ! i)"
    if "i < 35" "i \<notin> {7, 8, 12, 13, 17, 18, 22, 23}" for i
    unfolding b_def using that by (intro conjI hex_byte_unhex digit) auto
  have "unhex CHR ''4'' = 4" "unhex CHR ''8'' = 8" "unhex CHR ''9'' = 9" "unhex CHR ''a'' = 10"
    "unhex CHR ''b'' = 11" by code_simp+
  then have "unat (b 14) div 16 = 4" "unat (b 19) div 16 \<in> {8, 9, 10, 11}"
    using stamps pair[of 14] pair[of 19] by (simp, auto)
  then have stamped: "(b 14 AND 0x0f) OR 0x40 = b 14" "(b 19 AND 0x3f) OR 0x80 = b 19"
    using stamp_version stamp_variant by blast+
  have "s = map ((!) s) [0..<36]" using len by (metis map_nth)
  also have "\<dots> = uuid_v4_suffix (stamp_uuid_v4 [b 0, b 2, b 4, b 6, b 9, b 11, b 14, b 16, b 19, b 21,
      b 24, b 26, b 28, b 30, b 32, b 34])"
    unfolding stamped_bytes uuid_v4_suffix_bytes stamped
    by (simp add: upt_36 pair sep)
  finally show ?thesis by (intro exI conjI) simp_all
qed

lemma allocate_within_Ok:
  "allocate_within attempts generate kind exists call = Ok (i, call') \<longleftrightarrow>
     (\<exists>n < attempts. (\<forall>m < n. \<exists>c. generate (call + m) = Ok c \<and> exists c = Ok True) \<and>
        generate (call + n) = Ok i \<and> exists i = Ok False \<and> call' = Suc (call + n))"
proof (induction attempts arbitrary: call)
  case (Suc attempts)
  show ?case
    by (auto simp: Ex_less_Suc2 All_less_Suc2 Suc.IH split: if_splits)
qed simp

lemma allocate_within_collision:
  "allocate_within attempts generate kind exists call = Err (GeneratedIdCollision kind n) \<longleftrightarrow>
     n = DURABLE_ID_RETRY_LIMIT \<and>
     (\<forall>m < attempts. \<exists>c. generate (call + m) = Ok c \<and> exists c = Ok True)"
proof (induction attempts arbitrary: call)
  case (Suc attempts)
  show ?case
  proof (cases "generate call")
    case (Ok c)
    then show ?thesis
      by (cases "exists c") (auto simp: All_less_Suc2 Suc.IH)
  qed (auto simp: All_less_Suc2)
qed auto

lemma parse_instance_id_iff:
  "is_ok (parse_connection_integration_instance_id i) \<longleftrightarrow>
     (\<exists>text. i = id_prefix DurableIdKind.ConnectionIntegrationInstance @ text \<and> is_uuid_v4_suffix text)"
  unfolding parse_connection_integration_instance_id_def is_uuid_v4_suffix_def
    strip_prefix_of_Some_iff[symmetric]
  by (cases "strip_prefix_of (id_prefix DurableIdKind.ConnectionIntegrationInstance) i") auto

lemma parse_instance_id_of_kind:
  assumes "length text = 36"
  shows "is_ok (parse_connection_integration_instance_id (id_prefix kind @ text)) \<longleftrightarrow>
    kind = DurableIdKind.ConnectionIntegrationInstance \<and> is_uuid_v4_suffix text"
proof -
  have "id_prefix kind @ text = id_prefix DurableIdKind.ConnectionIntegrationInstance @ text' \<and>
      is_uuid_v4_suffix text' \<longleftrightarrow>
      kind = DurableIdKind.ConnectionIntegrationInstance \<and> text = text' \<and> is_uuid_v4_suffix text'" for text'
    using assms id_prefix_inj[of kind DurableIdKind.ConnectionIntegrationInstance]
    by (metis append_eq_append_conv is_uuid_v4_suffix_def)
  then show ?thesis unfolding parse_instance_id_iff by blast
qed

section \<open>Properties\<close>

text \<open>C28: The suffixes the checks accept are exactly the ones the generator can render: a UUIDv4 text
  of sixteen bytes with the version and variant bits set, in lowercase with hyphens.
\<close>

theorem uuid_suffixes_round_trip:
  "is_uuid_v4_suffix s \<longleftrightarrow>
     (\<exists>bytes. length bytes = 16 \<and> s = uuid_v4_suffix (stamp_uuid_v4 bytes))"
  using accepted_suffix_is_rendered uuid_v4_suffix_accepted by blast



text \<open>C26: Allocation returns the first generated candidate that is not taken, within eight attempts,
  and reports a collision exactly when all eight candidates are taken.
\<close>

theorem allocation_takes_the_first_free_id:
  "(allocate_durable_id generate kind exists call = Ok (i, call') \<longleftrightarrow>
     (\<exists>n < 8. (\<forall>m < n. \<exists>c. generate (call + m) = Ok c \<and> exists c = Ok True) \<and>
        generate (call + n) = Ok i \<and> exists i = Ok False \<and> call' = Suc (call + n))) \<and>
   (allocate_durable_id generate kind exists call = Err (GeneratedIdCollision kind limit) \<longleftrightarrow>
     limit = 8 \<and> (\<forall>m < 8. \<exists>c. generate (call + m) = Ok c \<and> exists c = Ok True))"
  by (simp only: allocate_durable_id_def allocate_within_Ok allocate_within_collision
      DURABLE_ID_RETRY_LIMIT_def HOL.simp_thms)

theorem allocation_takes_the_first_free_id_witness:
  "allocate_durable_id (\<lambda>n. Ok (replicate n CHR ''x'')) DurableIdKind.Task (\<lambda>c. Ok (length c < 3) :: (bool, unit) result) 0 =
     Ok (''xxx'', 4) \<and>
   allocate_durable_id (\<lambda>n. Ok ''x'') DurableIdKind.Task (\<lambda>c. Ok True :: (bool, unit) result) 0 =
     Err (GeneratedIdCollision DurableIdKind.Task 8)"
  unfolding allocation_takes_the_first_free_id[THEN conjunct1] allocation_takes_the_first_free_id[THEN conjunct2]
  by (auto intro!: exI[of _ 3] simp: numeral_eq_Suc)

end
