(* ===== verification/TaskStore.thy ===== *)
theory TaskStore
  imports TicketStore DurableId
begin

text \<open>
  The stored tasks and acceptance criteria, \<open>volicord-store/src/core_pipeline/tasks.rs\<close> (with the part
  of \<open>shaping.rs\<close> and \<open>workflow_records.rs\<close> that task mutations call), and the planning of a criteria
  replacement in \<open>volicord-core/src/methods/update_scope.rs\<close>.  Rows are the decoded records of
  \<open>StoreRecords\<close>; the columns that only carry creation and update times are left out.  The decoder of
  the reevaluation mark is a parameter.
\<close>

section \<open>State\<close>

datatype ShapingDecisionApplicationAuthorityStatus = Current | Stale | Superseded

record ShapingApplicationRow =
  sda_project_id :: ProjectId
  sda_application_id :: string
  sda_task_id :: TaskId
  sda_user_action_request_id :: UserActionRequestId
  sda_authority_status :: ShapingDecisionApplicationAuthorityStatus
  sda_stale_at :: "UtcTimestamp option"
  sda_superseded_at :: "UtcTimestamp option"

text \<open>The two columns of a user-action request that hold the status of its basis.\<close>

record RequestBasisRow =
  rqb_project_id :: ProjectId
  rqb_user_action_request_id :: UserActionRequestId
  rqb_basis_status :: UserActionBasisStatus
  rqb_compatibility_status :: UserActionBasisStatus

record TaskTables =
  tks_tasks :: "TaskRecord list"
  tks_criteria :: "AcceptanceCriterionRecord list"
  tks_applications :: "ShapingApplicationRow list"
  tks_request_bases :: "RequestBasisRow list"
  tks_project_states :: "ProjectStateHeader list"

record TaskMutationContext =
  tkc_project_id :: ProjectId
  tkc_committed_at :: UtcTimestamp
  tkc_from_value :: "json \<Rightarrow> TaskPolicyControlReevaluation option"

definition task_is :: "ProjectId \<Rightarrow> TaskId \<Rightarrow> TaskRecord \<Rightarrow> bool" where
  "task_is project_id task_id r \<longleftrightarrow> task_project_id r = project_id \<and> task_task_id r = task_id"

definition criterion_is :: "ProjectId \<Rightarrow> AcceptanceCriterionId \<Rightarrow> AcceptanceCriterionRecord \<Rightarrow> bool" where
  "criterion_is project_id criterion_id r \<longleftrightarrow>
     acr_project_id r = project_id \<and> acr_acceptance_criterion_id r = criterion_id"

text \<open>\<open>CHECK (length(trim(column)) > 0)\<close>: SQLite's \<open>trim\<close> removes spaces only, and its \<open>length\<close> counts
  up to the first zero byte.\<close>

definition sql_nonblank :: "string \<Rightarrow> bool" where
  "sql_nonblank value =
     (case dropWhile (\<lambda>c. c = CHR '' '') value of [] \<Rightarrow> False | c # _ \<Rightarrow> c \<noteq> CHR 0x00)"

section \<open>Reads\<close>

definition task_exists :: "TaskTables \<Rightarrow> ProjectId \<Rightarrow> TaskId \<Rightarrow> bool" where
  "task_exists st project_id task_id = list_ex (task_is project_id task_id) (tks_tasks st)"

definition active_criterion_records ::
  "TaskTables \<Rightarrow> ProjectId \<Rightarrow> TaskId \<Rightarrow> AcceptanceCriterionRecord list" where
  "active_criterion_records st project_id task_id =
     sort_key (\<lambda>r. (unat (acr_position r), acr_acceptance_criterion_id r))
       (filter (\<lambda>r. acr_project_id r = project_id \<and> acr_task_id r = task_id \<and>
          acr_status r = AcceptanceCriterionStatus.Active) (tks_criteria st))"

definition acceptance_criterion_record ::
  "TaskTables \<Rightarrow> ProjectId \<Rightarrow> AcceptanceCriterionId \<Rightarrow> AcceptanceCriterionRecord option" where
  "acceptance_criterion_record st project_id criterion_id =
     find (criterion_is project_id criterion_id) (tks_criteria st)"

definition acceptance_criterion_id_exists ::
  "TaskTables \<Rightarrow> ProjectId \<Rightarrow> AcceptanceCriterionId \<Rightarrow> bool" where
  "acceptance_criterion_id_exists st project_id criterion_id =
     list_ex (criterion_is project_id criterion_id) (tks_criteria st)"

definition acceptance_criterion_from_record :: "AcceptanceCriterionRecord \<Rightarrow> AcceptanceCriterion" where
  "acceptance_criterion_from_record r = \<lparr>
     ac_acceptance_criterion_id = acr_acceptance_criterion_id r,
     ac_statement = acr_statement r,
     ac_evidence_requirement = acr_evidence_requirement r\<rparr>"

definition active_acceptance_criteria :: "TaskTables \<Rightarrow> ProjectId \<Rightarrow> TaskId \<Rightarrow> AcceptanceCriterion list" where
  "active_acceptance_criteria st project_id task_id =
     map acceptance_criterion_from_record (active_criterion_records st project_id task_id)"

section \<open>Mutations\<close>

record TaskInsert =
  tki_task_id :: TaskId
  tki_mode :: TaskMode
  tki_requested_control_level :: RequestedControlLevel
  tki_effective_control_level :: TaskControlLevel
  tki_control_level_reason :: string
  tki_work_phase :: WorkPhase
  tki_acceptance_policy :: AcceptancePolicy
  tki_acceptance_policy_reason :: string
  tki_predecessor_task_id :: "string option"
  tki_lineage_relation :: "TaskLineageRelation option"
  tki_lineage_reason :: "string option"
  tki_carry_forward :: "CarryForwardDisposition list"
  tki_lifecycle_phase :: TaskLifecyclePhase
  tki_result :: "TaskResult option"
  tki_title :: "string option"
  tki_summary :: "string option"
  tki_shaping :: TaskShapingFacts
  tki_bounded_context :: JsonObject
  tki_autonomy_boundary :: "string option"
  tki_close_summary :: PersistedCloseSummary
  tki_current_change_unit_id :: "string option"

record TaskScopeUpdate =
  tsu_task_id :: TaskId
  tsu_work_phase :: "WorkPhase option"
  tsu_lifecycle_phase :: "TaskLifecyclePhase option"
  tsu_result :: "TaskResult option"
  tsu_title :: "string option"
  tsu_summary :: "string option"
  tsu_shaping :: "TaskShapingFacts option"
  tsu_bounded_context :: "JsonObject option"
  tsu_autonomy_boundary :: "string option option"
  tsu_close_summary :: "PersistedCloseSummary option"

record TaskControlLevelUpdate =
  tclu_task_id :: TaskId
  tclu_effective_control_level :: TaskControlLevel
  tclu_control_level_reason :: string
  tclu_acceptance_policy :: "AcceptancePolicy option"
  tclu_acceptance_policy_reason :: "string option"

record AcceptanceCriterionUpsert =
  acu_acceptance_criterion_id :: AcceptanceCriterionId
  acu_statement :: string
  acu_evidence_requirement :: EvidenceRequirement
  acu_position :: u64

record AcceptanceCriteriaReplace =
  acrp_task_id :: TaskId
  acrp_criteria :: "AcceptanceCriterionUpsert list"

record TaskScopeRevisionUpdate =
  tsr_task_id :: TaskId
  tsr_scope_revision :: u64

record TaskCloseBasisUpdate =
  tcb_task_id :: TaskId
  tcb_close_basis_revision :: u64
  tcb_close_basis :: "CurrentCloseBasis option"

record TaskCloseUpdate =
  tcu_task_id :: TaskId
  tcu_lifecycle_phase :: TaskLifecyclePhase
  tcu_result :: TaskResult
  tcu_close_summary :: PersistedCloseSummary
  tcu_closed_at :: UtcTimestamp

datatype TaskMutation =
    Insert TaskInsert
  | SetActive TaskId
  | Supersede TaskId
  | Close TaskCloseUpdate
  | UpdateControlLevel TaskControlLevelUpdate
  | UpdateScope TaskScopeUpdate
  | UpdateScopeRevision TaskScopeRevisionUpdate
  | UpdateCloseBasis TaskCloseBasisUpdate
  | ReplaceAcceptanceCriteria AcceptanceCriteriaReplace

text \<open>A task row as the \<open>INSERT\<close> writes it; columns it does not name have their defaults.\<close>

definition inserted_task :: "ProjectId \<Rightarrow> TaskInsert \<Rightarrow> TaskRecord" where
  "inserted_task project_id input = \<lparr>
     task_project_id = project_id,
     task_task_id = tki_task_id input,
     task_mode = tki_mode input,
     task_requested_control_level = tki_requested_control_level input,
     task_effective_control_level = tki_effective_control_level input,
     task_control_level_reason = tki_control_level_reason input,
     task_work_phase = tki_work_phase input,
     task_acceptance_policy = tki_acceptance_policy input,
     task_acceptance_policy_reason = tki_acceptance_policy_reason input,
     task_predecessor_task_id = tki_predecessor_task_id input,
     task_lineage_relation = tki_lineage_relation input,
     task_lineage_reason = tki_lineage_reason input,
     task_carry_forward = tki_carry_forward input,
     task_lifecycle_phase = tki_lifecycle_phase input,
     task_result = tki_result input,
     task_title = tki_title input,
     task_summary = tki_summary input,
     task_shaping = tki_shaping input,
     task_bounded_context = tki_bounded_context input,
     task_autonomy_boundary = tki_autonomy_boundary input,
     task_scope_revision = 0,
     task_close_basis_revision = 0,
     task_close_basis = None,
     task_close_summary = tki_close_summary input,
     task_current_change_unit_id = tki_current_change_unit_id input,
     task_closed_at = None,
     task_metadata = []\<rparr>"

definition task_lineage_check :: "TaskInsert \<Rightarrow> bool" where
  "task_lineage_check input =
     (case (tki_predecessor_task_id input, tki_lineage_relation input, tki_lineage_reason input) of
        (None, None, None) \<Rightarrow> True
      | (Some predecessor, Some _, Some reason) \<Rightarrow>
          sql_nonblank reason \<and> predecessor \<noteq> tki_task_id input
      | _ \<Rightarrow> False)"

definition insert_task ::
  "TaskInsert \<Rightarrow> TaskMutationContext \<Rightarrow> TaskTables \<Rightarrow> (TaskTables, StoreError) result" where
  "insert_task input context st =
     (let project_id = tkc_project_id context in
     and_then (validate_identifier ''task_id'' (tki_task_id input)) (\<lambda>_.
     and_then (ensure (trim (tki_control_level_reason input) \<noteq> [])
       (InvalidInput ''control_level_reason must not be empty'')) (\<lambda>_.
     and_then (ensure (trim (tki_acceptance_policy_reason input) \<noteq> [])
       (SchemaInvariant ''Task acceptance policy reason must not be empty'')) (\<lambda>_.
     and_then (ensure (sql_nonblank (tki_control_level_reason input) \<and>
         sql_nonblank (tki_acceptance_policy_reason input) \<and> task_lineage_check input)
       (ConstraintViolation ''check'')) (\<lambda>_.
     and_then (ensure (\<not> task_exists st project_id (tki_task_id input))
       (ConstraintViolation ''primary key'')) (\<lambda>_.
     and_then (ensure (list_ex (\<lambda>s. psh_project_id s = project_id) (tks_project_states st) \<and>
         (case tki_predecessor_task_id input of None \<Rightarrow> True
          | Some predecessor \<Rightarrow> task_exists st project_id predecessor))
       (ConstraintViolation ''foreign key'')) (\<lambda>_.
     Ok (st\<lparr>tks_tasks := tks_tasks st @ [inserted_task project_id input]\<rparr>))))))))"

text \<open>An \<open>UPDATE\<close> of one task row that has to exist.\<close>

definition update_task_row ::
  "string \<Rightarrow> TaskMutationContext \<Rightarrow> TaskId \<Rightarrow> (TaskRecord \<Rightarrow> TaskRecord) \<Rightarrow> TaskTables \<Rightarrow>
     (TaskTables, StoreError) result" where
  "update_task_row detail context task_id change st =
     (let (rows, changed) = sql_update (task_is (tkc_project_id context) task_id) change (tks_tasks st)
      in if changed = 1 then Ok (st\<lparr>tks_tasks := rows\<rparr>) else Err (SchemaInvariant detail))"

definition clear_satisfied_task_policy_reevaluation ::
  "(json \<Rightarrow> TaskPolicyControlReevaluation option) \<Rightarrow> TaskRecord \<Rightarrow> TaskControlLevel \<Rightarrow> AcceptancePolicy \<Rightarrow>
     (JsonObject, StoreError) result" where
  "clear_satisfied_task_policy_reevaluation from_value task control acceptance =
     and_then (map_err (\<lambda>_. CorruptOwnerState ''tasks'' ''metadata_json'')
       (task_policy_control_reevaluation from_value task)) (\<lambda>mark.
     case mark of
       None \<Rightarrow> Ok (task_metadata task)
     | Some mark \<Rightarrow>
         let acceptance_satisfied = (case mark_required_acceptance_policy mark of
               Some required \<Rightarrow> acceptance_policy_rank acceptance \<ge> acceptance_policy_rank required
             | None \<Rightarrow> True)
         in if control < mark_required_effective_control_level mark \<or> \<not> acceptance_satisfied
            then Ok (task_metadata task)
            else Ok (filter (\<lambda>(key, _). key \<noteq> ''policy_control_reevaluation'') (task_metadata task)))"

definition controlled_task ::
  "TaskControlLevelUpdate \<Rightarrow> JsonObject \<Rightarrow> TaskRecord \<Rightarrow> TaskRecord" where
  "controlled_task input metadata r = r\<lparr>
     task_effective_control_level := tclu_effective_control_level input,
     task_control_level_reason := tclu_control_level_reason input,
     task_acceptance_policy := (case tclu_acceptance_policy input of
         None \<Rightarrow> task_acceptance_policy r | Some policy \<Rightarrow> policy),
     task_acceptance_policy_reason := (case tclu_acceptance_policy_reason input of
         None \<Rightarrow> task_acceptance_policy_reason r | Some reason \<Rightarrow> reason),
     task_metadata := metadata\<rparr>"

definition acceptance_update_is_complete :: "TaskControlLevelUpdate \<Rightarrow> bool" where
  "acceptance_update_is_complete input =
     (case (tclu_acceptance_policy input, tclu_acceptance_policy_reason input) of
        (None, None) \<Rightarrow> True
      | (Some _, Some reason) \<Rightarrow> trim reason \<noteq> []
      | _ \<Rightarrow> False)"

definition update_task_control_level ::
  "TaskControlLevelUpdate \<Rightarrow> TaskMutationContext \<Rightarrow> TaskTables \<Rightarrow> (TaskTables, StoreError) result" where
  "update_task_control_level input context st =
     (let task_id = tclu_task_id input; control = tclu_effective_control_level input in
     and_then (validate_identifier ''task_id'' task_id) (\<lambda>_.
     and_then (ensure (trim (tclu_control_level_reason input) \<noteq> [])
       (InvalidInput ''control_level_reason must not be empty'')) (\<lambda>_.
     and_then (ensure (acceptance_update_is_complete input) (InvalidInput
       ''acceptance_policy and acceptance_policy_reason must be supplied together with a non-empty reason'')) (\<lambda>_.
     case find (task_is (tkc_project_id context) task_id) (tks_tasks st) of
       None \<Rightarrow> Err (NotFound task_id)
     | Some task \<Rightarrow>
         and_then (ensure (\<not> control_rank control < control_rank (task_effective_control_level task))
           (Conflict task_id)) (\<lambda>_.
         and_then (ensure (\<not> is_some_and (tclu_acceptance_policy input) (\<lambda>policy.
             acceptance_policy_rank policy < acceptance_policy_rank (task_acceptance_policy task)))
           (Conflict task_id)) (\<lambda>_.
         and_then (clear_satisfied_task_policy_reevaluation (tkc_from_value context) task control
           (case tclu_acceptance_policy input of Some policy \<Rightarrow> policy
            | None \<Rightarrow> task_acceptance_policy task)) (\<lambda>metadata.
         and_then (ensure (sql_nonblank (tclu_control_level_reason input) \<and>
             \<not> is_some_and (tclu_acceptance_policy_reason input) (\<lambda>reason. \<not> sql_nonblank reason))
           (ConstraintViolation ''check'')) (\<lambda>_.
         Ok (st\<lparr>tks_tasks := fst (sql_update (task_is (tkc_project_id context) task_id)
           (controlled_task input metadata) (tks_tasks st))\<rparr>)))))))))"

definition set_active_task ::
  "TaskId \<Rightarrow> TaskMutationContext \<Rightarrow> TaskTables \<Rightarrow> (TaskTables, StoreError) result" where
  "set_active_task task_id context st =
     and_then (validate_identifier ''task_id'' task_id) (\<lambda>_.
     let (rows, changed) = sql_update (\<lambda>s. psh_project_id s = tkc_project_id context)
           (\<lambda>s. s\<lparr>psh_active_task_id := Some task_id\<rparr>) (tks_project_states st)
     in if changed = 1 then Ok (st\<lparr>tks_project_states := rows\<rparr>)
        else Err (SchemaInvariant ''active Task update changed no rows''))"

text \<open>Applications that carried authority into a task lose it, and so do the requests they came from.\<close>

definition invalidated_application ::
  "ShapingDecisionApplicationAuthorityStatus \<Rightarrow> UtcTimestamp \<Rightarrow> ShapingApplicationRow \<Rightarrow> ShapingApplicationRow" where
  "invalidated_application status now r = r\<lparr>
     sda_authority_status := status,
     sda_stale_at := (if status = ShapingDecisionApplicationAuthorityStatus.Stale then Some now else None),
     sda_superseded_at :=
       (if status = ShapingDecisionApplicationAuthorityStatus.Superseded then Some now else None)\<rparr>"

fun basis_status_of :: "ShapingDecisionApplicationAuthorityStatus \<Rightarrow> UserActionBasisStatus" where
  "basis_status_of ShapingDecisionApplicationAuthorityStatus.Current = UserActionBasisStatus.Current"
| "basis_status_of ShapingDecisionApplicationAuthorityStatus.Stale = UserActionBasisStatus.Stale"
| "basis_status_of ShapingDecisionApplicationAuthorityStatus.Superseded = UserActionBasisStatus.Superseded"

definition invalidated_basis :: "UserActionBasisStatus \<Rightarrow> RequestBasisRow \<Rightarrow> RequestBasisRow" where
  "invalidated_basis status r = r\<lparr>rqb_basis_status := status, rqb_compatibility_status := status\<rparr>"

definition invalidate_request_basis ::
  "ShapingDecisionApplicationAuthorityStatus \<Rightarrow> TaskMutationContext \<Rightarrow> UserActionRequestId \<Rightarrow> TaskTables \<Rightarrow>
     (TaskTables, StoreError) result" where
  "invalidate_request_basis status context request_id st =
     (let target = basis_status_of status;
          is_request = (\<lambda>r. rqb_project_id r = tkc_project_id context \<and>
            rqb_user_action_request_id r = request_id);
          (rows, changed) = sql_update (\<lambda>r. is_request r \<and> rqb_basis_status r \<in>
              (if status = ShapingDecisionApplicationAuthorityStatus.Superseded
               then {UserActionBasisStatus.Current, UserActionBasisStatus.Stale}
               else {UserActionBasisStatus.Current}))
            (invalidated_basis target) (tks_request_bases st);
          already_invalidated = list_ex (\<lambda>r. is_request r \<and> rqb_basis_status r = target \<and>
            rqb_compatibility_status r = target) rows
      in if changed \<noteq> 1 \<and> \<not> already_invalidated then Err (Conflict request_id)
         else Ok (st\<lparr>tks_request_bases := rows\<rparr>))"

fun invalidate_each_application ::
  "(string \<times> UserActionRequestId) list \<Rightarrow> ShapingDecisionApplicationAuthorityStatus \<Rightarrow> TaskMutationContext \<Rightarrow>
     TaskTables \<Rightarrow> (TaskTables, StoreError) result" where
  "invalidate_each_application [] status context st = Ok st"
| "invalidate_each_application ((application_id, request_id) # rest) status context st =
     (let (rows, changed) = sql_update
            (\<lambda>r. sda_project_id r = tkc_project_id context \<and> sda_application_id r = application_id \<and>
              sda_authority_status r = ShapingDecisionApplicationAuthorityStatus.Current)
            (invalidated_application status (tkc_committed_at context)) (tks_applications st)
      in if changed \<noteq> 1 then Err (Conflict application_id)
         else and_then (invalidate_request_basis status context request_id
             (st\<lparr>tks_applications := rows\<rparr>))
           (invalidate_each_application rest status context))"

definition invalidate_application_rows ::
  "(string \<times> UserActionRequestId) list \<Rightarrow> ShapingDecisionApplicationAuthorityStatus \<Rightarrow> TaskMutationContext \<Rightarrow>
     TaskTables \<Rightarrow> (TaskTables, StoreError) result" where
  "invalidate_application_rows rows status context st =
     (if status = ShapingDecisionApplicationAuthorityStatus.Current
      then Err (InvalidInput ''application invalidation requires a non-current status'')
      else invalidate_each_application rows status context st)"

definition current_applications :: "ProjectId \<Rightarrow> TaskId \<Rightarrow> TaskTables \<Rightarrow> ShapingApplicationRow list" where
  "current_applications project_id task_id st =
     filter (\<lambda>r. sda_project_id r = project_id \<and> sda_task_id r = task_id \<and>
       sda_authority_status r = ShapingDecisionApplicationAuthorityStatus.Current) (tks_applications st)"

definition invalidate_all_current_applications ::
  "TaskId \<Rightarrow> ShapingDecisionApplicationAuthorityStatus \<Rightarrow> TaskMutationContext \<Rightarrow> TaskTables \<Rightarrow>
     (TaskTables, StoreError) result" where
  "invalidate_all_current_applications task_id status context st =
     invalidate_application_rows
       (map (\<lambda>r. (sda_application_id r, sda_user_action_request_id r))
         (current_applications (tkc_project_id context) task_id st)) status context st"

definition supersede_task_shaping_applications ::
  "TaskId \<Rightarrow> TaskMutationContext \<Rightarrow> TaskTables \<Rightarrow> (TaskTables, StoreError) result" where
  "supersede_task_shaping_applications task_id =
     invalidate_all_current_applications task_id ShapingDecisionApplicationAuthorityStatus.Superseded"

definition superseded_task :: "UtcTimestamp \<Rightarrow> TaskRecord \<Rightarrow> TaskRecord" where
  "superseded_task now r = r\<lparr>
     task_lifecycle_phase := TaskLifecyclePhase.Superseded,
     task_result := Some TaskResult.Superseded,
     task_close_summary := default_close_summary\<lparr>pcs_close_reason := CloseReason.Superseded\<rparr>,
     task_closed_at := Some now\<rparr>"

definition supersede_task ::
  "TaskId \<Rightarrow> TaskMutationContext \<Rightarrow> TaskTables \<Rightarrow> (TaskTables, StoreError) result" where
  "supersede_task task_id context st =
     and_then (validate_identifier ''task_id'' task_id) (\<lambda>_.
     and_then (supersede_task_shaping_applications task_id context st) (\<lambda>st.
     Ok (st\<lparr>tks_tasks := fst (sql_update (task_is (tkc_project_id context) task_id)
       (superseded_task (tkc_committed_at context)) (tks_tasks st))\<rparr>)))"

definition closed_task :: "TaskCloseUpdate \<Rightarrow> TaskRecord \<Rightarrow> TaskRecord" where
  "closed_task input r = r\<lparr>
     task_lifecycle_phase := tcu_lifecycle_phase input,
     task_result := Some (tcu_result input),
     task_close_summary := tcu_close_summary input,
     task_closed_at := Some (tcu_closed_at input)\<rparr>"

definition close_task ::
  "TaskCloseUpdate \<Rightarrow> TaskMutationContext \<Rightarrow> TaskTables \<Rightarrow> (TaskTables, StoreError) result" where
  "close_task input context st =
     and_then (validate_identifier ''task_id'' (tcu_task_id input)) (\<lambda>_.
     and_then (supersede_task_shaping_applications (tcu_task_id input) context st) (\<lambda>st.
     update_task_row ''Task close transition changed no rows'' context (tcu_task_id input)
       (closed_task input) st))"

text \<open>One column at a time, in the order of the source; a column that is not given is skipped.\<close>

definition update_task_column ::
  "TaskMutationContext \<Rightarrow> TaskId \<Rightarrow> 'v option \<Rightarrow> ('v \<Rightarrow> TaskRecord \<Rightarrow> TaskRecord) \<Rightarrow> TaskTables \<Rightarrow>
     (TaskTables, StoreError) result" where
  "update_task_column context task_id value change st =
     (case value of None \<Rightarrow> Ok st
      | Some v \<Rightarrow> update_task_row ''Task column update changed no rows'' context task_id (change v) st)"

definition update_task_scope ::
  "TaskScopeUpdate \<Rightarrow> TaskMutationContext \<Rightarrow> TaskTables \<Rightarrow> (TaskTables, StoreError) result" where
  "update_task_scope input context st =
     and_then (validate_identifier ''task_id'' (tsu_task_id input)) (\<lambda>_.
     and_then (update_task_column context (tsu_task_id input) (tsu_shaping input)
       (\<lambda>v r. r\<lparr>task_shaping := v\<rparr>) st) (\<lambda>st.
     and_then (update_task_column context (tsu_task_id input) (tsu_bounded_context input)
       (\<lambda>v r. r\<lparr>task_bounded_context := v\<rparr>) st) (\<lambda>st.
     and_then (update_task_column context (tsu_task_id input) (tsu_autonomy_boundary input)
       (\<lambda>v r. r\<lparr>task_autonomy_boundary := v\<rparr>) st) (\<lambda>st.
     and_then (update_task_column context (tsu_task_id input) (tsu_close_summary input)
       (\<lambda>v r. r\<lparr>task_close_summary := v\<rparr>) st) (\<lambda>st.
     and_then (update_task_column context (tsu_task_id input) (tsu_lifecycle_phase input)
       (\<lambda>v r. r\<lparr>task_lifecycle_phase := v\<rparr>) st) (\<lambda>st.
     and_then (update_task_column context (tsu_task_id input) (tsu_work_phase input)
       (\<lambda>v r. r\<lparr>task_work_phase := v\<rparr>) st) (\<lambda>st.
     and_then (update_task_column context (tsu_task_id input) (tsu_result input)
       (\<lambda>v r. r\<lparr>task_result := Some v\<rparr>) st) (\<lambda>st.
     and_then (update_task_column context (tsu_task_id input) (tsu_title input)
       (\<lambda>v r. r\<lparr>task_title := Some v\<rparr>) st) (\<lambda>st.
     update_task_column context (tsu_task_id input) (tsu_summary input)
       (\<lambda>v r. r\<lparr>task_summary := Some v\<rparr>) st)))))))))"

definition update_task_scope_revision ::
  "TaskScopeRevisionUpdate \<Rightarrow> TaskMutationContext \<Rightarrow> TaskTables \<Rightarrow> (TaskTables, StoreError) result" where
  "update_task_scope_revision input context st =
     and_then (validate_identifier ''task_id'' (tsr_task_id input)) (\<lambda>_.
     and_then (u64_to_i64 ''tasks.scope_revision'' (tsr_scope_revision input)) (\<lambda>_.
     update_task_row ''Task scope revision update changed no rows'' context (tsr_task_id input)
       (\<lambda>r. r\<lparr>task_scope_revision := tsr_scope_revision input\<rparr>) st))"

definition update_task_close_basis ::
  "TaskCloseBasisUpdate \<Rightarrow> TaskMutationContext \<Rightarrow> TaskTables \<Rightarrow> (TaskTables, StoreError) result" where
  "update_task_close_basis input context st =
     and_then (validate_identifier ''task_id'' (tcb_task_id input)) (\<lambda>_.
     and_then (u64_to_i64 ''tasks.close_basis_revision'' (tcb_close_basis_revision input)) (\<lambda>_.
     update_task_row ''Task close-basis update changed no rows'' context (tcb_task_id input)
       (\<lambda>r. r\<lparr>task_close_basis_revision := tcb_close_basis_revision input,
             task_close_basis := tcb_close_basis input\<rparr>) st))"

subsection \<open>Acceptance criteria\<close>

definition inserted_criterion ::
  "ProjectId \<Rightarrow> TaskId \<Rightarrow> AcceptanceCriterionUpsert \<Rightarrow> AcceptanceCriterionRecord" where
  "inserted_criterion project_id task_id criterion = \<lparr>
     acr_project_id = project_id,
     acr_acceptance_criterion_id = acu_acceptance_criterion_id criterion,
     acr_task_id = task_id,
     acr_statement = acu_statement criterion,
     acr_evidence_requirement = acu_evidence_requirement criterion,
     acr_position = acu_position criterion,
     acr_status = AcceptanceCriterionStatus.Active\<rparr>"

definition rewritten_criterion ::
  "AcceptanceCriterionUpsert \<Rightarrow> AcceptanceCriterionRecord \<Rightarrow> AcceptanceCriterionRecord" where
  "rewritten_criterion criterion r = r\<lparr>
     acr_statement := acu_statement criterion,
     acr_evidence_requirement := acu_evidence_requirement criterion,
     acr_position := acu_position criterion\<rparr>"

text \<open>\<open>INSERT ... ON CONFLICT DO UPDATE ... WHERE\<close>: an existing row is rewritten when it is active and
  belongs to the task, and left alone otherwise.\<close>

definition upsert_acceptance_criterion ::
  "TaskMutationContext \<Rightarrow> TaskId \<Rightarrow> AcceptanceCriterionUpsert \<Rightarrow> TaskTables \<Rightarrow>
     (TaskTables, StoreError) result" where
  "upsert_acceptance_criterion context task_id criterion st =
     (let project_id = tkc_project_id context; criterion_id = acu_acceptance_criterion_id criterion in
     and_then (validate_identifier ''acceptance_criterion_id'' criterion_id) (\<lambda>_.
     and_then (ensure (trim (acu_statement criterion) \<noteq> [])
       (SchemaInvariant ''acceptance criterion statement must not be empty'')) (\<lambda>_.
     and_then (ensure (uint (acu_position criterion) < 2 ^ 63)
       (SchemaInvariant ''acceptance criterion position exceeds SQLite INTEGER range'')) (\<lambda>_.
     and_then (ensure (sql_nonblank (acu_statement criterion)) (ConstraintViolation ''check'')) (\<lambda>_.
     if acceptance_criterion_id_exists st project_id criterion_id
     then Ok (st\<lparr>tks_criteria := fst (sql_update
       (\<lambda>r. criterion_is project_id criterion_id r \<and> acr_task_id r = task_id \<and>
         acr_status r = AcceptanceCriterionStatus.Active)
       (rewritten_criterion criterion) (tks_criteria st))\<rparr>)
     else and_then (ensure (task_exists st project_id task_id) (ConstraintViolation ''foreign key'')) (\<lambda>_.
       Ok (st\<lparr>tks_criteria := tks_criteria st @ [inserted_criterion project_id task_id criterion]\<rparr>)))))))"

fun upsert_acceptance_criteria ::
  "TaskMutationContext \<Rightarrow> TaskId \<Rightarrow> AcceptanceCriterionUpsert list \<Rightarrow> TaskTables \<Rightarrow>
     (TaskTables, StoreError) result" where
  "upsert_acceptance_criteria context task_id [] st = Ok st"
| "upsert_acceptance_criteria context task_id (criterion # rest) st =
     and_then (upsert_acceptance_criterion context task_id criterion st)
       (upsert_acceptance_criteria context task_id rest)"

definition retire_other_criteria ::
  "TaskMutationContext \<Rightarrow> TaskId \<Rightarrow> AcceptanceCriterionId list \<Rightarrow> TaskTables \<Rightarrow> TaskTables" where
  "retire_other_criteria context task_id ids st = st\<lparr>tks_criteria := fst (sql_update
     (\<lambda>r. acr_project_id r = tkc_project_id context \<and> acr_task_id r = task_id \<and>
       acr_status r = AcceptanceCriterionStatus.Active \<and>
       (ids = [] \<or> acr_acceptance_criterion_id r \<notin> set ids))
     (\<lambda>r. r\<lparr>acr_status := AcceptanceCriterionStatus.Retired\<rparr>) (tks_criteria st))\<rparr>"

definition replace_acceptance_criteria ::
  "AcceptanceCriteriaReplace \<Rightarrow> TaskMutationContext \<Rightarrow> TaskTables \<Rightarrow> (TaskTables, StoreError) result" where
  "replace_acceptance_criteria input context st =
     and_then (validate_identifier ''task_id'' (acrp_task_id input)) (\<lambda>_.
     and_then (upsert_acceptance_criteria context (acrp_task_id input) (acrp_criteria input) st) (\<lambda>st.
     Ok (retire_other_criteria context (acrp_task_id input)
       (map acu_acceptance_criterion_id (acrp_criteria input)) st)))"

fun apply_task_mutation ::
  "TaskMutation \<Rightarrow> TaskMutationContext \<Rightarrow> TaskTables \<Rightarrow> (TaskTables, StoreError) result" where
  "apply_task_mutation (TaskMutation.Insert input) context st = insert_task input context st"
| "apply_task_mutation (SetActive task_id) context st = set_active_task task_id context st"
| "apply_task_mutation (Supersede task_id) context st = supersede_task task_id context st"
| "apply_task_mutation (Close input) context st = close_task input context st"
| "apply_task_mutation (UpdateControlLevel input) context st = update_task_control_level input context st"
| "apply_task_mutation (UpdateScope input) context st = update_task_scope input context st"
| "apply_task_mutation (UpdateScopeRevision input) context st = update_task_scope_revision input context st"
| "apply_task_mutation (UpdateCloseBasis input) context st = update_task_close_basis input context st"
| "apply_task_mutation (ReplaceAcceptanceCriteria input) context st =
     replace_acceptance_criteria input context st"

section \<open>Planning of a criteria replacement\<close>

record AcceptanceCriterionReplacement =
  acx_acceptance_criterion_id :: "AcceptanceCriterionId option"
  acx_statement :: string
  acx_evidence_requirement :: EvidenceRequirement

datatype CriteriaPlanError = Rejection string | Allocation "StoreError AllocationError"

text \<open>The id of one replacement, and the number of the generator's next call.\<close>

definition replacement_criterion_id ::
  "(nat \<Rightarrow> (string, DurableIdError) result) \<Rightarrow> TaskTables \<Rightarrow> ProjectId \<Rightarrow> TaskId \<Rightarrow>
     AcceptanceCriterionReplacement \<Rightarrow> AcceptanceCriterionId list \<Rightarrow> nat \<Rightarrow>
     (AcceptanceCriterionId \<times> nat, CriteriaPlanError) result" where
  "replacement_criterion_id generate st project_id task_id replacement seen call =
     (case acx_acceptance_criterion_id replacement of
        Some i \<Rightarrow>
          if i \<in> set seen
          then Err (Rejection ''acceptance criterion replacement IDs must not be duplicated'')
          else (case acceptance_criterion_record st project_id i of
              None \<Rightarrow> Err (Rejection ''acceptance criterion replacement ID is unknown'')
            | Some r \<Rightarrow>
                if acr_task_id r \<noteq> task_id
                then Err (Rejection ''acceptance criterion replacement ID belongs to another Task'')
                else if acr_status r \<noteq> AcceptanceCriterionStatus.Active
                then Err (Rejection ''retired acceptance criterion IDs cannot be reused'')
                else Ok (i, call))
      | None \<Rightarrow> map_err Allocation (allocate_durable_id generate DurableIdKind.AcceptanceCriterion
          (\<lambda>candidate. if candidate \<in> set seen then Ok True
             else Ok (acceptance_criterion_id_exists st project_id candidate)) call))"

fun plan_replacements ::
  "(nat \<Rightarrow> (string, DurableIdError) result) \<Rightarrow> TaskTables \<Rightarrow> ProjectId \<Rightarrow> TaskId \<Rightarrow>
     AcceptanceCriterionReplacement list \<Rightarrow> nat \<Rightarrow> AcceptanceCriterionId list \<Rightarrow> nat \<Rightarrow>
     (AcceptanceCriterionUpsert list, CriteriaPlanError) result" where
  "plan_replacements generate st project_id task_id [] position seen call = Ok []"
| "plan_replacements generate st project_id task_id (replacement # rest) position seen call =
     (let statement = trim (acx_statement replacement) in
      if statement = [] then Err (Rejection ''acceptance criterion statements must not be empty'')
      else and_then (replacement_criterion_id generate st project_id task_id replacement seen call)
        (\<lambda>(i, call).
      and_then (plan_replacements generate st project_id task_id rest (Suc position) (i # seen) call)
        (\<lambda>upserts.
      Ok (\<lparr>acu_acceptance_criterion_id = i, acu_statement = statement,
           acu_evidence_requirement = acx_evidence_requirement replacement,
           acu_position = word_of_nat position\<rparr> # upserts))))"

definition projected_criterion :: "AcceptanceCriterionUpsert \<Rightarrow> AcceptanceCriterion" where
  "projected_criterion criterion = \<lparr>
     ac_acceptance_criterion_id = acu_acceptance_criterion_id criterion,
     ac_statement = acu_statement criterion,
     ac_evidence_requirement = acu_evidence_requirement criterion\<rparr>"

definition plan_acceptance_criteria_replacement ::
  "(nat \<Rightarrow> (string, DurableIdError) result) \<Rightarrow> TaskTables \<Rightarrow> ProjectId \<Rightarrow> TaskId \<Rightarrow>
     AcceptanceCriterionReplacement list option \<Rightarrow>
     (AcceptanceCriterion list \<times> AcceptanceCriteriaReplace option \<times> bool, CriteriaPlanError) result" where
  "plan_acceptance_criteria_replacement generate st project_id task_id request =
     (let current = active_acceptance_criteria st project_id task_id in
      case request of
        None \<Rightarrow> Ok (current, None, False)
      | Some replacements \<Rightarrow>
          and_then (plan_replacements generate st project_id task_id replacements 0 [] 0) (\<lambda>upserts.
          let projected = map projected_criterion upserts in
          Ok (projected, Some \<lparr>acrp_task_id = task_id, acrp_criteria = upserts\<rparr>, current \<noteq> projected)))"

section \<open>The tables as a transition system\<close>

record TaskEvent =
  tke_context :: TaskMutationContext
  tke_mutation :: TaskMutation

definition task_step :: "TaskEvent \<Rightarrow> TaskTables \<Rightarrow> (TaskTables, StoreError) result" where
  "task_step e st = apply_task_mutation (tke_mutation e) (tke_context e) st"

definition task_key :: "TaskRecord \<Rightarrow> ProjectId \<times> TaskId" where
  "task_key r = (task_project_id r, task_task_id r)"

definition criterion_key :: "AcceptanceCriterionRecord \<Rightarrow> ProjectId \<times> AcceptanceCriterionId" where
  "criterion_key r = (acr_project_id r, acr_acceptance_criterion_id r)"

definition text_stored :: "string \<Rightarrow> bool" where
  "text_stored s \<longleftrightarrow> trim s \<noteq> [] \<and> sql_nonblank s"

definition task_row_ok :: "TaskRecord \<Rightarrow> bool" where
  "task_row_ok r \<longleftrightarrow> trim (task_task_id r) \<noteq> [] \<and> text_stored (task_control_level_reason r) \<and>
     text_stored (task_acceptance_policy_reason r)"

definition criterion_row_ok :: "AcceptanceCriterionRecord \<Rightarrow> bool" where
  "criterion_row_ok r \<longleftrightarrow> trim (acr_acceptance_criterion_id r) \<noteq> [] \<and> sql_nonblank (acr_statement r)"

text \<open>The invariant of the tables: unique keys, the column checks, and criteria of existing tasks.\<close>

definition task_tables_ok :: "TaskTables \<Rightarrow> bool" where
  "task_tables_ok st \<longleftrightarrow>
     distinct (map task_key (tks_tasks st)) \<and> list_all task_row_ok (tks_tasks st) \<and>
     distinct (map criterion_key (tks_criteria st)) \<and> list_all criterion_row_ok (tks_criteria st) \<and>
     list_all (\<lambda>r. task_exists st (acr_project_id r) (acr_task_id r)) (tks_criteria st)"

text \<open>How one row may change: the identity, mode and lineage of a task are fixed and its control and
  acceptance only rise; a criterion keeps its task, and once retired it keeps everything.\<close>

definition task_evolves :: "TaskRecord \<Rightarrow> TaskRecord \<Rightarrow> bool" where
  "task_evolves r r' \<longleftrightarrow>
     task_key r' = task_key r \<and> task_mode r' = task_mode r \<and>
     task_requested_control_level r' = task_requested_control_level r \<and>
     task_predecessor_task_id r' = task_predecessor_task_id r \<and>
     task_lineage_relation r' = task_lineage_relation r \<and> task_lineage_reason r' = task_lineage_reason r \<and>
     task_carry_forward r' = task_carry_forward r \<and>
     task_effective_control_level r \<le> task_effective_control_level r' \<and>
     acceptance_policy_rank (task_acceptance_policy r) \<le> acceptance_policy_rank (task_acceptance_policy r')"

definition criterion_evolves :: "AcceptanceCriterionRecord \<Rightarrow> AcceptanceCriterionRecord \<Rightarrow> bool" where
  "criterion_evolves r r' \<longleftrightarrow>
     criterion_key r' = criterion_key r \<and> acr_task_id r' = acr_task_id r \<and>
     (acr_status r = AcceptanceCriterionStatus.Retired \<longrightarrow> r' = r)"

definition task_tables_evolve :: "TaskTables \<Rightarrow> TaskTables \<Rightarrow> bool" where
  "task_tables_evolve st st' \<longleftrightarrow>
     list_all2 task_evolves (tks_tasks st) (take (length (tks_tasks st)) (tks_tasks st')) \<and>
     list_all2 criterion_evolves (tks_criteria st) (take (length (tks_criteria st)) (tks_criteria st'))"

definition sound_task_update :: "TaskTables \<Rightarrow> TaskTables \<Rightarrow> bool" where
  "sound_task_update st st' \<longleftrightarrow> task_tables_ok st' \<and> task_tables_evolve st st'"

text \<open>The active criteria of a task as a set, and when an upsert of an id takes effect.\<close>

definition active_criteria :: "TaskTables \<Rightarrow> ProjectId \<Rightarrow> TaskId \<Rightarrow> AcceptanceCriterionRecord set" where
  "active_criteria st project_id task_id = {r \<in> set (tks_criteria st). acr_project_id r = project_id \<and>
     acr_task_id r = task_id \<and> acr_status r = AcceptanceCriterionStatus.Active}"

definition upsert_effective :: "TaskTables \<Rightarrow> ProjectId \<Rightarrow> TaskId \<Rightarrow> AcceptanceCriterionId \<Rightarrow> bool" where
  "upsert_effective st project_id task_id i \<longleftrightarrow>
     (\<forall>r \<in> set (tks_criteria st). criterion_is project_id i r \<longrightarrow>
        acr_task_id r = task_id \<and> acr_status r = AcceptanceCriterionStatus.Active)"

definition upsert_ready :: "TaskTables \<Rightarrow> ProjectId \<Rightarrow> TaskId \<Rightarrow> AcceptanceCriterionUpsert \<Rightarrow> bool" where
  "upsert_ready st p t c \<longleftrightarrow> upsert_effective st p t (acu_acceptance_criterion_id c) \<and>
     trim (acu_acceptance_criterion_id c) \<noteq> [] \<and> trim (acu_statement c) \<noteq> [] \<and>
     uint (acu_position c) < 2 ^ 63 \<and> sql_nonblank (acu_statement c)"

text \<open>A task with three criteria and one shaping application.\<close>

definition sample_task_row :: TaskRecord where
  "sample_task_row = sample_task\<lparr>task_control_level_reason := ''policy'',
     task_acceptance_policy_reason := ''policy''\<rparr>"

definition sample_task_tables :: TaskTables where
  "sample_task_tables = \<lparr>tks_tasks = [sample_task_row],
     tks_criteria = map (\<lambda>(i, position, status). \<lparr>acr_project_id = ''p'', acr_acceptance_criterion_id = i,
       acr_task_id = ''task_1'', acr_statement = ''done'',
       acr_evidence_requirement = EvidenceRequirement.Required, acr_position = position, acr_status = status\<rparr>)
       [(''c1'', 0, AcceptanceCriterionStatus.Active), (''c2'', 1, AcceptanceCriterionStatus.Active),
        (''c3'', 2, AcceptanceCriterionStatus.Retired)],
     tks_applications = [\<lparr>sda_project_id = ''p'', sda_application_id = ''app_1'', sda_task_id = ''task_1'',
       sda_user_action_request_id = ''uar_1'',
       sda_authority_status = ShapingDecisionApplicationAuthorityStatus.Current,
       sda_stale_at = None, sda_superseded_at = None\<rparr>],
     tks_request_bases = [\<lparr>rqb_project_id = ''p'', rqb_user_action_request_id = ''uar_1'',
       rqb_basis_status = UserActionBasisStatus.Current,
       rqb_compatibility_status = UserActionBasisStatus.Current\<rparr>],
     tks_project_states = [sample_project_state]\<rparr>"

definition sample_task_context :: TaskMutationContext where
  "sample_task_context = \<lparr>tkc_project_id = ''p'', tkc_committed_at = 600, tkc_from_value = (\<lambda>_. None)\<rparr>"

definition sample_close :: TaskCloseUpdate where
  "sample_close = \<lparr>tcu_task_id = ''task_1'', tcu_lifecycle_phase = TaskLifecyclePhase.Completed,
     tcu_result = TaskResult.Completed, tcu_close_summary = default_close_summary, tcu_closed_at = 600\<rparr>"

definition sample_replacements :: "AcceptanceCriterionReplacement list" where
  "sample_replacements =
     [\<lparr>acx_acceptance_criterion_id = None, acx_statement = '' first '',
       acx_evidence_requirement = EvidenceRequirement.Optional\<rparr>,
      \<lparr>acx_acceptance_criterion_id = Some ''c1'', acx_statement = ''second'',
       acx_evidence_requirement = EvidenceRequirement.Required\<rparr>]"

section \<open>Lemmas\<close>

subsection \<open>Trimmed text\<close>

lemma trim_start_suffix: "suffix (trim_start s) s"
  by (induction s rule: trim_start.induct) (auto simp: suffix_ConsI)

lemma trim_end_rev_suffix: "suffix (trim_end_rev s) s"
  by (induction s rule: trim_end_rev.induct) (auto simp: suffix_ConsI)

lemma trim_start_idem: "trim_start (trim_start s) = trim_start s"
  by (induction s rule: trim_start.induct) auto

lemma trim_end_rev_idem: "trim_end_rev (trim_end_rev s) = trim_end_rev s"
  by (induction s rule: trim_end_rev.induct) auto

lemma trim_start_fixed_iff:
  "trim_start s = s \<longleftrightarrow> (case s of
      [] \<Rightarrow> True
    | [a] \<Rightarrow> \<not> ws1 a
    | [a, b] \<Rightarrow> \<not> ws1 a \<and> \<not> ws2 a b
    | a # b # c # _ \<Rightarrow> \<not> ws1 a \<and> \<not> ws2 a b \<and> \<not> ws3 a b c)"
proof -
  have shorter: "trim_start t \<noteq> x # t" for x t
    using trim_start_suffix[of t] by (auto dest: suffix_length_le)
  have shorter2: "trim_start t \<noteq> x # y # t" for x y t
    using trim_start_suffix[of t] by (auto dest: suffix_length_le)
  have shorter3: "trim_start t \<noteq> x # y # z # t" for x y z t
    using trim_start_suffix[of t] by (auto dest: suffix_length_le)
  show ?thesis
    by (cases s rule: trim_start.cases) (auto simp: shorter shorter2 shorter3)
qed

lemma trim_start_prefix:
  assumes "trim_start s = s" "prefix t s"
  shows "trim_start t = t"
proof (cases t rule: trim_start.cases)
  case (1 a b c t')
  with assms show ?thesis by (auto simp: trim_start_fixed_iff prefix_def)
next
  case (2 a b)
  with assms show ?thesis by (auto simp: trim_start_fixed_iff prefix_def split: list.splits)
next
  case (3 a)
  with assms show ?thesis by (auto simp: trim_start_fixed_iff prefix_def split: list.splits)
qed simp

lemma trim_start_trim: "trim_start (trim s) = trim s"
proof -
  have "prefix (trim s) (trim_start s)"
    using trim_end_rev_suffix[of "rev (trim_start s)"] by (simp add: trim_def suffix_to_prefix)
  then show ?thesis using trim_start_prefix[OF trim_start_idem] by blast
qed

lemma trim_idem: "trim (trim s) = trim s"
  using trim_start_trim[of s] by (simp add: trim_def trim_end_rev_idem)

lemma trimmed_nonblank:
  assumes "trim s \<noteq> []" "hd (trim s) \<noteq> CHR 0x00"
  shows "sql_nonblank (trim s)"
proof (cases "trim s")
  case (Cons c t)
  have "\<not> ws1 c" using trim_start_trim[of s] by (simp add: trim_start_fixed_iff Cons split: list.splits)
  then have "c \<noteq> CHR '' ''" by (auto simp: ws1_def)
  with assms Cons show ?thesis by (simp add: sql_nonblank_def)
qed (use assms in simp)

subsection \<open>Rows\<close>

lemma task_evolves_refl: "task_evolves r r"
  by (simp add: task_evolves_def)

lemma task_evolves_trans: "\<lbrakk>task_evolves a b; task_evolves b c\<rbrakk> \<Longrightarrow> task_evolves a c"
  by (auto simp: task_evolves_def)

lemma criterion_evolves_refl: "criterion_evolves r r"
  by (simp add: criterion_evolves_def)

lemma criterion_evolves_trans: "\<lbrakk>criterion_evolves a b; criterion_evolves b c\<rbrakk> \<Longrightarrow> criterion_evolves a c"
  by (auto simp: criterion_evolves_def)

lemma prefix_trans:
  assumes trans: "\<And>a b c. \<lbrakk>P a b; P b c\<rbrakk> \<Longrightarrow> P a c"
    and "list_all2 P xs (take (length xs) ys)" "list_all2 P ys (take (length ys) zs)"
  shows "list_all2 P xs (take (length xs) zs)"
proof -
  have len: "length xs \<le> length ys" using assms(2) by (auto dest: list_all2_lengthD)
  have "list_all2 P (take (length xs) ys) (take (length xs) (take (length ys) zs))"
    using assms(3) by (rule list_all2_takeI)
  then have "list_all2 P (take (length xs) ys) (take (length xs) zs)"
    using len by (simp add: min_def)
  with assms(2) show ?thesis using trans by (blast intro: list_all2_trans)
qed

lemma task_tables_evolve_refl: "task_tables_evolve st st"
  by (simp add: task_tables_evolve_def list_all2_refl task_evolves_refl criterion_evolves_refl)

lemma task_tables_evolve_trans:
  "\<lbrakk>task_tables_evolve s t; task_tables_evolve t u\<rbrakk> \<Longrightarrow> task_tables_evolve s u"
  unfolding task_tables_evolve_def
  by (blast intro: prefix_trans task_evolves_trans criterion_evolves_trans)

lemma sound_task_update_trans:
  "\<lbrakk>sound_task_update s t; sound_task_update t u\<rbrakk> \<Longrightarrow> sound_task_update s u"
  unfolding sound_task_update_def by (blast intro: task_tables_evolve_trans)

lemma task_exists_iff: "task_exists st p t \<longleftrightarrow> (p, t) \<in> task_key ` set (tks_tasks st)"
  by (force simp: task_exists_def list_ex_iff task_is_def task_key_def)

lemma keys_exists:
  "map task_key (tks_tasks st') = map task_key (tks_tasks st) \<Longrightarrow> task_exists st' = task_exists st"
  by (intro ext) (metis set_map task_exists_iff)

lemma map_keys_if:
  assumes "\<And>r. r \<in> set rows \<Longrightarrow> cond r \<Longrightarrow> key (change r) = key r"
  shows "map key (map (\<lambda>r. if cond r then change r else r) rows) = map key rows"
  using assms by simp

text \<open>An \<open>UPDATE\<close> of tasks, an \<open>UPDATE\<close> of criteria, and changes of the other tables.\<close>

lemma rows_evolve:
  assumes "\<And>r. P r r" and "\<And>r. \<lbrakk>r \<in> set rows; cond r\<rbrakk> \<Longrightarrow> P r (change r)"
  shows "list_all2 P rows (map (\<lambda>r. if cond r then change r else r) rows)"
  using assms by (simp add: list_all2_map2 list_all2_same)

lemma sound_update_tasks:
  assumes ok: "task_tables_ok st"
    and change: "\<And>r. \<lbrakk>r \<in> set (tks_tasks st); cond r\<rbrakk> \<Longrightarrow> task_evolves r (change r) \<and> task_row_ok (change r)"
  shows "sound_task_update st (st\<lparr>tks_tasks := fst (sql_update cond change (tks_tasks st))\<rparr>)"
proof -
  let ?rows = "map (\<lambda>r. if cond r then change r else r) (tks_tasks st)"
  have keys: "map task_key ?rows = map task_key (tks_tasks st)"
    using change by (intro map_keys_if) (auto simp: task_evolves_def)
  then have exists: "task_exists (st\<lparr>tks_tasks := ?rows\<rparr>) = task_exists st"
    using keys_exists[of "st\<lparr>tks_tasks := ?rows\<rparr>" st] by simp
  have evolve: "list_all2 task_evolves (tks_tasks st) ?rows"
    using change by (intro rows_evolve) (auto simp: task_evolves_refl)
  have "distinct (map task_key ?rows)" "list_all task_row_ok ?rows"
    using ok change by (simp_all only: keys task_tables_ok_def) (auto simp: list_all_iff)
  with ok exists evolve show ?thesis
    by (simp add: sound_task_update_def task_tables_ok_def task_tables_evolve_def sql_update_def
        list_all2_refl criterion_evolves_refl)
qed

lemma sound_update_criteria:
  assumes ok: "task_tables_ok st"
    and change: "\<And>r. \<lbrakk>r \<in> set (tks_criteria st); cond r\<rbrakk> \<Longrightarrow>
      criterion_evolves r (change r) \<and> criterion_row_ok (change r)"
  shows "sound_task_update st (st\<lparr>tks_criteria := fst (sql_update cond change (tks_criteria st))\<rparr>)"
proof -
  let ?rows = "map (\<lambda>r. if cond r then change r else r) (tks_criteria st)"
  have keys: "map criterion_key ?rows = map criterion_key (tks_criteria st)"
    using change by (intro map_keys_if) (auto simp: criterion_evolves_def)
  have evolve: "list_all2 criterion_evolves (tks_criteria st) ?rows"
    using change by (intro rows_evolve) (auto simp: criterion_evolves_refl)
  have exists: "task_exists (st\<lparr>tks_criteria := ?rows\<rparr>) = task_exists st"
    by (intro ext) (simp add: task_exists_def)
  have "distinct (map criterion_key ?rows)" "list_all criterion_row_ok ?rows"
    using ok change by (simp_all only: keys task_tables_ok_def) (auto simp: list_all_iff)
  moreover have "list_all (\<lambda>r. task_exists st (acr_project_id r) (acr_task_id r)) ?rows"
    using ok change
    by (force simp: list_all_iff task_tables_ok_def criterion_evolves_def criterion_key_def)
  ultimately show ?thesis using ok exists evolve
    by (simp add: sound_task_update_def task_tables_ok_def task_tables_evolve_def sql_update_def
        list_all2_refl task_evolves_refl)
qed

lemma sound_other_tables:
  "\<lbrakk>task_tables_ok st; tks_tasks st' = tks_tasks st; tks_criteria st' = tks_criteria st\<rbrakk> \<Longrightarrow>
     sound_task_update st st'"
  using task_tables_evolve_refl[of st]
  by (simp add: sound_task_update_def task_tables_ok_def task_tables_evolve_def task_exists_iff)

subsection \<open>Mutations\<close>

lemma update_task_row_Ok:
  "update_task_row detail context task_id change st = Ok st' \<Longrightarrow>
     st' = st\<lparr>tks_tasks := fst (sql_update (task_is (tkc_project_id context) task_id) change (tks_tasks st))\<rparr>"
  by (auto simp: update_task_row_def Let_def split_beta split: if_splits)

lemma update_task_row_sound:
  assumes "task_tables_ok st" "update_task_row detail context task_id change st = Ok st'"
    and "\<And>r. task_evolves r (change r)" "\<And>r. task_row_ok r \<Longrightarrow> task_row_ok (change r)"
  shows "sound_task_update st st'"
proof -
  have "sound_task_update st (st\<lparr>tks_tasks := fst (sql_update (task_is (tkc_project_id context) task_id)
      change (tks_tasks st))\<rparr>)"
    using assms(1,3,4) by (intro sound_update_tasks) (auto simp: task_tables_ok_def list_all_iff)
  then show ?thesis by (simp only: update_task_row_Ok[OF assms(2)])
qed

lemma update_task_column_sound:
  assumes "update_task_column context task_id v change s = Ok u" "sound_task_update st s"
    and "\<And>v r. task_evolves r (change v r)" "\<And>v r. task_row_ok r \<Longrightarrow> task_row_ok (change v r)"
  shows "sound_task_update st u"
proof (cases v)
  case None
  then show ?thesis using assms(1,2) by (simp add: update_task_column_def)
next
  case (Some w)
  then have "sound_task_update s u"
    using assms by (intro update_task_row_sound[where change = "change w"])
      (auto simp: update_task_column_def sound_task_update_def)
  with assms(2) show ?thesis by (rule sound_task_update_trans)
qed

lemma update_task_scope_sound:
  assumes "task_tables_ok st" "update_task_scope input context st = Ok st'"
  shows "sound_task_update st st'"
proof -
  have "sound_task_update st st" using assms(1) by (intro sound_other_tables) auto
  then show ?thesis
    using assms(2) unfolding update_task_scope_def and_then_Ok_iff
    by (elim exE conjE)
      ((drule (1) update_task_column_sound,
        simp add: task_evolves_def task_key_def, simp add: task_row_ok_def)+, assumption)
qed

lemma request_basis_frame:
  assumes "invalidate_request_basis status context request_id st = Ok st'"
  shows "tks_tasks st' = tks_tasks st \<and> tks_criteria st' = tks_criteria st \<and>
    tks_project_states st' = tks_project_states st \<and> tks_applications st' = tks_applications st"
  using assms by (auto simp: invalidate_request_basis_def Let_def split_beta split: if_splits)

lemma applications_frame:
  assumes "invalidate_each_application l status context st = Ok st'"
  shows "tks_tasks st' = tks_tasks st \<and> tks_criteria st' = tks_criteria st \<and>
    tks_project_states st' = tks_project_states st"
  using assms
proof (induction l arbitrary: st)
  case (Cons a l)
  obtain i q where a: "a = (i, q)" by force
  show ?case
    using Cons.prems Cons.IH unfolding a
    by (auto simp: Let_def split_beta dest!: request_basis_frame split: if_splits)
qed auto

lemma supersede_applications_frame:
  assumes "supersede_task_shaping_applications task_id context st = Ok st'"
  shows "tks_tasks st' = tks_tasks st \<and> tks_criteria st' = tks_criteria st \<and>
    tks_project_states st' = tks_project_states st"
  using assms applications_frame
  by (auto simp: supersede_task_shaping_applications_def invalidate_all_current_applications_def
      invalidate_application_rows_def)

lemma close_task_sound:
  assumes "task_tables_ok st" "close_task input context st = Ok st'"
  shows "sound_task_update st st'"
proof -
  obtain u where u: "supersede_task_shaping_applications (tcu_task_id input) context st = Ok u"
    "update_task_row ''Task close transition changed no rows'' context (tcu_task_id input)
       (closed_task input) u = Ok st'"
    using assms(2) by (auto simp: close_task_def)
  have "sound_task_update st u"
    using assms(1) supersede_applications_frame[OF u(1)] by (intro sound_other_tables) auto
  moreover have "sound_task_update u st'"
    using calculation u(2)
    by (intro update_task_row_sound[where change = "closed_task input"])
      (auto simp: sound_task_update_def task_evolves_def task_key_def task_row_ok_def closed_task_def)
  ultimately show ?thesis by (rule sound_task_update_trans)
qed

lemma supersede_task_sound:
  assumes "task_tables_ok st" "supersede_task task_id context st = Ok st'"
  shows "sound_task_update st st'"
proof -
  obtain u where u: "supersede_task_shaping_applications task_id context st = Ok u"
    "st' = u\<lparr>tks_tasks := fst (sql_update (task_is (tkc_project_id context) task_id)
       (superseded_task (tkc_committed_at context)) (tks_tasks u))\<rparr>"
    using assms(2) by (auto simp: supersede_task_def)
  have first: "sound_task_update st u"
    using assms(1) supersede_applications_frame[OF u(1)] by (intro sound_other_tables) auto
  then have "sound_task_update u st'"
    unfolding u(2) by (intro sound_update_tasks)
      (auto simp: sound_task_update_def task_tables_ok_def list_all_iff task_evolves_def task_key_def
        task_row_ok_def superseded_task_def)
  with first show ?thesis by (rule sound_task_update_trans)
qed

lemma update_task_control_level_Ok:
  assumes "update_task_control_level input context st = Ok st'"
  obtains task metadata where
    "find (task_is (tkc_project_id context) (tclu_task_id input)) (tks_tasks st) = Some task"
    "task_effective_control_level task \<le> tclu_effective_control_level input"
    "\<And>policy. tclu_acceptance_policy input = Some policy \<Longrightarrow>
      acceptance_policy_rank (task_acceptance_policy task) \<le> acceptance_policy_rank policy"
    "clear_satisfied_task_policy_reevaluation (tkc_from_value context) task
      (tclu_effective_control_level input)
      (case tclu_acceptance_policy input of Some policy \<Rightarrow> policy | None \<Rightarrow> task_acceptance_policy task) =
      Ok metadata"
    "text_stored (tclu_control_level_reason input)"
    "\<And>reason. tclu_acceptance_policy_reason input = Some reason \<Longrightarrow> text_stored reason"
    "st' = st\<lparr>tks_tasks := fst (sql_update (task_is (tkc_project_id context) (tclu_task_id input))
       (controlled_task input metadata) (tks_tasks st))\<rparr>"
  using assms unfolding update_task_control_level_def Let_def
  by (auto simp: is_some_and_iff control_order_defs not_less text_stored_def acceptance_update_is_complete_def
      split: option.splits)

lemma unique_task:
  assumes "task_tables_ok st" "find (task_is p t) (tks_tasks st) = Some task"
    and "r \<in> set (tks_tasks st)" "task_is p t r"
  shows "r = task"
proof -
  have "task \<in> set (tks_tasks st)" "task_is p t task"
    using assms(2) by (auto simp: find_Some_iff)
  with assms show ?thesis
    by (auto simp: task_tables_ok_def task_is_def task_key_def distinct_map inj_on_def)
qed

lemma update_task_control_level_sound:
  assumes ok: "task_tables_ok st" and upd: "update_task_control_level input context st = Ok st'"
  shows "sound_task_update st st'"
proof -
  obtain task metadata where
    task: "find (task_is (tkc_project_id context) (tclu_task_id input)) (tks_tasks st) = Some task"
    and level: "task_effective_control_level task \<le> tclu_effective_control_level input"
    and policy: "\<And>policy. tclu_acceptance_policy input = Some policy \<Longrightarrow>
      acceptance_policy_rank (task_acceptance_policy task) \<le> acceptance_policy_rank policy"
    and reasons: "text_stored (tclu_control_level_reason input)"
      "\<And>reason. tclu_acceptance_policy_reason input = Some reason \<Longrightarrow> text_stored reason"
    and st': "st' = st\<lparr>tks_tasks := fst (sql_update (task_is (tkc_project_id context) (tclu_task_id input))
       (controlled_task input metadata) (tks_tasks st))\<rparr>"
    using upd by (elim update_task_control_level_Ok) blast
  have "task_evolves r (controlled_task input metadata r) \<and> task_row_ok (controlled_task input metadata r)"
    if "r \<in> set (tks_tasks st)" "task_is (tkc_project_id context) (tclu_task_id input) r" for r
  proof -
    have "r = task" using unique_task[OF ok task that] .
    moreover have "task_row_ok r" using ok that(1) by (auto simp: task_tables_ok_def list_all_iff)
    ultimately show ?thesis using level policy reasons
      by (auto simp: task_evolves_def task_key_def task_row_ok_def controlled_task_def split: option.splits)
  qed
  then show ?thesis unfolding st' by (intro sound_update_tasks ok) auto
qed

lemma insert_task_sound:
  assumes ok: "task_tables_ok st" and ins: "insert_task input context st = Ok st'"
  shows "sound_task_update st st'"
proof -
  let ?row = "inserted_task (tkc_project_id context) input"
  have st': "st' = st\<lparr>tks_tasks := tks_tasks st @ [?row]\<rparr>"
    and new: "task_key ?row \<notin> task_key ` set (tks_tasks st)" and row: "task_row_ok ?row"
    using ins by (auto simp: insert_task_def Let_def task_exists_iff task_key_def inserted_task_def
        task_row_ok_def text_stored_def validate_identifier_def)
  have "task_exists st p t \<Longrightarrow> task_exists st' p t" for p t
    by (simp add: st' task_exists_def)
  with ok new row show ?thesis
    by (simp add: sound_task_update_def task_tables_ok_def task_tables_evolve_def st' list_all_iff
        list_all2_refl task_evolves_refl criterion_evolves_refl)
qed

lemma set_active_task_sound:
  "\<lbrakk>task_tables_ok st; set_active_task task_id context st = Ok st'\<rbrakk> \<Longrightarrow> sound_task_update st st'"
  by (rule sound_other_tables)
    (auto simp: set_active_task_def Let_def split_beta split: if_splits)

lemma upsert_sound:
  assumes ok: "task_tables_ok st" and ups: "upsert_acceptance_criterion context task_id criterion st = Ok st'"
  shows "sound_task_update st st'"
proof (cases "acceptance_criterion_id_exists st (tkc_project_id context) (acu_acceptance_criterion_id criterion)")
  case True
  then have "st' = st\<lparr>tks_criteria := fst (sql_update
       (\<lambda>r. criterion_is (tkc_project_id context) (acu_acceptance_criterion_id criterion) r \<and>
         acr_task_id r = task_id \<and> acr_status r = AcceptanceCriterionStatus.Active)
       (rewritten_criterion criterion) (tks_criteria st))\<rparr>"
    and "sql_nonblank (acu_statement criterion)"
    using ups by (auto simp: upsert_acceptance_criterion_def Let_def)
  with ok show ?thesis
    by (auto intro!: sound_update_criteria simp: criterion_evolves_def criterion_key_def
        criterion_row_ok_def rewritten_criterion_def task_tables_ok_def list_all_iff)
next
  case False
  let ?row = "inserted_criterion (tkc_project_id context) task_id criterion"
  have st': "st' = st\<lparr>tks_criteria := tks_criteria st @ [?row]\<rparr>"
    and checks: "trim (acu_acceptance_criterion_id criterion) \<noteq> []" "sql_nonblank (acu_statement criterion)"
      "task_exists st (tkc_project_id context) task_id"
    using ups False by (auto simp: upsert_acceptance_criterion_def Let_def validate_identifier_def)
  have new: "criterion_key ?row \<notin> criterion_key ` set (tks_criteria st)"
    using False by (auto simp: acceptance_criterion_id_exists_def list_ex_iff criterion_is_def
        criterion_key_def inserted_criterion_def)
  have row: "criterion_row_ok ?row" "task_exists st (acr_project_id ?row) (acr_task_id ?row)"
    using checks by (simp_all add: criterion_row_ok_def inserted_criterion_def)
  have "task_exists st' = task_exists st" by (intro ext) (simp add: st' task_exists_def)
  with ok new row show ?thesis
    by (simp add: sound_task_update_def task_tables_ok_def task_tables_evolve_def st' list_all_iff
        list_all2_refl task_evolves_refl criterion_evolves_refl)
qed

lemma upserts_sound:
  "\<lbrakk>task_tables_ok st; upsert_acceptance_criteria context task_id criteria st = Ok st'\<rbrakk> \<Longrightarrow>
     sound_task_update st st'"
proof (induction criteria arbitrary: st)
  case Nil
  then show ?case by (auto intro: sound_other_tables)
next
  case (Cons criterion criteria)
  then obtain u where "upsert_acceptance_criterion context task_id criterion st = Ok u"
    and rest: "upsert_acceptance_criteria context task_id criteria u = Ok st'" by auto
  with Cons.prems(1) have u: "sound_task_update st u" by (blast intro: upsert_sound)
  then have "task_tables_ok u" by (simp add: sound_task_update_def)
  from u Cons.IH[OF this rest] show ?case by (rule sound_task_update_trans)
qed

lemma retire_sound: "task_tables_ok st \<Longrightarrow> sound_task_update st (retire_other_criteria context task_id ids st)"
  unfolding retire_other_criteria_def
  by (auto intro!: sound_update_criteria simp: criterion_evolves_def criterion_key_def
      criterion_row_ok_def task_tables_ok_def list_all_iff)

lemma replace_criteria_sound:
  assumes "task_tables_ok st" "replace_acceptance_criteria input context st = Ok st'"
  shows "sound_task_update st st'"
proof -
  obtain u where u: "upsert_acceptance_criteria context (acrp_task_id input) (acrp_criteria input) st = Ok u"
    and st': "st' = retire_other_criteria context (acrp_task_id input)
       (map acu_acceptance_criterion_id (acrp_criteria input)) u"
    using assms(2) by (auto simp: replace_acceptance_criteria_def)
  have first: "sound_task_update st u" using assms(1) u by (rule upserts_sound)
  then have "sound_task_update u st'" unfolding st' by (intro retire_sound) (simp add: sound_task_update_def)
  with first show ?thesis by (rule sound_task_update_trans)
qed

lemma apply_task_mutation_sound:
  assumes ok: "task_tables_ok st" and app: "apply_task_mutation mutation context st = Ok st'"
  shows "sound_task_update st st'"
proof (cases mutation)
  case (UpdateScopeRevision input)
  with app show ?thesis
    by (auto simp: update_task_scope_revision_def intro!: update_task_row_sound[OF ok]
        simp: task_evolves_def task_key_def task_row_ok_def)
next
  case (UpdateCloseBasis input)
  with app show ?thesis
    by (auto simp: update_task_close_basis_def intro!: update_task_row_sound[OF ok]
        simp: task_evolves_def task_key_def task_row_ok_def)
qed (use ok app in \<open>auto intro: insert_task_sound set_active_task_sound supersede_task_sound
  close_task_sound update_task_control_level_sound update_task_scope_sound replace_criteria_sound\<close>)

interpretation tasks: evolving task_step "\<lambda>e st. True" task_tables_ok task_tables_evolve
proof
  show "task_tables_ok st'" if "task_tables_ok st" "task_step e st = Ok st'" for st e st'
    using that apply_task_mutation_sound by (auto simp: task_step_def sound_task_update_def)
  show "task_tables_evolve st st'" if "task_tables_ok st" "task_step e st = Ok st'" for st e st'
    using that apply_task_mutation_sound by (auto simp: task_step_def sound_task_update_def)
qed (auto intro: task_tables_evolve_refl task_tables_evolve_trans)

lemma admissible_True: "admissible (\<lambda>e st. True) step es st"
  by (induction es arbitrary: st) (auto split: result.splits)

lemma prefix_member:
  "list_all2 P xs (take (length xs) ys) \<Longrightarrow> x \<in> set xs \<Longrightarrow> \<exists>y \<in> set ys. P x y"
  by (metis in_set_conv_nth in_set_takeD list_all2_lengthD list_all2_nthD nth_mem)

lemma unat_of_nat_small: "n < 2 ^ 63 \<Longrightarrow> unat (word_of_nat n :: u64) = n"
  by (simp add: unsigned_of_nat take_bit_nat_eq_self_iff)

lemma uint_of_nat_small: "n < 2 ^ 63 \<Longrightarrow> uint (word_of_nat n :: u64) < 2 ^ 63"
  using unat_of_nat_small[of n] by (simp only: uint_nat) simp

subsection \<open>Replacing the criteria\<close>

lemma rewritten_is_inserted:
  "\<lbrakk>criterion_is p (acu_acceptance_criterion_id criterion) r; acr_task_id r = t;
    acr_status r = AcceptanceCriterionStatus.Active\<rbrakk> \<Longrightarrow>
     rewritten_criterion criterion r = inserted_criterion p t criterion"
  by (cases r) (simp add: criterion_is_def rewritten_criterion_def inserted_criterion_def)

lemma active_criteria_upserted:
  assumes eff: "upsert_effective st p t (acu_acceptance_criterion_id c)"
    and ex: "acceptance_criterion_id_exists st p (acu_acceptance_criterion_id c)"
    and rows: "tks_criteria st' = map (\<lambda>r. if criterion_is p (acu_acceptance_criterion_id c) r \<and>
      acr_task_id r = t \<and> acr_status r = AcceptanceCriterionStatus.Active
      then rewritten_criterion c r else r) (tks_criteria st)"
  shows "active_criteria st' p t = {r \<in> active_criteria st p t.
      acr_acceptance_criterion_id r \<noteq> acu_acceptance_criterion_id c} \<union> {inserted_criterion p t c}"
proof -
  let ?i = "acu_acceptance_criterion_id c"
  have row: "(if criterion_is p ?i r \<and> acr_task_id r = t \<and> acr_status r = AcceptanceCriterionStatus.Active
      then rewritten_criterion c r else r) = (if criterion_is p ?i r then inserted_criterion p t c else r)"
    if "r \<in> set (tks_criteria st)" for r
    using eff that rewritten_is_inserted[of p c r t] by (auto simp: upsert_effective_def)
  have "set (tks_criteria st') = (\<lambda>r. if criterion_is p ?i r then inserted_criterion p t c else r) `
      set (tks_criteria st)"
    unfolding rows set_map using row by (rule image_cong[OF refl])
  moreover obtain r where "r \<in> set (tks_criteria st)" "criterion_is p ?i r"
    using ex by (auto simp: acceptance_criterion_id_exists_def list_ex_iff)
  ultimately have "set (tks_criteria st') = {r \<in> set (tks_criteria st). \<not> criterion_is p ?i r} \<union>
      {inserted_criterion p t c}"
    by (auto simp: image_iff)
  then show ?thesis
    by (auto simp: active_criteria_def inserted_criterion_def criterion_is_def)
qed

lemma upsert_active:
  assumes p: "p = tkc_project_id context"
    and eff: "upsert_effective st p t (acu_acceptance_criterion_id c)"
    and checks: "trim (acu_acceptance_criterion_id c) \<noteq> []" "trim (acu_statement c) \<noteq> []"
      "uint (acu_position c) < 2 ^ 63" "sql_nonblank (acu_statement c)" "task_exists st p t"
  shows "\<exists>st'. upsert_acceptance_criterion context t c st = Ok st' \<and> task_exists st' = task_exists st \<and>
    active_criteria st' p t = {r \<in> active_criteria st p t.
      acr_acceptance_criterion_id r \<noteq> acu_acceptance_criterion_id c} \<union> {inserted_criterion p t c} \<and>
    (\<forall>j. j \<noteq> acu_acceptance_criterion_id c \<longrightarrow> upsert_effective st p t j \<longrightarrow> upsert_effective st' p t j)"
proof (cases "acceptance_criterion_id_exists st p (acu_acceptance_criterion_id c)")
  case True
  let ?rows = "map (\<lambda>r. if criterion_is p (acu_acceptance_criterion_id c) r \<and>
      acr_task_id r = t \<and> acr_status r = AcceptanceCriterionStatus.Active
      then rewritten_criterion c r else r) (tks_criteria st)"
  have "upsert_acceptance_criterion context t c st = Ok (st\<lparr>tks_criteria := ?rows\<rparr>)"
    using True checks by (simp add: upsert_acceptance_criterion_def Let_def p validate_identifier_def
        sql_update_def ensure_def)
  moreover have "task_exists (st\<lparr>tks_criteria := ?rows\<rparr>) = task_exists st"
    by (intro ext) (simp add: task_exists_def)
  moreover have "upsert_effective (st\<lparr>tks_criteria := ?rows\<rparr>) p t j"
    if "upsert_effective st p t j" "j \<noteq> acu_acceptance_criterion_id c" for j
    unfolding upsert_effective_def
  proof (intro ballI impI)
    fix r' assume r': "r' \<in> set (tks_criteria (st\<lparr>tks_criteria := ?rows\<rparr>))" and key: "criterion_is p j r'"
    then obtain r where r: "r \<in> set (tks_criteria st)"
      "r' = (if criterion_is p (acu_acceptance_criterion_id c) r \<and> acr_task_id r = t \<and>
        acr_status r = AcceptanceCriterionStatus.Active then rewritten_criterion c r else r)"
      by auto
    with key that(2) have "r' = r" by (auto simp: criterion_is_def rewritten_criterion_def split: if_splits)
    with key r(1) that(1) show "acr_task_id r' = t \<and> acr_status r' = AcceptanceCriterionStatus.Active"
      by (simp add: upsert_effective_def)
  qed
  ultimately show ?thesis
    using active_criteria_upserted[OF eff True, of "st\<lparr>tks_criteria := ?rows\<rparr>"] by simp
next
  case False
  let ?st = "st\<lparr>tks_criteria := tks_criteria st @ [inserted_criterion p t c]\<rparr>"
  have "upsert_acceptance_criterion context t c st = Ok ?st"
    using False checks by (simp add: upsert_acceptance_criterion_def Let_def p validate_identifier_def
        ensure_def)
  moreover have "task_exists ?st = task_exists st"
    by (intro ext) (simp add: task_exists_def)
  moreover have "active_criteria ?st p t = {r \<in> active_criteria st p t.
      acr_acceptance_criterion_id r \<noteq> acu_acceptance_criterion_id c} \<union> {inserted_criterion p t c}"
    using False by (auto simp: active_criteria_def acceptance_criterion_id_exists_def list_ex_iff
        criterion_is_def inserted_criterion_def)
  moreover have "upsert_effective ?st p t j"
    if "upsert_effective st p t j" "j \<noteq> acu_acceptance_criterion_id c" for j
    using that by (auto simp: upsert_effective_def criterion_is_def inserted_criterion_def)
  ultimately show ?thesis by blast
qed

lemma upserts_active:
  assumes "p = tkc_project_id context" "task_exists st p t"
    and "list_all (upsert_ready st p t) cs" "distinct (map acu_acceptance_criterion_id cs)"
  shows "\<exists>st'. upsert_acceptance_criteria context t cs st = Ok st' \<and>
    active_criteria st' p t = {r \<in> active_criteria st p t.
      acr_acceptance_criterion_id r \<notin> acu_acceptance_criterion_id ` set cs} \<union>
      inserted_criterion p t ` set cs"
  using assms(2-)
proof (induction cs arbitrary: st)
  case (Cons c cs)
  obtain u where u: "upsert_acceptance_criterion context t c st = Ok u" "task_exists u = task_exists st"
    "active_criteria u p t = {r \<in> active_criteria st p t.
      acr_acceptance_criterion_id r \<noteq> acu_acceptance_criterion_id c} \<union> {inserted_criterion p t c}"
    "\<forall>j. j \<noteq> acu_acceptance_criterion_id c \<longrightarrow> upsert_effective st p t j \<longrightarrow> upsert_effective u p t j"
    using upsert_active[OF assms(1), of st t c] Cons.prems by (auto simp: upsert_ready_def)
  have "upsert_ready u p t d" if "d \<in> set cs" for d
  proof -
    have "upsert_ready st p t d" "acu_acceptance_criterion_id d \<noteq> acu_acceptance_criterion_id c"
      using Cons.prems(2,3) that by (simp_all add: list_all_iff) (metis image_eqI)
    with u(4) show ?thesis by (simp add: upsert_ready_def)
  qed
  then have "list_all (upsert_ready u p t) cs" by (simp add: list_all_iff)
  then obtain st' where st': "upsert_acceptance_criteria context t cs u = Ok st'"
    "active_criteria st' p t = {r \<in> active_criteria u p t.
      acr_acceptance_criterion_id r \<notin> acu_acceptance_criterion_id ` set cs} \<union>
      inserted_criterion p t ` set cs"
    using Cons.IH[of u] Cons.prems u(2) by auto
  have "acr_acceptance_criterion_id (inserted_criterion p t c) \<notin> acu_acceptance_criterion_id ` set cs"
    using Cons.prems(3) by (simp add: inserted_criterion_def)
  then have "active_criteria st' p t = {r \<in> active_criteria st p t.
      acr_acceptance_criterion_id r \<notin> acu_acceptance_criterion_id ` set (c # cs)} \<union>
      inserted_criterion p t ` set (c # cs)"
    unfolding st'(2) u(3) list.set image_insert by blast
  with u(1) st'(1) show ?case by simp
qed simp

lemma retire_active:
  assumes "p = tkc_project_id context"
  shows "active_criteria (retire_other_criteria context t ids st) p t =
    {r \<in> active_criteria st p t. acr_acceptance_criterion_id r \<in> set ids}"
proof (intro set_eqI iffI)
  let ?retired = "\<lambda>r. acr_project_id r = p \<and> acr_task_id r = t \<and>
    acr_status r = AcceptanceCriterionStatus.Active \<and> (ids = [] \<or> acr_acceptance_criterion_id r \<notin> set ids)"
  have rows: "set (tks_criteria (retire_other_criteria context t ids st)) =
      (\<lambda>r. if ?retired r then r\<lparr>acr_status := AcceptanceCriterionStatus.Retired\<rparr> else r) `
        set (tks_criteria st)"
    unfolding retire_other_criteria_def by (simp add: sql_update_def assms)
  fix r'
  show "r' \<in> {r \<in> active_criteria st p t. acr_acceptance_criterion_id r \<in> set ids}"
    if kept: "r' \<in> active_criteria (retire_other_criteria context t ids st) p t"
  proof -
    obtain r where r: "r \<in> set (tks_criteria st)"
      "r' = (if ?retired r then r\<lparr>acr_status := AcceptanceCriterionStatus.Retired\<rparr> else r)"
      using kept unfolding active_criteria_def rows by blast
    show ?thesis using kept r by (cases "?retired r") (auto simp: active_criteria_def)
  qed
  show "r' \<in> active_criteria (retire_other_criteria context t ids st) p t"
    if r': "r' \<in> {r \<in> active_criteria st p t. acr_acceptance_criterion_id r \<in> set ids}"
  proof -
    have "\<not> ?retired r'" "r' \<in> set (tks_criteria st)" using r' by (auto simp: active_criteria_def)
    then have "r' \<in> set (tks_criteria (retire_other_criteria context t ids st))"
      unfolding rows by (intro image_eqI[of _ _ r']) auto
    with r' show ?thesis by (simp add: active_criteria_def)
  qed
qed

lemma sort_key_unique:
  assumes "distinct xs" "set xs = set ys" "sorted (map f ys)" "distinct (map f ys)"
  shows "sort_key f xs = ys"
proof -
  have inj: "inj_on f (set ys)" using assms(4) by (simp add: distinct_map)
  have "map f (sort_key f xs) = map f ys"
    using assms inj by (intro sorted_distinct_set_unique) (auto simp: distinct_map)
  then show ?thesis using inj assms(2) by (intro map_inj_on[of f]) auto
qed

lemma read_active:
  assumes ok: "task_tables_ok st" and active: "active_criteria st p t = inserted_criterion p t ` set cs"
    and order: "sorted_wrt (\<lambda>c d. unat (acu_position c) < unat (acu_position d)) cs"
  shows "active_acceptance_criteria st p t = map projected_criterion cs"
proof -
  let ?rows = "map (inserted_criterion p t) cs"
  let ?key = "\<lambda>r. (unat (acr_position r), acr_acceptance_criterion_id r)"
  let ?active = "filter (\<lambda>r. acr_project_id r = p \<and> acr_task_id r = t \<and>
          acr_status r = AcceptanceCriterionStatus.Active) (tks_criteria st)"
  have "sorted_wrt (<) (map ?key ?rows)"
    unfolding map_map sorted_wrt_map
    by (rule sorted_wrt_mono_rel[OF _ order]) (simp add: inserted_criterion_def less_prod_def')
  then have "sorted (map ?key ?rows)" "distinct (map ?key ?rows)"
    by (simp_all only: strict_sorted_iff)
  moreover have "distinct ?active" using ok by (auto simp: task_tables_ok_def distinct_map)
  moreover have "set ?active = set ?rows" using active by (auto simp: active_criteria_def)
  ultimately have "active_criterion_records st p t = ?rows"
    unfolding active_criterion_records_def by (intro sort_key_unique)
  then show ?thesis
    by (simp add: active_acceptance_criteria_def acceptance_criterion_from_record_def
        inserted_criterion_def projected_criterion_def)
qed

lemma allocate_durable_id_free:
  assumes "allocate_durable_id generate kind exists call = Ok (i, call')"
  shows "exists i = Ok False \<and> (\<exists>n. generate n = Ok i)"
  using assms unfolding allocate_durable_id_def allocate_within_Ok by blast

lemma unique_criterion:
  assumes ok: "task_tables_ok st" and "r \<in> set (tks_criteria st)" "r' \<in> set (tks_criteria st)"
    and "criterion_is p i r" "criterion_is p i r'"
  shows "r = r'"
  using assms by (auto simp: task_tables_ok_def criterion_is_def criterion_key_def distinct_map inj_on_def)

lemma replacement_id_effective:
  assumes ok: "task_tables_ok st"
    and generated: "\<And>n c. generate n = Ok c \<Longrightarrow> trim c \<noteq> []"
    and plan: "replacement_criterion_id generate st p t replacement seen call = Ok (i, call')"
  shows "i \<notin> set seen \<and> upsert_effective st p t i \<and> trim i \<noteq> []"
proof (cases "acx_acceptance_criterion_id replacement")
  case None
  have "(if i \<in> set seen then Ok True else Ok (acceptance_criterion_id_exists st p i)) =
      (Ok False :: (bool, StoreError) result) \<and> (\<exists>n. generate n = Ok i)"
    by (rule allocate_durable_id_free[where kind = DurableIdKind.AcceptanceCriterion and call = call
          and call' = call'])
      (use plan None in \<open>simp add: replacement_criterion_id_def\<close>)
  then show ?thesis using generated
    by (auto simp: upsert_effective_def acceptance_criterion_id_exists_def list_ex_iff split: if_splits)
next
  case (Some j)
  then obtain r where r: "find (criterion_is p i) (tks_criteria st) = Some r" "acr_task_id r = t"
    "acr_status r = AcceptanceCriterionStatus.Active" "i \<notin> set seen"
    using plan by (auto simp: replacement_criterion_id_def acceptance_criterion_record_def
        split: if_splits option.splits)
  then have row: "r \<in> set (tks_criteria st)" "criterion_is p i r" by (auto simp: find_Some_iff)
  then have "trim i \<noteq> []"
    using ok by (auto simp: task_tables_ok_def list_all_iff criterion_row_ok_def criterion_is_def)
  moreover have "upsert_effective st p t i"
    unfolding upsert_effective_def using unique_criterion[OF ok row(1) _ row(2)] r by blast
  ultimately show ?thesis using r(4) by blast
qed

lemma plan_replacements_Ok:
  assumes ok: "task_tables_ok st"
    and generated: "\<And>n c. generate n = Ok c \<Longrightarrow> trim c \<noteq> []"
    and "plan_replacements generate st p t replacements position seen call = Ok cs"
    and "\<forall>replacement \<in> set replacements. trim (acx_statement replacement) \<noteq> [] \<longrightarrow>
      hd (trim (acx_statement replacement)) \<noteq> CHR 0x00"
    and "position + length replacements \<le> 2 ^ 63"
  shows "list_all (upsert_ready st p t) cs \<and> distinct (map acu_acceptance_criterion_id cs) \<and>
    acu_acceptance_criterion_id ` set cs \<inter> set seen = {} \<and>
    map acu_position cs = map word_of_nat [position..<position + length replacements]"
  using assms(3-)
proof (induction replacements arbitrary: position seen call cs)
  case (Cons replacement rest)
  let ?statement = "trim (acx_statement replacement)"
  obtain i call' us where plan: "?statement \<noteq> []"
    "replacement_criterion_id generate st p t replacement seen call = Ok (i, call')"
    "plan_replacements generate st p t rest (Suc position) (i # seen) call' = Ok us"
    "cs = \<lparr>acu_acceptance_criterion_id = i, acu_statement = ?statement,
       acu_evidence_requirement = acx_evidence_requirement replacement,
       acu_position = word_of_nat position\<rparr> # us"
    using Cons.prems(1) by (auto simp: Let_def split: if_splits)
  note i = replacement_id_effective[OF ok generated plan(2)]
  have "uint (word_of_nat position :: u64) < 2 ^ 63"
    using Cons.prems(3) by (intro uint_of_nat_small) simp
  moreover have "sql_nonblank ?statement" "trim ?statement \<noteq> []"
    using trimmed_nonblank[OF plan(1)] Cons.prems(2) plan(1) by (simp_all add: trim_idem)
  ultimately have "upsert_ready st p t (hd cs)" using i by (simp add: plan(4) upsert_ready_def)
  moreover have "list_all (upsert_ready st p t) us \<and> distinct (map acu_acceptance_criterion_id us) \<and>
    acu_acceptance_criterion_id ` set us \<inter> set (i # seen) = {} \<and>
    map acu_position us = map word_of_nat [Suc position..<Suc position + length rest]"
    using Cons.IH[OF plan(3)] Cons.prems(2,3) by simp
  moreover have "[position..<position + length (replacement # rest)] =
      position # [Suc position..<Suc position + length rest]"
    by (simp add: upt_conv_Cons del: upt_Suc)
  ultimately show ?case using i by (simp add: plan(4))
qed simp

lemma stored_task_id: "\<lbrakk>task_tables_ok st; task_exists st p t\<rbrakk> \<Longrightarrow> trim t \<noteq> []"
  by (auto simp: task_tables_ok_def task_exists_def list_ex_iff list_all_iff task_row_ok_def task_is_def)

lemma upt_positions_sorted:
  assumes "map acu_position cs = map word_of_nat [0..<n]" "n \<le> 2 ^ 63"
  shows "sorted_wrt (\<lambda>c d. unat (acu_position c) < unat (acu_position d)) cs"
proof -
  have len: "length cs = n" using assms(1) by (metis length_map length_upt minus_nat.diff_0)
  have "unat (acu_position (cs ! i)) = i" if "i < n" for i
  proof -
    have "acu_position (cs ! i) = map acu_position cs ! i" using that len by simp
    also have "\<dots> = word_of_nat i" unfolding assms(1) using that by simp
    finally show ?thesis using that assms(2) by (simp add: unat_of_nat_small)
  qed
  then show ?thesis by (simp add: sorted_wrt_iff_nth_less len)
qed

lemma supersede_request_basis:
  assumes "invalidate_request_basis ShapingDecisionApplicationAuthorityStatus.Superseded context q st = Ok st'"
    and "r' \<in> set (tks_request_bases st')"
  shows "\<exists>r \<in> set (tks_request_bases st). rqb_project_id r = rqb_project_id r' \<and>
      rqb_user_action_request_id r = rqb_user_action_request_id r' \<and>
      (r' = r \<or> rqb_basis_status r' = UserActionBasisStatus.Superseded)"
    and "\<lbrakk>rqb_project_id r' = tkc_project_id context; rqb_user_action_request_id r' = q\<rbrakk> \<Longrightarrow>
      rqb_basis_status r' = UserActionBasisStatus.Superseded"
proof -
  let ?hit = "\<lambda>r. (rqb_project_id r = tkc_project_id context \<and> rqb_user_action_request_id r = q) \<and>
    rqb_basis_status r \<in> {UserActionBasisStatus.Current, UserActionBasisStatus.Stale}"
  obtain r where r: "r \<in> set (tks_request_bases st)"
    "r' = (if ?hit r then invalidated_basis UserActionBasisStatus.Superseded r else r)"
    using assms by (auto simp: invalidate_request_basis_def Let_def sql_update_def split: if_splits)
  then show "\<exists>r \<in> set (tks_request_bases st). rqb_project_id r = rqb_project_id r' \<and>
      rqb_user_action_request_id r = rqb_user_action_request_id r' \<and>
      (r' = r \<or> rqb_basis_status r' = UserActionBasisStatus.Superseded)"
    by (intro bexI[of _ r]) (auto simp: invalidated_basis_def)
  show "rqb_basis_status r' = UserActionBasisStatus.Superseded"
    if "rqb_project_id r' = tkc_project_id context" "rqb_user_action_request_id r' = q"
  proof (cases "?hit r")
    case True
    then show ?thesis using r(2) by (simp add: invalidated_basis_def)
  next
    case False
    then have "r' = r" using r(2) by (simp only: if_False)
    with False that show ?thesis by (cases "rqb_basis_status r") auto
  qed
qed

lemma supersede_each_application:
  assumes "invalidate_each_application l ShapingDecisionApplicationAuthorityStatus.Superseded context st = Ok st'"
  shows "(\<forall>r' \<in> set (tks_applications st'). sda_project_id r' = tkc_project_id context \<longrightarrow>
      sda_authority_status r' = ShapingDecisionApplicationAuthorityStatus.Current \<longrightarrow>
      r' \<in> set (tks_applications st) \<and> sda_application_id r' \<notin> fst ` set l) \<and>
    (\<forall>r' \<in> set (tks_request_bases st').
      (\<exists>r \<in> set (tks_request_bases st). rqb_project_id r = rqb_project_id r' \<and>
        rqb_user_action_request_id r = rqb_user_action_request_id r' \<and>
        (r' = r \<or> rqb_basis_status r' = UserActionBasisStatus.Superseded)) \<and>
      (rqb_project_id r' = tkc_project_id context \<longrightarrow> rqb_user_action_request_id r' \<in> snd ` set l \<longrightarrow>
        rqb_basis_status r' = UserActionBasisStatus.Superseded))"
  using assms
proof (induction l arbitrary: st)
  case (Cons a l)
  obtain i q where a: "a = (i, q)" by force
  let ?hit = "\<lambda>r. sda_project_id r = tkc_project_id context \<and> sda_application_id r = i \<and>
        sda_authority_status r = ShapingDecisionApplicationAuthorityStatus.Current"
  define u where "u = st\<lparr>tks_applications := fst (sql_update ?hit
      (invalidated_application ShapingDecisionApplicationAuthorityStatus.Superseded
        (tkc_committed_at context)) (tks_applications st))\<rparr>"
  obtain v where v: "invalidate_request_basis ShapingDecisionApplicationAuthorityStatus.Superseded context q u = Ok v"
    "invalidate_each_application l ShapingDecisionApplicationAuthorityStatus.Superseded context v = Ok st'"
    using Cons.prems by (auto simp: a Let_def split_beta u_def split: if_splits)
  have apps: "r' \<in> set (tks_applications st) \<and> sda_application_id r' \<noteq> i"
    if "r' \<in> set (tks_applications v)" "sda_project_id r' = tkc_project_id context"
      "sda_authority_status r' = ShapingDecisionApplicationAuthorityStatus.Current" for r'
  proof -
    have "r' \<in> set (tks_applications u)" using that(1) request_basis_frame[OF v(1)] by simp
    then obtain r where "r \<in> set (tks_applications st)" "r' = (if ?hit r then invalidated_application
        ShapingDecisionApplicationAuthorityStatus.Superseded (tkc_committed_at context) r else r)"
      unfolding u_def by (auto simp: sql_update_def)
    with that(2,3) show ?thesis by (cases "?hit r") (auto simp: invalidated_application_def)
  qed
  have bases: "tks_request_bases u = tks_request_bases st" by (simp add: u_def)
  note IH = Cons.IH[OF v(2)]
  show ?case
  proof (intro conjI ballI impI)
    fix r' assume r': "r' \<in> set (tks_request_bases st')"
    then obtain r where r: "r \<in> set (tks_request_bases v)" "rqb_project_id r = rqb_project_id r'"
      "rqb_user_action_request_id r = rqb_user_action_request_id r'"
      "r' = r \<or> rqb_basis_status r' = UserActionBasisStatus.Superseded"
      using IH by blast
    note step = supersede_request_basis[OF v(1) r(1), unfolded bases]
    show "\<exists>r \<in> set (tks_request_bases st). rqb_project_id r = rqb_project_id r' \<and>
        rqb_user_action_request_id r = rqb_user_action_request_id r' \<and>
        (r' = r \<or> rqb_basis_status r' = UserActionBasisStatus.Superseded)"
      using step(1) r by metis
    show "rqb_basis_status r' = UserActionBasisStatus.Superseded"
      if "rqb_project_id r' = tkc_project_id context" "rqb_user_action_request_id r' \<in> snd ` set (a # l)"
      using that step(2) r IH r' by (auto simp: a)
  next
    fix r' assume r': "r' \<in> set (tks_applications st')" "sda_project_id r' = tkc_project_id context"
      "sda_authority_status r' = ShapingDecisionApplicationAuthorityStatus.Current"
    then have "r' \<in> set (tks_applications v)" "sda_application_id r' \<notin> fst ` set l" using IH by auto
    with apps r' show "r' \<in> set (tks_applications st)" "sda_application_id r' \<notin> fst ` set (a # l)"
      by (auto simp: a)
  qed
qed auto

lemma sample_task_tables_ok: "task_tables_ok sample_task_tables"
  by code_simp

section \<open>Properties\<close>

text \<open>C21: Through any sequence of task mutations, failed ones included, the tables stay sound: keys are
  unique, reasons and statements are not blank, criteria belong to stored tasks.  Every task keeps its
  identity, mode, requested control and lineage, its effective control and acceptance policy are never
  lowered, and a retired criterion is never changed or brought back.
\<close>

theorem task_commits_never_lower_authority:
  assumes "task_tables_ok st"
  shows "task_tables_ok (run_steps task_step es st) \<and>
    (\<forall>r \<in> set (tks_tasks st). \<exists>r' \<in> set (tks_tasks (run_steps task_step es st)).
       task_project_id r' = task_project_id r \<and> task_task_id r' = task_task_id r \<and>
       task_mode r' = task_mode r \<and> task_requested_control_level r' = task_requested_control_level r \<and>
       task_predecessor_task_id r' = task_predecessor_task_id r \<and>
       task_lineage_relation r' = task_lineage_relation r \<and>
       task_effective_control_level r \<le> task_effective_control_level r' \<and>
       acceptance_policy_rank (task_acceptance_policy r) \<le> acceptance_policy_rank (task_acceptance_policy r')) \<and>
    (\<forall>r \<in> set (tks_criteria st). acr_status r = AcceptanceCriterionStatus.Retired \<longrightarrow>
       r \<in> set (tks_criteria (run_steps task_step es st)))"
proof -
  note run = tasks.run_inv[OF assms admissible_True] tasks.run_evolves[OF assms admissible_True]
  then have evolve: "task_tables_evolve st (run_steps task_step es st)" by blast
  have "\<exists>r' \<in> set (tks_tasks (run_steps task_step es st)). task_evolves r r'" if "r \<in> set (tks_tasks st)" for r
    using evolve that unfolding task_tables_evolve_def by (blast intro: prefix_member)
  moreover have "\<exists>r' \<in> set (tks_criteria (run_steps task_step es st)). criterion_evolves r r'"
    if "r \<in> set (tks_criteria st)" for r
    using evolve that unfolding task_tables_evolve_def by (blast intro: prefix_member)
  ultimately show ?thesis using run(1)
    by (fastforce simp: task_evolves_def task_key_def criterion_evolves_def)
qed

theorem task_commits_never_lower_authority_witness:
  "task_tables_ok (run_steps task_step [\<lparr>tke_context = sample_task_context,
     tke_mutation = Close sample_close\<rparr>] sample_task_tables)"
  using task_commits_never_lower_authority[OF sample_task_tables_ok] by blast

text \<open>C23: Closing a task takes away the shaping authority it had: afterwards the task has no current
  shaping application, and every user-action request behind a former one has a superseded basis.
\<close>

theorem closing_a_task_revokes_shaping_authority:
  assumes "close_task input context st = Ok st'"
  shows "current_applications (tkc_project_id context) (tcu_task_id input) st' = [] \<and>
    (\<forall>application \<in> set (current_applications (tkc_project_id context) (tcu_task_id input) st).
       \<forall>r \<in> set (tks_request_bases st'). rqb_project_id r = tkc_project_id context \<and>
         rqb_user_action_request_id r = sda_user_action_request_id application \<longrightarrow>
         rqb_basis_status r = UserActionBasisStatus.Superseded)"
proof -
  let ?l = "map (\<lambda>r. (sda_application_id r, sda_user_action_request_id r))
    (current_applications (tkc_project_id context) (tcu_task_id input) st)"
  obtain u where u: "invalidate_each_application ?l ShapingDecisionApplicationAuthorityStatus.Superseded
      context st = Ok u"
    and st': "tks_applications st' = tks_applications u" "tks_request_bases st' = tks_request_bases u"
    using assms
    by (auto simp: close_task_def supersede_task_shaping_applications_def
        invalidate_all_current_applications_def invalidate_application_rows_def dest: update_task_row_Ok)
  have "r' \<notin> set (current_applications (tkc_project_id context) (tcu_task_id input) st')" for r'
  proof
    assume r': "r' \<in> set (current_applications (tkc_project_id context) (tcu_task_id input) st')"
    then have "r' \<in> set (tks_applications st)" "sda_application_id r' \<notin> fst ` set ?l"
      using supersede_each_application[OF u] by (auto simp: current_applications_def st')
    with r' show False by (auto simp: current_applications_def image_iff)
  qed
  then have "current_applications (tkc_project_id context) (tcu_task_id input) st' = []"
    by (metis list.set_intros(1) neq_Nil_conv)
  then show ?thesis using supersede_each_application[OF u] by (auto simp: st' image_image)
qed

theorem closing_a_task_revokes_shaping_authority_witness:
  "\<exists>st'. close_task sample_close sample_task_context sample_task_tables = Ok st' \<and>
     current_applications ''p'' ''task_1'' sample_task_tables \<noteq> [] \<and>
     current_applications ''p'' ''task_1'' st' = []"
proof -
  have "is_ok (close_task sample_close sample_task_context sample_task_tables)"
    "current_applications ''p'' ''task_1'' sample_task_tables \<noteq> []" by code_simp+
  then obtain st' where "close_task sample_close sample_task_context sample_task_tables = Ok st'"
    by (cases "close_task sample_close sample_task_context sample_task_tables") auto
  with closing_a_task_revokes_shaping_authority[OF this] show ?thesis
    using \<open>current_applications ''p'' ''task_1'' sample_task_tables \<noteq> []\<close>
    by (auto simp: sample_close_def sample_task_context_def)
qed

text \<open>C22: A planned replacement of acceptance criteria takes effect as planned: applied to the tables it
  was planned against, the store accepts it, and the active criteria it then reads are the projected
  ones, in order.  The id generator yields no blank ids; a statement that begins with a zero byte is
  excluded, because the column check counts it as empty.
\<close>

theorem planned_criteria_are_stored_and_read_back:
  assumes ok: "task_tables_ok st" "task_exists st (tkc_project_id context) task_id"
    and plan: "plan_acceptance_criteria_replacement generate st (tkc_project_id context) task_id
      (Some replacements) = Ok (projected, Some input, changed)"
    and generated: "\<forall>n c. generate n = Ok c \<longrightarrow> trim c \<noteq> []"
    and statements: "\<forall>replacement \<in> set replacements. trim (acx_statement replacement) \<noteq> [] \<longrightarrow>
      hd (trim (acx_statement replacement)) \<noteq> CHR 0x00"
    and length: "length replacements \<le> 2 ^ 63"
  shows "\<exists>st'. replace_acceptance_criteria input context st = Ok st' \<and>
    active_acceptance_criteria st' (tkc_project_id context) task_id = projected"
proof -
  obtain cs where cs: "plan_replacements generate st (tkc_project_id context) task_id replacements 0 [] 0 = Ok cs"
    and input: "input = \<lparr>acrp_task_id = task_id, acrp_criteria = cs\<rparr>"
    and projected: "projected = map projected_criterion cs"
    using plan by (auto simp: plan_acceptance_criteria_replacement_def Let_def)
  have ready: "list_all (upsert_ready st (tkc_project_id context) task_id) cs"
    "distinct (map acu_acceptance_criterion_id cs)"
    "map acu_position cs = map word_of_nat [0..<length replacements]"
    using plan_replacements_Ok[OF ok(1) _ cs statements] generated length by auto
  let ?ids = "map acu_acceptance_criterion_id cs"
  obtain u where u: "upsert_acceptance_criteria context task_id cs st = Ok u"
    "active_criteria u (tkc_project_id context) task_id =
      {r \<in> active_criteria st (tkc_project_id context) task_id.
        acr_acceptance_criterion_id r \<notin> acu_acceptance_criterion_id ` set cs} \<union>
      inserted_criterion (tkc_project_id context) task_id ` set cs"
    using upserts_active[OF refl ok(2) ready(1,2)] by auto
  let ?st' = "retire_other_criteria context task_id ?ids u"
  have "task_tables_ok u" using upserts_sound[OF ok(1) u(1)] by (simp add: sound_task_update_def)
  then have "task_tables_ok ?st'" using retire_sound by (simp add: sound_task_update_def)
  moreover have "active_criteria ?st' (tkc_project_id context) task_id =
      inserted_criterion (tkc_project_id context) task_id ` set cs"
    unfolding retire_active[OF refl] u(2) by (auto simp: inserted_criterion_def)
  moreover have "sorted_wrt (\<lambda>c d. unat (acu_position c) < unat (acu_position d)) cs"
    using upt_positions_sorted[OF ready(3)] length by simp
  ultimately have "active_acceptance_criteria ?st' (tkc_project_id context) task_id = projected"
    unfolding projected by (rule read_active)
  moreover have "replace_acceptance_criteria input context st = Ok ?st'"
    using u(1) stored_task_id[OF ok]
    by (simp add: replace_acceptance_criteria_def input validate_identifier_def ensure_def)
  ultimately show ?thesis by blast
qed

theorem planned_criteria_are_stored_and_read_back_witness:
  "\<exists>projected input changed st'.
     plan_acceptance_criteria_replacement (\<lambda>_. Ok ''criterion_new'') sample_task_tables ''p'' ''task_1''
       (Some sample_replacements) = Ok (projected, Some input, changed) \<and>
     map ac_acceptance_criterion_id projected = [''criterion_new'', ''c1''] \<and>
     replace_acceptance_criteria input sample_task_context sample_task_tables = Ok st' \<and>
     active_acceptance_criteria st' ''p'' ''task_1'' = projected"
proof -
  let ?plan = "plan_acceptance_criteria_replacement (\<lambda>_. Ok ''criterion_new'') sample_task_tables ''p''
    ''task_1'' (Some sample_replacements)"
  have "case ?plan of Ok (projected, input, changed) \<Rightarrow> input \<noteq> None \<and>
      map ac_acceptance_criterion_id projected = [''criterion_new'', ''c1''] | Err _ \<Rightarrow> False"
    by code_simp
  then obtain projected input changed where plan: "?plan = Ok (projected, Some input, changed)"
    "map ac_acceptance_criterion_id projected = [''criterion_new'', ''c1'']"
    by (cases ?plan) (auto split: prod.splits)
  have "task_exists sample_task_tables ''p'' ''task_1''" "trim ''criterion_new'' \<noteq> []"
    "list_all (\<lambda>replacement. hd (trim (acx_statement replacement)) \<noteq> CHR 0x00) sample_replacements"
    by code_simp+
  moreover have "length sample_replacements \<le> 2 ^ 63" by (simp add: sample_replacements_def)
  ultimately have "\<exists>st'. replace_acceptance_criteria input sample_task_context sample_task_tables = Ok st' \<and>
      active_acceptance_criteria st' (tkc_project_id sample_task_context) ''task_1'' = projected"
    using plan(1) sample_task_tables_ok
    by (intro planned_criteria_are_stored_and_read_back[where replacements = sample_replacements
          and generate = "\<lambda>_. Ok ''criterion_new''" and changed = changed])
      (simp_all add: sample_task_context_def list_all_iff)
  with plan show ?thesis by (simp add: sample_task_context_def)
qed

end
