(* ===== verification/PrepareWrite.thy ===== *)
theory PrepareWrite
  imports TaskStore
begin

text \<open>
  Planning of a write preparation, \<open>crates/volicord-core/src/write_ticket/planning.rs\<close>: normalization of
  the request, resolution of the task and change unit, the control decision, the reasons against the
  write, the choice between issuing, reusing and refusing a ticket, and the planned mutations.  What
  the planner reads of the store is a record of the rows it would find; the filesystem, serde, the
  digest of the workspace and \<open>chrono\<close> are parameters.
\<close>

section \<open>Inputs and results\<close>

record PrepareWriteInput =
  pwi_project_id :: ProjectId
  pwi_task_id :: TaskId
  pwi_task_is_current :: bool
  pwi_requested_change_unit_id :: "ChangeUnitId option"
  pwi_intended_operation :: string
  pwi_intended_paths :: "string list"
  pwi_product_file_write_intended :: bool
  pwi_sensitive_categories :: "string list"
  pwi_baseline_ref :: BaselineRef
  pwi_actor_source :: ActorSource
  pwi_git_workspace_context :: "GitWorkspaceContext option"
  pwi_verification_basis :: string

datatype WriteTicketField = IntendedOperation | IntendedPaths | TaskId_field

text \<open>\<open>Panic\<close> is not an error value of the source: the call does not return.\<close>

datatype WriteTicketPlanningError =
    Core string
  | Store string
  | NoActiveTask
  | CurrentChangeUnitRequired TaskId
  | TaskPhaseTransitionRequired TaskId
  | WorkflowActionNotAllowed TaskId
  | Validation WriteTicketField string
  | ProductPathContainment string
  | Invariant string
  | Panic

datatype PlatformDiagnosticClass = Rejected | Unavailable | Unsupported

datatype ProductPathValidationError =
    Lexical ProductPathError
  | Platform PlatformDiagnosticClass

text \<open>The repository as the filesystem shows it: whether the root can be observed, and whether a path
  resolves inside it.\<close>

record ObservedProductRepository =
  opr_root :: "(unit, PlatformDiagnosticClass) result"
  opr_observe_path :: "ProductRelativePath \<Rightarrow> (unit, PlatformDiagnosticClass) result"

definition observe_product_paths ::
  "ObservedProductRepository \<Rightarrow> string list \<Rightarrow> (string list, ProductPathValidationError) result" where
  "observe_product_paths repository raw_paths =
     and_then (map_err Lexical (parse_product_paths raw_paths)) (\<lambda>paths.
     and_then (map_err Platform (opr_root repository)) (\<lambda>_.
     collect_results (\<lambda>path.
       and_then (map_err Platform (opr_observe_path repository path)) (\<lambda>_. Ok (as_str path))) paths))"

record PrepareWriteStore =
  pws_project_id :: ProjectId
  pws_task_record :: "TaskId \<Rightarrow> TaskRecord option"
  pws_current_change_unit :: "TaskId \<Rightarrow> ChangeUnitRecord option"
  pws_workflow_policy :: ProjectWorkflowPolicy
  pws_pending_authorities :: "TaskId \<Rightarrow> UserActionAuthority list"
  pws_sensitive_approvals :: "TaskId \<Rightarrow> UserActionAuthority list"
  pws_tickets :: TicketTable

text \<open>Code outside the repository: the decoder of the reevaluation mark, the digest of a workspace
  context, and \<open>chrono::Duration::minutes\<close> in nanoseconds, \<open>None\<close> where it panics.\<close>

record PlanningEnvironment =
  pe_repository :: ObservedProductRepository
  pe_from_value :: "json \<Rightarrow> TaskPolicyControlReevaluation option"
  pe_workspace_digest :: "GitWorkspaceContext \<Rightarrow> string"
  pe_duration_minutes :: "int \<Rightarrow> int option"

section \<open>The planned ticket\<close>

record PlannedWriteTicket =
  pwt_project_id :: ProjectId
  pwt_write_ticket_id :: WriteTicketId
  pwt_basis_state_version :: u64
  pwt_validity_basis :: WriteTicketValidityBasis
  pwt_path_scope :: WriteTicketPathScope
  pwt_attempt_scope :: WriteTicketAttemptScope
  pwt_created_by_actor_source :: ActorSource
  pwt_created_by_user_action_resolution_id :: "UserActionResolutionId option"
  pwt_idle_expires_at :: "UtcTimestamp option"
  pwt_created_at :: UtcTimestamp
  pwt_metadata :: JsonObject

datatype PlannedWriteTicketError =
    EmptyIdentity string | InvalidBasisStateVersion | InvalidScopeRevision | EmptyOperation
  | InvalidAuthorityFingerprint | InvalidWorkspaceDigest | TaskIdentityMismatch
  | ChangeUnitIdentityMismatch | ScopeRevisionExceedsBasis | BaselineMismatch | TimestampOrder
  | DuplicateIntendedPaths | IntendedPathNotAuthorized | ProductWriteIntentMismatch

record PlannedWriteTicketDraft =
  draft_project_id :: ProjectId
  draft_task_id :: TaskId
  draft_change_unit_id :: ChangeUnitId
  draft_scope_revision :: u64
  draft_baseline_ref :: BaselineRef
  draft_workspace_context_sha256 :: "string option"
  draft_write_authority_fingerprint :: string
  draft_approval_basis :: "NonEmptyApprovalBasis option"
  draft_path_scope :: WriteTicketPathScope
  draft_attempt_scope :: WriteTicketAttemptScope
  draft_created_by_actor_source :: ActorSource
  draft_created_by_user_action_resolution_id :: "UserActionResolutionId option"
  draft_idle_expires_at :: "UtcTimestamp option"
  draft_created_at :: UtcTimestamp
  draft_metadata :: JsonObject

text \<open>The planner's own copies of the two digest checks.\<close>

definition planned_lowercase_sha256_hex :: "string \<Rightarrow> bool" where
  "planned_lowercase_sha256_hex value \<longleftrightarrow>
     length value = 64 \<and> list_all (\<lambda>b. is_ascii_digit b \<or> byte_in 97 102 b) value"

definition planned_write_authority_fingerprint :: "string \<Rightarrow> bool" where
  "planned_write_authority_fingerprint value \<longleftrightarrow>
     length value = 71 \<and> strip_prefix_of ''sha256:'' value \<noteq> None \<and>
     list_all (\<lambda>b. is_ascii_digit b \<or> byte_in 97 102 b) (drop 7 value)"

definition validate_planned_write_ticket ::
  "PlannedWriteTicket \<Rightarrow> (unit, PlannedWriteTicketError) result" where
  "validate_planned_write_ticket t =
     (let basis = pwt_validity_basis t; scope = pwt_attempt_scope t in
     and_then (ensure (trim (pwt_project_id t) \<noteq> []) (EmptyIdentity ''project_id'')) (\<lambda>_.
     and_then (ensure (trim (vb_task_id basis) \<noteq> []) (EmptyIdentity ''task_id'')) (\<lambda>_.
     and_then (ensure (trim (vb_change_unit_id basis) \<noteq> []) (EmptyIdentity ''change_unit_id'')) (\<lambda>_.
     and_then (ensure (trim (pwt_write_ticket_id t) \<noteq> []) (EmptyIdentity ''write_ticket_id'')) (\<lambda>_.
     and_then (ensure (\<not> is_some_and (pwt_created_by_user_action_resolution_id t) (\<lambda>i. trim i = []))
       (EmptyIdentity ''created_by_user_action_resolution_id'')) (\<lambda>_.
     and_then (ensure (pwt_basis_state_version t \<noteq> 0) InvalidBasisStateVersion) (\<lambda>_.
     and_then (ensure (vb_scope_revision basis \<noteq> 0) InvalidScopeRevision) (\<lambda>_.
     and_then (ensure (trim (as_intended_operation scope) \<noteq> []) EmptyOperation) (\<lambda>_.
     and_then (ensure (planned_write_authority_fingerprint (vb_write_authority_fingerprint basis))
       InvalidAuthorityFingerprint) (\<lambda>_.
     and_then (ensure (\<not> is_some_and (vb_workspace_context_sha256 basis)
         (\<lambda>digest. \<not> planned_lowercase_sha256_hex digest)) InvalidWorkspaceDigest) (\<lambda>_.
     and_then (ensure (vb_task_id basis = as_task_id scope) TaskIdentityMismatch) (\<lambda>_.
     and_then (ensure (vb_change_unit_id basis = as_change_unit_id scope) ChangeUnitIdentityMismatch) (\<lambda>_.
     and_then (ensure (\<not> vb_scope_revision basis > pwt_basis_state_version t)
       ScopeRevisionExceedsBasis) (\<lambda>_.
     and_then (ensure (vb_baseline_ref basis = as_baseline_ref scope)
       PlannedWriteTicketError.BaselineMismatch) (\<lambda>_.
     and_then (ensure (\<not> (is_some_and (pwt_idle_expires_at t) (\<lambda>e. e \<le> pwt_created_at t) \<or>
         \<not> canonical_rfc3339_representable (pwt_created_at t) \<or>
         is_some_and (pwt_idle_expires_at t) (\<lambda>e. \<not> canonical_rfc3339_representable e)))
       PlannedWriteTicketError.TimestampOrder) (\<lambda>_.
     and_then (ensure (length (btree_set (as_intended_paths scope)) = length (as_intended_paths scope))
       PlannedWriteTicketError.DuplicateIntendedPaths) (\<lambda>_.
     and_then (ensure (\<not> list_ex (\<lambda>intended.
         \<not> list_ex (is_within intended) (allowed (pwt_path_scope t)) \<or>
         list_ex (is_within intended) (denied (pwt_path_scope t))) (as_intended_paths scope))
       IntendedPathNotAuthorized) (\<lambda>_.
     ensure (as_product_file_write_intended scope = (as_intended_paths scope \<noteq> []))
       ProductWriteIntentMismatch))))))))))))))))))"

definition persistence_input :: "PlannedWriteTicket \<Rightarrow> WriteTicketInsert" where
  "persistence_input t = \<lparr>
     wti_write_ticket_id = pwt_write_ticket_id t,
     wti_task_id = vb_task_id (pwt_validity_basis t),
     wti_change_unit_id = vb_change_unit_id (pwt_validity_basis t),
     wti_validity_basis = pwt_validity_basis t,
     wti_path_scope = pwt_path_scope t,
     wti_attempt_scope = pwt_attempt_scope t,
     wti_created_by_actor_source = pwt_created_by_actor_source t,
     wti_created_by_user_action_resolution_id = pwt_created_by_user_action_resolution_id t,
     wti_idle_expires_at = pwt_idle_expires_at t,
     wti_created_at = pwt_created_at t,
     wti_metadata = pwt_metadata t\<rparr>"

definition planned_write_ticket_of_draft ::
  "PlannedWriteTicketDraft \<Rightarrow> WriteTicketId \<Rightarrow> u64 \<Rightarrow> u64 \<Rightarrow> PlannedWriteTicket" where
  "planned_write_ticket_of_draft draft write_ticket_id basis_state_version projection_version = \<lparr>
     pwt_project_id = draft_project_id draft,
     pwt_write_ticket_id = write_ticket_id,
     pwt_basis_state_version = basis_state_version,
     pwt_validity_basis = \<lparr>
       vb_task_id = draft_task_id draft,
       vb_change_unit_id = draft_change_unit_id draft,
       vb_scope_revision = draft_scope_revision draft,
       vb_baseline_ref = Some (draft_baseline_ref draft),
       vb_workspace_context_sha256 = draft_workspace_context_sha256 draft,
       vb_write_authority_fingerprint = draft_write_authority_fingerprint draft,
       vb_approval_basis_refs = (case draft_approval_basis draft of
           None \<Rightarrow> []
         | Some basis \<Rightarrow> resolution_refs basis projection_version)\<rparr>,
     pwt_path_scope = draft_path_scope draft,
     pwt_attempt_scope = draft_attempt_scope draft,
     pwt_created_by_actor_source = draft_created_by_actor_source draft,
     pwt_created_by_user_action_resolution_id = draft_created_by_user_action_resolution_id draft,
     pwt_idle_expires_at = draft_idle_expires_at draft,
     pwt_created_at = draft_created_at draft,
     pwt_metadata = draft_metadata draft\<rparr>"

definition materialize_planned_write_ticket ::
  "PlannedWriteTicketDraft \<Rightarrow> WriteTicketId \<Rightarrow> u64 \<Rightarrow> u64 \<Rightarrow>
     (PlannedWriteTicket, WriteTicketPlanningError) result" where
  "materialize_planned_write_ticket draft write_ticket_id basis_state_version projection_version =
     (let ticket = planned_write_ticket_of_draft draft write_ticket_id basis_state_version
            projection_version in
      and_then (map_err (\<lambda>_. Invariant ''planned Write Ticket is internally inconsistent'')
        (validate_planned_write_ticket ticket)) (\<lambda>_. Ok ticket))"

section \<open>Normalization and context\<close>

record PrepareWriteNormalizedInput =
  pwn_input :: PrepareWriteInput
  pwn_plan_now :: UtcTimestamp
  pwn_intended_operation :: string
  pwn_intended_paths :: "string list"
  pwn_sensitive_categories :: "string list"

definition normalize_prepare_write_input ::
  "PlanningEnvironment \<Rightarrow> PrepareWriteInput \<Rightarrow> UtcTimestamp \<Rightarrow>
     (PrepareWriteNormalizedInput, WriteTicketPlanningError) result" where
  "normalize_prepare_write_input env input plan_now =
     (if trim (pwi_intended_operation input) = []
      then Err (Validation IntendedOperation ''intended_operation must not be empty'')
      else case observe_product_paths (pe_repository env) (pwi_intended_paths input) of
          Err (Lexical _) \<Rightarrow> Err (Validation IntendedPaths
            ''intended_paths must be normalized relative Product Repository paths'')
        | Err (Platform Rejected) \<Rightarrow> Err (ProductPathContainment
            ''intended_paths resolve outside the Product Repository'')
        | Err (Platform _) \<Rightarrow> Err (Core ''product path observation'')
        | Ok paths \<Rightarrow> Ok \<lparr>
            pwn_input = input, pwn_plan_now = plan_now,
            pwn_intended_operation = trim (pwi_intended_operation input),
            pwn_intended_paths = paths,
            pwn_sensitive_categories = normalized_string_set (pwi_sensitive_categories input)\<rparr>)"

definition load_prepare_write_task ::
  "PrepareWriteStore \<Rightarrow> TaskId \<Rightarrow> bool \<Rightarrow>
     (TaskRecord \<times> WriteTicketDecisionReason list, WriteTicketPlanningError) result" where
  "load_prepare_write_task store task_id task_is_current =
     (case pws_task_record store task_id of
        None \<Rightarrow> Err NoActiveTask
      | Some task \<Rightarrow> Ok (task,
          if task_is_current then []
          else [write_decision_reason WriteDecisionCategory.Scope ScopeNotCurrent
            ''The addressed Task is not the current Task.'' [WriteTicketRelatedRecord.Task task_id]]))"

definition validate_prepare_write_change_unit ::
  "ChangeUnitId option \<Rightarrow> TaskId \<Rightarrow> ChangeUnitRecord \<Rightarrow> WriteTicketDecisionReason list" where
  "validate_prepare_write_change_unit requested task_id change_unit =
     (if is_some_and requested (\<lambda>i. i \<noteq> cu_change_unit_id change_unit)
      then [write_decision_reason WriteDecisionCategory.Scope ScopeNotCurrent
        ''The addressed Change Unit is not the current Change Unit.''
        [CurrentChangeUnit task_id (cu_change_unit_id change_unit)]]
      else [])"

record PrepareWriteResolvedContext =
  pwr_normalized :: PrepareWriteNormalizedInput
  pwr_task :: TaskRecord
  pwr_change_unit :: ChangeUnitRecord
  pwr_reasons :: "WriteTicketDecisionReason list"

definition resolve_prepare_write_context ::
  "PrepareWriteStore \<Rightarrow> PrepareWriteNormalizedInput \<Rightarrow>
     (PrepareWriteResolvedContext, WriteTicketPlanningError) result" where
  "resolve_prepare_write_context store normalized =
     (let input = pwn_input normalized; task_id = pwi_task_id input in
      and_then (load_prepare_write_task store task_id (pwi_task_is_current input)) (\<lambda>(task, reasons).
      case pws_current_change_unit store task_id of
        None \<Rightarrow> Err (CurrentChangeUnitRequired task_id)
      | Some change_unit \<Rightarrow> Ok \<lparr>
          pwr_normalized = normalized, pwr_task = task, pwr_change_unit = change_unit,
          pwr_reasons = reasons @ validate_prepare_write_change_unit
            (pwi_requested_change_unit_id input) task_id change_unit\<rparr>))"

section \<open>The control decision\<close>

datatype CoreStorageMutation =
    Task TaskMutation
  | WriteTicket WriteTicketMutation

record PrepareWritePolicyDecision =
  pwd_normalized :: PrepareWriteNormalizedInput
  pwd_task :: TaskRecord
  pwd_change_unit :: ChangeUnitRecord
  pwd_reasons :: "WriteTicketDecisionReason list"
  pwd_workflow_policy :: ProjectWorkflowPolicy
  pwd_control_mutations :: "CoreStorageMutation list"

text \<open>The control level a write with these paths and categories needs.\<close>

definition next_write_control ::
  "ProjectWorkflowPolicy \<Rightarrow> PrepareWriteNormalizedInput \<Rightarrow> TaskControlLevel \<Rightarrow> TaskControlLevel" where
  "next_write_control policy normalized base =
     (let raised = (if base = TaskControlLevel.Light \<and>
              \<not> light_paths_are_allowed policy (pwn_intended_paths normalized)
            then TaskControlLevel.Tracked else base)
      in if has_denied_path policy (pwn_intended_paths normalized) \<or>
           pwn_sensitive_categories normalized \<noteq> []
         then TaskControlLevel.Sensitive else raised)"

definition next_control_reason ::
  "TaskRecord \<Rightarrow> ResolvedTaskControlAuthority \<Rightarrow> bool \<Rightarrow> TaskControlLevel \<Rightarrow> string" where
  "next_control_reason task resolved has_policy_denied_path next_control =
     (if next_control > task_effective_control_level task then
        if has_policy_denied_path
        then ''Core raised control to `sensitive` because an intended path matches a denied project-policy prefix.''
        else if next_control = TaskControlLevel.Sensitive
        then ''Core raised control to `sensitive` for declared sensitive write effects.''
        else if rtca_pending_policy_reevaluation resolved \<and>
          next_control = rtca_effective_control_level resolved
        then rtca_control_level_reason resolved
        else if task_effective_control_level task = TaskControlLevel.Light \<and>
          next_control = TaskControlLevel.Tracked
        then ''Core raised control to `tracked` because intended paths exceed the Light project policy.''
        else rtca_control_level_reason resolved
      else task_control_level_reason task)"

definition next_acceptance_reason ::
  "ResolvedTaskControlAuthority \<Rightarrow> bool \<Rightarrow> TaskControlLevel \<Rightarrow> string" where
  "next_acceptance_reason resolved acceptance_raised next_control =
     (if acceptance_raised \<and> next_control = rtca_effective_control_level resolved \<and>
        rtca_acceptance_raised resolved
      then rtca_acceptance_policy_reason resolved
      else ''Effective control `'' @ control_as_str next_control @
        ''` requires final acceptance for the current close basis.'')"

text \<open>The task as decided and the update that stores the decision.\<close>

definition decide_write_control ::
  "TaskRecord \<Rightarrow> ProjectWorkflowPolicy \<Rightarrow> PrepareWriteNormalizedInput \<Rightarrow> ResolvedTaskControlAuthority \<Rightarrow>
     TaskRecord \<times> CoreStorageMutation list" where
  "decide_write_control task policy normalized resolved =
     (let next_control = next_write_control policy normalized (rtca_effective_control_level resolved);
          control_acceptance = acceptance_policy_for_control next_control policy;
          next_acceptance =
            (if acceptance_policy_rank (rtca_acceptance_policy resolved) \<ge>
                acceptance_policy_rank control_acceptance
             then rtca_acceptance_policy resolved else control_acceptance);
          acceptance_raised = acceptance_policy_rank next_acceptance >
            acceptance_policy_rank (task_acceptance_policy task);
          control_raised = next_control > task_effective_control_level task;
          control_reason = next_control_reason task resolved
            (has_denied_path policy (pwn_intended_paths normalized)) next_control;
          acceptance_reason = next_acceptance_reason resolved acceptance_raised next_control
      in if control_raised \<or> acceptance_raised \<or> rtca_policy_reevaluation_marked resolved
         then
           (let controlled = task\<lparr>task_effective_control_level := next_control,
                  task_control_level_reason := control_reason\<rparr>
            in (if acceptance_raised
                then controlled\<lparr>task_acceptance_policy := next_acceptance,
                  task_acceptance_policy_reason := acceptance_reason\<rparr>
                else controlled,
                [CoreStorageMutation.Task (UpdateControlLevel \<lparr>
                   tclu_task_id = task_task_id task,
                   tclu_effective_control_level = next_control,
                   tclu_control_level_reason = control_reason,
                   tclu_acceptance_policy = (if acceptance_raised then Some next_acceptance else None),
                   tclu_acceptance_policy_reason =
                     (if acceptance_raised then Some acceptance_reason else None)\<rparr>)]))
         else (task, []))"

definition decide_prepare_write_policy ::
  "PlanningEnvironment \<Rightarrow> PrepareWriteStore \<Rightarrow> PrepareWriteResolvedContext \<Rightarrow>
     (PrepareWritePolicyDecision, WriteTicketPlanningError) result" where
  "decide_prepare_write_policy env store resolved =
     (let task = pwr_task resolved; normalized = pwr_normalized resolved;
          policy = pws_workflow_policy store in
      if task_mode task = TaskMode.Advisor then Err (WorkflowActionNotAllowed (task_task_id task))
      else
      and_then (map_err (\<lambda>_. Store ''policy control reevaluation'')
        (resolve_task_control_authority (pe_from_value env) task policy)) (\<lambda>control.
      if rtca_effective_control_level control = TaskControlLevel.Observe
      then Err (Validation TaskId_field ''observe control does not permit product write preparation'')
      else
        let (task', mutations) = decide_write_control task policy normalized control in
        if task_work_phase task' \<noteq> WorkPhase.Implementation
        then Err (TaskPhaseTransitionRequired (task_task_id task'))
        else Ok \<lparr>
          pwd_normalized = normalized, pwd_task = task', pwd_change_unit = pwr_change_unit resolved,
          pwd_reasons = pwr_reasons resolved, pwd_workflow_policy = policy,
          pwd_control_mutations = mutations\<rparr>))"

section \<open>Reasons against the write\<close>

fun effect_contract_reason ::
  "EffectContractViolation \<Rightarrow> WriteTicketRelatedRecord \<Rightarrow> WriteTicketDecisionReason" where
  "effect_contract_reason FileWriteForbidden change_unit_record =
     write_decision_reason WriteDecisionCategory.EffectContract EffectContractForbidsProductFileWrite
       ''The current Change Unit effect contract forbids product-file writes.'' [change_unit_record]"
| "effect_contract_reason FileWriteNotAllowed change_unit_record =
     write_decision_reason WriteDecisionCategory.EffectContract EffectContractEffectNotAllowed
       ''The current Change Unit effect contract does not allow product-file writes.''
       [change_unit_record]"
| "effect_contract_reason PathNotAllowed change_unit_record =
     write_decision_reason WriteDecisionCategory.EffectContract EffectContractPathNotAllowed
       ''One or more intended paths are outside the current Change Unit effect contract allowed paths.''
       [change_unit_record]"

definition scope_reasons :: "PrepareWritePolicyDecision \<Rightarrow> WriteTicketDecisionReason list" where
  "scope_reasons policy =
     (let normalized = pwd_normalized policy; input = pwn_input normalized;
          paths = pwn_intended_paths normalized; change_unit = pwd_change_unit policy;
          record = CurrentChangeUnit (pwi_task_id input) (cu_change_unit_id change_unit) in
      (if pwi_product_file_write_intended input = (paths = [])
       then [write_decision_reason WriteDecisionCategory.WriteCompatibility
         WriteTicketDecisionCode.ProductWriteFlagMismatch
         ''product_file_write_intended must match the intended Product Repository paths.'' []]
       else []) @
      (if \<not> workspace_context_matches change_unit (pwi_git_workspace_context input)
       then [write_decision_reason WriteDecisionCategory.Workspace
         WriteTicketDecisionCode.WorkspaceContextMismatch
         ''The current Git workspace does not match the Change Unit baseline context.'' [record]]
       else []) @
      (if \<not> baseline_matches change_unit (pwd_task policy) (pwi_baseline_ref input)
       then [write_decision_reason WriteDecisionCategory.Baseline
         WriteTicketDecisionCode.BaselineMismatch
         ''baseline_ref does not match the current write-compatibility basis.'' [record]]
       else []) @
      (if \<not> paths_match_current_change_unit paths change_unit
       then [write_decision_reason WriteDecisionCategory.Scope PathOutOfScope
         ''One or more intended paths are outside the current Change Unit path scope.'' [record]]
       else []))"

definition contract_reasons ::
  "PrepareWritePolicyDecision \<Rightarrow> (WriteTicketDecisionReason list, WriteTicketPlanningError) result" where
  "contract_reasons policy =
     (let normalized = pwd_normalized policy; input = pwn_input normalized;
          change_unit = pwd_change_unit policy in
      case cu_effect_contract change_unit of
        None \<Rightarrow> Ok []
      | Some contract \<Rightarrow>
          and_then (map_err
            (\<lambda>_. Core ''typed Change Unit has an internally inconsistent effect contract'')
            (product_write_violations contract (pwi_product_file_write_intended input)
              (pwn_intended_paths normalized)))
          (\<lambda>violations. Ok (map (\<lambda>v. effect_contract_reason v
             (CurrentChangeUnit (pwi_task_id input) (cu_change_unit_id change_unit))) violations)))"

definition write_operation_refs :: "PrepareWritePolicyDecision \<Rightarrow> StateRecordRef list" where
  "write_operation_refs policy =
     (let input = pwn_input (pwd_normalized policy) in
      [state_ref StateRecordKind.Task (pwi_task_id input) (pwi_project_id input)
         (Some (pwi_task_id input)) None,
       state_ref StateRecordKind.ChangeUnit (cu_change_unit_id (pwd_change_unit policy))
         (pwi_project_id input) (Some (pwi_task_id input)) None])"

definition typed_product_paths ::
  "string list \<Rightarrow> (ProductRelativePath list, WriteTicketPlanningError) result" where
  "typed_product_paths paths =
     collect_results (\<lambda>path. map_err
       (\<lambda>_. Core ''a normalized Product Repository path became invalid before persistence'')
       (parse path)) paths"

definition planned_attempt_scope ::
  "PrepareWritePolicyDecision \<Rightarrow> ProductRelativePath list \<Rightarrow> WriteTicketAttemptScope" where
  "planned_attempt_scope policy paths =
     (let normalized = pwd_normalized policy; input = pwn_input normalized in \<lparr>
       as_task_id = pwi_task_id input,
       as_change_unit_id = cu_change_unit_id (pwd_change_unit policy),
       as_intended_operation = pwn_intended_operation normalized,
       as_intended_paths = paths,
       as_product_file_write_intended = pwi_product_file_write_intended input,
       as_sensitive_categories = pwn_sensitive_categories normalized,
       as_baseline_ref = Some (pwi_baseline_ref input)\<rparr>)"

text \<open>The approval requirement of an attempt scope under the decided task.\<close>

definition planned_requirement ::
  "PrepareWritePolicyDecision \<Rightarrow> WriteTicketAttemptScope \<Rightarrow> WriteTicketApprovalRequirement" where
  "planned_requirement policy scope =
     new_approval_requirement (pwi_project_id (pwn_input (pwd_normalized policy)))
       (task_scope_revision (pwd_task policy)) (task_effective_control_level (pwd_task policy)) scope
       (pwn_plan_now (pwd_normalized policy))"

definition pending_user_action_request_ids ::
  "PrepareWriteStore \<Rightarrow> PrepareWritePolicyDecision \<Rightarrow> WriteTicketApprovalRequirement \<Rightarrow>
     UserActionRequestId list" where
  "pending_user_action_request_ids store policy requirement =
     (let task_id = pwi_task_id (pwn_input (pwd_normalized policy));
          context = \<lparr>
            opc_operation = UserActionOperation.PrepareWrite,
            opc_task_id = task_id,
            opc_change_unit_id = Some (cu_change_unit_id (pwd_change_unit policy)),
            opc_scope_revision = task_scope_revision (pwd_task policy),
            opc_close_basis = None,
            opc_operation_refs = write_operation_refs policy,
            opc_sensitive_approval = (if approval_is_required requirement
              then Some (sensitive_requirement requirement) else None)\<rparr>
      in map ua_user_action_request_id (filter (\<lambda>authority.
           user_action_blocks_operation authority context \<or>
           ua_status authority = UserActionStatus.Pending \<and> user_action_has_current_basis authority \<and>
           ua_task_id authority = task_id \<and>
           list_ex (\<lambda>required_for. required_for \<in> {UserActionRequiredFor.ScopeUpdate,
             UserActionRequiredFor.AdvanceTask, UserActionRequiredFor.PrepareWrite})
             (ua_required_for authority))
         (pws_pending_authorities store task_id)))"

definition pending_reasons ::
  "TaskId \<Rightarrow> UserActionRequestId list \<Rightarrow> WriteTicketDecisionReason list" where
  "pending_reasons task_id request_ids =
     (if request_ids \<noteq> []
      then [write_decision_reason WriteDecisionCategory.UserAction UserActionUnresolved
        ''A user action required before write preparation remains unresolved.''
        (map (WriteTicketRelatedRecord.UserActionRequest task_id) request_ids)]
      else [])"

definition approval_reasons ::
  "WriteTicketApprovalRequirement \<Rightarrow> NonEmptyApprovalBasis option \<Rightarrow> WriteTicketDecisionReason list" where
  "approval_reasons requirement approval_basis =
     (if approval_is_required requirement \<and> approval_basis = None
      then [write_decision_reason WriteDecisionCategory.SensitiveApproval SensitiveApprovalMissing
        ''A matching sensitive-action approval is required before write ticket issuance.'' []]
      else [])"

section \<open>Choice of a ticket\<close>

text \<open>What an active ticket is compared with.\<close>

record ActiveWriteTicketRequirements =
  awr_validity_basis :: WriteTicketValidityBasis
  awr_attempt_scope :: WriteTicketAttemptScope
  awr_approval_required :: bool

definition category_set_for_reuse :: "string list \<Rightarrow> string list" where
  "category_set_for_reuse values = btree_set values"

definition scope_is_reusable :: "WriteTicketAttemptScope \<Rightarrow> WriteTicketAttemptScope \<Rightarrow> bool" where
  "scope_is_reusable scope required \<longleftrightarrow>
     \<not> (as_task_id scope \<noteq> as_task_id required \<or>
        as_change_unit_id scope \<noteq> as_change_unit_id required \<or>
        as_product_file_write_intended scope \<noteq> as_product_file_write_intended required \<or>
        as_baseline_ref scope \<noteq> as_baseline_ref required \<or>
        \<not> set (category_set_for_reuse (as_sensitive_categories required)) \<subseteq>
          set (category_set_for_reuse (as_sensitive_categories scope)))"

definition basis_is_reusable :: "WriteTicketValidityBasis \<Rightarrow> WriteTicketValidityBasis \<Rightarrow> bool" where
  "basis_is_reusable basis required \<longleftrightarrow>
     \<not> (vb_task_id basis \<noteq> vb_task_id required \<or>
        vb_change_unit_id basis \<noteq> vb_change_unit_id required \<or>
        vb_scope_revision basis \<noteq> vb_scope_revision required \<or>
        vb_baseline_ref basis \<noteq> vb_baseline_ref required)"

definition paths_are_reusable :: "WriteTicketPathScope \<Rightarrow> ProductRelativePath list \<Rightarrow> bool" where
  "paths_are_reusable path_scope paths =
     list_all (\<lambda>path. list_ex (is_within path) (allowed path_scope) \<and>
       \<not> list_ex (is_within path) (denied path_scope)) paths"

definition policy_invalidated :: "ActiveStoredWriteTicketEvaluation \<Rightarrow> bool" where
  "policy_invalidated evaluated =
     (case evaluated of
        ActiveStoredWriteTicketEvaluation.Invalidated ticket \<Rightarrow>
          ivd_authority ticket \<in> {WriteTicketAuthorityState.WriteAuthorityChanged,
            WriteTicketAuthorityState.PendingPolicyReevaluation}
      | _ \<Rightarrow> False)"

definition evaluate_prepare_write_candidate ::
  "ActiveStoredWriteTicketCandidate \<Rightarrow> ActiveWriteTicketRequirements \<Rightarrow> WriteTicketCurrentFacts \<Rightarrow>
     WriteTicketApprovalAssessment \<Rightarrow> PrepareWriteCandidateEvaluation" where
  "evaluate_prepare_write_candidate candidate requirements current approval_assessment =
     (let required_basis = awr_validity_basis requirements;
          required_scope = awr_attempt_scope requirements;
          candidate_id = sts_write_ticket_id (cand_stored candidate);
          evaluated = evaluate_active_candidate candidate current approval_assessment;
          basis = sem_validity_basis (active_semantic_facts evaluated);
          scope = sem_attempt_scope (active_semantic_facts evaluated)
      in
      if policy_invalidated evaluated then StalePolicy candidate_id
      else if awr_approval_required requirements \<and>
        as_intended_operation scope \<noteq> as_intended_operation required_scope
      then PrepareWriteCandidateEvaluation.Incompatible
      else if \<not> basis_is_reusable basis required_basis then PrepareWriteCandidateEvaluation.Incompatible
      else if \<not> scope_is_reusable scope required_scope then PrepareWriteCandidateEvaluation.Incompatible
      else if \<not> paths_are_reusable (sem_path_scope (active_semantic_facts evaluated))
        (as_intended_paths required_scope)
      then PrepareWriteCandidateEvaluation.Incompatible
      else if vb_workspace_context_sha256 basis \<noteq> vb_workspace_context_sha256 required_basis
      then StaleWorkspace candidate_id
      else case evaluated of
          ActiveStoredWriteTicketEvaluation.Reusable ticket \<Rightarrow> Compatible ticket
        | ActiveStoredWriteTicketEvaluation.Invalidated ticket \<Rightarrow>
            if ivd_invalidation ticket = WriteTicketInvalidationReason.ApprovalBasisChanged
            then StaleApproval (sts_write_ticket_id (ivd_stored ticket))
            else StalePolicy (sts_write_ticket_id (ivd_stored ticket)))"

definition validity_basis_for_selection ::
  "PlanningEnvironment \<Rightarrow> PrepareWritePolicyDecision \<Rightarrow> WriteTicketValidityBasis" where
  "validity_basis_for_selection env policy =
     (let input = pwn_input (pwd_normalized policy) in \<lparr>
       vb_task_id = pwi_task_id input,
       vb_change_unit_id = cu_change_unit_id (pwd_change_unit policy),
       vb_scope_revision = task_scope_revision (pwd_task policy),
       vb_baseline_ref = Some (pwi_baseline_ref input),
       vb_workspace_context_sha256 =
         map_option (pe_workspace_digest env) (pwi_git_workspace_context input),
       vb_write_authority_fingerprint = pwp_write_authority_fingerprint (pwd_workflow_policy policy),
       vb_approval_basis_refs = []\<rparr>)"

definition candidate_evaluation ::
  "PlanningEnvironment \<Rightarrow> PrepareWritePolicyDecision \<Rightarrow> WriteTicketAttemptScope \<Rightarrow>
     UserActionAuthority list \<Rightarrow> StoredWriteTicket \<Rightarrow>
     (PrepareWriteCandidateEvaluation, WriteTicketPlanningError) result" where
  "candidate_evaluation env policy attempt_scope approvals record =
     and_then (map_err (\<lambda>_. Core ''Store-validated Write Ticket could not enter the Core stored type-state family'')
       (pre_evaluate_stored_write_ticket (from_record record) (pwn_plan_now (pwd_normalized policy))))
     (\<lambda>pre. case pre of
        Complete _ \<Rightarrow> Ok PrepareWriteCandidateEvaluation.Incompatible
      | NeedsCurrentFacts candidate \<Rightarrow>
          let ticket = sts_ticket (cand_stored candidate);
              basis = validity_basis_for_selection env policy
          in Ok (evaluate_prepare_write_candidate candidate
               \<lparr>awr_validity_basis = basis, awr_attempt_scope = attempt_scope,
                awr_approval_required = approval_is_required (planned_requirement policy attempt_scope)\<rparr>
               \<lparr>wcf_pending_policy_reevaluation = False,
                wcf_write_authority_fingerprint = vb_write_authority_fingerprint basis\<rparr>
               (assess_write_ticket_approval (planned_requirement policy (sem_attempt_scope ticket))
                 approvals (vb_approval_basis_refs (sem_validity_basis ticket)))))"

definition write_ticket_path_scope ::
  "ProductRelativePath list \<Rightarrow> ProductRelativePath list \<Rightarrow>
     (WriteTicketPathScope, WriteTicketPlanningError) result" where
  "write_ticket_path_scope allowed_paths denied_paths =
     map_err (\<lambda>_. Invariant ''prepare-write path facts are internally inconsistent'')
       (new_path_scope allowed_paths denied_paths)"

definition denied_write_ticket_paths ::
  "WriteTicketDecisionReason list \<Rightarrow> ProductRelativePath list \<Rightarrow> ProductRelativePath list" where
  "denied_write_ticket_paths reasons paths =
     (if list_ex (\<lambda>reason. dr_code reason \<in> {PathOutOfScope, EffectContractPathNotAllowed,
           EffectContractForbidsProductFileWrite, EffectContractEffectNotAllowed}) reasons
      then paths else [])"

text \<open>The expiry of an issued ticket.  \<open>i64::try_from\<close> refuses minutes of \<open>2 ^ 63\<close> and more,
  \<open>Duration::minutes\<close> panics on durations \<open>chrono\<close> cannot represent.\<close>

definition planned_idle_expires_at ::
  "PlanningEnvironment \<Rightarrow> UtcTimestamp \<Rightarrow> u64 option \<Rightarrow>
     (UtcTimestamp option, WriteTicketPlanningError) result" where
  "planned_idle_expires_at env plan_now timeout =
     (case timeout of
        None \<Rightarrow> Ok None
      | Some minutes \<Rightarrow>
          if uint minutes \<ge> 2 ^ 63
          then Err (Core ''workflow write-ticket idle timeout is outside the supported range'')
          else (case pe_duration_minutes env (uint minutes) of
              None \<Rightarrow> Err Panic
            | Some duration \<Rightarrow>
                (case timestamp_checked_add plan_now duration of
                   Ok expires_at \<Rightarrow> Ok (Some expires_at)
                 | Err _ \<Rightarrow> Err (Core
                     ''derived write-ticket idle timeout exceeds the supported timestamp range''))))"

datatype PrepareWriteTicketPlan =
    Issue PlannedWriteTicketDraft
  | Reuse ReusableStoredWriteTicket
  | NoTicket WriteTicketPathScope

definition issue_ticket ::
  "PlanningEnvironment \<Rightarrow> PrepareWritePolicyDecision \<Rightarrow> WriteTicketAttemptScope \<Rightarrow>
     NonEmptyApprovalBasis option \<Rightarrow> (PrepareWriteTicketPlan, WriteTicketPlanningError) result" where
  "issue_ticket env policy attempt_scope approval_basis =
     (let normalized = pwd_normalized policy; input = pwn_input normalized;
          workflow = pwd_workflow_policy policy; basis = validity_basis_for_selection env policy in
      and_then (planned_idle_expires_at env (pwn_plan_now normalized)
        (pwp_write_ticket_idle_timeout_minutes workflow)) (\<lambda>idle_expires_at.
      and_then (write_ticket_path_scope (as_intended_paths attempt_scope) []) (\<lambda>path_scope.
      Ok (Issue \<lparr>
        draft_project_id = pwi_project_id input,
        draft_task_id = pwi_task_id input,
        draft_change_unit_id = cu_change_unit_id (pwd_change_unit policy),
        draft_scope_revision = task_scope_revision (pwd_task policy),
        draft_baseline_ref = pwi_baseline_ref input,
        draft_workspace_context_sha256 = vb_workspace_context_sha256 basis,
        draft_write_authority_fingerprint = pwp_write_authority_fingerprint workflow,
        draft_approval_basis = approval_basis,
        draft_path_scope = path_scope,
        draft_attempt_scope = attempt_scope,
        draft_created_by_actor_source = pwi_actor_source input,
        draft_created_by_user_action_resolution_id =
          map_option (\<lambda>basis. identity_resolution_id (nab_primary basis)) approval_basis,
        draft_idle_expires_at = idle_expires_at,
        draft_created_at = pwn_plan_now normalized,
        draft_metadata = [(''verification_basis'', JString (pwi_verification_basis input))]\<rparr>))))"

definition refuse_ticket ::
  "WriteTicketDecisionReason list \<Rightarrow> WriteTicketAttemptScope \<Rightarrow>
     (PrepareWriteTicketPlan, WriteTicketPlanningError) result" where
  "refuse_ticket reasons attempt_scope =
     (let paths = as_intended_paths attempt_scope;
          denied_paths = denied_write_ticket_paths reasons paths;
          allowed_paths = filter (\<lambda>path. path \<notin> set denied_paths) paths
      in and_then (write_ticket_path_scope allowed_paths denied_paths) (\<lambda>sc. Ok (NoTicket sc)))"

definition choose_ticket ::
  "PlanningEnvironment \<Rightarrow> PrepareWritePolicyDecision \<Rightarrow> WriteTicketAttemptScope \<Rightarrow>
     NonEmptyApprovalBasis option \<Rightarrow> WriteTicketDecisionReason list \<Rightarrow> CompatibleWriteTicketSelection \<Rightarrow>
     (PrepareWriteTicketPlan, WriteTicketPlanningError) result" where
  "choose_ticket env policy attempt_scope approval_basis reasons selection =
     (case selection of
        One reusable \<Rightarrow>
          if reasons = [] then Ok (Reuse reusable) else refuse_ticket reasons attempt_scope
      | None_compatible \<Rightarrow>
          if reasons = [] then issue_ticket env policy attempt_scope approval_basis
          else refuse_ticket reasons attempt_scope
      | Ambiguous _ \<Rightarrow> refuse_ticket reasons attempt_scope)"

text \<open>The reasons after the active tickets are known: a compatible ticket settles a missing approval,
  several compatible ones are a reason of their own.\<close>

definition settle_reasons ::
  "TaskId \<Rightarrow> WriteTicketDecisionReason list \<Rightarrow> CompatibleWriteTicketSelection \<Rightarrow>
     WriteTicketDecisionReason list" where
  "settle_reasons task_id reasons selection =
     (if selection = None_compatible then reasons
      else filter (\<lambda>reason. dr_code reason \<noteq> SensitiveApprovalMissing) reasons) @
     (case selection of
        Ambiguous write_ticket_ids \<Rightarrow>
          [write_decision_reason WriteDecisionCategory.WriteCompatibility
            CompatibleWriteTicketAmbiguous
            ''Multiple compatible active write tickets prevent authority selection.''
            (map (WriteTicketRelatedRecord.WriteTicket task_id) write_ticket_ids)]
      | _ \<Rightarrow> [])"

definition stale_ticket_mutations :: "PrepareWriteCandidateSelection \<Rightarrow> CoreStorageMutation list" where
  "stale_ticket_mutations selection =
     (let invalidate = (\<lambda>reason i. CoreStorageMutation.WriteTicket (InvalidateById
            \<lparr>wtb_write_ticket_id = i, wtb_invalidation_reason = reason\<rparr>))
      in map (invalidate WriteTicketInvalidationReason.ApprovalBasisChanged)
           (sel_stale_approval_ticket_ids selection) @
         map (invalidate WriteTicketInvalidationReason.WorkspaceChanged)
           (sel_stale_workspace_ticket_ids selection) @
         map (invalidate WriteTicketInvalidationReason.ExplicitRevoke)
           (sel_stale_policy_ticket_ids selection))"

record PrepareWriteCommonFacts =
  pwc_task_id :: TaskId
  pwc_task :: TaskRecord
  pwc_change_unit :: ChangeUnitRecord
  pwc_reasons :: "WriteTicketDecisionReason list"
  pwc_decision :: PrepareWriteDecision
  pwc_pending_user_action_request_ids :: "UserActionRequestId list"
  pwc_approval_basis :: "NonEmptyApprovalBasis option"

record PrepareWritePlanningOutcome =
  pwo_common :: PrepareWriteCommonFacts
  pwo_ticket :: PrepareWriteTicketPlan
  pwo_storage_mutations :: "CoreStorageMutation list"

definition plan_prepare_write_mutations ::
  "PlanningEnvironment \<Rightarrow> PrepareWriteStore \<Rightarrow> PrepareWritePolicyDecision \<Rightarrow>
     (PrepareWritePlanningOutcome, WriteTicketPlanningError) result" where
  "plan_prepare_write_mutations env store policy =
     (let normalized = pwd_normalized policy; task_id = pwi_task_id (pwn_input normalized);
          approvals = pws_sensitive_approvals store task_id in
      and_then (contract_reasons policy) (\<lambda>contract.
      and_then (typed_product_paths (pwn_intended_paths normalized)) (\<lambda>paths.
      let attempt_scope = planned_attempt_scope policy paths;
          requirement = planned_requirement policy attempt_scope;
          pending = pending_user_action_request_ids store policy requirement;
          approval_basis = current_write_ticket_approval_basis requirement approvals;
          reasons = pwd_reasons policy @ scope_reasons policy @ contract @
            pending_reasons task_id pending @ approval_reasons requirement approval_basis
      in
      and_then (map_err (\<lambda>_. Store ''active write tickets'')
        (active_write_tickets (pws_tickets store) (pws_project_id store) task_id)) (\<lambda>records.
      and_then (collect_results (candidate_evaluation env policy attempt_scope approvals) records)
        (\<lambda>evaluations.
      let selection = select_prepare_write_candidates evaluations;
          settled = settle_reasons task_id reasons (sel_compatibility selection)
      in and_then (choose_ticket env policy attempt_scope approval_basis settled
           (sel_compatibility selection)) (\<lambda>ticket.
         Ok \<lparr>pwo_common = \<lparr>
               pwc_task_id = task_id, pwc_task = pwd_task policy,
               pwc_change_unit = pwd_change_unit policy, pwc_reasons = settled,
               pwc_decision = prepare_write_decision settled,
               pwc_pending_user_action_request_ids = pending,
               pwc_approval_basis = approval_basis\<rparr>,
             pwo_ticket = ticket,
             pwo_storage_mutations = pwd_control_mutations policy @ stale_ticket_mutations selection\<rparr>))))))"

definition plan_prepare_write ::
  "PlanningEnvironment \<Rightarrow> PrepareWriteStore \<Rightarrow> PrepareWriteInput \<Rightarrow> UtcTimestamp \<Rightarrow>
     (PrepareWritePlanningOutcome, WriteTicketPlanningError) result" where
  "plan_prepare_write env store input operation_now =
     and_then (normalize_prepare_write_input env input operation_now) (\<lambda>normalized.
     and_then (resolve_prepare_write_context store normalized) (\<lambda>resolved.
     and_then (decide_prepare_write_policy env store resolved) (\<lambda>policy.
     plan_prepare_write_mutations env store policy)))"

section \<open>Committing the planned mutations\<close>

text \<open>The two tables a preparation writes, and the ordered application of its mutations.\<close>

record CoreTables =
  ctb_tasks :: TaskTables
  ctb_tickets :: TicketTable

record CoreMutationContext =
  cmc_tasks :: TaskMutationContext
  cmc_tickets :: TicketMutationContext
  cmc_committed_state_version :: u64

fun apply_core_mutation ::
  "CoreMutationContext \<Rightarrow> CoreStorageMutation \<Rightarrow> CoreTables \<Rightarrow> (CoreTables, StoreError) result" where
  "apply_core_mutation context (CoreStorageMutation.Task mutation) tables =
     and_then (apply_task_mutation mutation (cmc_tasks context) (ctb_tasks tables))
       (\<lambda>st. Ok (tables\<lparr>ctb_tasks := st\<rparr>))"
| "apply_core_mutation context (CoreStorageMutation.WriteTicket mutation) tables =
     and_then (apply_write_ticket_mutation mutation (cmc_tickets context)
       (cmc_committed_state_version context) (ctb_tickets tables))
       (\<lambda>rows. Ok (tables\<lparr>ctb_tickets := rows\<rparr>))"

fun apply_core_mutations ::
  "CoreMutationContext \<Rightarrow> CoreStorageMutation list \<Rightarrow> CoreTables \<Rightarrow> (CoreTables, StoreError) result" where
  "apply_core_mutations context [] tables = Ok tables"
| "apply_core_mutations context (mutation # rest) tables =
     and_then (apply_core_mutation context mutation tables) (apply_core_mutations context rest)"

section \<open>Vocabulary of the properties\<close>

text \<open>The normalized request, and the scope and requirement of the attempt a decision is about.\<close>

abbreviation normalized_request ::
  "PrepareWriteInput \<Rightarrow> UtcTimestamp \<Rightarrow> PrepareWriteNormalizedInput" where
  "normalized_request input now \<equiv> \<lparr>pwn_input = input, pwn_plan_now = now,
     pwn_intended_operation = trim (pwi_intended_operation input),
     pwn_intended_paths = pwi_intended_paths input,
     pwn_sensitive_categories = normalized_string_set (pwi_sensitive_categories input)\<rparr>"

abbreviation decided_task_id :: "PrepareWritePolicyDecision \<Rightarrow> TaskId" where
  "decided_task_id policy \<equiv> pwi_task_id (pwn_input (pwd_normalized policy))"

abbreviation decided_scope :: "PrepareWritePolicyDecision \<Rightarrow> WriteTicketAttemptScope" where
  "decided_scope policy \<equiv> planned_attempt_scope policy
     (map ProductRelativePath (pwn_intended_paths (pwd_normalized policy)))"

abbreviation decided_requirement :: "PrepareWritePolicyDecision \<Rightarrow> WriteTicketApprovalRequirement" where
  "decided_requirement policy \<equiv> planned_requirement policy (decided_scope policy)"

abbreviation write_requirement ::
  "PrepareWriteInput \<Rightarrow> TaskRecord \<Rightarrow> ChangeUnitRecord \<Rightarrow> UtcTimestamp \<Rightarrow> SensitiveApprovalRequirement" where
  "write_requirement input task change_unit now \<equiv> \<lparr>
     req_task_id = pwi_task_id input, req_change_unit_id = cu_change_unit_id change_unit,
     req_scope_revision = task_scope_revision task, req_operation = trim (pwi_intended_operation input),
     req_normalized_paths = pwi_intended_paths input,
     req_sensitive_categories = normalized_string_set (pwi_sensitive_categories input),
     req_baseline_ref = Some (pwi_baseline_ref input),
     req_required_for = UserActionRequiredFor.PrepareWrite, req_now = now\<rparr>"

text \<open>How a task, a change unit and a decision come out of the first three stages.\<close>

definition planned_with ::
  "PlanningEnvironment \<Rightarrow> PrepareWriteStore \<Rightarrow> PrepareWriteInput \<Rightarrow> UtcTimestamp \<Rightarrow> TaskRecord \<Rightarrow>
     ChangeUnitRecord \<Rightarrow> TaskPolicyControlReevaluation option \<Rightarrow> PrepareWritePolicyDecision \<Rightarrow> bool" where
  "planned_with env store input now task change_unit mark policy \<longleftrightarrow>
     pws_task_record store (pwi_task_id input) = Some task \<and>
     pws_current_change_unit store (pwi_task_id input) = Some change_unit \<and>
     task_policy_control_reevaluation (pe_from_value env) task = Ok mark \<and>
     task_mode task \<noteq> TaskMode.Advisor \<and> task_work_phase task = WorkPhase.Implementation \<and>
     rtca_effective_control_level (resolve_with_mark task (pws_workflow_policy store) mark) \<noteq> TaskControlLevel.Observe \<and>
     (pwd_task policy, pwd_control_mutations policy) = decide_write_control task (pws_workflow_policy store)
       (pwd_normalized policy) (resolve_with_mark task (pws_workflow_policy store) mark) \<and>
     pwd_normalized policy = normalized_request input now \<and>
     trim (pwi_intended_operation input) \<noteq> [] \<and>
     (\<forall>path \<in> set (pwi_intended_paths input). normalized_path path \<and>
       opr_observe_path (pe_repository env) (ProductRelativePath path) = Ok ()) \<and>
     pwd_change_unit policy = change_unit \<and> pwd_workflow_policy policy = pws_workflow_policy store \<and>
     ((\<forall>reason \<in> set (pwd_reasons policy). dr_code reason = SensitiveApprovalMissing) \<longrightarrow>
       pwi_task_is_current input \<and>
       (\<forall>i. pwi_requested_change_unit_id input = Some i \<longrightarrow> i = cu_change_unit_id change_unit))"

text \<open>The invalidation jobs of a plan, and what they make of one row.\<close>

fun stale_ticket_id :: "PrepareWriteCandidateEvaluation \<Rightarrow> WriteTicketId option" where
  "stale_ticket_id (StaleApproval i) = Some i"
| "stale_ticket_id (StaleWorkspace i) = Some i"
| "stale_ticket_id (StalePolicy i) = Some i"
| "stale_ticket_id _ = None"

definition invalidation_job :: "WriteTicketId \<times> WriteTicketInvalidationReason \<Rightarrow> CoreStorageMutation" where
  "invalidation_job job = CoreStorageMutation.WriteTicket (InvalidateById
     \<lparr>wtb_write_ticket_id = fst job, wtb_invalidation_reason = snd job\<rparr>)"

definition invalidate_by_jobs ::
  "ProjectId \<Rightarrow> (WriteTicketId \<times> WriteTicketInvalidationReason) list \<Rightarrow> StoredWriteTicket \<Rightarrow> StoredWriteTicket" where
  "invalidate_by_jobs p jobs r =
     (case (if wt_project_id r = p then map_of jobs (wt_write_ticket_id r) else None) of
        None \<Rightarrow> r
      | Some reason \<Rightarrow> invalidated_row reason r)"

definition stale_jobs ::
  "PrepareWriteCandidateSelection \<Rightarrow> (WriteTicketId \<times> WriteTicketInvalidationReason) list" where
  "stale_jobs selection =
     map (\<lambda>i. (i, WriteTicketInvalidationReason.ApprovalBasisChanged)) (sel_stale_approval_ticket_ids selection) @
     map (\<lambda>i. (i, WriteTicketInvalidationReason.WorkspaceChanged)) (sel_stale_workspace_ticket_ids selection) @
     map (\<lambda>i. (i, WriteTicketInvalidationReason.ExplicitRevoke)) (sel_stale_policy_ticket_ids selection)"

subsection \<open>Sample records\<close>

definition sample_environment :: PlanningEnvironment where
  "sample_environment = \<lparr>
     pe_repository = \<lparr>opr_root = Ok (), opr_observe_path = (\<lambda>_. Ok ())\<rparr>,
     pe_from_value = (\<lambda>_. None), pe_workspace_digest = (\<lambda>_. replicate 64 (CHR ''0'')),
     pe_duration_minutes = (\<lambda>m. if \<bar>m\<bar> \<le> 153722867280912 then Some (m * 60000000000) else None)\<rparr>"

definition sample_prepare_input :: PrepareWriteInput where
  "sample_prepare_input = \<lparr>
     pwi_project_id = ''p'', pwi_task_id = ''task_1'', pwi_task_is_current = True,
     pwi_requested_change_unit_id = Some ''cu_1'', pwi_intended_operation = '' deploy'',
     pwi_intended_paths = [''src/main.rs''], pwi_product_file_write_intended = True,
     pwi_sensitive_categories = [''network''], pwi_baseline_ref = ''base_1'',
     pwi_actor_source = ActorSource.AgentConnection ''conn_1'',
     pwi_git_workspace_context = None, pwi_verification_basis = ''none''\<rparr>"

definition sample_planning_store :: "TicketTable \<Rightarrow> PrepareWriteStore" where
  "sample_planning_store tickets = \<lparr>
     pws_project_id = ''p'',
     pws_task_record = (\<lambda>i. find (task_is ''p'' i) (tks_tasks sample_task_tables)),
     pws_current_change_unit = (\<lambda>_. Some sample_change_unit),
     pws_workflow_policy = conservative_default (''sha256:'' @ replicate 64 (CHR ''a'')),
     pws_pending_authorities = (\<lambda>_. []),
     pws_sensitive_approvals = (\<lambda>_. [user_action_authority_from_record sample_resolved]),
     pws_tickets = tickets\<rparr>"

definition sample_outdated_ticket :: StoredWriteTicket where
  "sample_outdated_ticket = sample_ticket\<lparr>wt_validity_basis := (wt_validity_basis sample_ticket)
     \<lparr>vb_write_authority_fingerprint := ''sha256:'' @ replicate 64 (CHR ''b'')\<rparr>\<rparr>"

definition sample_core_context :: CoreMutationContext where
  "sample_core_context = \<lparr>cmc_tasks = sample_task_context, cmc_tickets = sample_ticket_context 600,
     cmc_committed_state_version = 8\<rparr>"

section \<open>Lemmas\<close>

subsection \<open>The control decision\<close>

lemma control_le: "a \<le> b \<longleftrightarrow> control_rank a \<le> control_rank b" for a b :: TaskControlLevel
  by (simp add: control_order_defs)

lemma next_write_control_bounds:
  "base \<le> next_write_control policy normalized base"
  "has_denied_path policy (pwn_intended_paths normalized) \<or> pwn_sensitive_categories normalized \<noteq> [] \<Longrightarrow>
     next_write_control policy normalized base = TaskControlLevel.Sensitive"
  by (cases base; auto simp: next_write_control_def Let_def control_le)+

lemma resolve_with_mark_meets_mark:
  shows "mark_required_effective_control_level m \<le>
      rtca_effective_control_level (resolve_with_mark task policy (Some m))"
    and "mark_required_acceptance_policy m = Some required \<Longrightarrow> acceptance_policy_rank required \<le>
      acceptance_policy_rank (rtca_acceptance_policy (resolve_with_mark task policy (Some m)))"
  unfolding resolve_with_mark_control control_rank_le[symmetric]
  subgoal by (rule control_choice.meets_demand) simp
  subgoal unfolding resolve_with_mark_acceptance[of task policy "Some m"]
    by (rule acceptance_choice.meets_demand) simp
  done

text \<open>The decided task, and the update that is planned for it.\<close>

lemma decide_write_control_task:
  fixes task policy normalized resolved
  defines "task' \<equiv> fst (decide_write_control task policy normalized resolved)"
  assumes "task_effective_control_level task \<le> rtca_effective_control_level resolved"
  shows "task_effective_control_level task' =
      next_write_control policy normalized (rtca_effective_control_level resolved)"
    and "acceptance_policy_rank (task_acceptance_policy task) \<le> acceptance_policy_rank (task_acceptance_policy task')"
    and "acceptance_policy_rank (rtca_acceptance_policy resolved) \<le>
      acceptance_policy_rank (task_acceptance_policy task')"
    and "acceptance_policy_rank (acceptance_policy_for_control
        (next_write_control policy normalized (rtca_effective_control_level resolved)) policy) \<le>
      acceptance_policy_rank (task_acceptance_policy task')"
  using assms(2) next_write_control_bounds(1)[of "rtca_effective_control_level resolved" policy normalized]
  unfolding task'_def decide_write_control_def Let_def
  by (auto simp: not_less antisym)

lemma decide_write_control_frame:
  "(t, ms) = decide_write_control task policy normalized resolved \<Longrightarrow>
     task_task_id t = task_task_id task \<and> task_project_id t = task_project_id task \<and>
     task_mode t = task_mode task \<and> task_work_phase t = task_work_phase task \<and>
     task_scope_revision t = task_scope_revision task \<and> task_shaping t = task_shaping task"
  by (auto simp: decide_write_control_def Let_def split: if_splits)


lemma decide_write_control_mutations:
  assumes "(t, ms) = decide_write_control task policy normalized resolved"
  shows "ms = [] \<and> t = task \<and> \<not> rtca_policy_reevaluation_marked resolved \<or>
    (\<exists>u. ms = [CoreStorageMutation.Task (UpdateControlLevel u)] \<and> tclu_task_id u = task_task_id task \<and>
      controlled_task u (task_metadata task) task = t \<and>
      tclu_effective_control_level u = task_effective_control_level t \<and>
      tclu_control_level_reason u = next_control_reason task resolved
        (has_denied_path policy (pwn_intended_paths normalized)) (task_effective_control_level t) \<and>
      (tclu_acceptance_policy u = None \<and> tclu_acceptance_policy_reason u = None \<or>
       tclu_acceptance_policy u = Some (task_acceptance_policy t) \<and>
       (\<exists>raised. tclu_acceptance_policy_reason u =
          Some (next_acceptance_reason resolved raised (task_effective_control_level t)))))"
  using assms unfolding decide_write_control_def Let_def
  by (cases task) (auto simp: controlled_task_def split: if_splits)

text \<open>The reasons the planner writes are never blank.\<close>

lemma trim_end_keeps_first:
  "\<lbrakk>\<not> ws1 c; byte_val c < 128\<rbrakk> \<Longrightarrow> trim_end_rev (s @ [c]) \<noteq> []"
proof (induction s rule: trim_end_rev.induct)
  case (1 a b d s)
  then show ?case by (auto simp: ws2_def ws3_def)
qed (auto simp: ws2_def ws3_def)

lemma text_stored_Cons:
  assumes "\<not> ws1 c" "byte_val c < 128" "c \<noteq> CHR 0x00"
  shows "text_stored (c # s)"
proof -
  have "trim_start (c # s) = c # s"
    using assms by (cases s; cases "tl s") (auto simp: ws2_def ws3_def)
  moreover have "c \<noteq> CHR '' ''" using assms(1) by (auto simp: ws1_def)
  ultimately show ?thesis
    using trim_end_keeps_first[OF assms(1,2), of "rev s"] assms(3)
    by (simp add: text_stored_def trim_def sql_nonblank_def)
qed

lemma text_stored_literals: "text_stored (CHR ''C'' # s)" "text_stored (CHR ''A'' # s)" "text_stored (CHR ''E'' # s)"
  by (rule text_stored_Cons; code_simp)+

lemma effective_control_level_reason: "text_stored (snd (effective_control_level mode requested policy))"
  by (simp add: effective_control_level_def Let_def text_stored_literals)

lemma resolved_control_reason:
  "text_stored (task_control_level_reason task) \<Longrightarrow>
     text_stored (rtca_control_level_reason (resolve_with_mark task policy mark))"
  using effective_control_level_reason[of "task_mode task" "task_requested_control_level task" policy]
  by (simp add: resolve_with_mark_def Let_def split_beta text_stored_literals)

lemma resolved_acceptance_reason:
  "text_stored (task_acceptance_policy_reason task) \<Longrightarrow>
     text_stored (rtca_acceptance_policy_reason (resolve_with_mark task policy mark))"
  by (simp add: resolve_with_mark_def Let_def split_beta text_stored_literals)

lemma next_reasons_stored:
  assumes "text_stored (task_control_level_reason task)" "text_stored (task_acceptance_policy_reason task)"
  shows "text_stored (next_control_reason task (resolve_with_mark task policy mark) touches_denied control)"
    and "text_stored (next_acceptance_reason (resolve_with_mark task policy mark) raised control)"
  using assms resolved_control_reason[OF assms(1)] resolved_acceptance_reason[OF assms(2)]
  by (simp_all add: next_control_reason_def next_acceptance_reason_def text_stored_literals)

text \<open>The planned update is accepted by the store, and it clears the reevaluation mark.\<close>

lemma map_of_without_key: "map_of (filter (\<lambda>(k, _). k \<noteq> key) m) key = None"
  by (induction m) auto

lemma find_updated:
  assumes "\<And>r. P r \<Longrightarrow> P (f r)"
  shows "find P (map (\<lambda>r. if P r then f r else r) rows) = map_option f (find P rows)"
  using assms by (induction rows) auto

lemma clear_mark_satisfied:
  assumes "task_policy_control_reevaluation from_value task = Ok mark"
    and "\<And>m. mark = Some m \<Longrightarrow> mark_required_effective_control_level m \<le> control"
    and "\<And>m required. \<lbrakk>mark = Some m; mark_required_acceptance_policy m = Some required\<rbrakk> \<Longrightarrow>
      acceptance_policy_rank required \<le> acceptance_policy_rank acceptance"
  shows "\<exists>md. clear_satisfied_task_policy_reevaluation from_value task control acceptance = Ok md \<and>
    map_of md ''policy_control_reevaluation'' = None"
proof (cases mark)
  case None
  with assms(1) have "map_of (task_metadata task) ''policy_control_reevaluation'' = None"
    by (auto simp: task_policy_control_reevaluation_def split: option.splits if_splits)
  with None assms(1) show ?thesis by (simp add: clear_satisfied_task_policy_reevaluation_def)
next
  case (Some m)
  let ?md = "filter (\<lambda>(key, _). key \<noteq> ''policy_control_reevaluation'') (task_metadata task)"
  have "clear_satisfied_task_policy_reevaluation from_value task control acceptance = Ok ?md"
    using assms(2)[OF Some] assms(3)[OF Some] Some assms(1)
    by (auto simp: clear_satisfied_task_policy_reevaluation_def Let_def not_less[symmetric] split: option.splits)
  then show ?thesis by (intro exI[of _ ?md] conjI map_of_without_key)
qed

lemma planned_control_update:
  assumes texts: "text_stored (task_control_level_reason task)" "text_stored (task_acceptance_policy_reason task)"
    and decided: "(t, [CoreStorageMutation.Task (UpdateControlLevel u)]) =
      decide_write_control task policy normalized (resolve_with_mark task policy mark)"
  shows "tclu_task_id u = task_task_id task" and "controlled_task u (task_metadata task) task = t"
    and "tclu_effective_control_level u = task_effective_control_level t"
    and "text_stored (tclu_control_level_reason u)"
    and "tclu_acceptance_policy u = None \<and> tclu_acceptance_policy_reason u = None \<or>
      (\<exists>reason. tclu_acceptance_policy u = Some (task_acceptance_policy t) \<and>
        tclu_acceptance_policy_reason u = Some reason \<and> text_stored reason)"
    and "(case tclu_acceptance_policy u of Some policy \<Rightarrow> policy | None \<Rightarrow> task_acceptance_policy task) =
      task_acceptance_policy t"
proof -
  show u: "tclu_task_id u = task_task_id task" "controlled_task u (task_metadata task) task = t"
    "tclu_effective_control_level u = task_effective_control_level t"
    "text_stored (tclu_control_level_reason u)"
    "tclu_acceptance_policy u = None \<and> tclu_acceptance_policy_reason u = None \<or>
      (\<exists>reason. tclu_acceptance_policy u = Some (task_acceptance_policy t) \<and>
        tclu_acceptance_policy_reason u = Some reason \<and> text_stored reason)"
    using decide_write_control_mutations[OF decided] next_reasons_stored[OF texts] by auto
  show "(case tclu_acceptance_policy u of Some policy \<Rightarrow> policy | None \<Rightarrow> task_acceptance_policy task) =
      task_acceptance_policy t"
    using u(5) u(2) by (auto simp: controlled_task_def)
qed

text \<open>The decided levels meet what the reevaluation mark demands.\<close>

lemma decided_control_meets_mark:
  assumes "(t, ms) = decide_write_control task policy normalized (resolve_with_mark task policy mark)"
  shows "task_effective_control_level task \<le> task_effective_control_level t"
    and "acceptance_policy_rank (task_acceptance_policy task) \<le> acceptance_policy_rank (task_acceptance_policy t)"
    and "\<And>m. mark = Some m \<Longrightarrow> mark_required_effective_control_level m \<le> task_effective_control_level t"
    and "\<And>m required. \<lbrakk>mark = Some m; mark_required_acceptance_policy m = Some required\<rbrakk> \<Longrightarrow>
      acceptance_policy_rank required \<le> acceptance_policy_rank (task_acceptance_policy t)"
proof -
  let ?resolved = "resolve_with_mark task policy mark"
  have t: "t = fst (decide_write_control task policy normalized ?resolved)" using assms by (metis fst_conv)
  note bounds = decide_write_control_task[of task ?resolved policy normalized,
      OF resolve_with_mark_bounds(1), folded t]
  have level: "rtca_effective_control_level ?resolved \<le> task_effective_control_level t"
    using next_write_control_bounds(1) bounds(1) by metis
  show "task_effective_control_level task \<le> task_effective_control_level t"
    using resolve_with_mark_bounds(1) level by (rule order_trans)
  show "acceptance_policy_rank (task_acceptance_policy task) \<le> acceptance_policy_rank (task_acceptance_policy t)"
    by (rule bounds(2))
  show "mark_required_effective_control_level m \<le> task_effective_control_level t" if "mark = Some m" for m
    using resolve_with_mark_meets_mark(1)[of m task policy] level that by (auto intro: order_trans)
  show "acceptance_policy_rank required \<le> acceptance_policy_rank (task_acceptance_policy t)"
    if "mark = Some m" "mark_required_acceptance_policy m = Some required" for m required
    using resolve_with_mark_meets_mark(2)[of m required task policy] bounds(3) that by (auto intro: order_trans)
qed

lemma decided_control_is_stored:
  assumes ok: "task_tables_ok st"
    and row: "find (task_is (tkc_project_id context) (task_task_id task)) (tks_tasks st) = Some task"
    and mark: "task_policy_control_reevaluation (tkc_from_value context) task = Ok mark"
    and decided: "(t, [CoreStorageMutation.Task (UpdateControlLevel u)]) =
      decide_write_control task policy normalized (resolve_with_mark task policy mark)"
  shows "\<exists>st' md. update_task_control_level u context st = Ok st' \<and>
    find (task_is (tkc_project_id context) (task_task_id task)) (tks_tasks st') =
      Some (t\<lparr>task_metadata := md\<rparr>) \<and>
    task_policy_control_reevaluation (tkc_from_value context) (t\<lparr>task_metadata := md\<rparr>) = Ok None"
proof -
  have stored: "task_row_ok task"
    using ok row by (auto simp: find_Some_iff task_tables_ok_def list_all_length)
  then have id: "trim (task_task_id task) \<noteq> []" by (simp add: task_row_ok_def)
  have texts: "text_stored (task_control_level_reason task)" "text_stored (task_acceptance_policy_reason task)"
    using stored by (simp_all add: task_row_ok_def)
  note u = planned_control_update[OF texts decided] and meets = decided_control_meets_mark[OF decided]
  have "\<exists>md. clear_satisfied_task_policy_reevaluation (tkc_from_value context) task
      (task_effective_control_level t) (task_acceptance_policy t) = Ok md \<and>
      map_of md ''policy_control_reevaluation'' = None"
    using mark meets(3,4) by (rule clear_mark_satisfied)
  then obtain md where md: "clear_satisfied_task_policy_reevaluation (tkc_from_value context) task
      (task_effective_control_level t) (task_acceptance_policy t) = Ok md"
    "map_of md ''policy_control_reevaluation'' = None" by blast
  let ?st = "st\<lparr>tks_tasks := fst (sql_update (task_is (tkc_project_id context) (task_task_id task))
    (controlled_task u md) (tks_tasks st))\<rparr>"
  have "update_task_control_level u context st = Ok ?st"
    using u(1,3,4,5,6) row md(1) id meets(1,2)
    by (auto simp: update_task_control_level_def validate_identifier_def ensure_def text_stored_def
        acceptance_update_is_complete_def is_some_and_iff control_le)
  moreover have "find (task_is (tkc_project_id context) (task_task_id task)) (tks_tasks ?st) =
      Some (controlled_task u md task)"
    using find_updated[of "task_is (tkc_project_id context) (task_task_id task)" "controlled_task u md"
        "tks_tasks st"] row
    by (simp add: sql_update_def controlled_task_def task_is_def)
  moreover have "controlled_task u md task = t\<lparr>task_metadata := md\<rparr>"
    using u(2) by (auto simp: controlled_task_def)
  ultimately show ?thesis using md(2) by (auto simp: task_policy_control_reevaluation_def)
qed

subsection \<open>The stages of a successful plan\<close>

lemma observe_product_paths_Ok:
  assumes "observe_product_paths repository raw = Ok paths"
  shows "paths = raw \<and> opr_root repository = Ok () \<and>
    (\<forall>path \<in> set raw. normalized_path path \<and> opr_observe_path repository (ProductRelativePath path) = Ok ())"
proof -
  obtain ps where ps: "parse_product_paths raw = Ok ps"
      "opr_root repository = Ok ()"
      "list_all2 (\<lambda>p y. opr_observe_path repository p = Ok () \<and> as_str p = y) ps paths"
    using assms by (auto simp: observe_product_paths_def collect_results_Ok_iff elim!: list_all2_mono)
  have raw: "list_all2 (\<lambda>x p. normalized_path x \<and> p = ProductRelativePath x) raw ps"
    using ps(1) by (simp add: parse_product_paths_def collect_results_Ok_iff parse_Ok_iff)
  then have "\<forall>path \<in> set raw. normalized_path path \<and> opr_observe_path repository (ProductRelativePath path) = Ok ()"
    using ps(3) by (auto simp: list_all2_conv_all_nth in_set_conv_nth)
  moreover have "paths = raw"
    using raw ps(3) by (intro nth_equalityI) (auto simp: list_all2_conv_all_nth)
  ultimately show ?thesis using ps(2) by simp
qed

lemma normalize_prepare_write_input_Ok:
  assumes "normalize_prepare_write_input env input now = Ok normalized"
  shows "normalized = normalized_request input now"
    and "trim (pwi_intended_operation input) \<noteq> []"
    and "\<forall>path \<in> set (pwi_intended_paths input). normalized_path path \<and>
      opr_observe_path (pe_repository env) (ProductRelativePath path) = Ok ()"
proof -
  have op: "trim (pwi_intended_operation input) \<noteq> []"
    using assms by (auto simp: normalize_prepare_write_input_def)
  then obtain paths where paths: "observe_product_paths (pe_repository env) (pwi_intended_paths input) = Ok paths"
    using assms
    by (auto simp: normalize_prepare_write_input_def split: result.splits ProductPathValidationError.splits
        PlatformDiagnosticClass.splits)
  note * = observe_product_paths_Ok[OF paths]
  show "trim (pwi_intended_operation input) \<noteq> []" by (rule op)
  show "normalized = normalized_request input now"
    using assms op paths * by (simp add: normalize_prepare_write_input_def)
  show "\<forall>path \<in> set (pwi_intended_paths input). normalized_path path \<and>
      opr_observe_path (pe_repository env) (ProductRelativePath path) = Ok ()" using * by blast
qed

lemma resolve_prepare_write_context_Ok:
  assumes "resolve_prepare_write_context store normalized = Ok resolved"
  obtains task change_unit where
    "pws_task_record store (pwi_task_id (pwn_input normalized)) = Some task"
    "pws_current_change_unit store (pwi_task_id (pwn_input normalized)) = Some change_unit"
    "pwr_normalized resolved = normalized" "pwr_task resolved = task" "pwr_change_unit resolved = change_unit"
    "\<forall>reason \<in> set (pwr_reasons resolved). dr_code reason = SensitiveApprovalMissing \<Longrightarrow>
      pwi_task_is_current (pwn_input normalized) \<and>
      (\<forall>i. pwi_requested_change_unit_id (pwn_input normalized) = Some i \<longrightarrow> i = cu_change_unit_id change_unit)"
  using assms
  by (auto simp: resolve_prepare_write_context_def load_prepare_write_task_def
      validate_prepare_write_change_unit_def write_decision_reason_def Let_def is_some_and_iff
      split: option.splits if_splits)

lemma decide_prepare_write_policy_Ok:
  assumes "decide_prepare_write_policy env store resolved = Ok policy"
  obtains mark where
    "task_policy_control_reevaluation (pe_from_value env) (pwr_task resolved) = Ok mark"
    "task_mode (pwr_task resolved) \<noteq> TaskMode.Advisor"
    "rtca_effective_control_level (resolve_with_mark (pwr_task resolved) (pws_workflow_policy store) mark) \<noteq>
      TaskControlLevel.Observe"
    "(pwd_task policy, pwd_control_mutations policy) = decide_write_control (pwr_task resolved)
      (pws_workflow_policy store) (pwr_normalized resolved)
      (resolve_with_mark (pwr_task resolved) (pws_workflow_policy store) mark)"
    "task_work_phase (pwr_task resolved) = WorkPhase.Implementation"
    "pwd_normalized policy = pwr_normalized resolved" "pwd_change_unit policy = pwr_change_unit resolved"
    "pwd_reasons policy = pwr_reasons resolved" "pwd_workflow_policy policy = pws_workflow_policy store"
proof -
  have mode: "task_mode (pwr_task resolved) \<noteq> TaskMode.Advisor"
    using assms by (auto simp: decide_prepare_write_policy_def Let_def)
  then obtain control where control:
      "resolve_task_control_authority (pe_from_value env) (pwr_task resolved) (pws_workflow_policy store) = Ok control"
    using assms by (auto simp: decide_prepare_write_policy_def Let_def)
  obtain mark where mark: "task_policy_control_reevaluation (pe_from_value env) (pwr_task resolved) = Ok mark"
      "control = resolve_with_mark (pwr_task resolved) (pws_workflow_policy store) mark"
    by (rule resolve_task_control_authority_Ok[OF control])
  obtain task' ms where d: "(task', ms) = decide_write_control (pwr_task resolved) (pws_workflow_policy store)
      (pwr_normalized resolved) control" by (metis surj_pair)
  have rest: "rtca_effective_control_level control \<noteq> TaskControlLevel.Observe"
    "task_work_phase task' = WorkPhase.Implementation"
    "policy = \<lparr>pwd_normalized = pwr_normalized resolved, pwd_task = task',
      pwd_change_unit = pwr_change_unit resolved, pwd_reasons = pwr_reasons resolved,
      pwd_workflow_policy = pws_workflow_policy store, pwd_control_mutations = ms\<rparr>"
    using assms mode control
    by (auto simp: decide_prepare_write_policy_def Let_def d[symmetric] split: if_splits)
  show ?thesis
    by (rule that[OF mark(1) mode])
      (use rest mark(2) d decide_write_control_frame[OF d] in simp_all)
qed

lemma typed_product_paths_Ok:
  "typed_product_paths paths = Ok ps \<Longrightarrow> ps = map ProductRelativePath paths"
  by (auto simp: typed_product_paths_def collect_results_Ok_iff parse_Ok_iff list_all2_conv_all_nth
      intro!: nth_equalityI)

lemma plan_prepare_write_mutations_Ok:
  assumes "plan_prepare_write_mutations env store policy = Ok outcome"
  obtains contract records evaluations where
    "contract_reasons policy = Ok contract"
    "active_write_tickets (pws_tickets store) (pws_project_id store) (decided_task_id policy) = Ok records"
    "collect_results (candidate_evaluation env policy (decided_scope policy) (pws_sensitive_approvals store (decided_task_id policy))) records =
      Ok evaluations"
    "pwc_reasons (pwo_common outcome) = settle_reasons (decided_task_id policy)
      (pwd_reasons policy @ scope_reasons policy @ contract @
        pending_reasons (decided_task_id policy) (pending_user_action_request_ids store policy (decided_requirement policy)) @
        approval_reasons (decided_requirement policy)
          (current_write_ticket_approval_basis (decided_requirement policy) (pws_sensitive_approvals store (decided_task_id policy))))
      (sel_compatibility (select_prepare_write_candidates evaluations))"
    "pwc_decision (pwo_common outcome) = prepare_write_decision (pwc_reasons (pwo_common outcome))"
    "pwc_task (pwo_common outcome) = pwd_task policy"
    "choose_ticket env policy (decided_scope policy) (current_write_ticket_approval_basis (decided_requirement policy)
        (pws_sensitive_approvals store (decided_task_id policy))) (pwc_reasons (pwo_common outcome))
      (sel_compatibility (select_prepare_write_candidates evaluations)) = Ok (pwo_ticket outcome)"
    "pwo_storage_mutations outcome = pwd_control_mutations policy @
      stale_ticket_mutations (select_prepare_write_candidates evaluations)"
  using assms unfolding plan_prepare_write_mutations_def Let_def
  by (auto dest!: typed_product_paths_Ok)


subsection \<open>Reasons and candidates\<close>

lemma settle_reasons_Nil:
  "settle_reasons task_id reasons selection = [] \<longleftrightarrow>
     selection = None_compatible \<and> reasons = [] \<or>
     (\<exists>t. selection = One t) \<and> (\<forall>reason \<in> set reasons. dr_code reason = SensitiveApprovalMissing)"
  by (cases selection) (auto simp: settle_reasons_def filter_empty_conv)

lemma selected_ticket:
  assumes "sel_compatibility (select_prepare_write_candidates evaluations) = One t"
  shows "Compatible t \<in> set evaluations"
proof -
  let ?compatible = "List.map_filter (\<lambda>c. case c of Compatible t \<Rightarrow> Some t | _ \<Rightarrow> None) evaluations"
  have "?compatible = [t]"
    using assms by (auto simp: select_prepare_write_candidates_def Let_def split: list.splits)
  then have "t \<in> set ?compatible" by simp
  then obtain c where c: "c \<in> set evaluations" "(case c of Compatible t \<Rightarrow> Some t | _ \<Rightarrow> None) = Some t"
    by (auto simp: set_map_filter)
  show ?thesis by (cases c) (use c in simp_all)
qed

lemma candidate_evaluation_Compatible:
  assumes "candidate_evaluation env policy scope approvals r = Ok (Compatible t)"
  defines "basis \<equiv> validity_basis_for_selection env policy"
  shows "wt_status r = WriteTicketStatus.Active"
    and "\<not> write_ticket_is_idle_expired (wt_idle_expires_at r) (pwn_plan_now (pwd_normalized policy))"
    and "reusable_stored t = \<lparr>sts_write_ticket_id = wt_write_ticket_id r, sts_ticket = swf_ticket (from_record r)\<rparr>"
    and "vb_write_authority_fingerprint (wt_validity_basis r) = vb_write_authority_fingerprint basis"
    and "vb_workspace_context_sha256 (wt_validity_basis r) = vb_workspace_context_sha256 basis"
    and "basis_is_reusable (wt_validity_basis r) basis"
    and "scope_is_reusable (wt_attempt_scope r) scope"
    and "paths_are_reusable (wt_path_scope r) (as_intended_paths scope)"
    and "approval_is_required (planned_requirement policy scope) \<Longrightarrow>
      as_intended_operation (wt_attempt_scope r) = as_intended_operation scope"
    and "assess_write_ticket_approval (planned_requirement policy (wt_attempt_scope r)) approvals
      (vb_approval_basis_refs (wt_validity_basis r)) \<noteq> WriteTicketApprovalAssessment.Changed reason"
proof -
  let ?current = "\<lparr>wcf_pending_policy_reevaluation = False,
    wcf_write_authority_fingerprint = vb_write_authority_fingerprint basis\<rparr>"
  let ?assessment = "assess_write_ticket_approval (planned_requirement policy (wt_attempt_scope r)) approvals
      (vb_approval_basis_refs (wt_validity_basis r))"
  obtain evaluated where evaluated: "pre_evaluate_stored_write_ticket (from_record r)
      (pwn_plan_now (pwd_normalized policy)) = Ok evaluated"
    using assms(1) by (auto simp: candidate_evaluation_def)
  then obtain candidate where pre: "pre_evaluate_stored_write_ticket (from_record r)
      (pwn_plan_now (pwd_normalized policy)) = Ok (NeedsCurrentFacts candidate)"
    using assms(1) by (cases evaluated) (auto simp: candidate_evaluation_def)
  note active = pre_evaluate_NeedsCurrentFacts[OF pre]
  have stored: "cand_stored candidate = \<lparr>sts_write_ticket_id = wt_write_ticket_id r,
      sts_ticket = swf_ticket (from_record r)\<rparr>"
    using active by (simp add: from_record_def)
  then have sem: "sem_attempt_scope (sts_ticket (cand_stored candidate)) = wt_attempt_scope r"
    "sem_validity_basis (sts_ticket (cand_stored candidate)) = wt_validity_basis r"
    "sem_path_scope (sts_ticket (cand_stored candidate)) = wt_path_scope r"
    by (simp_all add: from_record_def)
  have e: "evaluate_prepare_write_candidate candidate \<lparr>awr_validity_basis = basis, awr_attempt_scope = scope,
      awr_approval_required = approval_is_required (planned_requirement policy scope)\<rparr> ?current ?assessment =
      Compatible t"
    using assms(1) pre sem by (simp add: candidate_evaluation_def Let_def basis_def)
  then have reusable: "evaluate_active_candidate candidate ?current ?assessment =
      ActiveStoredWriteTicketEvaluation.Reusable t"
    by (auto simp: evaluate_prepare_write_candidate_def Let_def split: if_splits
        ActiveStoredWriteTicketEvaluation.splits)
  have facts: "active_semantic_facts (ActiveStoredWriteTicketEvaluation.Reusable t) = sts_ticket (cand_stored candidate)"
    using evaluate_active_candidate_Reusable(1)[OF reusable] by simp
  note checks = e[unfolded evaluate_prepare_write_candidate_def Let_def reusable facts sem]
  show "wt_status r = WriteTicketStatus.Active"
    "\<not> write_ticket_is_idle_expired (wt_idle_expires_at r) (pwn_plan_now (pwd_normalized policy))"
    using active by (simp_all add: from_record_def)
  show "reusable_stored t = \<lparr>sts_write_ticket_id = wt_write_ticket_id r, sts_ticket = swf_ticket (from_record r)\<rparr>"
    "vb_write_authority_fingerprint (wt_validity_basis r) = vb_write_authority_fingerprint basis"
    "?assessment \<noteq> WriteTicketApprovalAssessment.Changed reason"
    using evaluate_active_candidate_Reusable[OF reusable] stored sem by simp_all
  show "vb_workspace_context_sha256 (wt_validity_basis r) = vb_workspace_context_sha256 basis"
    "basis_is_reusable (wt_validity_basis r) basis" "scope_is_reusable (wt_attempt_scope r) scope"
    "paths_are_reusable (wt_path_scope r) (as_intended_paths scope)"
    "approval_is_required (planned_requirement policy scope) \<Longrightarrow>
      as_intended_operation (wt_attempt_scope r) = as_intended_operation scope"
    using checks by (auto split: if_splits)
qed

text \<open>The approval of a reused ticket covers the attempt it is reused for.\<close>

lemma reused_ticket_is_approved:
  assumes "candidate_evaluation env policy scope approvals r = Ok (Compatible t)"
    and "set (allowed (wt_path_scope r)) \<subseteq> set (as_intended_paths (wt_attempt_scope r))"
    and "list_all (\<lambda>p. normalized_path (as_str p)) (as_intended_paths scope)"
    and "approval_is_required (planned_requirement policy scope)"
  shows "\<exists>a \<in> set approvals. requirement_matches (planned_requirement policy scope) a"
proof -
  note c = candidate_evaluation_Compatible[OF assms(1)]
  let ?own = "planned_requirement policy (wt_attempt_scope r)"
  have "approval_is_required ?own"
    using assms(4) c(7)
    by (auto simp: approval_is_required_def planned_requirement_def new_approval_requirement_def
        scope_is_reusable_def category_set_for_reuse_def)
  then obtain a where a: "a \<in> set approvals" "requirement_matches ?own a"
    using assess_not_changed[OF c(10)] by (auto simp: neq_Nil_conv)
  have within: "\<exists>wider \<in> set (as_intended_paths (wt_attempt_scope r)). path_is_within (as_str p) (as_str wider)"
    if p: "p \<in> set (as_intended_paths scope)" for p
  proof -
    obtain wider where wider: "wider \<in> set (as_intended_paths (wt_attempt_scope r))" "is_within p wider"
      using c(8) p assms(2) unfolding paths_are_reusable_def list_all_iff list_ex_iff by blast
    moreover have "normalized_path (as_str wider)"
      using a(2) wider(1)
      by (force simp: requirement_matches_def current_sensitive_approval_iff scope_matches_iff path_is_within_iff
          sensitive_requirement_def planned_requirement_def new_approval_requirement_def)
    ultimately show ?thesis
      using assms(3) p by (auto simp: path_is_within_iff is_within_prefix path_components_def list_all_iff)
  qed
  have "current_sensitive_approval a (sensitive_requirement (planned_requirement policy scope))"
    using a(2) unfolding requirement_matches_def
    by (elim conjE, elim current_sensitive_approval_mono)
      (use c(7) c(9)[OF assms(4)] within in \<open>auto simp: sensitive_requirement_def planned_requirement_def
        new_approval_requirement_def scope_is_reusable_def category_set_for_reuse_def\<close>)
  then show ?thesis
    using a c(7) by (intro bexI[of _ a]) (auto simp: requirement_matches_def has_current_owner_def
        planned_requirement_def new_approval_requirement_def scope_is_reusable_def)
qed

lemma current_basis_is_approved:
  "current_write_ticket_approval_basis requirement approvals \<noteq> None \<Longrightarrow>
     \<exists>a \<in> set approvals. requirement_matches requirement a"
  using csa_identities_iff[of "hd (csa_identities (new_current_approvals approvals requirement))"
      approvals requirement]
  by (auto simp: current_write_ticket_approval_basis_def primary_basis_def split: list.splits)


text \<open>What is known of the request when no reason but a missing approval stands against it.\<close>

lemma clean_scope:
  assumes "\<forall>reason \<in> set (scope_reasons policy). dr_code reason = SensitiveApprovalMissing"
  defines "input \<equiv> pwn_input (pwd_normalized policy)" and "paths \<equiv> pwn_intended_paths (pwd_normalized policy)"
  shows "pwi_product_file_write_intended input = (paths \<noteq> [])"
    and "workspace_context_matches (pwd_change_unit policy) (pwi_git_workspace_context input)"
    and "baseline_matches (pwd_change_unit policy) (pwd_task policy) (pwi_baseline_ref input)"
    and "\<forall>path \<in> set paths. \<exists>bound \<in> set (cu_bounded_paths (pwd_change_unit policy)). path_is_within path bound"
proof -
  have "\<forall>reason \<in> set (scope_reasons policy). dr_code reason \<noteq> SensitiveApprovalMissing"
    by (auto simp: scope_reasons_def Let_def write_decision_reason_def)
  with assms(1) have clean: "scope_reasons policy = []" by (cases "scope_reasons policy") auto
  show "pwi_product_file_write_intended input = (paths \<noteq> [])"
    "workspace_context_matches (pwd_change_unit policy) (pwi_git_workspace_context input)"
    "baseline_matches (pwd_change_unit policy) (pwd_task policy) (pwi_baseline_ref input)"
    "\<forall>path \<in> set paths. \<exists>bound \<in> set (cu_bounded_paths (pwd_change_unit policy)). path_is_within path bound"
    using clean
    by (auto simp: scope_reasons_def Let_def paths_match_current_change_unit_def input_def paths_def
        list_all_iff list_ex_iff split: if_splits)
qed

lemma effect_contract_reason_code: "dr_code (effect_contract_reason v unit_record) \<noteq> SensitiveApprovalMissing"
  by (cases v) (simp_all add: write_decision_reason_def)

lemma clean_contract:
  assumes "contract_reasons policy = Ok reasons"
    and "\<forall>reason \<in> set reasons. dr_code reason = SensitiveApprovalMissing"
    and "cu_effect_contract (pwd_change_unit policy) = Some contract"
  shows "product_write_violations contract (pwi_product_file_write_intended (pwn_input (pwd_normalized policy)))
    (pwn_intended_paths (pwd_normalized policy)) = Ok []"
proof -
  obtain violations unit_record where v: "product_write_violations contract
      (pwi_product_file_write_intended (pwn_input (pwd_normalized policy)))
      (pwn_intended_paths (pwd_normalized policy)) = Ok violations"
    and r: "reasons = map (\<lambda>v. effect_contract_reason v unit_record) violations"
    using assms(1,3) by (auto simp: contract_reasons_def Let_def)
  have "violations = []"
    using assms(2) effect_contract_reason_code unfolding r by (cases violations) auto
  with v show ?thesis by simp
qed

lemma clean_pending:
  assumes "\<forall>reason \<in> set (pending_reasons task_id (pending_user_action_request_ids store policy requirement)).
      dr_code reason = SensitiveApprovalMissing"
    and "a \<in> set (pws_pending_authorities store (pwi_task_id (pwn_input (pwd_normalized policy))))"
    and "ua_status a = UserActionStatus.Pending" "user_action_has_current_basis a"
      "ua_task_id a = pwi_task_id (pwn_input (pwd_normalized policy))"
  shows "set (ua_required_for a) \<inter> {UserActionRequiredFor.ScopeUpdate, UserActionRequiredFor.AdvanceTask,
    UserActionRequiredFor.PrepareWrite} = {}"
proof -
  have "pending_user_action_request_ids store policy requirement = []"
    using assms(1) by (auto simp: pending_reasons_def write_decision_reason_def split: if_splits)
  then show ?thesis
    using assms(2-) by (auto simp: pending_user_action_request_ids_def Let_def filter_empty_conv list_ex_iff)
qed

lemma stored_scope_baseline_ref_frame:
  "task_shaping t = task_shaping t' \<Longrightarrow> stored_scope_baseline_ref t = stored_scope_baseline_ref t'"
  by (simp add: stored_scope_baseline_ref_def)

lemma active_tickets_are_stored:
  assumes "active_write_tickets rows p t = Ok records" "r \<in> set records"
  shows "r \<in> set rows"
proof -
  let ?own = "sort_key wt_write_ticket_id (filter (\<lambda>r. wt_project_id r = p \<and> wt_task_id r = t) rows)"
  obtain decoded where decoded: "list_all2 (\<lambda>x y. row_ok x \<and> y = x) ?own decoded" "r \<in> set decoded"
    using assms by (auto simp: active_write_tickets_def collect_results_Ok_iff decode_write_ticket_record_Ok)
  then have "decoded = ?own" by (intro nth_equalityI) (simp_all add: list_all2_conv_all_nth)
  with decoded(2) show ?thesis by simp
qed


lemma plan_prepare_write_Ok:
  assumes "plan_prepare_write env store input now = Ok outcome"
  obtains task change_unit mark policy where "planned_with env store input now task change_unit mark policy"
    "plan_prepare_write_mutations env store policy = Ok outcome"
proof -
  obtain normalized resolved policy where stages:
      "normalize_prepare_write_input env input now = Ok normalized"
      "resolve_prepare_write_context store normalized = Ok resolved"
      "decide_prepare_write_policy env store resolved = Ok policy"
      "plan_prepare_write_mutations env store policy = Ok outcome"
    using assms by (auto simp: plan_prepare_write_def)
  note n = normalize_prepare_write_input_Ok[OF stages(1)]
  show ?thesis
    by (rule resolve_prepare_write_context_Ok[OF stages(2)], rule decide_prepare_write_policy_Ok[OF stages(3)])
      (rule that[of "pwr_task resolved" "pwr_change_unit resolved" _ policy]; simp add: planned_with_def n stages(4))
qed

lemma planned_withD:
  assumes "planned_with env store input now task change_unit mark policy"
  shows "pws_task_record store (pwi_task_id input) = Some task"
    and "pws_current_change_unit store (pwi_task_id input) = Some change_unit"
    and "task_policy_control_reevaluation (pe_from_value env) task = Ok mark"
    and "(pwd_task policy, pwd_control_mutations policy) = decide_write_control task (pws_workflow_policy store)
      (pwd_normalized policy) (resolve_with_mark task (pws_workflow_policy store) mark)"
    and "rtca_effective_control_level (resolve_with_mark task (pws_workflow_policy store) mark) \<noteq> TaskControlLevel.Observe"
    and "pwd_normalized policy = normalized_request input now"
    and "\<forall>path \<in> set (pwi_intended_paths input). normalized_path path \<and>
      opr_observe_path (pe_repository env) (ProductRelativePath path) = Ok ()"
    and "pwd_change_unit policy = change_unit" and "pwd_workflow_policy policy = pws_workflow_policy store"
    and "task_scope_revision (pwd_task policy) = task_scope_revision task"
    and "task_shaping (pwd_task policy) = task_shaping task"
  using assms decide_write_control_frame by (auto simp: planned_with_def)

lemma decided_control_bounds:
  assumes "(t, ms) = decide_write_control task policy normalized (resolve_with_mark task policy mark)"
    and "rtca_effective_control_level (resolve_with_mark task policy mark) \<noteq> TaskControlLevel.Observe"
  shows "task_effective_control_level task \<le> task_effective_control_level t"
    and "TaskControlLevel.Light \<le> task_effective_control_level t"
    and "has_denied_path policy (pwn_intended_paths normalized) \<or> pwn_sensitive_categories normalized \<noteq> [] \<Longrightarrow>
      task_effective_control_level t = TaskControlLevel.Sensitive"
proof -
  let ?base = "rtca_effective_control_level (resolve_with_mark task policy mark)"
  have t: "task_effective_control_level t = next_write_control policy normalized ?base"
    using decide_write_control_task(1)[of task "resolve_with_mark task policy mark" policy normalized,
        OF resolve_with_mark_bounds(1)] assms(1) by (metis fst_conv)
  show "task_effective_control_level task \<le> task_effective_control_level t"
    unfolding t using resolve_with_mark_bounds(1) next_write_control_bounds(1) by (rule order_trans)
  have "TaskControlLevel.Light \<le> ?base" using assms(2) by (cases ?base) (auto simp: control_le)
  then show "TaskControlLevel.Light \<le> task_effective_control_level t"
    unfolding t using next_write_control_bounds(1) by (rule order_trans)
qed (use assms(1) in \<open>metis decide_write_control_task(1) fst_conv next_write_control_bounds(2) resolve_with_mark_bounds(1)\<close>)

lemma matching_approval_is_the_users:
  "requirement_matches requirement a \<Longrightarrow> ua_resolved_by_actor_source a = Some ActorSource.LocalUser"
  by (simp add: requirement_matches_def current_sensitive_approval_iff accepted_current_user_authority_iff
      verified_user_channel_provenance_def)

lemma collect_results_member:
  assumes "collect_results f xs = Ok ys" "y \<in> set ys"
  shows "\<exists>x \<in> set xs. f x = Ok y"
  using assms unfolding collect_results_Ok_iff by (induction xs ys rule: list_all2_induct) auto

lemma selected_write_is_approved:
  fixes policy :: PrepareWritePolicyDecision
  assumes evaluations: "collect_results (candidate_evaluation env policy (decided_scope policy) approvals) records = Ok evaluations"
    and settled: "settle_reasons task_id (earlier @ approval_reasons (decided_requirement policy)
        (current_write_ticket_approval_basis (decided_requirement policy) approvals))
      (sel_compatibility (select_prepare_write_candidates evaluations)) = []"
    and records: "\<forall>r \<in> set records.
      set (allowed (wt_path_scope r)) \<subseteq> set (as_intended_paths (wt_attempt_scope r))"
    and paths: "\<forall>path \<in> set (pwn_intended_paths (pwd_normalized policy)). normalized_path path"
    and required: "approval_is_required (decided_requirement policy)"
  shows "\<exists>a \<in> set approvals. requirement_matches (decided_requirement policy) a"
  using settled unfolding settle_reasons_Nil
proof
  assume "sel_compatibility (select_prepare_write_candidates evaluations) = None_compatible \<and>
    earlier @ approval_reasons (decided_requirement policy)
      (current_write_ticket_approval_basis (decided_requirement policy) approvals) = []"
  with required show ?thesis
    by (intro current_basis_is_approved) (auto simp: approval_reasons_def split: if_splits)
next
  assume "(\<exists>t. sel_compatibility (select_prepare_write_candidates evaluations) = One t) \<and>
    (\<forall>reason \<in> set (earlier @ approval_reasons (decided_requirement policy)
      (current_write_ticket_approval_basis (decided_requirement policy) approvals)).
      dr_code reason = SensitiveApprovalMissing)"
  then obtain t where "Compatible t \<in> set evaluations" using selected_ticket by blast
  then obtain r where r: "r \<in> set records" "candidate_evaluation env policy (decided_scope policy) approvals r = Ok (Compatible t)"
    using collect_results_member[OF evaluations] by blast
  have "list_all (\<lambda>p. normalized_path (as_str p)) (as_intended_paths (decided_scope policy))"
    using paths by (simp add: planned_attempt_scope_def Let_def list_all_iff)
  from reused_ticket_is_approved[OF r(2) _ this required] records r(1) show ?thesis by blast
qed

text \<open>What an allowed plan shows of its policy decision.\<close>

lemma allowed_plan:
  fixes policy :: PrepareWritePolicyDecision
  assumes m: "plan_prepare_write_mutations env store policy = Ok outcome"
    and allowed: "pwc_decision (pwo_common outcome) = PrepareWriteDecision.Allowed"
    and tickets: "\<forall>r \<in> set (pws_tickets store).
      set (allowed (wt_path_scope r)) \<subseteq> set (as_intended_paths (wt_attempt_scope r))"
    and paths: "\<forall>path \<in> set (pwn_intended_paths (pwd_normalized policy)). normalized_path path"
  shows "pwc_task (pwo_common outcome) = pwd_task policy"
    and "\<forall>reason \<in> set (pwd_reasons policy). dr_code reason = SensitiveApprovalMissing"
    and "\<forall>reason \<in> set (scope_reasons policy). dr_code reason = SensitiveApprovalMissing"
    and "\<And>contract. cu_effect_contract (pwd_change_unit policy) = Some contract \<Longrightarrow>
      product_write_violations contract (pwi_product_file_write_intended (pwn_input (pwd_normalized policy)))
        (pwn_intended_paths (pwd_normalized policy)) = Ok []"
    and "\<forall>reason \<in> set (pending_reasons (decided_task_id policy)
      (pending_user_action_request_ids store policy (decided_requirement policy))).
      dr_code reason = SensitiveApprovalMissing"
    and "approval_is_required (decided_requirement policy) \<Longrightarrow> \<exists>a \<in> set (pws_sensitive_approvals store
      (decided_task_id policy)). requirement_matches (decided_requirement policy) a"
proof -
  let ?approvals = "pws_sensitive_approvals store (decided_task_id policy)"
  let ?pending = "pending_reasons (decided_task_id policy)
    (pending_user_action_request_ids store policy (decided_requirement policy))"
  obtain contract records evaluations where
    c: "contract_reasons policy = Ok contract"
    and records: "active_write_tickets (pws_tickets store) (pws_project_id store) (decided_task_id policy) = Ok records"
    and evaluations: "collect_results (candidate_evaluation env policy (decided_scope policy) ?approvals) records = Ok evaluations"
    and reasons: "pwc_reasons (pwo_common outcome) = settle_reasons (decided_task_id policy)
      (pwd_reasons policy @ scope_reasons policy @ contract @ ?pending @
        approval_reasons (decided_requirement policy)
          (current_write_ticket_approval_basis (decided_requirement policy) ?approvals))
      (sel_compatibility (select_prepare_write_candidates evaluations))"
    and out: "pwc_decision (pwo_common outcome) = prepare_write_decision (pwc_reasons (pwo_common outcome))"
      "pwc_task (pwo_common outcome) = pwd_task policy"
    by (rule plan_prepare_write_mutations_Ok[OF m])
  have settled: "settle_reasons (decided_task_id policy) ((pwd_reasons policy @ scope_reasons policy @ contract @ ?pending) @
        approval_reasons (decided_requirement policy)
          (current_write_ticket_approval_basis (decided_requirement policy) ?approvals))
      (sel_compatibility (select_prepare_write_candidates evaluations)) = []"
    using allowed out(1) reasons by (simp add: prepare_write_decision_def split: if_splits)
  show "\<exists>a \<in> set ?approvals. requirement_matches (decided_requirement policy) a"
    if "approval_is_required (decided_requirement policy)"
    by (rule selected_write_is_approved[OF evaluations settled])
      (use active_tickets_are_stored[OF records] tickets paths that in auto)
  have contract: "\<forall>reason \<in> set contract. dr_code reason = SensitiveApprovalMissing"
    using settled by (auto simp: settle_reasons_Nil)
  show "product_write_violations contract (pwi_product_file_write_intended (pwn_input (pwd_normalized policy)))
        (pwn_intended_paths (pwd_normalized policy)) = Ok []"
    if "cu_effect_contract (pwd_change_unit policy) = Some contract" for contract
    using clean_contract[OF c contract that] .
  show "pwc_task (pwo_common outcome) = pwd_task policy" by (rule out(2))
  show "\<forall>reason \<in> set (pwd_reasons policy). dr_code reason = SensitiveApprovalMissing"
    "\<forall>reason \<in> set (scope_reasons policy). dr_code reason = SensitiveApprovalMissing"
    "\<forall>reason \<in> set ?pending. dr_code reason = SensitiveApprovalMissing"
    using settled by (auto simp: settle_reasons_Nil)
qed

lemma decided_requirement_matches:
  assumes "pwd_normalized policy = normalized_request input now"
    and "task_scope_revision (pwd_task policy) = task_scope_revision task"
  shows "requirement_matches (decided_requirement policy) a \<longleftrightarrow> ua_project_id a = pwi_project_id input \<and>
    ua_task_id a = pwi_task_id input \<and>
    current_sensitive_approval a (write_requirement input task (pwd_change_unit policy) now)"
  by (simp add: assms requirement_matches_def has_current_owner_def planned_requirement_def
      new_approval_requirement_def sensitive_requirement_def planned_attempt_scope_def Let_def comp_def)

subsection \<open>Applying the planned invalidations\<close>

lemma stale_ticket_mutations_jobs: "stale_ticket_mutations selection = map invalidation_job (stale_jobs selection)"
  by (simp add: stale_ticket_mutations_def stale_jobs_def invalidation_job_def Let_def comp_def)

lemma invalidate_write_ticket_replaces:
  fixes rows :: TicketTable and c i reason
  assumes ok: "ticket_table_ok \<lparr>tss_rows = rows, tss_committed_at = clock\<rparr>"
    and r: "r \<in> set rows" "row_is (tmc_project_id c) i r" "wt_status r = WriteTicketStatus.Active"
  defines "rows' \<equiv> map (\<lambda>x. if row_is (tmc_project_id c) i x then invalidated_row reason x else x) rows"
  shows "invalidate_write_ticket \<lparr>wtb_write_ticket_id = i, wtb_invalidation_reason = reason\<rparr> c rows = Ok rows'"
    and "ticket_table_ok \<lparr>tss_rows = rows', tss_committed_at = clock\<rparr>"
proof -
  have keys: "distinct (map row_key rows)" and sound: "list_all row_ok rows" using ok by (auto simp: ticket_table_ok_def)
  have unique: "wt_status x = WriteTicketStatus.Active" "x = r" if "x \<in> set rows" "row_is (tmc_project_id c) i x" for x
    using keys that r by (auto simp: row_is_def row_key_def inj_on_def distinct_map)
  let ?cond = "\<lambda>x. row_is (tmc_project_id c) i x \<and> wt_status x = WriteTicketStatus.Active"
  have "distinct rows" using keys by (simp add: distinct_map)
  then have "filter ?cond rows = [r]"
    by (rule filter_unique[OF _ r(1)]) (use r(2,3) unique(2) in blast)+
  moreover have "map (\<lambda>x. if ?cond x then invalidated_row reason x else x) rows = rows'"
    unfolding rows'_def using unique(1) by (intro map_cong) simp_all
  moreover have "trim i \<noteq> []"
    using sound r by (auto simp: list_all_iff row_ok_iff row_is_def nonempty_stored_identifier_def)
  ultimately show app: "invalidate_write_ticket \<lparr>wtb_write_ticket_id = i, wtb_invalidation_reason = reason\<rparr> c rows = Ok rows'"
    using r find_row_is[OF keys r(1,2)]
    by (simp add: invalidate_write_ticket_def validate_identifier_def ensure_def write_ticket_record_ok[OF sound]
        sql_update_def Let_def)
  show "ticket_table_ok \<lparr>tss_rows = rows', tss_committed_at = clock\<rparr>"
    using invalidate_write_ticket_sound[OF ok order.refl app] by (simp add: sound_update_def)
qed

lemma apply_invalidations:
  assumes "ticket_table_ok \<lparr>tss_rows = ctb_tickets tables, tss_committed_at = clock\<rparr>"
    and "distinct (map fst jobs)"
    and "\<forall>i \<in> set (map fst jobs). \<exists>r \<in> set (ctb_tickets tables).
      row_is (tmc_project_id (cmc_tickets context)) i r \<and> wt_status r = WriteTicketStatus.Active"
  shows "apply_core_mutations context (map invalidation_job jobs) tables = Ok (tables\<lparr>ctb_tickets :=
    map (invalidate_by_jobs (tmc_project_id (cmc_tickets context)) jobs) (ctb_tickets tables)\<rparr>)"
  using assms
proof (induction jobs arbitrary: tables)
  case Nil
  have "invalidate_by_jobs p [] = (\<lambda>r. r)" for p by (simp add: invalidate_by_jobs_def fun_eq_iff)
  then show ?case by (cases tables) simp
next
  case (Cons job jobs)
  let ?p = "tmc_project_id (cmc_tickets context)"
  obtain i reason where job: "job = (i, reason)" by fastforce
  obtain r where r: "r \<in> set (ctb_tickets tables)" "row_is ?p i r" "wt_status r = WriteTicketStatus.Active"
    using Cons.prems(3) job by auto
  let ?rows = "map (\<lambda>x. if row_is ?p i x then invalidated_row reason x else x) (ctb_tickets tables)"
  note first = invalidate_write_ticket_replaces[OF Cons.prems(1) r, of reason]
  have "\<exists>x \<in> set ?rows. row_is ?p j x \<and> wt_status x = WriteTicketStatus.Active" if j: "j \<in> set (map fst jobs)" for j
  proof -
    obtain x where x: "x \<in> set (ctb_tickets tables)" "row_is ?p j x" "wt_status x = WriteTicketStatus.Active"
      using Cons.prems(3) j by auto
    have "\<not> row_is ?p i x" using x(2) j Cons.prems(2) by (auto simp: job row_is_def)
    then show ?thesis using x by (intro bexI[of _ x]) (auto intro: rev_image_eqI)
  qed
  then have "apply_core_mutations context (map invalidation_job jobs) (tables\<lparr>ctb_tickets := ?rows\<rparr>) =
      Ok (tables\<lparr>ctb_tickets := map (invalidate_by_jobs ?p jobs) ?rows\<rparr>)"
    using Cons.IH[of "tables\<lparr>ctb_tickets := ?rows\<rparr>"] first(2) Cons.prems(2) by simp
  moreover have "map_of jobs i = None" using Cons.prems(2) by (simp add: job map_of_eq_None_iff)
  then have "invalidate_by_jobs ?p jobs (if row_is ?p i x then invalidated_row reason x else x) =
      invalidate_by_jobs ?p (job # jobs) x" for x
    by (auto simp: invalidate_by_jobs_def job row_is_def invalidated_row_def)
  ultimately show ?case using first(1) by (simp add: invalidation_job_def[of "(i, reason)"] job comp_def)
qed

lemma mset_map_filter_stale:
  "mset (map fst (stale_jobs (select_prepare_write_candidates evaluations))) =
     mset (List.map_filter stale_ticket_id evaluations)"
  unfolding stale_jobs_def select_prepare_write_candidates_def Let_def
  by (induction evaluations)
    (auto simp: List.map_filter_simps comp_def split: PrepareWriteCandidateEvaluation.splits)

lemma candidate_stale_id:
  assumes "candidate_evaluation env policy scope approvals r = Ok c"
  shows "stale_ticket_id c \<in> {None, Some (wt_write_ticket_id r)}"
    and "\<lbrakk>wt_status r = WriteTicketStatus.Active;
        \<not> write_ticket_is_idle_expired (wt_idle_expires_at r) (pwn_plan_now (pwd_normalized policy));
        vb_write_authority_fingerprint (wt_validity_basis r) \<noteq>
          pwp_write_authority_fingerprint (pwd_workflow_policy policy)\<rbrakk> \<Longrightarrow>
      stale_ticket_id c = Some (wt_write_ticket_id r)"
proof -
  obtain pre where pre: "pre_evaluate_stored_write_ticket (from_record r)
      (pwn_plan_now (pwd_normalized policy)) = Ok pre"
    using assms by (auto simp: candidate_evaluation_def)
  show "stale_ticket_id c \<in> {None, Some (wt_write_ticket_id r)}"
  proof (cases pre)
    case (NeedsCurrentFacts candidate)
    with pre_evaluate_NeedsCurrentFacts[OF pre[unfolded NeedsCurrentFacts]] pre assms show ?thesis
      by (auto simp: candidate_evaluation_def Let_def evaluate_prepare_write_candidate_def
          evaluate_active_candidate_def from_record_def split: if_splits WriteTicketApprovalAssessment.splits)
  qed (use assms pre in \<open>auto simp: candidate_evaluation_def\<close>)
  show "stale_ticket_id c = Some (wt_write_ticket_id r)"
    if "wt_status r = WriteTicketStatus.Active"
      "\<not> write_ticket_is_idle_expired (wt_idle_expires_at r) (pwn_plan_now (pwd_normalized policy))"
      "vb_write_authority_fingerprint (wt_validity_basis r) \<noteq> pwp_write_authority_fingerprint (pwd_workflow_policy policy)"
  proof -
    have "pre = NeedsCurrentFacts (ActiveStoredWriteTicketCandidate
        \<lparr>sts_write_ticket_id = wt_write_ticket_id r, sts_ticket = swf_ticket (from_record r)\<rparr>)"
      using pre that(1,2)
      by (auto simp: pre_evaluate_stored_write_ticket_def from_record_def Let_def split: if_splits)
    then show ?thesis
      using assms pre that(3)
      by (auto simp: candidate_evaluation_def Let_def evaluate_prepare_write_candidate_def policy_invalidated_def
          evaluate_active_candidate_def validity_basis_for_selection_def from_record_def)
  qed
qed

lemma stale_ids_of_records:
  assumes "list_all2 (\<lambda>r c. stale_ticket_id c \<in> {None, Some (wt_write_ticket_id r)}) records evaluations"
    and "distinct (map wt_write_ticket_id records)"
  shows "set (List.map_filter stale_ticket_id evaluations) \<subseteq> wt_write_ticket_id ` set records \<and>
    distinct (List.map_filter stale_ticket_id evaluations)"
  using assms
  by (induction records evaluations rule: list_all2_induct) (auto simp: List.map_filter_simps)

lemma stale_jobs_ready:
  assumes ok: "ticket_table_ok \<lparr>tss_rows = rows, tss_committed_at = clock\<rparr>"
    and records: "active_write_tickets rows p t = Ok records"
    and evaluations: "collect_results (candidate_evaluation env policy scope approvals) records = Ok evaluations"
  defines "jobs \<equiv> stale_jobs (select_prepare_write_candidates evaluations)"
  shows "distinct (map fst jobs)"
    and "\<forall>i \<in> set (map fst jobs). \<exists>r \<in> set rows. row_is p i r \<and> wt_status r = WriteTicketStatus.Active"
    and "\<forall>c \<in> set evaluations. \<forall>i. stale_ticket_id c = Some i \<longrightarrow> i \<in> set (map fst jobs)"
proof -
  have rows: "list_all row_ok rows" "distinct (map row_key rows)" using ok by (auto simp: ticket_table_ok_def)
  have r: "records = filter (\<lambda>r. wt_status r = WriteTicketStatus.Active)
      (sort_key wt_write_ticket_id (filter (\<lambda>r. wt_project_id r = p \<and> wt_task_id r = t) rows))"
    using records active_write_tickets_ok[OF rows(1)] by simp
  have "distinct (map row_key (filter (\<lambda>r. wt_project_id r = p \<and> wt_task_id r = t) rows))"
    using rows(2) by (rule distinct_map_filter)
  then have "distinct (map wt_write_ticket_id records)"
    unfolding r by (auto simp: distinct_map inj_on_def row_key_def)
  moreover have "list_all2 (\<lambda>r c. stale_ticket_id c \<in> {None, Some (wt_write_ticket_id r)}) records evaluations"
    using evaluations unfolding collect_results_Ok_iff by (rule list_all2_mono) (rule candidate_stale_id(1))
  ultimately have stale: "set (List.map_filter stale_ticket_id evaluations) \<subseteq> wt_write_ticket_id ` set records"
    "distinct (List.map_filter stale_ticket_id evaluations)"
    using stale_ids_of_records by blast+
  have m: "mset (map fst jobs) = mset (List.map_filter stale_ticket_id evaluations)"
    unfolding jobs_def by (rule mset_map_filter_stale)
  show "distinct (map fst jobs)" using stale(2) mset_eq_imp_distinct_iff[OF m] by blast
  show "\<forall>i \<in> set (map fst jobs). \<exists>r \<in> set rows. row_is p i r \<and> wt_status r = WriteTicketStatus.Active"
    using stale(1) unfolding mset_eq_setD[OF m] r by (fastforce simp: row_is_def)
  show "\<forall>c \<in> set evaluations. \<forall>i. stale_ticket_id c = Some i \<longrightarrow> i \<in> set (map fst jobs)"
    unfolding mset_eq_setD[OF m] by (auto simp: set_map_filter)
qed

lemma apply_core_mutations_append:
  "apply_core_mutations context (ms @ ms') tables =
     and_then (apply_core_mutations context ms tables) (apply_core_mutations context ms')"
proof (induction ms arbitrary: tables)
  case (Cons m ms)
  then show ?case by (cases "apply_core_mutation context m tables") simp_all
qed simp

lemma control_is_committed:
  assumes ok: "task_tables_ok (ctb_tasks tables)"
    and row: "find (task_is (tkc_project_id (cmc_tasks context)) (task_task_id task))
      (tks_tasks (ctb_tasks tables)) = Some task"
    and mark: "task_policy_control_reevaluation (tkc_from_value (cmc_tasks context)) task = Ok mark"
    and decided: "(t, ms) = decide_write_control task policy normalized (resolve_with_mark task policy mark)"
  shows "\<exists>st' stored. apply_core_mutations context ms tables = Ok (tables\<lparr>ctb_tasks := st'\<rparr>) \<and>
    find (task_is (tkc_project_id (cmc_tasks context)) (task_task_id task)) (tks_tasks st') = Some stored \<and>
    stored = t\<lparr>task_metadata := task_metadata stored\<rparr> \<and>
    task_policy_control_reevaluation (tkc_from_value (cmc_tasks context)) stored = Ok None"
  using decide_write_control_mutations[OF decided]
proof (elim disjE)
  assume none: "ms = [] \<and> t = task \<and> \<not> rtca_policy_reevaluation_marked (resolve_with_mark task policy mark)"
  then have "mark = None" by (simp add: resolve_with_mark_def Let_def split_beta)
  with none row mark show ?thesis
    by (intro exI[of _ "ctb_tasks tables"] exI[of _ task]) simp
next
  assume "\<exists>u. ms = [CoreStorageMutation.Task (UpdateControlLevel u)] \<and> tclu_task_id u = task_task_id task \<and>
      controlled_task u (task_metadata task) task = t \<and>
      tclu_effective_control_level u = task_effective_control_level t \<and>
      tclu_control_level_reason u = next_control_reason task (resolve_with_mark task policy mark)
        (has_denied_path policy (pwn_intended_paths normalized)) (task_effective_control_level t) \<and>
      (tclu_acceptance_policy u = None \<and> tclu_acceptance_policy_reason u = None \<or>
       tclu_acceptance_policy u = Some (task_acceptance_policy t) \<and>
       (\<exists>raised. tclu_acceptance_policy_reason u =
          Some (next_acceptance_reason (resolve_with_mark task policy mark) raised (task_effective_control_level t))))"
  then obtain u where ms: "ms = [CoreStorageMutation.Task (UpdateControlLevel u)]" by blast
  obtain st' md where st': "update_task_control_level u (cmc_tasks context) (ctb_tasks tables) = Ok st'"
    "find (task_is (tkc_project_id (cmc_tasks context)) (task_task_id task)) (tks_tasks st') =
      Some (t\<lparr>task_metadata := md\<rparr>)"
    "task_policy_control_reevaluation (tkc_from_value (cmc_tasks context)) (t\<lparr>task_metadata := md\<rparr>) = Ok None"
    using decided_control_is_stored[OF ok row mark decided[unfolded ms]] by blast
  then show ?thesis
    by (intro exI[of _ st'] exI[of _ "t\<lparr>task_metadata := md\<rparr>"]) (simp add: ms)
qed

lemma collect_results_image:
  assumes "collect_results f xs = Ok ys" "x \<in> set xs"
  shows "\<exists>y \<in> set ys. f x = Ok y"
  using assms unfolding collect_results_Ok_iff by (induction xs ys rule: list_all2_induct) auto

lemma stale_tickets_are_invalidated:
  assumes ok: "ticket_table_ok \<lparr>tss_rows = rows, tss_committed_at = clock\<rparr>"
    and records: "active_write_tickets rows p t = Ok records"
    and evaluations: "collect_results (candidate_evaluation env policy scope approvals) records = Ok evaluations"
  defines "rows' \<equiv> map (invalidate_by_jobs p (stale_jobs (select_prepare_write_candidates evaluations))) rows"
  shows "list_all2 (\<lambda>r r'. r' = r \<or> wt_status r = WriteTicketStatus.Active \<and> (\<exists>reason. r' = invalidated_row reason r)) rows rows'"
    and "\<forall>r' \<in> set rows'. wt_project_id r' = p \<and> wt_task_id r' = t \<and> wt_status r' = WriteTicketStatus.Active \<and>
      \<not> write_ticket_is_idle_expired (wt_idle_expires_at r') (pwn_plan_now (pwd_normalized policy)) \<longrightarrow>
      vb_write_authority_fingerprint (wt_validity_basis r') = pwp_write_authority_fingerprint (pwd_workflow_policy policy)"
proof -
  let ?jobs = "stale_jobs (select_prepare_write_candidates evaluations)"
  note jobs = stale_jobs_ready[OF ok records evaluations]
  have rows: "list_all row_ok rows" "distinct (map row_key rows)" using ok by (auto simp: ticket_table_ok_def)
  have job: "invalidate_by_jobs p ?jobs r = r \<or> wt_status r = WriteTicketStatus.Active \<and>
      (\<exists>reason. invalidate_by_jobs p ?jobs r = invalidated_row reason r)" if "r \<in> set rows" for r
  proof (cases "wt_project_id r = p \<and> wt_write_ticket_id r \<in> set (map fst ?jobs)")
    case True
    then obtain x where x: "x \<in> set rows" "row_is p (wt_write_ticket_id r) x" "wt_status x = WriteTicketStatus.Active"
      using jobs(2) by blast
    then have "x = r" using True rows(2) that by (auto simp: row_is_def row_key_def inj_on_def distinct_map)
    with x(3) show ?thesis by (auto simp: invalidate_by_jobs_def split: option.split)
  next
    case False
    then show ?thesis by (auto simp: invalidate_by_jobs_def map_of_eq_None_iff[symmetric] split: option.split)
  qed
  then show "list_all2 (\<lambda>r r'. r' = r \<or> wt_status r = WriteTicketStatus.Active \<and> (\<exists>reason. r' = invalidated_row reason r)) rows rows'"
    by (simp add: rows'_def list_all2_map2 list_all2_same)
  have kept: "vb_write_authority_fingerprint (wt_validity_basis r) = pwp_write_authority_fingerprint (pwd_workflow_policy policy)"
    if r: "r \<in> set rows" "wt_project_id r = p" "wt_task_id r = t" "wt_status r = WriteTicketStatus.Active"
      "\<not> write_ticket_is_idle_expired (wt_idle_expires_at r) (pwn_plan_now (pwd_normalized policy))"
      "invalidate_by_jobs p ?jobs r = r" for r
  proof (rule ccontr)
    assume outdated: "vb_write_authority_fingerprint (wt_validity_basis r) \<noteq> pwp_write_authority_fingerprint (pwd_workflow_policy policy)"
    have "r \<in> set records" using records active_write_tickets_ok[OF rows(1)] r(1-4) by auto
    then obtain c where c: "c \<in> set evaluations" "candidate_evaluation env policy scope approvals r = Ok c"
      using collect_results_image[OF evaluations] by blast
    then have "wt_write_ticket_id r \<in> set (map fst ?jobs)"
      using jobs(3) candidate_stale_id(2)[OF c(2) r(4,5) outdated] by blast
    then obtain reason where "map_of ?jobs (wt_write_ticket_id r) = Some reason"
      by (metis map_of_eq_None_iff not_None_eq list.set_map)
    then have "wt_status (invalidate_by_jobs p ?jobs r) = WriteTicketStatus.Invalidated"
      using r(2) by (simp add: invalidate_by_jobs_def invalidated_row_def)
    with r(4,6) show False by simp
  qed
  show "\<forall>r' \<in> set rows'. wt_project_id r' = p \<and> wt_task_id r' = t \<and> wt_status r' = WriteTicketStatus.Active \<and>
      \<not> write_ticket_is_idle_expired (wt_idle_expires_at r') (pwn_plan_now (pwd_normalized policy)) \<longrightarrow>
      vb_write_authority_fingerprint (wt_validity_basis r') = pwp_write_authority_fingerprint (pwd_workflow_policy policy)"
    using kept job unfolding rows'_def by (fastforce simp: invalidated_row_def)
qed

lemma sample_outdated_ok:
  "ticket_table_ok \<lparr>tss_rows = [sample_outdated_ticket], tss_committed_at = 250\<rparr>"
  by code_simp

section \<open>Properties\<close>

text \<open>C2: A write that planning allows is authorized in every respect.  The task and change unit are the
  current ones, the task is not advisory and is in its implementation phase; every intended path is
  a normalized path inside the repository and below a bound of the change unit; the effect contract,
  the baseline and the Git workspace agree; no pending user action that guards scope, phase or write
  is open; denied paths and declared categories force sensitive control; and under sensitive control
  the local user has approved exactly this operation, also when an earlier ticket is reused.  Stored
  tickets allow no more than they intend, as every issued ticket does.
\<close>

theorem allowed_write_is_authorized:
  assumes plan: "plan_prepare_write env store input now = Ok outcome"
    and allowed: "pwc_decision (pwo_common outcome) = PrepareWriteDecision.Allowed"
    and tickets: "\<forall>r \<in> set (pws_tickets store).
      set (allowed (wt_path_scope r)) \<subseteq> set (as_intended_paths (wt_attempt_scope r))"
  shows "\<exists>task change_unit.
    pws_task_record store (pwi_task_id input) = Some task \<and>
    pws_current_change_unit store (pwi_task_id input) = Some change_unit \<and>
    pwi_task_is_current input \<and>
    (\<forall>i. pwi_requested_change_unit_id input = Some i \<longrightarrow> i = cu_change_unit_id change_unit) \<and>
    task_mode task \<noteq> TaskMode.Advisor \<and> task_work_phase task = WorkPhase.Implementation \<and>
    pwi_product_file_write_intended input = (pwi_intended_paths input \<noteq> []) \<and>
    workspace_context_matches change_unit (pwi_git_workspace_context input) \<and>
    baseline_matches change_unit task (pwi_baseline_ref input) \<and>
    (\<forall>path \<in> set (pwi_intended_paths input). normalized_path path \<and>
       opr_observe_path (pe_repository env) (ProductRelativePath path) = Ok () \<and>
       (\<exists>bound \<in> set (cu_bounded_paths change_unit). path_is_within path bound)) \<and>
    (\<forall>contract. cu_effect_contract change_unit = Some contract \<longrightarrow>
       product_write_violations contract (pwi_product_file_write_intended input)
         (pwi_intended_paths input) = Ok []) \<and>
    (\<forall>a \<in> set (pws_pending_authorities store (pwi_task_id input)).
       ua_status a = UserActionStatus.Pending \<and> user_action_has_current_basis a \<and>
       ua_task_id a = pwi_task_id input \<longrightarrow>
       set (ua_required_for a) \<inter> {UserActionRequiredFor.ScopeUpdate, UserActionRequiredFor.AdvanceTask,
         UserActionRequiredFor.PrepareWrite} = {}) \<and>
    task_effective_control_level task \<le> task_effective_control_level (pwc_task (pwo_common outcome)) \<and>
    TaskControlLevel.Light \<le> task_effective_control_level (pwc_task (pwo_common outcome)) \<and>
    (has_denied_path (pws_workflow_policy store) (pwi_intended_paths input) \<or>
       normalized_string_set (pwi_sensitive_categories input) \<noteq> [] \<longrightarrow>
     task_effective_control_level (pwc_task (pwo_common outcome)) = TaskControlLevel.Sensitive) \<and>
    (task_effective_control_level (pwc_task (pwo_common outcome)) = TaskControlLevel.Sensitive \<longrightarrow>
     (\<exists>a \<in> set (pws_sensitive_approvals store (pwi_task_id input)).
        ua_project_id a = pwi_project_id input \<and> ua_task_id a = pwi_task_id input \<and>
        ua_resolved_by_actor_source a = Some ActorSource.LocalUser \<and>
        current_sensitive_approval a \<lparr>
          req_task_id = pwi_task_id input, req_change_unit_id = cu_change_unit_id change_unit,
          req_scope_revision = task_scope_revision task,
          req_operation = trim (pwi_intended_operation input),
          req_normalized_paths = pwi_intended_paths input,
          req_sensitive_categories = normalized_string_set (pwi_sensitive_categories input),
          req_baseline_ref = Some (pwi_baseline_ref input),
          req_required_for = UserActionRequiredFor.PrepareWrite, req_now = now\<rparr>))"
proof -
  obtain task change_unit mark policy where planned: "planned_with env store input now task change_unit mark policy"
    and m: "plan_prepare_write_mutations env store policy = Ok outcome"
    by (rule plan_prepare_write_Ok[OF plan])
  note p = planned_withD[OF planned]
  have "\<forall>path \<in> set (pwn_intended_paths (pwd_normalized policy)). normalized_path path" using p(7) by (simp add: p(6))
  note clean = allowed_plan[OF m allowed tickets this]
  have "\<exists>a \<in> set (pws_sensitive_approvals store (pwi_task_id input)). ua_project_id a = pwi_project_id input \<and>
      ua_task_id a = pwi_task_id input \<and> ua_resolved_by_actor_source a = Some ActorSource.LocalUser \<and>
      current_sensitive_approval a (write_requirement input task change_unit now)"
    if "task_effective_control_level (pwd_task policy) = TaskControlLevel.Sensitive"
    using clean(6) that matching_approval_is_the_users decided_requirement_matches[OF p(6,10)]
    by (auto simp: p(6,8) approval_is_required_def planned_requirement_def new_approval_requirement_def)
  moreover note clean_scope[OF clean(3)] clean(1,4) clean_pending[OF clean(5)]
    decided_control_bounds[OF p(4,5)]
  ultimately show ?thesis
    using p(1,2,7) clean(2) planned
    by (intro exI[of _ task] exI[of _ change_unit])
      (simp add: p(6,8,11) planned_with_def baseline_matches_def stored_scope_baseline_ref_def)
qed

theorem allowed_write_is_authorized_witness:
  "\<exists>outcome. plan_prepare_write sample_environment (sample_planning_store []) sample_prepare_input 300 = Ok outcome \<and>
     pwc_decision (pwo_common outcome) = PrepareWriteDecision.Allowed \<and>
     task_effective_control_level (pwc_task (pwo_common outcome)) = TaskControlLevel.Sensitive \<and>
     (\<exists>a \<in> set (pws_sensitive_approvals (sample_planning_store []) ''task_1'').
        ua_resolved_by_actor_source a = Some ActorSource.LocalUser)"
proof -
  let ?plan = "plan_prepare_write sample_environment (sample_planning_store []) sample_prepare_input 300"
  have "case ?plan of Ok outcome \<Rightarrow> pwc_decision (pwo_common outcome) = PrepareWriteDecision.Allowed | Err _ \<Rightarrow> False"
    by code_simp
  then obtain outcome where plan: "?plan = Ok outcome"
    and allowed: "pwc_decision (pwo_common outcome) = PrepareWriteDecision.Allowed" by (cases ?plan) auto
  have "\<forall>r \<in> set (pws_tickets (sample_planning_store [])).
      set (allowed (wt_path_scope r)) \<subseteq> set (as_intended_paths (wt_attempt_scope r))"
    by (simp add: sample_planning_store_def)
  moreover have "normalized_string_set (pwi_sensitive_categories sample_prepare_input) \<noteq> []"
    "pwi_task_id sample_prepare_input = ''task_1''" by code_simp+
  ultimately show ?thesis
    using allowed_write_is_authorized[OF plan allowed] plan allowed by auto
qed

text \<open>C3: What planning decides is what the store ends up with.  Committed to the tables it was planned
  against, every planned mutation succeeds; the stored task is the decided one with no policy
  reevaluation left pending; every ticket is either untouched or an active one that is now
  invalidated; and every active ticket of the task that remains and is not idle-expired carries the
  current policy fingerprint.
\<close>

theorem planned_preparation_commits:
  assumes plan: "plan_prepare_write env store input now = Ok outcome"
    and tasks: "task_tables_ok (ctb_tasks tables)"
    and tickets: "ticket_table_ok \<lparr>tss_rows = ctb_tickets tables, tss_committed_at = clock\<rparr>"
    and read: "pws_tickets store = ctb_tickets tables"
      "pws_task_record store (pwi_task_id input) =
        find (task_is (pws_project_id store) (pwi_task_id input)) (tks_tasks (ctb_tasks tables))"
    and written: "tkc_project_id (cmc_tasks context) = pws_project_id store"
      "tmc_project_id (cmc_tickets context) = pws_project_id store"
      "tkc_from_value (cmc_tasks context) = pe_from_value env"
  shows "\<exists>tables' stored. apply_core_mutations context (pwo_storage_mutations outcome) tables = Ok tables' \<and>
    find (task_is (pws_project_id store) (pwi_task_id input)) (tks_tasks (ctb_tasks tables')) = Some stored \<and>
    stored = (pwc_task (pwo_common outcome))\<lparr>task_metadata := task_metadata stored\<rparr> \<and>
    task_policy_control_reevaluation (pe_from_value env) stored = Ok None \<and>
    list_all2 (\<lambda>r r'. r' = r \<or> wt_status r = WriteTicketStatus.Active \<and> (\<exists>reason. r' = invalidated_row reason r))
      (ctb_tickets tables) (ctb_tickets tables') \<and>
    (\<forall>r' \<in> set (ctb_tickets tables'). wt_project_id r' = pws_project_id store \<and> wt_task_id r' = pwi_task_id input \<and>
       wt_status r' = WriteTicketStatus.Active \<and> \<not> write_ticket_is_idle_expired (wt_idle_expires_at r') now \<longrightarrow>
       vb_write_authority_fingerprint (wt_validity_basis r') =
         pwp_write_authority_fingerprint (pws_workflow_policy store))"
proof -
  obtain task change_unit mark policy where planned: "planned_with env store input now task change_unit mark policy"
    and m: "plan_prepare_write_mutations env store policy = Ok outcome"
    by (rule plan_prepare_write_Ok[OF plan])
  note p = planned_withD[OF planned]
  let ?approvals = "pws_sensitive_approvals store (decided_task_id policy)"
  obtain records evaluations where
    records: "active_write_tickets (ctb_tickets tables) (pws_project_id store) (pwi_task_id input) = Ok records"
    and evaluations: "collect_results (candidate_evaluation env policy (decided_scope policy) ?approvals) records = Ok evaluations"
    and out: "pwc_task (pwo_common outcome) = pwd_task policy"
      "pwo_storage_mutations outcome = pwd_control_mutations policy @
        map invalidation_job (stale_jobs (select_prepare_write_candidates evaluations))"
    by (rule plan_prepare_write_mutations_Ok[OF m]) (simp add: p(6) read stale_ticket_mutations_jobs)
  have id: "task_task_id task = pwi_task_id input"
    using p(1) read(2) by (auto simp: find_Some_iff task_is_def)
  obtain st' stored where st': "apply_core_mutations context (pwd_control_mutations policy) tables = Ok (tables\<lparr>ctb_tasks := st'\<rparr>)"
    "find (task_is (pws_project_id store) (pwi_task_id input)) (tks_tasks st') = Some stored"
    "stored = (pwd_task policy)\<lparr>task_metadata := task_metadata stored\<rparr>"
    "task_policy_control_reevaluation (pe_from_value env) stored = Ok None"
    using control_is_committed[OF tasks _ _ p(4), of "context"] p(1,3) read(2) by (auto simp: written id)
  let ?tables = "tables\<lparr>ctb_tasks := st', ctb_tickets := map (invalidate_by_jobs (pws_project_id store)
    (stale_jobs (select_prepare_write_candidates evaluations))) (ctb_tickets tables)\<rparr>"
  have "apply_core_mutations context (pwo_storage_mutations outcome) tables = Ok ?tables"
    using apply_invalidations[of "tables\<lparr>ctb_tasks := st'\<rparr>" clock _ "context"] tickets
      stale_jobs_ready(1,2)[OF tickets records evaluations]
    by (simp add: out(2) apply_core_mutations_append st'(1) written)
  then show ?thesis
    using st'(2-4) stale_tickets_are_invalidated[OF tickets records evaluations]
    by (intro exI[of _ ?tables] exI[of _ stored]) (simp add: out(1) p(6,9))
qed

theorem planned_preparation_commits_witness:
  "\<exists>outcome tables'. plan_prepare_write sample_environment (sample_planning_store [sample_outdated_ticket])
       sample_prepare_input 300 = Ok outcome \<and> length (pwo_storage_mutations outcome) = 2 \<and>
     apply_core_mutations sample_core_context (pwo_storage_mutations outcome)
       \<lparr>ctb_tasks = sample_task_tables, ctb_tickets = [sample_outdated_ticket]\<rparr> = Ok tables'"
proof -
  let ?plan = "plan_prepare_write sample_environment (sample_planning_store [sample_outdated_ticket])
    sample_prepare_input 300"
  have two: "case ?plan of Ok outcome \<Rightarrow> length (pwo_storage_mutations outcome) = 2 | Err _ \<Rightarrow> False" by code_simp
  then obtain outcome where plan: "?plan = Ok outcome" by (cases ?plan) auto
  let ?tables = "\<lparr>ctb_tasks = sample_task_tables, ctb_tickets = [sample_outdated_ticket]\<rparr>"
  have "\<exists>tables'. apply_core_mutations sample_core_context (pwo_storage_mutations outcome) ?tables = Ok tables'"
    using planned_preparation_commits[OF plan, of ?tables 250 sample_core_context] sample_task_tables_ok sample_outdated_ok
    by (auto simp: sample_planning_store_def sample_core_context_def sample_task_context_def
        sample_ticket_context_def sample_environment_def)
  with plan two show ?thesis by simp
qed

end
