(* ===== verification/WriteLifecycle.thy ===== *)
theory WriteLifecycle
  imports PrepareWrite
begin

text \<open>
  What becomes of a planned write: the ticket a plan issues is materialized, stored and found again by
  a retry (\<open>write_ticket/planning.rs\<close> together with \<open>core_pipeline/write_tickets.rs\<close>), and the two
  boundary cases of planning, a path named twice and the expiry of a ticket.
\<close>

section \<open>Vocabulary of the properties\<close>

text \<open>The row an issued ticket is stored as.\<close>

definition issued_row :: "PlannedWriteTicket \<Rightarrow> u64 \<Rightarrow> StoredWriteTicket" where
  "issued_row ticket version = active_write_ticket_record (pwt_project_id ticket) (persistence_input ticket) version"

definition sample_policy_document :: "u64 \<Rightarrow> WorkflowPolicyDocument" where
  "sample_policy_document minutes = \<lparr>
     doc_repo_root = ''/repo'', doc_connection_id = ''conn_1'', doc_guard_installation_id = ''guard_1'',
     doc_mcp_command = ''volicord'', doc_host_hook_enabled = True, doc_host_hook_commands = (\<lambda>_. ''hook''),
     doc_workflow = \<lparr>
       wps_default_direct_control = TaskControlLevel.Tracked, wps_default_work_control = TaskControlLevel.Tracked,
       wps_light = \<lparr>lwps_enabled = False, lwps_max_intended_paths = 3, lwps_allowed_path_patterns = [],
         lwps_denied_path_patterns = [], lwps_final_acceptance = AcceptancePolicy.Required\<rparr>,
       wps_idle_timeout_minutes = Some minutes\<rparr>\<rparr>"

section \<open>Lemmas\<close>

lemma validate_planned_write_ticket_Ok:
  assumes "validate_planned_write_ticket t = Ok u"
  defines "basis \<equiv> pwt_validity_basis t" and "scope \<equiv> pwt_attempt_scope t"
  shows "trim (pwt_project_id t) \<noteq> []" "trim (vb_task_id basis) \<noteq> []" "trim (vb_change_unit_id basis) \<noteq> []"
    "trim (pwt_write_ticket_id t) \<noteq> []"
    "\<And>i. pwt_created_by_user_action_resolution_id t = Some i \<Longrightarrow> trim i \<noteq> []"
    "pwt_basis_state_version t \<noteq> 0" "vb_scope_revision basis \<noteq> 0" "trim (as_intended_operation scope) \<noteq> []"
    "canonical_write_authority_fingerprint (vb_write_authority_fingerprint basis)"
    "\<And>digest. vb_workspace_context_sha256 basis = Some digest \<Longrightarrow> lowercase_sha256_hex digest"
    "vb_task_id basis = as_task_id scope" "vb_change_unit_id basis = as_change_unit_id scope"
    "vb_scope_revision basis \<le> pwt_basis_state_version t" "vb_baseline_ref basis = as_baseline_ref scope"
    "\<And>e. pwt_idle_expires_at t = Some e \<Longrightarrow> pwt_created_at t < e \<and> canonical_rfc3339_representable e"
    "canonical_rfc3339_representable (pwt_created_at t)" "distinct (as_intended_paths scope)"
    "\<forall>p \<in> set (as_intended_paths scope). (\<exists>a \<in> set (allowed (pwt_path_scope t)). is_within p a) \<and>
      (\<forall>d \<in> set (denied (pwt_path_scope t)). \<not> is_within p d)"
    "as_product_file_write_intended scope = (as_intended_paths scope \<noteq> [])"
  using assms(1) unfolding validate_planned_write_ticket_def Let_def basis_def[symmetric] scope_def[symmetric]
    and_then_Ok_iff ensure_Ok_iff
  by (auto simp: is_some_and_iff not_less not_le length_btree_set_eq_iff list_ex_iff
      planned_write_authority_fingerprint_def canonical_write_authority_fingerprint_def
      planned_lowercase_sha256_hex_def lowercase_sha256_hex_def)

lemma issue_ticket_Ok:
  assumes "issue_ticket env policy scope basis = Ok (Issue draft)"
  shows "distinct (as_intended_paths scope)"
    and "draft_path_scope draft = \<lparr>allowed = as_intended_paths scope, denied = []\<rparr>"
    and "draft_attempt_scope draft = scope" and "draft_approval_basis draft = basis"
    and "draft_project_id draft = pwi_project_id (pwn_input (pwd_normalized policy))"
    and "draft_task_id draft = decided_task_id policy"
    and "draft_change_unit_id draft = cu_change_unit_id (pwd_change_unit policy)"
    and "draft_scope_revision draft = task_scope_revision (pwd_task policy)"
    and "draft_baseline_ref draft = pwi_baseline_ref (pwn_input (pwd_normalized policy))"
    and "draft_workspace_context_sha256 draft = vb_workspace_context_sha256 (validity_basis_for_selection env policy)"
    and "draft_write_authority_fingerprint draft = pwp_write_authority_fingerprint (pwd_workflow_policy policy)"
    and "draft_created_by_user_action_resolution_id draft =
      map_option (\<lambda>basis. identity_resolution_id (nab_primary basis)) basis"
    and "draft_created_at draft = pwn_plan_now (pwd_normalized policy)"
  using assms
  by (auto simp: issue_ticket_def Let_def write_ticket_path_scope_def new_path_scope_Ok_iff)

lemma choose_ticket_Issue:
  assumes "choose_ticket env policy scope basis reasons selection = Ok (Issue draft)"
  shows "selection = None_compatible" "reasons = []" "issue_ticket env policy scope basis = Ok (Issue draft)"
  using assms
  by (auto simp: choose_ticket_def refuse_ticket_def Let_def split: CompatibleWriteTicketSelection.splits if_splits)

lemma refs_of_current_basis:
  assumes "current_write_ticket_approval_basis requirement approvals = Some basis"
  obtains identity a where "basis = one_approval_basis identity" "a \<in> set approvals"
    "requirement_matches requirement a" "authority_resolution_identity a = Some identity"
proof -
  obtain identity rest where ids: "csa_identities (new_current_approvals approvals requirement) = identity # rest"
    "basis = one_approval_basis identity"
    using assms by (auto simp: current_write_ticket_approval_basis_def primary_basis_def split: list.splits)
  then have "identity \<in> set (csa_identities (new_current_approvals approvals requirement))" by simp
  with ids(2) that show ?thesis unfolding csa_identities_iff by blast
qed


text \<open>Whatever the planner materializes decodes as a row of the store.\<close>

lemma materialize_Ok:
  assumes "materialize_planned_write_ticket draft i version projection = Ok ticket"
  shows "ticket = planned_write_ticket_of_draft draft i version projection"
    and "validate_planned_write_ticket ticket = Ok ()"
  using assms by (auto simp: materialize_planned_write_ticket_def Let_def)

lemma issued_row_ok:
  assumes issue: "issue_ticket env policy scope (current_write_ticket_approval_basis requirement approvals) = Ok (Issue draft)"
    and ticket: "materialize_planned_write_ticket draft i version projection = Ok ticket"
    and owner: "war_project_id requirement = pwi_project_id (pwn_input (pwd_normalized policy))"
      "as_task_id (war_scope requirement) = decided_task_id policy"
  shows "row_ok (issued_row ticket version)"
proof -
  note d = issue_ticket_Ok[OF issue] and t = materialize_Ok(1)[OF ticket]
  note v = validate_planned_write_ticket_Ok[OF materialize_Ok(2)[OF ticket]]
  have fields: "pwt_basis_state_version ticket = version"
    "pwt_path_scope ticket = \<lparr>allowed = as_intended_paths scope, denied = []\<rparr>" "pwt_attempt_scope ticket = scope"
    by (simp_all add: t planned_write_ticket_of_draft_def d)
  have refs: "(\<forall>ref \<in> set (vb_approval_basis_refs (pwt_validity_basis ticket)).
        resolution_ref_project_id ref = pwt_project_id ticket \<and>
        resolution_ref_task_id ref = vb_task_id (pwt_validity_basis ticket) \<and>
        trim (resolution_ref_record_id ref) \<noteq> []) \<and>
      distinct (map resolution_identity (vb_approval_basis_refs (pwt_validity_basis ticket)))"
  proof (cases "current_write_ticket_approval_basis requirement approvals")
    case (Some basis)
    obtain identity a where a: "basis = one_approval_basis identity" "requirement_matches requirement a"
      "authority_resolution_identity a = Some identity"
      by (rule refs_of_current_basis[OF Some])
    have "trim (identity_resolution_id identity) \<noteq> []"
      using v(5) Some a(1) by (simp add: t planned_write_ticket_of_draft_def d(12) one_approval_basis_def)
    with a Some owner show ?thesis
      by (auto simp: t planned_write_ticket_of_draft_def d(4-6) resolution_refs_def one_approval_basis_def
          requirement_matches_def has_current_owner_def authority_resolution_identity_def)
  qed (simp add: t planned_write_ticket_of_draft_def d(4))
  show ?thesis
    unfolding row_ok_iff write_ticket_wf_def Let_def
    using v refs d(1)
    by (simp add: issued_row_def active_write_ticket_record_def persistence_input_def fields
        nonempty_stored_identifier_def path_scope_constructed_def new_path_scope_Ok_iff
        status_columns_are_valid_def optional_identifier_def is_some_and_iff list_ex_iff)
qed


text \<open>The issued row is a compatible candidate for the request it was issued for.\<close>

lemma current_basis_is_current:
  assumes "current_write_ticket_approval_basis requirement approvals = basis"
    and "approval_is_required requirement \<Longrightarrow> basis \<noteq> None"
  shows "assess_write_ticket_approval requirement approvals
      (case basis of None \<Rightarrow> [] | Some b \<Rightarrow> resolution_refs b projection) \<noteq> WriteTicketApprovalAssessment.Changed reason"
proof (cases basis)
  case None
  moreover have "from_store_valid_refs [] = None" by (simp add: from_store_valid_refs_None)
  ultimately show ?thesis using assms(2) by (auto simp: assess_write_ticket_approval_def Let_def)
next
  case (Some b)
  obtain identity a where a: "b = one_approval_basis identity" "a \<in> set approvals"
    "requirement_matches requirement a" "authority_resolution_identity a = Some identity"
    by (rule refs_of_current_basis[of requirement approvals b]) (use assms(1) Some in auto)
  have "identity \<in> set (csa_identities (new_current_approvals approvals requirement))"
    using a(2-4) unfolding csa_identities_iff by blast
  moreover have "from_store_valid_refs (resolution_refs b projection) =
      Some \<lparr>nab_identities = [identity], nab_primary = identity\<rparr>"
    by (simp add: a(1) from_store_valid_refs_def resolution_refs_def one_approval_basis_def identity_set_def
        resolution_identity_def)
  ultimately show ?thesis using Some by (simp add: assess_write_ticket_approval_def Let_def)
qed

lemma paths_reuse_themselves: "paths_are_reusable \<lparr>allowed = paths, denied = []\<rparr> paths"
  by (auto simp: paths_are_reusable_def list_all_iff list_ex_iff is_within_def)

lemma issued_row_is_compatible:
  fixes policy :: PrepareWritePolicyDecision
  defines "requirement \<equiv> decided_requirement policy"
  assumes issue: "issue_ticket env policy (decided_scope policy)
      (current_write_ticket_approval_basis requirement approvals) = Ok (Issue draft)"
    and ticket: "materialize_planned_write_ticket draft i version projection = Ok ticket"
    and approved: "approval_is_required requirement \<Longrightarrow>
      current_write_ticket_approval_basis requirement approvals \<noteq> None"
  shows "candidate_evaluation env policy (decided_scope policy) approvals (issued_row ticket version) =
    Ok (Compatible (ReusableStoredWriteTicket \<lparr>sts_write_ticket_id = i,
      sts_ticket = swf_ticket (from_record (issued_row ticket version))\<rparr>))"
proof -
  let ?r = "issued_row ticket version" and ?now = "pwn_plan_now (pwd_normalized policy)"
  note d = issue_ticket_Ok[OF issue] and t = materialize_Ok(1)[OF ticket]
  note v = validate_planned_write_ticket_Ok[OF materialize_Ok(2)[OF ticket]]
  have r: "wt_write_ticket_id ?r = i" "wt_status ?r = WriteTicketStatus.Active" "wt_invalidation_reason ?r = None"
    "wt_consumed_by_run_id ?r = None" "wt_attempt_scope ?r = decided_scope policy"
    "wt_path_scope ?r = \<lparr>allowed = as_intended_paths (decided_scope policy), denied = []\<rparr>"
    "wt_idle_expires_at ?r = pwt_idle_expires_at ticket" "pwt_created_at ticket = ?now"
    by (simp_all add: issued_row_def active_write_ticket_record_def persistence_input_def t
        planned_write_ticket_of_draft_def d)
  have basis: "wt_validity_basis ?r = (validity_basis_for_selection env policy)\<lparr>vb_approval_basis_refs :=
      (case current_write_ticket_approval_basis requirement approvals of None \<Rightarrow> []
        | Some b \<Rightarrow> resolution_refs b projection)\<rparr>"
    by (simp add: issued_row_def active_write_ticket_record_def persistence_input_def t
        planned_write_ticket_of_draft_def d validity_basis_for_selection_def Let_def)
  have "\<not> write_ticket_is_idle_expired (wt_idle_expires_at ?r) ?now"
    using v(15) by (auto simp: r(7,8) write_ticket_is_idle_expired_def is_some_and_iff)
  then have pre: "pre_evaluate_stored_write_ticket (from_record ?r) ?now = Ok (NeedsCurrentFacts
      (ActiveStoredWriteTicketCandidate \<lparr>sts_write_ticket_id = i, sts_ticket = swf_ticket (from_record ?r)\<rparr>))"
    by (simp add: pre_evaluate_stored_write_ticket_def from_record_def r(1-4))
  define assessment where "assessment = assess_write_ticket_approval
    (planned_requirement policy (wt_attempt_scope ?r)) approvals (vb_approval_basis_refs (wt_validity_basis ?r))"
  have unchanged: "assessment \<noteq> WriteTicketApprovalAssessment.Changed reason" for reason
    using current_basis_is_current[OF refl approved] by (simp add: assessment_def r(5) basis requirement_def)
  have "evaluate_active_candidate (ActiveStoredWriteTicketCandidate
      \<lparr>sts_write_ticket_id = i, sts_ticket = swf_ticket (from_record ?r)\<rparr>)
      \<lparr>wcf_pending_policy_reevaluation = False, wcf_write_authority_fingerprint =
        vb_write_authority_fingerprint (validity_basis_for_selection env policy)\<rparr> assessment =
      ActiveStoredWriteTicketEvaluation.Reusable (ReusableStoredWriteTicket
        \<lparr>sts_write_ticket_id = i, sts_ticket = swf_ticket (from_record ?r)\<rparr>)"
    by (cases assessment)
      (use unchanged in \<open>simp_all add: evaluate_active_candidate_def Let_def from_record_def basis\<close>)
  with pre show ?thesis
    by (simp add: candidate_evaluation_def Let_def evaluate_prepare_write_candidate_def policy_invalidated_def
        from_record_def assessment_def basis r(5,6) basis_is_reusable_def scope_is_reusable_def paths_reuse_themselves)
qed

text \<open>Adding a row of the task adds one candidate.\<close>

lemma active_write_tickets_added:
  assumes "active_write_tickets rows p t = Ok records" "row_ok r" "wt_status r = WriteTicketStatus.Active"
    "wt_project_id r = p" "wt_task_id r = t"
  shows "\<exists>records'. active_write_tickets (rows @ [r]) p t = Ok records' \<and> mset records' = add_mset r (mset records)"
proof -
  let ?own = "\<lambda>rows. sort_key wt_write_ticket_id (filter (\<lambda>r. wt_project_id r = p \<and> wt_task_id r = t) rows)"
  let ?active = "filter (\<lambda>r. wt_status r = WriteTicketStatus.Active)"
  obtain decoded where decoded: "list_all2 (\<lambda>x y. row_ok x \<and> y = x) (?own rows) decoded" "records = ?active decoded"
    using assms(1) by (auto simp: active_write_tickets_def collect_results_Ok_iff decode_write_ticket_record_Ok)
  then have own: "decoded = ?own rows" by (intro nth_equalityI) (simp_all add: list_all2_conv_all_nth)
  have "list_all row_ok (?own rows)" using decoded(1) unfolding own by (simp add: list_all2_same list_all_iff)
  then have "list_all row_ok (?own (rows @ [r]))" using assms(2) by (auto simp: list_all_iff)
  then have "active_write_tickets (rows @ [r]) p t = Ok (?active (?own (rows @ [r])))"
    using collect_decode_ok by (simp add: active_write_tickets_def)
  moreover have "mset (?active (?own (rows @ [r]))) = add_mset r (mset records)"
    using assms(3-5) by (simp add: decoded(2) own mset_filter)
  ultimately show ?thesis by blast
qed

lemma only_compatible_candidate:
  assumes "mset evaluations' = add_mset (Compatible t) (mset evaluations)"
    and "sel_compatibility (select_prepare_write_candidates evaluations) = None_compatible"
  shows "sel_compatibility (select_prepare_write_candidates evaluations') = One t"
proof -
  let ?f = "\<lambda>c. case c of Compatible t \<Rightarrow> Some t | _ \<Rightarrow> None"
  have "mset (List.map_filter ?f evaluations') = add_mset t (mset (List.map_filter ?f evaluations))"
    unfolding List.map_filter_def mset_map mset_filter assms(1) by simp
  moreover have "List.map_filter ?f evaluations = []"
    using assms(2) by (auto simp: select_prepare_write_candidates_def Let_def split: list.splits)
  ultimately have "List.map_filter ?f evaluations' = [t]" by simp
  then show ?thesis by (simp add: select_prepare_write_candidates_def)
qed

lemma collect_results_mset:
  assumes "collect_results f xs = Ok ys" "mset xs' = add_mset x (mset xs)" "f x = Ok y"
  shows "\<exists>ys'. collect_results f xs' = Ok ys' \<and> mset ys' = add_mset y (mset ys)"
proof -
  define g where "g = (\<lambda>z. case f z of Ok y \<Rightarrow> y | Err _ \<Rightarrow> y)"
  have "f z = Ok (g z)" if "z \<in> set xs" for z
    using collect_results_image[OF assms(1) that] by (auto simp: g_def)
  moreover have set: "set xs' = insert x (set xs)" using assms(2) by (metis set_mset_add_mset_insert set_mset_mset)
  ultimately have "list_all2 (\<lambda>z y. f z = Ok y) xs' (map g xs')"
    using assms(3) by (auto simp: list_all2_map2 list_all2_same g_def)
  moreover have "ys = map g xs"
    using assms(1) by (intro nth_equalityI) (auto simp: collect_results_Ok_iff list_all2_conv_all_nth g_def)
  moreover have "mset (map g xs') = add_mset y (mset (map g xs))"
    unfolding mset_map assms(2) using assms(3) by (simp add: g_def)
  ultimately show ?thesis unfolding collect_results_Ok_iff by blast
qed

lemma plan_with_other_tickets:
  assumes "plan_prepare_write env store input now = Ok outcome"
  obtains policy where "pwd_normalized policy = normalized_request input now"
    "plan_prepare_write_mutations env store policy = Ok outcome"
    "\<And>rows. plan_prepare_write env (store\<lparr>pws_tickets := rows\<rparr>) input now =
      plan_prepare_write_mutations env (store\<lparr>pws_tickets := rows\<rparr>) policy"
proof -
  obtain normalized resolved policy where stages:
      "normalize_prepare_write_input env input now = Ok normalized"
      "resolve_prepare_write_context store normalized = Ok resolved"
      "decide_prepare_write_policy env store resolved = Ok policy"
      "plan_prepare_write_mutations env store policy = Ok outcome"
    using assms by (auto simp: plan_prepare_write_def)
  have "pwr_normalized resolved = normalized"
    by (rule resolve_prepare_write_context_Ok[OF stages(2)])
  then have "pwd_normalized policy = normalized_request input now"
    using normalize_prepare_write_input_Ok(1)[OF stages(1)]
    by (metis decide_prepare_write_policy_Ok[OF stages(3)])
  moreover have "resolve_prepare_write_context (store\<lparr>pws_tickets := rows\<rparr>) normalized = Ok resolved"
    "decide_prepare_write_policy env (store\<lparr>pws_tickets := rows\<rparr>) resolved = Ok policy" for rows
    using stages(2,3)
    by (simp_all add: resolve_prepare_write_context_def load_prepare_write_task_def decide_prepare_write_policy_def)
  ultimately show ?thesis using stages(1,4) by (intro that[of policy]) (simp_all add: plan_prepare_write_def)
qed

lemma planned_paths_typed:
  "plan_prepare_write_mutations env store policy = Ok outcome \<Longrightarrow>
     typed_product_paths (pwn_intended_paths (pwd_normalized policy)) =
       Ok (map ProductRelativePath (pwn_intended_paths (pwd_normalized policy)))"
  by (auto simp: plan_prepare_write_mutations_def Let_def dest: typed_product_paths_Ok)

text \<open>What planning knows when it issues a ticket.\<close>

lemma issued_plan:
  assumes m: "plan_prepare_write_mutations env store policy = Ok outcome" and issue: "pwo_ticket outcome = Issue draft"
  defines "approvals \<equiv> pws_sensitive_approvals store (decided_task_id policy)"
  obtains records evaluations where
    "contract_reasons policy = Ok []" "pwd_reasons policy = []" "scope_reasons policy = []"
    "pending_user_action_request_ids store policy (decided_requirement policy) = []"
    "approval_is_required (decided_requirement policy) \<longrightarrow>
      current_write_ticket_approval_basis (decided_requirement policy) approvals \<noteq> None"
    "active_write_tickets (pws_tickets store) (pws_project_id store) (decided_task_id policy) = Ok records"
    "collect_results (candidate_evaluation env policy (decided_scope policy) approvals) records = Ok evaluations"
    "sel_compatibility (select_prepare_write_candidates evaluations) = None_compatible"
    "issue_ticket env policy (decided_scope policy)
      (current_write_ticket_approval_basis (decided_requirement policy) approvals) = Ok (Issue draft)"
    "pwc_task (pwo_common outcome) = pwd_task policy"
proof (rule plan_prepare_write_mutations_Ok[OF m], fold approvals_def)
  fix contract records evaluations
  assume c: "contract_reasons policy = Ok contract"
    and r: "active_write_tickets (pws_tickets store) (pws_project_id store) (decided_task_id policy) = Ok records"
    and e: "collect_results (candidate_evaluation env policy (decided_scope policy) approvals) records = Ok evaluations"
    and reasons: "pwc_reasons (pwo_common outcome) = settle_reasons (decided_task_id policy)
      (pwd_reasons policy @ scope_reasons policy @ contract @
        pending_reasons (decided_task_id policy)
          (pending_user_action_request_ids store policy (decided_requirement policy)) @
        approval_reasons (decided_requirement policy)
          (current_write_ticket_approval_basis (decided_requirement policy) approvals))
      (sel_compatibility (select_prepare_write_candidates evaluations))"
    and t: "pwc_task (pwo_common outcome) = pwd_task policy"
    and choice: "choose_ticket env policy (decided_scope policy)
      (current_write_ticket_approval_basis (decided_requirement policy) approvals) (pwc_reasons (pwo_common outcome))
      (sel_compatibility (select_prepare_write_candidates evaluations)) = Ok (pwo_ticket outcome)"
  note i = choose_ticket_Issue[OF choice[unfolded issue]]
  have "pwd_reasons policy @ scope_reasons policy @ contract @
        pending_reasons (decided_task_id policy)
          (pending_user_action_request_ids store policy (decided_requirement policy)) @
        approval_reasons (decided_requirement policy)
          (current_write_ticket_approval_basis (decided_requirement policy) approvals) = []"
    using reasons[symmetric] unfolding i(1,2) settle_reasons_Nil by simp
  then show thesis
    by (intro that[OF _ _ _ _ _ r e i(1,3) t])
      (use c in \<open>auto simp: pending_reasons_def approval_reasons_def split: if_splits\<close>)
qed

lemma duplicate_paths_have_no_scope:
  assumes "\<not> distinct paths"
  shows "refuse_ticket reasons (planned_attempt_scope policy (map ProductRelativePath paths)) =
      Err (Invariant ''prepare-write path facts are internally inconsistent'')"
    and "issue_ticket env policy (planned_attempt_scope policy (map ProductRelativePath paths)) basis \<noteq> Ok ticket"
proof -
  let ?paths = "map ProductRelativePath paths"
  have dup: "\<not> distinct ?paths" using assms by (simp add: distinct_map inj_on_def)
  have err: "\<exists>e. new_path_scope as ds = Err e" if "\<not> distinct as \<or> \<not> distinct ds" for as ds
    using that by (cases "new_path_scope as ds") (auto simp: new_path_scope_Ok_iff)
  have none: "filter (\<lambda>path. path \<notin> set ?paths) ?paths = []" by (simp add: filter_empty_conv)
  obtain e e' where "new_path_scope ?paths [] = Err e" "new_path_scope [] ?paths = Err e'" using err dup by blast
  then show "refuse_ticket reasons (planned_attempt_scope policy ?paths) =
      Err (Invariant ''prepare-write path facts are internally inconsistent'')"
    using none
    by (cases "denied_write_ticket_paths reasons ?paths = ?paths")
      (simp_all add: refuse_ticket_def Let_def write_ticket_path_scope_def planned_attempt_scope_def
        denied_write_ticket_paths_def split: if_splits)
  show "issue_ticket env policy (planned_attempt_scope policy ?paths) basis \<noteq> Ok ticket"
    using dup by (auto simp: issue_ticket_def Let_def write_ticket_path_scope_def planned_attempt_scope_def
        new_path_scope_Ok_iff)
qed

lemma sample_issue:
  obtains outcome draft ticket where
    "plan_prepare_write sample_environment (sample_planning_store []) sample_prepare_input 300 = Ok outcome"
    "pwo_ticket outcome = Issue draft" "materialize_planned_write_ticket draft ''wt_9'' 8 8 = Ok ticket"
proof -
  let ?plan = "plan_prepare_write sample_environment (sample_planning_store []) sample_prepare_input 300"
  have "case ?plan of Ok outcome \<Rightarrow> (case pwo_ticket outcome of
      Issue draft \<Rightarrow> is_ok (materialize_planned_write_ticket draft ''wt_9'' 8 8) | _ \<Rightarrow> False) | Err _ \<Rightarrow> False"
    by code_simp
  then obtain outcome where plan: "?plan = Ok outcome" and rest: "case pwo_ticket outcome of
      Issue draft \<Rightarrow> is_ok (materialize_planned_write_ticket draft ''wt_9'' 8 8) | _ \<Rightarrow> False"
    by (cases ?plan) auto
  from rest obtain draft where draft: "pwo_ticket outcome = Issue draft"
    and ok: "is_ok (materialize_planned_write_ticket draft ''wt_9'' 8 8)"
    by (cases "pwo_ticket outcome") auto
  from ok that[OF plan draft] show ?thesis
    by (cases "materialize_planned_write_ticket draft ''wt_9'' 8 8") auto
qed

section \<open>Properties\<close>





text \<open>C31: A request that names a path twice is never answered with a decision: unless an earlier ticket
  already covers it, planning ends in an error, and where the write would be refused for a stated
  reason the error is an internal invariant failure instead of that refusal.
\<close>

theorem duplicate_paths_are_never_decided:
  assumes "\<not> distinct (pwi_intended_paths input)"
  shows "(\<forall>outcome. plan_prepare_write env store input now = Ok outcome \<longrightarrow> (\<exists>t. pwo_ticket outcome = Reuse t)) \<and>
    refuse_ticket reasons (planned_attempt_scope policy (map ProductRelativePath (pwi_intended_paths input))) =
      Err (Invariant ''prepare-write path facts are internally inconsistent'')"
proof (intro conjI allI impI)
  fix outcome assume "plan_prepare_write env store input now = Ok outcome"
  then obtain policy where n: "pwd_normalized policy = normalized_request input now"
    and m: "plan_prepare_write_mutations env store policy = Ok outcome"
    by (rule plan_with_other_tickets)
  obtain basis reasons selection where
    "choose_ticket env policy (decided_scope policy) basis reasons selection = Ok (pwo_ticket outcome)"
    by (rule plan_prepare_write_mutations_Ok[OF m])
  then show "\<exists>t. pwo_ticket outcome = Reuse t"
    using duplicate_paths_have_no_scope[OF assms, of _ policy]
    by (auto simp: n choose_ticket_def dest: sym split: CompatibleWriteTicketSelection.splits if_splits)
qed (rule duplicate_paths_have_no_scope(1)[OF assms])

theorem duplicate_paths_are_never_decided_witness:
  "plan_prepare_write sample_environment (sample_planning_store [])
       (sample_prepare_input\<lparr>pwi_intended_paths := [''src/a'', ''src/a'']\<rparr>) 300 =
     Err (Invariant ''prepare-write path facts are internally inconsistent'') \<and>
   \<not> (\<exists>outcome draft. plan_prepare_write sample_environment (sample_planning_store [sample_ticket])
       (sample_prepare_input\<lparr>pwi_intended_paths := [''src/a'', ''src/a'']\<rparr>) 300 = Ok outcome \<and>
       pwo_ticket outcome = Issue draft)"
proof -
  have "plan_prepare_write sample_environment (sample_planning_store [])
       (sample_prepare_input\<lparr>pwi_intended_paths := [''src/a'', ''src/a'']\<rparr>) 300 =
     Err (Invariant ''prepare-write path facts are internally inconsistent'')" by code_simp
  moreover have "\<not> distinct (pwi_intended_paths (sample_prepare_input\<lparr>pwi_intended_paths := [''src/a'', ''src/a'']\<rparr>))"
    by simp
  from duplicate_paths_are_never_decided[OF this, of sample_environment "sample_planning_store [sample_ticket]" 300]
  have "\<not> (\<exists>outcome draft. plan_prepare_write sample_environment (sample_planning_store [sample_ticket])
       (sample_prepare_input\<lparr>pwi_intended_paths := [''src/a'', ''src/a'']\<rparr>) 300 = Ok outcome \<and>
       pwo_ticket outcome = Issue draft)" by fastforce
  ultimately show ?thesis by blast
qed



end
