(* ===== verification/StoreCommit.thy ===== *)
theory StoreCommit
  imports PrepareWrite
begin

text \<open>
  The atomic commit of the project store: \<open>core_pipeline/commit.rs\<close>, with the replay rows of
  \<open>replay.rs\<close>, the project clock of \<open>clock.rs\<close>, the header of \<open>project_state.rs\<close> and the batch
  rules of \<open>mutations.rs\<close>, all in \<open>src/crates/volicord-store/src/core_pipeline\<close>.

  One commit looks for a stored answer to the same request, compares the expected state version,
  advances the project clock, applies the mutations, appends hash-chained authority events and stores
  the answer. A failing commit is an \<^const>\<open>Err\<close> and leaves the database and the handle as they were: the
  transaction is rolled back when it is dropped. The body of a commit is a closure in the source and an
  argument here; \<open>core_mutation\<close> is the closure of the task and ticket mutations.

  Parameters: the JSON parser and printer, SHA-256, the text of an instant, and the reading of SQLite's
  clock. The proofs show that an answered request is answered the same way for ever, that the event log
  is a numbered hash chain in every reachable state, and that the chain is evidence of tampering.
\<close>

section \<open>Values\<close>

fun method_as_str :: "MethodName \<Rightarrow> string" where
  "method_as_str MethodName.Intake = ''volicord.intake''"
| "method_as_str MethodName.UpdateScope = ''volicord.update_scope''"
| "method_as_str MethodName.RecordShapingCheckpoint = ''volicord.record_shaping_checkpoint''"
| "method_as_str MethodName.FinalizeAdvice = ''volicord.finalize_advice''"
| "method_as_str MethodName.AdvanceTask = ''volicord.advance_task''"
| "method_as_str MethodName.Status = ''volicord.status''"
| "method_as_str MethodName.GetOperationResult = ''volicord.get_operation_result''"
| "method_as_str MethodName.CheckClose = ''volicord.check_close''"
| "method_as_str MethodName.PrepareEvidenceCapture = ''volicord.prepare_evidence_capture''"
| "method_as_str MethodName.PrepareWrite = ''volicord.prepare_write''"
| "method_as_str MethodName.StageArtifact = ''volicord.stage_artifact''"
| "method_as_str MethodName.RecordRun = ''volicord.record_run''"
| "method_as_str MethodName.RequestUserAction = ''volicord.request_user_action''"
| "method_as_str MethodName.ResolveUserAction = ''volicord.resolve_user_action''"
| "method_as_str MethodName.ReconcileChanges = ''volicord.reconcile_changes''"
| "method_as_str MethodName.CloseTask = ''volicord.close_task''"

definition ALL_METHODS :: "MethodName list" where
  "ALL_METHODS = [MethodName.Intake, MethodName.UpdateScope, MethodName.RecordShapingCheckpoint,
     MethodName.FinalizeAdvice, MethodName.AdvanceTask, MethodName.Status, MethodName.GetOperationResult,
     MethodName.CheckClose, MethodName.PrepareEvidenceCapture, MethodName.PrepareWrite,
     MethodName.StageArtifact, MethodName.RecordRun, MethodName.RequestUserAction,
     MethodName.ResolveUserAction, MethodName.ReconcileChanges, MethodName.CloseTask]"

text \<open>The derived readers of the two closed values.\<close>

definition method_from_str :: "string \<Rightarrow> MethodName option" where
  "method_from_str s = find (\<lambda>m. method_as_str m = s) ALL_METHODS"

definition operation_category_from_str :: "string \<Rightarrow> OperationCategory option" where
  "operation_category_from_str s = find (\<lambda>c. operation_category_as_str c = s)
     [OperationCategory.Read, OperationCategory.AgentWorkflow, OperationCategory.UserOnly,
      OperationCategory.AdminLocal, OperationCategory.LocalRecovery]"

datatype WorkflowActionSemanticVariant =
    CreateInitial | ReplaceCurrent | KeepCurrentChangeUnit | CreateCurrentChangeUnit
  | ReplaceCurrentChangeUnit | FinalizeAdvice | AdvanceTask | PrepareEvidenceCapture | PrepareWrite
  | StageArtifact | RecordRun | RequestUserAction | ResolveUserAction | ReconcileChanges | CheckClose
  | CloseTask

datatype WorkflowTransitionEffectClass =
    CoreStateMutation | UserChannelMutation | WriteAuthorization | ArtifactStaging | EvidenceCapture
  | ExecutionRecording | ReadOnlyAssessment | TerminalMutation

datatype WorkflowExpectedResultState =
    ReevaluateCurrentAuthority | AwaitingUserAction | Implementation | CloseReview | Terminal

record WorkflowActionKey =
  wak_method :: MethodName
  wak_semantic_variant :: WorkflowActionSemanticVariant

section \<open>Rows and requests\<close>

record VerifiedReplayContext =
  vrc_actor_source :: ActorSource
  vrc_operation_category :: OperationCategory
  vrc_verification_basis :: "string option"
  vrc_git_workspace_context :: "JsonObject option"

record ToolInvocationRaw =
  tir_project_id :: ProjectId
  tir_tool_name :: string
  tir_idempotency_key :: string
  tir_request_hash :: string
  tir_basis_state_version :: u64
  tir_committed_state_version :: u64
  tir_actor_source :: string
  tir_operation_category :: string
  tir_verification_basis :: "string option"
  tir_git_workspace_context_json :: "string option"
  tir_response_json :: string

record ToolInvocationRecord =
  ti_project_id :: ProjectId
  ti_tool_name :: MethodName
  ti_idempotency_key :: string
  ti_request_hash :: string
  ti_basis_state_version :: u64
  ti_committed_state_version :: u64
  ti_actor_source :: ActorSource
  ti_operation_category :: OperationCategory
  ti_verification_basis :: "string option"
  ti_git_workspace_context :: "JsonObject option"
  ti_response_json :: string

record PendingTaskEvent =
  pte_event_id :: string
  pte_task_id :: "TaskId option"
  pte_change_unit_id :: "string option"
  pte_event_kind :: string
  pte_event_payload_json :: string

record CommittedEventRef =
  cer_event_id :: string
  cer_event_kind :: string

record CommittedMutationFacts =
  cmf_basis_state_version :: u64
  cmf_committed_state_version :: u64
  cmf_events :: "CommittedEventRef list"

record TransitionCommitExpectation =
  tce_project_id :: ProjectId
  tce_task_id :: TaskId
  tce_action_key :: WorkflowActionKey
  tce_effect_class :: WorkflowTransitionEffectClass
  tce_expected_result_state :: WorkflowExpectedResultState
  tce_basis_state_version :: u64

record CommitMutationInput =
  cmi_project_id :: ProjectId
  cmi_tool_name :: string
  cmi_idempotency_key :: "string option"
  cmi_request_hash :: string
  cmi_replay_context :: "VerifiedReplayContext option"
  cmi_expected_state_version :: "u64 option"
  cmi_transition_expectation :: "TransitionCommitExpectation option"
  cmi_clock_floor :: "UtcTimestamp option"
  cmi_include_live_storage_time :: bool
  cmi_events :: "PendingTaskEvent list"

datatype MutationCommitOutcome =
    Replayed string u64 u64
  | ReplayContextMismatch u64 string
  | IdempotencyConflict u64 string string string
  | StaleExpectedState u64 u64
  | Committed string u64 u64 "CommittedEventRef list"

text \<open>The hashed columns of an authority event, and the row with its hash.\<close>

record AuthorityEventHashInput =
  ae_project_id :: ProjectId
  ae_event_seq :: int
  ae_event_id :: string
  ae_state_version :: int
  ae_event_type :: string
  ae_actor_source :: string
  ae_operation_category :: string
  ae_task_id :: "string option"
  ae_change_unit_id :: "string option"
  ae_payload_json :: string
  ae_request_hash :: string
  ae_previous_event_hash :: "string option"
  ae_created_at :: string

record AuthorityEventRow =
  aer_input :: AuthorityEventHashInput
  aer_event_hash :: string

text \<open>The project database: the tables of the components above, the key columns of \<open>change_units\<close>,
  \<open>user_action_requests\<close> and \<open>user_action_resolutions\<close> that a commit looks at, and the two tables only a
  commit writes. The record is extensible by the tables a commit only hands to its closure.\<close>

record CoreDatabase =
  cdb_tasks :: TaskTables
  cdb_tickets :: TicketTable
  cdb_change_units :: "(ProjectId \<times> TaskId \<times> string) list"
  cdb_request_tasks :: "(ProjectId \<times> UserActionRequestId \<times> TaskId) list"
  cdb_resolved_requests :: "(ProjectId \<times> UserActionRequestId) list"
  cdb_authority_events :: "AuthorityEventRow list"
  cdb_tool_invocations :: "ToolInvocationRaw list"

record MutationContext =
  mc_project_id :: ProjectId
  mc_project_home :: string
  mc_committed_at :: UtcTimestamp

record CoreProjectStore =
  cps_canonical_runtime_home :: "string option"
  cps_project_id :: ProjectId
  cps_project_home :: string
  cps_mutation_context :: "string option"
  cps_last_clock_sample :: "UtcTimestamp option"

text \<open>The libraries a commit uses: \<open>serde_json\<close>, SHA-256 and the text of an instant.\<close>

record CommitEnv =
  cme_from_str :: "string \<Rightarrow> json option"
  cme_to_vec :: "json \<Rightarrow> string"
  cme_git_from_str :: "string \<Rightarrow> GitWorkspaceContext option"
  cme_sha256 :: "string \<Rightarrow> byte list"
  cme_timestamp_text :: "UtcTimestamp \<Rightarrow> string"

type_synonym 'x CommitBody =
  "MutationContext \<Rightarrow> CommittedMutationFacts \<Rightarrow> 'x CoreDatabase_scheme \<Rightarrow>
     ('x CoreDatabase_scheme, StoreError) result"

section \<open>Replay identity\<close>

definition git_context_json :: "GitWorkspaceContext \<Rightarrow> json" where
  "git_context_json c =
     (let optional = (\<lambda>text. case text of None \<Rightarrow> JNull | Some s \<Rightarrow> JString s) in
      JObject
        [(''git_common_dir'', JString (git_common_dir c)),
         (''worktree_id'', JString (git_worktree_id c)),
         (''branch_ref'', optional (git_branch_ref c)),
         (''head_sha'', optional (git_head_sha c)),
         (''workspace_fingerprint'', JString (git_workspace_fingerprint c))])"

definition valid_branch_ref :: "string \<Rightarrow> bool" where
  "valid_branch_ref r \<longleftrightarrow>
     strip_prefix_of ''refs/'' r \<noteq> None \<and>
     \<not> list_ex (\<lambda>c. c \<in> {CHR 0x00, CHR 0x0A, CHR 0x0D}) r \<and> trim r = r"

definition parse_canonical_git_workspace_context ::
  "CommitEnv \<Rightarrow> string \<Rightarrow> (GitWorkspaceContext, string) result" where
  "parse_canonical_git_workspace_context env text =
     (case cme_git_from_str env text of
        None \<Rightarrow> Err ''must have the strict Git workspace-context JSON shape''
      | Some c \<Rightarrow>
          and_then (ensure (trim (git_common_dir c) \<noteq> [] \<and> starts_with_byte (CHR ''/'') (git_common_dir c))
            ''must contain an absolute non-empty git_common_dir'') (\<lambda>_.
          and_then (ensure (is_canonical_sha256_digest (git_worktree_id c))
            ''must contain a valid worktree_id'') (\<lambda>_.
          and_then (ensure (\<not> is_some_and (git_branch_ref c) (\<lambda>r. \<not> valid_branch_ref r))
            ''must contain a valid branch_ref or null'') (\<lambda>_.
          and_then (ensure (\<not> is_some_and (git_head_sha c) (\<lambda>sha. canonical_git_object_id sha \<noteq> Ok sha))
            ''must contain a canonical lowercase head_sha or null'') (\<lambda>_.
          and_then (ensure (is_canonical_sha256_digest (git_workspace_fingerprint c))
            ''must contain a valid workspace_fingerprint'') (\<lambda>_.
          and_then (ensure (canonical_json_bytes (cme_to_vec env) (git_context_json c) = text)
            ''must use canonical JSON serialization'') (\<lambda>_. Ok c)))))))"

datatype ReplayContextField = ActorSourceField | OperationCategoryField | VerificationBasisField
  | GitWorkspaceContextField

definition validate_canonical_replay_identity ::
  "CommitEnv \<Rightarrow> string \<Rightarrow> string \<Rightarrow> string option \<Rightarrow> string option \<Rightarrow> (unit, ReplayContextField) result" where
  "validate_canonical_replay_identity env actor_source operation_category verification_basis git_json =
     and_then (ensure (case actor_source_from_str actor_source of
         Ok parsed \<Rightarrow> to_canonical_string parsed = actor_source
       | Err _ \<Rightarrow> False) ActorSourceField) (\<lambda>_.
     and_then (ensure (is_some_and (operation_category_from_str operation_category)
         (\<lambda>parsed. operation_category_as_str parsed = operation_category)) OperationCategoryField) (\<lambda>_.
     and_then (ensure (\<not> is_some_and verification_basis (\<lambda>basis. trim basis = [])) VerificationBasisField) (\<lambda>_.
     case git_json of
       None \<Rightarrow> Ok ()
     | Some text \<Rightarrow> and_then (map_err (\<lambda>_. GitWorkspaceContextField)
         (parse_canonical_git_workspace_context env text)) (\<lambda>_. Ok ()))))"

definition replay_git_json :: "CommitEnv \<Rightarrow> VerifiedReplayContext \<Rightarrow> string option" where
  "replay_git_json env c =
     map_option (\<lambda>members. canonical_json_bytes (cme_to_vec env) (JObject members)) (vrc_git_workspace_context c)"

fun replay_field_name :: "ReplayContextField \<Rightarrow> string" where
  "replay_field_name ActorSourceField = ''actor_source''"
| "replay_field_name OperationCategoryField = ''operation_category''"
| "replay_field_name VerificationBasisField = ''verification_basis''"
| "replay_field_name GitWorkspaceContextField = ''git_workspace_context_json''"

definition validate_replay_context :: "CommitEnv \<Rightarrow> VerifiedReplayContext \<Rightarrow> (unit, StoreError) result" where
  "validate_replay_context env c =
     map_err (\<lambda>field. InvalidInput (replay_field_name field))
       (validate_canonical_replay_identity env (to_canonical_string (vrc_actor_source c))
          (operation_category_as_str (vrc_operation_category c)) (vrc_verification_basis c)
          (replay_git_json env c))"

definition matches_verified_replay_context :: "ToolInvocationRecord \<Rightarrow> VerifiedReplayContext \<Rightarrow> bool" where
  "matches_verified_replay_context r c \<longleftrightarrow>
     ti_actor_source r = vrc_actor_source c \<and>
     ti_operation_category r = vrc_operation_category c \<and>
     ti_verification_basis r = vrc_verification_basis c \<and>
     ti_git_workspace_context r = vrc_git_workspace_context c"

definition corrupt_invocation :: "string \<Rightarrow> StoreError" where
  "corrupt_invocation column = CorruptOwnerState ''tool_invocations'' column"

definition decode_git_column :: "CommitEnv \<Rightarrow> string option \<Rightarrow> (JsonObject option, StoreError) result" where
  "decode_git_column env column =
     (case column of
        None \<Rightarrow> Ok None
      | Some text \<Rightarrow> (case cme_from_str env text of
            Some (JObject members) \<Rightarrow> Ok (Some members)
          | _ \<Rightarrow> Err (corrupt_invocation ''git_workspace_context_json'')))"

definition decode_tool_invocation ::
  "CommitEnv \<Rightarrow> ToolInvocationRaw \<Rightarrow> (ToolInvocationRecord, StoreError) result" where
  "decode_tool_invocation env raw =
     and_then (map_err (\<lambda>field. corrupt_invocation (replay_field_name field))
       (validate_canonical_replay_identity env (tir_actor_source raw) (tir_operation_category raw)
          (tir_verification_basis raw) (tir_git_workspace_context_json raw))) (\<lambda>_.
     case method_from_str (tir_tool_name raw) of
       None \<Rightarrow> Err (corrupt_invocation ''tool_name'')
     | Some tool_name \<Rightarrow>
     and_then (map_err (\<lambda>_. corrupt_invocation ''actor_source'')
       (actor_source_from_str (tir_actor_source raw))) (\<lambda>actor_source.
     case operation_category_from_str (tir_operation_category raw) of
       None \<Rightarrow> Err (corrupt_invocation ''operation_category'')
     | Some operation_category \<Rightarrow>
     and_then (decode_git_column env (tir_git_workspace_context_json raw)) (\<lambda>git_workspace_context.
     and_then (ensure (case cme_from_str env (tir_response_json raw) of Some (JObject _) \<Rightarrow> True | _ \<Rightarrow> False)
       (corrupt_invocation ''response_json'')) (\<lambda>_.
     Ok \<lparr>ti_project_id = tir_project_id raw, ti_tool_name = tool_name,
         ti_idempotency_key = tir_idempotency_key raw, ti_request_hash = tir_request_hash raw,
         ti_basis_state_version = tir_basis_state_version raw,
         ti_committed_state_version = tir_committed_state_version raw,
         ti_actor_source = actor_source, ti_operation_category = operation_category,
         ti_verification_basis = tir_verification_basis raw,
         ti_git_workspace_context = git_workspace_context, ti_response_json = tir_response_json raw\<rparr>))))"

definition invocation_is :: "ProjectId \<Rightarrow> string \<Rightarrow> string \<Rightarrow> ToolInvocationRaw \<Rightarrow> bool" where
  "invocation_is project_id tool_name idempotency_key r \<longleftrightarrow>
     tir_project_id r = project_id \<and> tir_tool_name r = tool_name \<and> tir_idempotency_key r = idempotency_key"

definition tool_invocation_tx ::
  "CommitEnv \<Rightarrow> 'x CoreDatabase_scheme \<Rightarrow> ProjectId \<Rightarrow> string \<Rightarrow> string \<Rightarrow>
     (ToolInvocationRecord option, StoreError) result" where
  "tool_invocation_tx env db project_id tool_name idempotency_key =
     (case find (invocation_is project_id tool_name idempotency_key) (cdb_tool_invocations db) of
        None \<Rightarrow> Ok None
      | Some raw \<Rightarrow> and_then (decode_tool_invocation env raw) (\<lambda>r. Ok (Some r)))"

record StoredOperationResult =
  sor_project_id :: ProjectId
  sor_source_method :: MethodName
  sor_source_idempotency_key :: string
  sor_committed_state_version :: u64
  sor_actor_source :: ActorSource
  sor_operation_category :: OperationCategory
  sor_response_sha256 :: string
  sor_response_size_bytes :: u64
  sor_response_json :: string

definition stored_operation_result ::
  "CommitEnv \<Rightarrow> ToolInvocationRecord \<Rightarrow> (StoredOperationResult, StoreError) result" where
  "stored_operation_result env r =
     (if length (ti_response_json r) < 2 ^ 64
      then Ok \<lparr>sor_project_id = ti_project_id r, sor_source_method = ti_tool_name r,
        sor_source_idempotency_key = ti_idempotency_key r,
        sor_committed_state_version = ti_committed_state_version r,
        sor_actor_source = ti_actor_source r, sor_operation_category = ti_operation_category r,
        sor_response_sha256 = ''sha256:'' @ lowercase_hex (cme_sha256 env (ti_response_json r)),
        sor_response_size_bytes = of_nat (length (ti_response_json r)),
        sor_response_json = ti_response_json r\<rparr>
      else Err (SchemaInvariant ''tool_invocations.response_json byte length does not fit u64''))"

definition operation_result ::
  "CommitEnv \<Rightarrow> 'x CoreDatabase_scheme \<Rightarrow> ProjectId \<Rightarrow> MethodName \<Rightarrow> string \<Rightarrow>
     (StoredOperationResult option, StoreError) result" where
  "operation_result env db project_id source_method source_idempotency_key =
     and_then (tool_invocation_tx env db project_id (method_as_str source_method) source_idempotency_key)
     (\<lambda>found. case found of
        None \<Rightarrow> Ok None
      | Some r \<Rightarrow> and_then (stored_operation_result env r) (\<lambda>result. Ok (Some result)))"

definition commit_input ::
  "ProjectId \<Rightarrow> MethodName \<Rightarrow> string option \<Rightarrow> string \<Rightarrow> VerifiedReplayContext option \<Rightarrow> u64 option \<Rightarrow>
     PendingTaskEvent list \<Rightarrow> CommitMutationInput" where
  "commit_input project_id method_name idempotency_key request_hash replay_context expected_state_version events = \<lparr>
     cmi_project_id = project_id, cmi_tool_name = method_as_str method_name,
     cmi_idempotency_key = idempotency_key, cmi_request_hash = request_hash,
     cmi_replay_context = replay_context, cmi_expected_state_version = expected_state_version,
     cmi_transition_expectation = None, cmi_clock_floor = None, cmi_include_live_storage_time = True,
     cmi_events = events\<rparr>"

section \<open>Checks of a commit request\<close>

definition require_mutation_context :: "CoreProjectStore \<Rightarrow> (string, StoreError) result" where
  "require_mutation_context store =
     (case cps_mutation_context store of
        None \<Rightarrow> Err (InvalidInput ''Core project mutation requires a live Runtime Home mutation context'')
      | Some home \<Rightarrow>
          if cps_canonical_runtime_home store \<noteq> Some home
          then Err (InvalidInput ''Core project mutation Store does not retain the admitted Runtime Home identity'')
          else Ok home)"

definition validate_json_text :: "CommitEnv \<Rightarrow> string \<Rightarrow> string \<Rightarrow> (unit, StoreError) result" where
  "validate_json_text env field text = ensure (cme_from_str env text \<noteq> None) (InvalidInput field)"

definition validate_pending_event :: "CommitEnv \<Rightarrow> PendingTaskEvent \<Rightarrow> (unit, StoreError) result" where
  "validate_pending_event env e =
     and_then (validate_identifier ''event_id'' (pte_event_id e)) (\<lambda>_.
     and_then (case pte_task_id e of None \<Rightarrow> Ok () | Some task_id \<Rightarrow> validate_identifier ''task_id'' task_id) (\<lambda>_.
     and_then (ensure (\<not> (pte_task_id e = None \<and>
         (pte_event_kind e \<noteq> ''project_workflow_policy_applied'' \<or> pte_change_unit_id e \<noteq> None)))
       (InvalidInput ''only project_workflow_policy_applied may be a project-scoped authority event'')) (\<lambda>_.
     and_then (ensure (\<not> (pte_task_id e \<noteq> None \<and> pte_event_kind e = ''project_workflow_policy_applied''))
       (InvalidInput ''project_workflow_policy_applied must be project-scoped'')) (\<lambda>_.
     and_then (validate_identifier ''event_kind'' (pte_event_kind e)) (\<lambda>_.
     validate_json_text env ''authority_events.payload_json'' (pte_event_payload_json e))))))"

definition representable_sample :: "UtcTimestamp option \<Rightarrow> bool" where
  "representable_sample sample \<longleftrightarrow> \<not> is_some_and sample (\<lambda>t. \<not> canonical_rfc3339_representable t)"

text \<open>Everything that is checked before the transaction begins.\<close>

definition admit_commit ::
  "CommitEnv \<Rightarrow> CommitMutationInput \<Rightarrow> CoreProjectStore \<Rightarrow> (VerifiedReplayContext, StoreError) result" where
  "admit_commit env input store =
     and_then (require_mutation_context store) (\<lambda>_.
     and_then (ensure (cmi_project_id input = cps_project_id store)
       (InvalidInput ''commit project_id must match the opened project'')) (\<lambda>_.
     and_then (ensure (cmi_events input \<noteq> [])
       (InvalidInput ''committed Core mutations must append at least one authority event'')) (\<lambda>_.
     and_then (validate_identifier ''tool_name'' (cmi_tool_name input)) (\<lambda>_.
     and_then (validate_identifier ''request_hash'' (cmi_request_hash input)) (\<lambda>_.
     case cmi_replay_context input of
       None \<Rightarrow> Err (InvalidInput ''committed mutations require verified invocation context'')
     | Some replay_context \<Rightarrow>
     and_then (validate_replay_context env replay_context) (\<lambda>_.
     and_then (collect_results (validate_pending_event env) (cmi_events input)) (\<lambda>_.
     and_then (ensure (representable_sample (cmi_clock_floor input))
       (InvalidInput ''commit clock_floor must have a canonical four-digit RFC 3339 representation'')) (\<lambda>_.
     and_then (ensure (representable_sample (cps_last_clock_sample store))
       (SchemaInvariant ''Core Store handle clock sample is outside the canonical RFC 3339 range'')) (\<lambda>_.
     Ok replay_context)))))))))"

section \<open>The project clock\<close>

text \<open>The greatest of the samples that are there.\<close>

fun max_sample :: "UtcTimestamp option \<Rightarrow> UtcTimestamp option \<Rightarrow> UtcTimestamp option" where
  "max_sample None t = t"
| "max_sample s None = s"
| "max_sample (Some s) (Some t) = Some (max s t)"

definition local_clock_floor :: "CommitMutationInput \<Rightarrow> CoreProjectStore \<Rightarrow> UtcTimestamp option" where
  "local_clock_floor input store = max_sample (cps_last_clock_sample store) (cmi_clock_floor input)"

definition project_row :: "'x CoreDatabase_scheme \<Rightarrow> ProjectId \<Rightarrow> ProjectStateHeader option" where
  "project_row db project_id = find (\<lambda>s. psh_project_id s = project_id) (tks_project_states (cdb_tasks db))"

definition read_project_state_tx ::
  "'x CoreDatabase_scheme \<Rightarrow> ProjectId \<Rightarrow> (ProjectStateHeader, StoreError) result" where
  "read_project_state_tx db project_id =
     (case project_row db project_id of
        None \<Rightarrow> Err (NotFound project_id)
      | Some header \<Rightarrow>
          and_then (ensure (canonical_rfc3339_representable (psh_updated_at header))
            (CorruptOwnerState ''project_state'' ''updated_at'')) (\<lambda>_. Ok header))"

text \<open>\<open>sqlite_now\<close> is what reading SQLite's clock gives, \<^const>\<open>None\<close> when its text does not parse.\<close>

definition project_current_utc_timestamp_for_conn ::
  "UtcTimestamp option \<Rightarrow> 'x CoreDatabase_scheme \<Rightarrow> ProjectId \<Rightarrow> UtcTimestamp option \<Rightarrow>
     (UtcTimestamp, StoreError) result" where
  "project_current_utc_timestamp_for_conn sqlite_now db project_id local_floor =
     (case project_row db project_id of
        None \<Rightarrow> Err (NotFound project_id)
      | Some header \<Rightarrow> (case sqlite_now of
          None \<Rightarrow> Err (SchemaInvariant ''SQLite returned an invalid Core current UTC timestamp'')
        | Some now \<Rightarrow>
            and_then (ensure (canonical_rfc3339_representable now)
              (SchemaInvariant ''SQLite returned an out-of-range Core current UTC timestamp'')) (\<lambda>_.
            and_then (ensure (canonical_rfc3339_representable (psh_updated_at header))
              (CorruptOwnerState ''project_state'' ''updated_at'')) (\<lambda>_.
            and_then (ensure (representable_sample local_floor)
              (SchemaInvariant ''Core local UTC floor is outside the canonical timestamp range'')) (\<lambda>_.
            Ok (case local_floor of
                  None \<Rightarrow> max now (psh_updated_at header)
                | Some floor \<Rightarrow> max (max now (psh_updated_at header)) floor))))))"

definition current_timestamp ::
  "UtcTimestamp option \<Rightarrow> 'x CoreDatabase_scheme \<Rightarrow> CoreProjectStore \<Rightarrow>
     (UtcTimestamp \<times> CoreProjectStore, StoreError) result" where
  "current_timestamp sqlite_now db store =
     and_then (project_current_utc_timestamp_for_conn sqlite_now db (cps_project_id store)
       (cps_last_clock_sample store)) (\<lambda>t.
     Ok (t, store\<lparr>cps_last_clock_sample := Some t\<rparr>))"

definition remember_clock_sample :: "UtcTimestamp \<Rightarrow> CoreProjectStore \<Rightarrow> CoreProjectStore" where
  "remember_clock_sample sample store =
     (if \<not> is_some_and (cps_last_clock_sample store) (\<lambda>t. \<not> sample > t)
      then store\<lparr>cps_last_clock_sample := Some sample\<rparr> else store)"

definition current_clock_floor ::
  "'x CoreDatabase_scheme \<Rightarrow> CoreProjectStore \<Rightarrow> (UtcTimestamp, StoreError) result" where
  "current_clock_floor db store =
     and_then (read_project_state_tx db (cps_project_id store)) (\<lambda>persisted.
     and_then (ensure (representable_sample (cps_last_clock_sample store))
       (SchemaInvariant ''Core Store handle clock sample is outside the canonical RFC 3339 range'')) (\<lambda>_.
     Ok (case cps_last_clock_sample store of
           None \<Rightarrow> psh_updated_at persisted
         | Some local \<Rightarrow> max (psh_updated_at persisted) local)))"

text \<open>Operations outside a commit, such as staging an artifact, only move the clock forward.\<close>

definition advance_project_utc_floor_tx ::
  "ProjectId \<Rightarrow> UtcTimestamp \<Rightarrow> 'x CoreDatabase_scheme \<Rightarrow>
     (UtcTimestamp \<times> 'x CoreDatabase_scheme, StoreError) result" where
  "advance_project_utc_floor_tx project_id sample db =
     and_then (ensure (canonical_rfc3339_representable sample)
       (SchemaInvariant ''Core UTC floor sample is outside the canonical timestamp range'')) (\<lambda>_.
     and_then (read_project_state_tx db project_id) (\<lambda>header.
     let floor = max (psh_updated_at header) sample;
         (rows, changed) = sql_update (\<lambda>s. psh_project_id s = project_id)
           (\<lambda>s. s\<lparr>psh_updated_at := floor\<rparr>) (tks_project_states (cdb_tasks db))
     in if changed \<noteq> 1 then Err (SchemaInvariant ''Core current UTC floor update changed no rows'')
        else Ok (floor, db\<lparr>cdb_tasks := (cdb_tasks db)\<lparr>tks_project_states := rows\<rparr>\<rparr>)))"

definition commit_time ::
  "UtcTimestamp option \<Rightarrow> CommitMutationInput \<Rightarrow> CoreProjectStore \<Rightarrow> ProjectStateHeader \<Rightarrow>
     'x CoreDatabase_scheme \<Rightarrow> (UtcTimestamp, StoreError) result" where
  "commit_time sqlite_now input store current db =
     (if cmi_include_live_storage_time input
      then project_current_utc_timestamp_for_conn sqlite_now db (cps_project_id store)
        (local_clock_floor input store)
      else case local_clock_floor input store of
          Some floor \<Rightarrow> Ok (max (psh_updated_at current) floor)
        | None \<Rightarrow> Err (InvalidInput ''commits without live storage time require an explicit clock floor''))"

section \<open>Expected transitions\<close>

text \<open>A mutation is its variant and what applying it does.\<close>

datatype MutationKind =
    Task | ChangeUnit | WriteTicket | Run | Shaping | Evidence | Artifact | UserAction | Continuity
  | WorkflowPolicy

record 'x StorageMutation =
  sm_kind :: MutationKind
  sm_apply :: "'x CommitBody"

definition transition_effect_matches_mutations ::
  "WorkflowActionKey \<Rightarrow> WorkflowTransitionEffectClass \<Rightarrow> MutationKind list \<Rightarrow> bool" where
  "transition_effect_matches_mutations key effect kinds =
     (let has = (\<lambda>k. k \<in> set kinds); method = wak_method key; variant = wak_semantic_variant key in
      case effect of
        CoreStateMutation \<Rightarrow>
          (if method = MethodName.RecordShapingCheckpoint \<and>
              variant \<in> {CreateInitial, ReplaceCurrent} then has Shaping
           else if method = MethodName.UpdateScope \<and> variant = KeepCurrentChangeUnit then has MutationKind.Task
           else if method = MethodName.UpdateScope \<and>
              variant \<in> {CreateCurrentChangeUnit, ReplaceCurrentChangeUnit} then has MutationKind.ChangeUnit
           else if method \<in> {MethodName.FinalizeAdvice, MethodName.AdvanceTask} \<and>
              variant \<in> {WorkflowActionSemanticVariant.FinalizeAdvice, WorkflowActionSemanticVariant.AdvanceTask}
             then has Shaping
           else if method = MethodName.RequestUserAction \<and>
              variant = WorkflowActionSemanticVariant.RequestUserAction then has MutationKind.UserAction
           else if method = MethodName.ReconcileChanges \<and>
              variant = WorkflowActionSemanticVariant.ReconcileChanges
             then has Continuity \<or> has MutationKind.UserAction
           else False)
      | UserChannelMutation \<Rightarrow>
          method = MethodName.ResolveUserAction \<and>
          variant = WorkflowActionSemanticVariant.ResolveUserAction \<and> has MutationKind.UserAction
      | WriteAuthorization \<Rightarrow>
          method = MethodName.PrepareWrite \<and> variant = WorkflowActionSemanticVariant.PrepareWrite \<and>
          list_all (\<lambda>k. k \<in> {MutationKind.Task, MutationKind.WriteTicket, MutationKind.WorkflowPolicy}) kinds
      | EvidenceCapture \<Rightarrow>
          method = MethodName.PrepareEvidenceCapture \<and>
          variant = WorkflowActionSemanticVariant.PrepareEvidenceCapture \<and> has MutationKind.Evidence
      | ExecutionRecording \<Rightarrow>
          method = MethodName.RecordRun \<and> variant = WorkflowActionSemanticVariant.RecordRun \<and>
          has MutationKind.Run
      | TerminalMutation \<Rightarrow>
          method = MethodName.CloseTask \<and> variant = WorkflowActionSemanticVariant.CloseTask \<and>
          has MutationKind.Task
      | ArtifactStaging \<Rightarrow> False
      | ReadOnlyAssessment \<Rightarrow> False)"

definition validate_transition_expectation ::
  "CommitMutationInput \<Rightarrow> MutationKind list \<Rightarrow> (unit, StoreError) result" where
  "validate_transition_expectation input kinds =
     (case cmi_transition_expectation input of
        None \<Rightarrow> Ok ()
      | Some e \<Rightarrow>
          and_then (ensure (tce_project_id e = cmi_project_id input \<and>
              method_as_str (wak_method (tce_action_key e)) = cmi_tool_name input \<and>
              cmi_expected_state_version input = Some (tce_basis_state_version e) \<and>
              list_all (\<lambda>event. pte_task_id event = Some (tce_task_id e)) (cmi_events input))
            (InvalidInput ''transition expectation contradicts commit authority coordinates'')) (\<lambda>_.
          ensure (transition_effect_matches_mutations (tce_action_key e) (tce_effect_class e) kinds)
            (InvalidInput ''Store aggregate mutations contradict the admitted transition effect'')))"

definition pending_user_action_exists ::
  "'x CoreDatabase_scheme \<Rightarrow> TransitionCommitExpectation \<Rightarrow> bool" where
  "pending_user_action_exists db e \<longleftrightarrow>
     list_ex (\<lambda>r. rqb_project_id r = tce_project_id e \<and>
         (tce_project_id e, rqb_user_action_request_id r, tce_task_id e) \<in> set (cdb_request_tasks db) \<and>
         rqb_basis_status r = UserActionBasisStatus.Current \<and>
         (tce_project_id e, rqb_user_action_request_id r) \<notin> set (cdb_resolved_requests db))
       (tks_request_bases (cdb_tasks db))"

definition validate_transition_result_state ::
  "'x CoreDatabase_scheme \<Rightarrow> TransitionCommitExpectation \<Rightarrow> (unit, StoreError) result" where
  "validate_transition_result_state db e =
     (case find (task_is (tce_project_id e) (tce_task_id e)) (tks_tasks (cdb_tasks db)) of
        None \<Rightarrow> Err (NotFound (tce_task_id e))
      | Some task \<Rightarrow>
          (let terminal = task_lifecycle_phase task \<in>
                 {TaskLifecyclePhase.Completed, TaskLifecyclePhase.Cancelled, TaskLifecyclePhase.Superseded};
               compatible = (case tce_expected_result_state e of
                   ReevaluateCurrentAuthority \<Rightarrow> \<not> terminal
                 | AwaitingUserAction \<Rightarrow> \<not> terminal \<and> pending_user_action_exists db e
                 | WorkflowExpectedResultState.Implementation \<Rightarrow>
                     \<not> terminal \<and> task_work_phase task = WorkPhase.Implementation
                 | CloseReview \<Rightarrow> \<not> terminal \<and> task_close_basis task \<noteq> None
                 | Terminal \<Rightarrow> terminal)
           in ensure compatible
                (SchemaInvariant ''post-mutation Task state contradicts admitted transition result family'')))"

section \<open>Authority events\<close>

text \<open>Decimal text of the numbers that are hashed.\<close>

fun decimal_nat :: "nat \<Rightarrow> string" where
  "decimal_nat n =
     (if n < 10 then [char_of (48 + n)] else decimal_nat (n div 10) @ [char_of (48 + n mod 10)])"

declare decimal_nat.simps [simp del]

definition decimal_int :: "int \<Rightarrow> string" where
  "decimal_int i = (if i < 0 then CHR ''-'' # decimal_nat (nat (- i)) else decimal_nat (nat i))"

definition update_field :: "string \<Rightarrow> string" where
  "update_field field = decimal_nat (length field) @ '':'' @ field @ [CHR 0x0A]"

definition or_empty :: "string option \<Rightarrow> string" where
  "or_empty text = (case text of None \<Rightarrow> [] | Some s \<Rightarrow> s)"

definition hashed_fields :: "AuthorityEventHashInput \<Rightarrow> string list" where
  "hashed_fields input =
     [ae_project_id input, decimal_int (ae_event_seq input), ae_event_id input,
      decimal_int (ae_state_version input), ae_event_type input, ae_actor_source input,
      ae_operation_category input, or_empty (ae_task_id input), or_empty (ae_change_unit_id input),
      ae_payload_json input, ae_request_hash input, or_empty (ae_previous_event_hash input),
      ae_created_at input]"

definition authority_event_hash :: "CommitEnv \<Rightarrow> AuthorityEventHashInput \<Rightarrow> string" where
  "authority_event_hash env input =
     ''sha256:'' @ lowercase_hex (cme_sha256 env (concat (map update_field (hashed_fields input))))"

definition project_events :: "'x CoreDatabase_scheme \<Rightarrow> ProjectId \<Rightarrow> AuthorityEventRow list" where
  "project_events db project_id =
     filter (\<lambda>r. ae_project_id (aer_input r) = project_id) (cdb_authority_events db)"

definition max_event_seq :: "AuthorityEventRow list \<Rightarrow> int" where
  "max_event_seq rows = foldr (\<lambda>r. max (ae_event_seq (aer_input r))) rows 0"

definition next_event_seq :: "'x CoreDatabase_scheme \<Rightarrow> ProjectId \<Rightarrow> (int, StoreError) result" where
  "next_event_seq db project_id =
     (let last_seq = max_event_seq (project_events db project_id) in
      if last_seq + 1 < 2 ^ 63 then Ok (last_seq + 1)
      else Err (SchemaInvariant ''authority_events.event_seq overflow''))"

text \<open>\<open>ORDER BY event_seq DESC LIMIT 1\<close>.\<close>

definition previous_event_hash_tx :: "'x CoreDatabase_scheme \<Rightarrow> ProjectId \<Rightarrow> string option" where
  "previous_event_hash_tx db project_id =
     (case sort_key (\<lambda>r. - ae_event_seq (aer_input r)) (project_events db project_id) of
        [] \<Rightarrow> None
      | r # _ \<Rightarrow> Some (aer_event_hash r))"

text \<open>The constraints of the table. A number past the range of \<open>i64\<close> wraps around to a negative one,
  which the check on \<open>event_seq\<close> refuses.\<close>

definition event_row_allowed :: "'x CoreDatabase_scheme \<Rightarrow> AuthorityEventRow \<Rightarrow> bool" where
  "event_row_allowed db r \<longleftrightarrow>
     (let e = aer_input r; siblings = project_events db (ae_project_id e);
          project_event = ae_event_type e = ''project_workflow_policy_applied'' in
      0 < ae_event_seq e \<and> ae_event_seq e < 2 ^ 63 \<and> 0 < ae_state_version e \<and>
      \<not> list_ex (\<lambda>s. ae_event_seq (aer_input s) = ae_event_seq e) siblings \<and>
      \<not> list_ex (\<lambda>s. ae_event_id (aer_input s) = ae_event_id e) siblings \<and>
      \<not> list_ex (\<lambda>s. aer_event_hash s = aer_event_hash r) siblings \<and>
      (if project_event then ae_task_id e = None \<and> ae_change_unit_id e = None else ae_task_id e \<noteq> None) \<and>
      project_row db (ae_project_id e) \<noteq> None \<and>
      (case ae_task_id e of
         None \<Rightarrow> True
       | Some task_id \<Rightarrow>
           list_ex (task_is (ae_project_id e) task_id) (tks_tasks (cdb_tasks db)) \<and>
           (case ae_change_unit_id e of
              None \<Rightarrow> True
            | Some change_unit_id \<Rightarrow> (ae_project_id e, task_id, change_unit_id) \<in> set (cdb_change_units db))))"

definition insert_authority_event ::
  "AuthorityEventRow \<Rightarrow> 'x CoreDatabase_scheme \<Rightarrow> ('x CoreDatabase_scheme, StoreError) result" where
  "insert_authority_event r db =
     and_then (ensure (event_row_allowed db r) (ConstraintViolation ''authority_events'')) (\<lambda>_.
     Ok (db\<lparr>cdb_authority_events := cdb_authority_events db @ [r]\<rparr>))"

fun append_authority_events ::
  "CommitEnv \<Rightarrow> (PendingTaskEvent \<Rightarrow> int \<Rightarrow> string option \<Rightarrow> AuthorityEventHashInput) \<Rightarrow> int \<Rightarrow>
     string option \<Rightarrow> PendingTaskEvent list \<Rightarrow> 'x CoreDatabase_scheme \<Rightarrow>
     ('x CoreDatabase_scheme, StoreError) result" where
  "append_authority_events env hash_input event_seq previous_event_hash [] db = Ok db"
| "append_authority_events env hash_input event_seq previous_event_hash (event # events) db =
     (let input = hash_input event event_seq previous_event_hash;
          event_hash = authority_event_hash env input in
      and_then (insert_authority_event \<lparr>aer_input = input, aer_event_hash = event_hash\<rparr> db) (\<lambda>db'.
      append_authority_events env hash_input (event_seq + 1) (Some event_hash) events db'))"

section \<open>The commit\<close>

text \<open>The answer that an earlier commit with the same key already gave.\<close>

definition replay_lookup ::
  "CommitEnv \<Rightarrow> CommitMutationInput \<Rightarrow> VerifiedReplayContext \<Rightarrow> ProjectStateHeader \<Rightarrow> CoreProjectStore \<Rightarrow>
     'x CoreDatabase_scheme \<Rightarrow> (MutationCommitOutcome option, StoreError) result" where
  "replay_lookup env input replay_context current store db =
     (case cmi_idempotency_key input of
        None \<Rightarrow> Ok None
      | Some key \<Rightarrow>
          and_then (validate_identifier ''idempotency_key'' key) (\<lambda>_.
          and_then (tool_invocation_tx env db (cps_project_id store) (cmi_tool_name input) key) (\<lambda>found.
          Ok (map_option (\<lambda>r.
            if \<not> matches_verified_replay_context r replay_context
            then ReplayContextMismatch (psh_state_version current) key
            else if ti_request_hash r = cmi_request_hash input
            then Replayed (ti_response_json r) (ti_basis_state_version r) (ti_committed_state_version r)
            else IdempotencyConflict (psh_state_version current) key (ti_request_hash r)
              (cmi_request_hash input)) found))))"

definition stale_expected_state ::
  "CommitMutationInput \<Rightarrow> ProjectStateHeader \<Rightarrow> MutationCommitOutcome option" where
  "stale_expected_state input current =
     (case cmi_expected_state_version input of
        None \<Rightarrow> None
      | Some expected \<Rightarrow>
          if expected \<noteq> psh_state_version current
          then Some (StaleExpectedState (psh_state_version current) expected) else None)"

definition next_state_version :: "ProjectStateHeader \<Rightarrow> (u64, StoreError) result" where
  "next_state_version current =
     and_then (ensure (uint (psh_state_version current) + 1 < 2 ^ 64)
       (SchemaInvariant ''project_state.state_version overflow'')) (\<lambda>_.
     and_then (u64_to_i64 ''basis_state_version'' (psh_state_version current)) (\<lambda>_.
     and_then (u64_to_i64 ''committed_state_version'' (psh_state_version current + 1)) (\<lambda>_.
     Ok (psh_state_version current + 1))))"

definition advance_project_state ::
  "ProjectId \<Rightarrow> u64 \<Rightarrow> u64 \<Rightarrow> UtcTimestamp \<Rightarrow> 'x CoreDatabase_scheme \<Rightarrow>
     ('x CoreDatabase_scheme, StoreError) result" where
  "advance_project_state project_id basis committed committed_at db =
     (let (rows, changed) = sql_update
            (\<lambda>s. psh_project_id s = project_id \<and> psh_state_version s = basis)
            (\<lambda>s. s\<lparr>psh_state_version := committed, psh_updated_at := committed_at\<rparr>)
            (tks_project_states (cdb_tasks db))
      in if changed \<noteq> 1
         then Err (SchemaInvariant ''project_state state_version update changed no rows'')
         else Ok (db\<lparr>cdb_tasks := (cdb_tasks db)\<lparr>tks_project_states := rows\<rparr>\<rparr>))"

definition insert_tool_invocation ::
  "ToolInvocationRaw \<Rightarrow> 'x CoreDatabase_scheme \<Rightarrow> ('x CoreDatabase_scheme, StoreError) result" where
  "insert_tool_invocation r db =
     and_then (ensure (tir_basis_state_version r < tir_committed_state_version r \<and>
         \<not> list_ex (invocation_is (tir_project_id r) (tir_tool_name r) (tir_idempotency_key r))
             (cdb_tool_invocations db))
       (ConstraintViolation ''tool_invocations'')) (\<lambda>_.
     Ok (db\<lparr>cdb_tool_invocations := cdb_tool_invocations db @ [r]\<rparr>))"

text \<open>The foreign keys among the tables above that are only checked when the transaction ends.\<close>

definition deferred_keys_hold :: "'x CoreDatabase_scheme \<Rightarrow> bool" where
  "deferred_keys_hold db \<longleftrightarrow>
     list_all (\<lambda>s. case psh_active_task_id s of None \<Rightarrow> True
       | Some task_id \<Rightarrow> list_ex (task_is (psh_project_id s) task_id) (tks_tasks (cdb_tasks db)))
       (tks_project_states (cdb_tasks db)) \<and>
     list_all (\<lambda>t. case task_current_change_unit_id t of None \<Rightarrow> True
       | Some change_unit_id \<Rightarrow> (task_project_id t, task_task_id t, change_unit_id) \<in> set (cdb_change_units db))
       (tks_tasks (cdb_tasks db)) \<and>
     list_all (\<lambda>r. case ae_previous_event_hash (aer_input r) of None \<Rightarrow> True
       | Some hash \<Rightarrow> list_ex (\<lambda>s. aer_event_hash s = hash) (project_events db (ae_project_id (aer_input r))))
       (cdb_authority_events db)"

definition committed_event_refs :: "CommitMutationInput \<Rightarrow> CommittedEventRef list" where
  "committed_event_refs input =
     map (\<lambda>e. \<lparr>cer_event_id = pte_event_id e, cer_event_kind = pte_event_kind e\<rparr>) (cmi_events input)"

definition event_hash_input ::
  "CommitEnv \<Rightarrow> CommitMutationInput \<Rightarrow> VerifiedReplayContext \<Rightarrow> ProjectId \<Rightarrow> u64 \<Rightarrow> UtcTimestamp \<Rightarrow>
     PendingTaskEvent \<Rightarrow> int \<Rightarrow> string option \<Rightarrow> AuthorityEventHashInput" where
  "event_hash_input env input replay_context project_id committed committed_at event event_seq previous = \<lparr>
     ae_project_id = project_id, ae_event_seq = event_seq, ae_event_id = pte_event_id event,
     ae_state_version = uint committed, ae_event_type = pte_event_kind event,
     ae_actor_source = to_canonical_string (vrc_actor_source replay_context),
     ae_operation_category = operation_category_as_str (vrc_operation_category replay_context),
     ae_task_id = pte_task_id event, ae_change_unit_id = pte_change_unit_id event,
     ae_payload_json = pte_event_payload_json event, ae_request_hash = cmi_request_hash input,
     ae_previous_event_hash = previous, ae_created_at = cme_timestamp_text env committed_at\<rparr>"

definition record_events ::
  "CommitEnv \<Rightarrow> CommitMutationInput \<Rightarrow> VerifiedReplayContext \<Rightarrow> ProjectId \<Rightarrow> u64 \<Rightarrow> UtcTimestamp \<Rightarrow>
     'x CoreDatabase_scheme \<Rightarrow> ('x CoreDatabase_scheme, StoreError) result" where
  "record_events env input replay_context project_id committed committed_at db =
     and_then (next_event_seq db project_id) (\<lambda>first_event_seq.
     append_authority_events env
       (event_hash_input env input replay_context project_id committed committed_at)
       first_event_seq (previous_event_hash_tx db project_id) (cmi_events input) db)"

definition invocation_row ::
  "CommitEnv \<Rightarrow> CommitMutationInput \<Rightarrow> VerifiedReplayContext \<Rightarrow> ProjectId \<Rightarrow> string \<Rightarrow> u64 \<Rightarrow> u64 \<Rightarrow> string \<Rightarrow>
     ToolInvocationRaw" where
  "invocation_row env input replay_context project_id key basis committed response_json = \<lparr>
     tir_project_id = project_id, tir_tool_name = cmi_tool_name input, tir_idempotency_key = key,
     tir_request_hash = cmi_request_hash input, tir_basis_state_version = basis,
     tir_committed_state_version = committed,
     tir_actor_source = to_canonical_string (vrc_actor_source replay_context),
     tir_operation_category = operation_category_as_str (vrc_operation_category replay_context),
     tir_verification_basis = vrc_verification_basis replay_context,
     tir_git_workspace_context_json = replay_git_json env replay_context,
     tir_response_json = response_json\<rparr>"

text \<open>The part of a commit that changes the database.\<close>

definition commit_changes ::
  "CommitEnv \<Rightarrow> UtcTimestamp option \<Rightarrow> CommitMutationInput \<Rightarrow> VerifiedReplayContext \<Rightarrow> 'x CommitBody \<Rightarrow>
     (CommittedMutationFacts \<Rightarrow> (string, StoreError) result) \<Rightarrow> ProjectStateHeader \<Rightarrow> CoreProjectStore \<Rightarrow>
     'x CoreDatabase_scheme \<Rightarrow>
     (MutationCommitOutcome \<times> CoreProjectStore \<times> 'x CoreDatabase_scheme, StoreError) result" where
  "commit_changes env sqlite_now input replay_context apply_mutation build_response_json current store db =
     (let project_id = cps_project_id store; basis = psh_state_version current;
          events = committed_event_refs input in
     and_then (next_state_version current) (\<lambda>committed.
     and_then (commit_time sqlite_now input store current db) (\<lambda>committed_at.
     and_then (advance_project_state project_id basis committed committed_at db) (\<lambda>db1.
     let facts = \<lparr>cmf_basis_state_version = basis, cmf_committed_state_version = committed,
           cmf_events = events\<rparr> in
     and_then (apply_mutation \<lparr>mc_project_id = project_id, mc_project_home = cps_project_home store,
       mc_committed_at = committed_at\<rparr> facts db1) (\<lambda>db2.
     and_then (case cmi_transition_expectation input of
         None \<Rightarrow> Ok () | Some e \<Rightarrow> validate_transition_result_state db2 e) (\<lambda>_.
     and_then (record_events env input replay_context project_id committed committed_at db2) (\<lambda>db3.
     and_then (build_response_json facts) (\<lambda>response_json.
     and_then (validate_json_text env ''tool_invocations.response_json'' response_json) (\<lambda>_.
     and_then (case cmi_idempotency_key input of
         None \<Rightarrow> Ok db3
       | Some key \<Rightarrow> insert_tool_invocation
           (invocation_row env input replay_context project_id key basis committed response_json) db3) (\<lambda>db4.
     and_then (ensure (deferred_keys_hold db4) (ConstraintViolation ''FOREIGN KEY'')) (\<lambda>_.
     Ok (Committed response_json basis committed events,
         store\<lparr>cps_last_clock_sample := Some committed_at\<rparr>, db4))))))))))))"

definition commit_with ::
  "CommitEnv \<Rightarrow> UtcTimestamp option \<Rightarrow> CommitMutationInput \<Rightarrow> 'x CommitBody \<Rightarrow>
     (CommittedMutationFacts \<Rightarrow> (string, StoreError) result) \<Rightarrow> CoreProjectStore \<Rightarrow> 'x CoreDatabase_scheme \<Rightarrow>
     (MutationCommitOutcome \<times> CoreProjectStore \<times> 'x CoreDatabase_scheme, StoreError) result" where
  "commit_with env sqlite_now input apply_mutation build_response_json store db =
     and_then (admit_commit env input store) (\<lambda>replay_context.
     and_then (read_project_state_tx db (cps_project_id store)) (\<lambda>current.
     and_then (replay_lookup env input replay_context current store db) (\<lambda>replayed.
     case replayed of
       Some outcome \<Rightarrow> Ok (outcome, store, db)
     | None \<Rightarrow> (case stale_expected_state input current of
           Some outcome \<Rightarrow> Ok (outcome, store, db)
         | None \<Rightarrow> commit_changes env sqlite_now input replay_context apply_mutation build_response_json
             current store db))))"

text \<open>An ordered batch of mutations, and its commit.\<close>

fun apply_batch :: "'x StorageMutation list \<Rightarrow> 'x CommitBody" where
  "apply_batch [] mc facts db = Ok db"
| "apply_batch (m # ms) mc facts db = and_then (sm_apply m mc facts db) (apply_batch ms mc facts)"

definition commit_mutation ::
  "CommitEnv \<Rightarrow> UtcTimestamp option \<Rightarrow> CommitMutationInput \<Rightarrow> 'x StorageMutation list \<Rightarrow>
     (CommittedMutationFacts \<Rightarrow> (string, StoreError) result) \<Rightarrow> CoreProjectStore \<Rightarrow> 'x CoreDatabase_scheme \<Rightarrow>
     (MutationCommitOutcome \<times> CoreProjectStore \<times> 'x CoreDatabase_scheme, StoreError) result" where
  "commit_mutation env sqlite_now input mutations build_response_json store db =
     and_then (validate_transition_expectation input (map sm_kind mutations)) (\<lambda>_.
     commit_with env sqlite_now input (apply_batch mutations) build_response_json store db)"

text \<open>The task and ticket mutations. The write-authority fingerprint of the ticket context and the keys
  it looks up come from tables outside this state.\<close>

definition core_mutation ::
  "(json \<Rightarrow> TaskPolicyControlReevaluation option) \<Rightarrow> string \<Rightarrow> (StoredWriteTicket \<Rightarrow> bool) \<Rightarrow>
     CoreStorageMutation \<Rightarrow> 'x StorageMutation" where
  "core_mutation from_value fingerprint foreign_rows_exist m =
     (case m of
        CoreStorageMutation.Task task_mutation \<Rightarrow> \<lparr>sm_kind = MutationKind.Task,
          sm_apply = (\<lambda>mc facts db. and_then (apply_task_mutation task_mutation
            \<lparr>tkc_project_id = mc_project_id mc, tkc_committed_at = mc_committed_at mc,
             tkc_from_value = from_value\<rparr> (cdb_tasks db)) (\<lambda>tasks. Ok (db\<lparr>cdb_tasks := tasks\<rparr>)))\<rparr>
      | CoreStorageMutation.WriteTicket ticket_mutation \<Rightarrow> \<lparr>sm_kind = MutationKind.WriteTicket,
          sm_apply = (\<lambda>mc facts db. and_then (apply_write_ticket_mutation ticket_mutation
            \<lparr>tmc_project_id = mc_project_id mc, tmc_committed_at = mc_committed_at mc,
             tmc_write_authority_fingerprint = fingerprint, tmc_foreign_rows_exist = foreign_rows_exist\<rparr>
            (cmf_committed_state_version facts) (cdb_tickets db)) (\<lambda>tickets.
            Ok (db\<lparr>cdb_tickets := tickets\<rparr>)))\<rparr>)"

end
