(* ===== verification/CommitLog.thy ===== *)
theory CommitLog
  imports StoreCommit
begin

text \<open>
  What the commit of \<open>StoreCommit\<close> promises. The contract of its closure is the locale \<open>commit_body\<close>,
  interpreted by every batch of task and ticket mutations. \<open>commit_effect\<close> says what one commit changes;
  \<open>commits\<close> is the history of a database under commits of any handle and moves of the project clock.

  The lemmas show that the hashed text of an event can be read in one way only, that a log ending in a
  given hash is unique up to a collision, that every history extends a sound log to a sound log, never
  lowers a version or a clock and keeps every stored answer, and that a request that was answered once is
  answered with the same bytes ever after.
\<close>

section \<open>Vocabulary of the properties\<close>

definition decimal_value :: "string \<Rightarrow> nat" where
  "decimal_value s = foldl (\<lambda>v c. 10 * v + (of_char c - 48)) 0 s"

fun event_chain :: "CommitEnv \<Rightarrow> int \<Rightarrow> string option \<Rightarrow> AuthorityEventRow list \<Rightarrow> bool" where
  "event_chain env event_seq previous [] = True"
| "event_chain env event_seq previous (r # rs) \<longleftrightarrow>
     ae_event_seq (aer_input r) = event_seq \<and> ae_previous_event_hash (aer_input r) = previous \<and>
     aer_event_hash r = authority_event_hash env (aer_input r) \<and>
     event_chain env (event_seq + 1) (Some (aer_event_hash r)) rs"

definition event_text :: "AuthorityEventRow \<Rightarrow> string" where
  "event_text r = concat (map update_field (hashed_fields (aer_input r)))"

definition last_hash :: "string option \<Rightarrow> AuthorityEventRow list \<Rightarrow> string option" where
  "last_hash previous rows = (if rows = [] then previous else Some (aer_event_hash (last rows)))"

definition row_clock :: "ProjectStateHeader \<Rightarrow> ProjectId \<times> u64 \<times> UtcTimestamp" where
  "row_clock s = (psh_project_id s, psh_state_version s, psh_updated_at s)"

abbreviation project_clocks :: "'x CoreDatabase_scheme \<Rightarrow> (ProjectId \<times> u64 \<times> UtcTimestamp) list" where
  "project_clocks db \<equiv> map row_clock (tks_project_states (cdb_tasks db))"

text \<open>The contract of the closure of a commit: it leaves the log, the stored answers, the versions and
  the clocks to the commit.\<close>

locale commit_body =
  fixes apply_mutation :: "'x CommitBody"
  assumes keeps_log: "apply_mutation mc facts db = Ok db' \<Longrightarrow> cdb_authority_events db' = cdb_authority_events db"
    and keeps_answers: "apply_mutation mc facts db = Ok db' \<Longrightarrow> cdb_tool_invocations db' = cdb_tool_invocations db"
    and keeps_clocks: "apply_mutation mc facts db = Ok db' \<Longrightarrow> project_clocks db' = project_clocks db"

text \<open>What a commit that goes through does to the database of its project, and to that of others.\<close>

definition commit_effect ::
  "CommitEnv \<Rightarrow> CommitMutationInput \<Rightarrow> CoreProjectStore \<Rightarrow> ProjectStateHeader \<Rightarrow> UtcTimestamp \<Rightarrow> string \<Rightarrow>
     'x CoreDatabase_scheme \<Rightarrow> 'x CoreDatabase_scheme \<Rightarrow> bool" where
  "commit_effect env input store h t response db db' \<longleftrightarrow>
     (let p = cps_project_id store; v = psh_state_version h + 1 in
      uint v = uint (psh_state_version h) + 1 \<and>
      map_option row_clock (project_row db' p) = Some (psh_project_id h, v, t) \<and>
      (\<forall>q. q \<noteq> p \<longrightarrow> map_option row_clock (project_row db' q) = map_option row_clock (project_row db q)) \<and>
      (\<exists>new. cdb_authority_events db' = cdb_authority_events db @ new \<and>
        map (\<lambda>r. ae_event_id (aer_input r)) new = map pte_event_id (cmi_events input) \<and>
        (\<forall>r \<in> set new. ae_project_id (aer_input r) = p \<and> ae_state_version (aer_input r) = uint v) \<and>
        (event_chain env 1 None (project_events db p) \<longrightarrow>
          event_chain env (int (length (project_events db p)) + 1) (last_hash None (project_events db p)) new)) \<and>
      cdb_tool_invocations db' = cdb_tool_invocations db @
        (case cmi_idempotency_key input of None \<Rightarrow> [] | Some key \<Rightarrow>
          [invocation_row env input (the (cmi_replay_context input)) p key (psh_state_version h) v response]))"

text \<open>The life of a database: commits by any handle with any closure that keeps the contract, and moves
  of the project clock, in any order. Failed attempts change nothing and need no step.\<close>

inductive commits :: "CommitEnv \<Rightarrow> 'x CoreDatabase_scheme \<Rightarrow> 'x CoreDatabase_scheme \<Rightarrow> bool" for env where
  commits_refl: "commits env db db"
| commits_commit: "commits env db db' \<Longrightarrow> commit_body apply_mutation \<Longrightarrow>
    commit_with env sqlite_now input apply_mutation build store db' = Ok (outcome, store', db'') \<Longrightarrow>
    commits env db db''"
| commits_clock: "commits env db db' \<Longrightarrow> advance_project_utc_floor_tx p sample db' = Ok (t, db'') \<Longrightarrow>
    commits env db db''"

definition log_sound :: "CommitEnv \<Rightarrow> 'x CoreDatabase_scheme \<Rightarrow> ProjectId \<Rightarrow> bool" where
  "log_sound env db p \<longleftrightarrow>
     event_chain env 1 None (project_events db p) \<and>
     sorted (map (\<lambda>r. ae_state_version (aer_input r)) (project_events db p)) \<and>
     (\<forall>r \<in> set (project_events db p). \<exists>h. project_row db p = Some h \<and>
        ae_state_version (aer_input r) \<le> uint (psh_state_version h))"

text \<open>How the parts a commit owns may differ between an earlier and a later state.\<close>

definition grows :: "CommitEnv \<Rightarrow> 'x CoreDatabase_scheme \<Rightarrow> 'x CoreDatabase_scheme \<Rightarrow> bool" where
  "grows env db db' \<longleftrightarrow>
     (\<exists>new. cdb_authority_events db' = cdb_authority_events db @ new) \<and>
     (\<exists>new. cdb_tool_invocations db' = cdb_tool_invocations db @ new) \<and>
     (\<forall>p h. project_row db p = Some h \<longrightarrow> (\<exists>h'. project_row db' p = Some h' \<and>
        uint (psh_state_version h) \<le> uint (psh_state_version h') \<and> psh_updated_at h \<le> psh_updated_at h' \<and>
        (canonical_rfc3339_representable (psh_updated_at h) \<longrightarrow>
          canonical_rfc3339_representable (psh_updated_at h')))) \<and>
     (\<forall>p. log_sound env db p \<longrightarrow> log_sound env db' p)"

definition sample_env :: CommitEnv where
  "sample_env = \<lparr>cme_from_str = (\<lambda>s. if s = ''{}'' then Some (JObject []) else None),
     cme_to_vec = (\<lambda>_. ''{}''), cme_git_from_str = (\<lambda>_. None), cme_sha256 = (\<lambda>_. [0]),
     cme_timestamp_text = (\<lambda>_. ''1970-01-01T00:00:00Z'')\<rparr>"

definition sample_database :: CoreDatabase where
  "sample_database = \<lparr>cdb_tasks = sample_task_tables, cdb_tickets = [],
     cdb_change_units = [(''p'', ''task_1'', ''cu_1'')],
     cdb_request_tasks = [], cdb_resolved_requests = [], cdb_authority_events = [], cdb_tool_invocations = []\<rparr>"

definition sample_store :: CoreProjectStore where
  "sample_store = \<lparr>cps_canonical_runtime_home = Some ''/home'', cps_project_id = ''p'',
     cps_project_home = ''/home/p'', cps_mutation_context = Some ''/home'', cps_last_clock_sample = None\<rparr>"

definition sample_commit_input :: "string \<Rightarrow> CommitMutationInput" where
  "sample_commit_input key = (commit_input ''p'' MethodName.Intake (Some key) ''hash''
     (Some \<lparr>vrc_actor_source = ActorSource.LocalUser, vrc_operation_category = OperationCategory.UserOnly,
        vrc_verification_basis = None, vrc_git_workspace_context = None\<rparr>)
     (Some 7)
     [\<lparr>pte_event_id = ''event_1'', pte_task_id = Some ''task_1'', pte_change_unit_id = None,
       pte_event_kind = ''task_activated'', pte_event_payload_json = ''{}''\<rparr>])"

abbreviation sample_body :: "unit CommitBody" where
  "sample_body \<equiv> apply_batch (map (core_mutation (\<lambda>_. None) ''fp'' (\<lambda>_. True))
     [CoreStorageMutation.Task (SetActive ''task_1'')])"

abbreviation sample_commit ::
  "string \<Rightarrow> CoreProjectStore \<Rightarrow> CoreDatabase \<Rightarrow>
     (MutationCommitOutcome \<times> CoreProjectStore \<times> CoreDatabase, StoreError) result" where
  "sample_commit key store db \<equiv>
     commit_with sample_env (Some 700) (sample_commit_input key) sample_body (\<lambda>_. Ok ''{}'') store db"

text \<open>The state after the sample commit.\<close>

definition sample_committed_database :: CoreDatabase where
  "sample_committed_database = (case sample_commit ''k1'' sample_store sample_database of
     Ok (outcome, store, db) \<Rightarrow> db | Err _ \<Rightarrow> sample_database)"

definition sample_event :: AuthorityEventRow where
  "sample_event = (let input = \<lparr>ae_project_id = ''p'', ae_event_seq = 1, ae_event_id = ''event_1'',
       ae_state_version = 8, ae_event_type = ''task_activated'', ae_actor_source = ''local_user'',
       ae_operation_category = ''user_only'', ae_task_id = Some ''task_1'', ae_change_unit_id = None,
       ae_payload_json = ''{}'', ae_request_hash = ''hash'', ae_previous_event_hash = None,
       ae_created_at = ''1970-01-01T00:00:00Z''\<rparr>
     in \<lparr>aer_input = input, aer_event_hash = authority_event_hash sample_env input\<rparr>)"

section \<open>The text that is hashed\<close>

lemma decimal_nat_digits: "list_all is_ascii_digit (decimal_nat n) \<and> decimal_nat n \<noteq> []"
proof (induction n rule: decimal_nat.induct)
  case (1 n)
  have d: "is_ascii_digit (char_of (48 + k) :: char)" if "k < 10" for k :: nat
    using that by (auto simp: is_ascii_digit_def byte_in_def)
  show ?case
    using 1 d[of n] d[of "n mod 10"] by (subst (1 2) decimal_nat.simps) auto
qed

lemma decimal_value_decimal_nat: "decimal_value (decimal_nat n) = n"
proof (induction n rule: decimal_nat.induct)
  case (1 n)
  have d: "of_char (char_of (48 + k) :: char) = 48 + k" if "k < 10" for k :: nat
    using that by simp
  show ?case
    using 1 d[of n] d[of "n mod 10"] by (subst decimal_nat.simps) (auto simp: decimal_value_def)
qed

lemma decimal_nat_inj: "decimal_nat m = decimal_nat n \<Longrightarrow> m = n"
  by (metis decimal_value_decimal_nat)

lemma decimal_int_inj: "decimal_int i = decimal_int j \<Longrightarrow> i = j"
proof -
  have no_sign: "decimal_nat n \<noteq> CHR ''-'' # s" for n s
    using decimal_nat_digits[of n] by (auto simp: is_ascii_digit_def byte_in_def)
  show "decimal_int i = decimal_int j \<Longrightarrow> i = j"
    using no_sign no_sign[symmetric]
    by (auto simp: decimal_int_def split: if_splits dest!: decimal_nat_inj)
qed

text \<open>A run of digits ends at the first byte that is not one.\<close>

lemma digits_end_at_colon:
  assumes "list_all is_ascii_digit xs" "list_all is_ascii_digit ys" "xs @ CHR '':'' # us = ys @ CHR '':'' # vs"
  shows "xs = ys \<and> us = vs"
proof -
  have stop: "takeWhile is_ascii_digit (zs @ CHR '':'' # ws) = zs" if "list_all is_ascii_digit zs" for zs ws
    using that by (induction zs) (auto simp: is_ascii_digit_def byte_in_def)
  show ?thesis using stop[OF assms(1)] stop[OF assms(2)] assms(3) by (metis append_same_eq same_append_eq list.inject)
qed

lemma update_field_unambiguous:
  assumes "update_field x @ us = update_field y @ vs"
  shows "x = y \<and> us = vs"
proof -
  have "decimal_nat (length x) @ CHR '':'' # (x @ CHR 0x0A # us) =
      decimal_nat (length y) @ CHR '':'' # (y @ CHR 0x0A # vs)"
    using assms by (simp add: update_field_def)
  then have "decimal_nat (length x) = decimal_nat (length y)" "x @ CHR 0x0A # us = y @ CHR 0x0A # vs"
    using digits_end_at_colon decimal_nat_digits by blast+
  then show ?thesis by (auto dest!: decimal_nat_inj)
qed

lemma hashed_text_unambiguous:
  "concat (map update_field xs) = concat (map update_field ys) \<Longrightarrow> length xs = length ys \<Longrightarrow> xs = ys"
proof (induction xs arbitrary: ys)
  case (Cons x xs)
  then show ?case by (cases ys) (auto dest!: update_field_unambiguous)
qed simp

section \<open>Hash chains\<close>

lemma event_chain_append:
  "event_chain env event_seq previous (rs @ qs) \<longleftrightarrow>
     event_chain env event_seq previous rs \<and>
     event_chain env (event_seq + int (length rs)) (last_hash previous rs) qs"
  by (induction rs arbitrary: event_seq previous) (auto simp: last_hash_def add.assoc add.commute)

lemma event_chain_seqs:
  "event_chain env event_seq previous rs \<Longrightarrow>
     map (\<lambda>r. ae_event_seq (aer_input r)) rs = map (\<lambda>i. event_seq + int i) [0..<length rs]"
proof (induction rs arbitrary: event_seq previous)
  case (Cons r rs)
  then show ?case
    by (auto simp: upt_conv_Cons map_Suc_upt[symmetric] simp del: upt_Suc)
qed simp

lemma max_event_seq_le:
  "0 \<le> n \<Longrightarrow> \<forall>r \<in> set rs. ae_event_seq (aer_input r) \<le> n \<Longrightarrow> max_event_seq rs \<le> n"
  unfolding max_event_seq_def by (induction rs) auto

lemma max_event_seq_ge: "r \<in> set rs \<Longrightarrow> ae_event_seq (aer_input r) \<le> max_event_seq rs"
  unfolding max_event_seq_def by (induction rs) auto

lemma event_chain_nth:
  assumes "event_chain env 1 previous rs" "i < length rs"
  shows "ae_event_seq (aer_input (rs ! i)) = 1 + int i"
proof -
  have "map (\<lambda>r. ae_event_seq (aer_input r)) rs ! i = map (\<lambda>i. 1 + int i) [0..<length rs] ! i"
    by (simp only: event_chain_seqs[OF assms(1)])
  then show ?thesis using assms(2) by simp
qed

lemma max_event_seq_chain:
  assumes "event_chain env 1 previous rs"
  shows "max_event_seq rs = int (length rs)"
proof (rule antisym)
  show "max_event_seq rs \<le> int (length rs)"
    using event_chain_nth[OF assms] by (intro max_event_seq_le) (auto simp: in_set_conv_nth)
  show "int (length rs) \<le> max_event_seq rs"
  proof (cases "rs = []")
    case False
    then have "ae_event_seq (aer_input (last rs)) = int (length rs)"
      using event_chain_nth[OF assms, of "length rs - 1"] by (simp add: last_conv_nth of_nat_diff Suc_leI)
    then show ?thesis using max_event_seq_ge[of "last rs" rs] False by simp
  qed (simp add: max_event_seq_def)
qed

lemma latest_event_chain:
  assumes "event_chain env 1 None rs"
  shows "(case sort_key (\<lambda>r. - ae_event_seq (aer_input r)) rs of [] \<Rightarrow> None | r # _ \<Rightarrow> Some (aer_event_hash r)) =
    last_hash None rs"
proof -
  let ?f = "\<lambda>r. - ae_event_seq (aer_input r)"
  have "sorted (map ?f (rev rs))"
    by (auto simp: sorted_iff_nth_mono rev_nth event_chain_nth[OF assms])
  moreover have "inj_on ?f (set rs)"
    by (auto simp: inj_on_def in_set_conv_nth event_chain_nth[OF assms])
  ultimately have "sort_key ?f rs = rev rs"
    by (intro sort_key_inj_key_eq) auto
  then show ?thesis
    by (cases rs rule: rev_cases) (simp_all add: last_hash_def)
qed

lemma hashed_fields_length [simp]: "length (hashed_fields e) = 13"
  by (simp add: hashed_fields_def)

lemma hashed_fields_seq: "hashed_fields e = hashed_fields e' \<Longrightarrow> ae_event_seq e = ae_event_seq e'"
  by (auto simp: hashed_fields_def dest: decimal_int_inj)

lemma equal_hashes:
  assumes "authority_event_hash env (aer_input r) = authority_event_hash env (aer_input q)"
    and "cme_sha256 env (event_text r) = cme_sha256 env (event_text q) \<longrightarrow> event_text r = event_text q"
  shows "hashed_fields (aer_input r) = hashed_fields (aer_input q)"
  using assms hashed_text_unambiguous[of "hashed_fields (aer_input r)" "hashed_fields (aer_input q)"]
  by (auto simp: authority_event_hash_def event_text_def dest!: lowercase_hex_inj)

lemma or_empty_last_hash:
  assumes "event_chain env 1 None rs" "event_chain env 1 None qs"
    and "or_empty (last_hash None rs) = or_empty (last_hash None qs)"
  shows "last_hash None rs = last_hash None qs"
proof -
  have hash: "aer_event_hash (last xs) \<noteq> []" if "event_chain env 1 None xs" "xs \<noteq> []" for xs
    using that by (cases xs rule: rev_cases) (auto simp: event_chain_append authority_event_hash_def)
  then show ?thesis
    using assms hash[of qs]
    by (auto simp: last_hash_def or_empty_def eq_commute[of "[]" "aer_event_hash (last qs)"] split: if_splits)
qed

lemma chains_with_equal_ends:
  assumes "event_chain env 1 None rs" "event_chain env 1 None qs" "last_hash None rs = last_hash None qs"
    and "\<forall>r \<in> set rs. \<forall>q \<in> set qs. cme_sha256 env (event_text r) = cme_sha256 env (event_text q) \<longrightarrow>
      event_text r = event_text q"
  shows "map (\<lambda>r. hashed_fields (aer_input r)) rs = map (\<lambda>r. hashed_fields (aer_input r)) qs"
  using assms
proof (induction rs arbitrary: qs rule: rev_induct)
  case Nil
  then show ?case by (auto simp: last_hash_def split: if_splits)
next
  case (snoc r rs)
  then obtain q qs' where qs: "qs = qs' @ [q]"
    by (cases qs rule: rev_cases) (auto simp: last_hash_def)
  have chains: "event_chain env 1 None rs" "event_chain env 1 None qs'"
    and links: "ae_previous_event_hash (aer_input r) = last_hash None rs"
      "ae_previous_event_hash (aer_input q) = last_hash None qs'"
    and "authority_event_hash env (aer_input r) = authority_event_hash env (aer_input q)"
    using snoc.prems by (auto simp: qs event_chain_append last_hash_def)
  then have fields: "hashed_fields (aer_input r) = hashed_fields (aer_input q)"
    using snoc.prems(4) by (intro equal_hashes) (auto simp: qs)
  then have "or_empty (last_hash None rs) = or_empty (last_hash None qs')"
    by (simp add: hashed_fields_def links)
  then have "last_hash None rs = last_hash None qs'" by (rule or_empty_last_hash[OF chains])
  then show ?case using snoc.IH[OF chains] snoc.prems(4) fields by (simp add: qs)
qed

text \<open>C9: Two authority-event logs that are both well-formed hash chains and end in the same hash agree in
  every hashed column of every event, unless the logs themselves exhibit two different texts with the same
  SHA-256 value: the log cannot be rewritten, reordered or cut without changing its last hash.
\<close>

theorem event_log_is_tamper_evident:
  assumes "event_chain env 1 None rows" and "event_chain env 1 None rows'"
    and "last_hash None rows = last_hash None rows'"
  shows "map (\<lambda>r. hashed_fields (aer_input r)) rows = map (\<lambda>r. hashed_fields (aer_input r)) rows' \<or>
    (\<exists>r \<in> set rows. \<exists>r' \<in> set rows'. event_text r \<noteq> event_text r' \<and>
      cme_sha256 env (event_text r) = cme_sha256 env (event_text r'))"
  using chains_with_equal_ends[OF assms] by blast

section \<open>What one commit changes\<close>

lemma find_row_clock:
  assumes "map row_clock xs = map row_clock ys"
  shows "map_option row_clock (find (\<lambda>s. psh_project_id s = p) xs) =
    map_option row_clock (find (\<lambda>s. psh_project_id s = p) ys)"
proof -
  have "list_all2 (\<lambda>x y. row_clock x = row_clock y) xs ys"
    using assms by (simp add: list_eq_iff_nth_eq list_all2_conv_all_nth)
  then show ?thesis
    by (induction rule: list_all2_induct) (auto simp: row_clock_def)
qed

lemma find_updated_row:
  assumes "find P xs = Some h" "Q h" "\<And>x. P (g x) = P x"
  shows "find P (map (\<lambda>x. if P x \<and> Q x then g x else x) xs) = Some (g h)"
  using assms by (induction xs) (auto split: if_splits)

lemma find_other:
  assumes "\<And>x. P x \<Longrightarrow> \<not> R x" "\<And>x. P (g x) = P x"
  shows "find P (map (\<lambda>x. if R x then g x else x) xs) = find P xs"
  using assms by (induction xs) auto

lemma advance_project_state_Ok:
  assumes "advance_project_state p basis committed t db = Ok db'" "project_row db p = Some h"
    and "psh_state_version h = basis"
  shows "project_row db' p = Some (h\<lparr>psh_state_version := committed, psh_updated_at := t\<rparr>)"
    and "q \<noteq> p \<Longrightarrow> project_row db' q = project_row db q"
    and "cdb_authority_events db' = cdb_authority_events db"
    and "cdb_tool_invocations db' = cdb_tool_invocations db"
proof -
  let ?g = "\<lambda>s. s\<lparr>psh_state_version := committed, psh_updated_at := t\<rparr>"
  have db': "db' = db\<lparr>cdb_tasks := (cdb_tasks db)\<lparr>tks_project_states :=
      map (\<lambda>s. if psh_project_id s = p \<and> psh_state_version s = basis then ?g s else s)
        (tks_project_states (cdb_tasks db))\<rparr>\<rparr>"
    using assms(1) by (auto simp: advance_project_state_def sql_update_def split: if_splits)
  show "project_row db' p = Some (?g h)"
    using assms(2,3) unfolding db' project_row_def by (auto intro!: find_updated_row)
  show "q \<noteq> p \<Longrightarrow> project_row db' q = project_row db q"
    unfolding db' project_row_def by (auto intro!: find_other)
  show "cdb_authority_events db' = cdb_authority_events db" "cdb_tool_invocations db' = cdb_tool_invocations db"
    by (simp_all add: db')
qed

lemma append_authority_events_Ok:
  assumes "append_authority_events env hash_input event_seq previous events db = Ok db'"
    and "\<And>e n h. ae_project_id (hash_input e n h) = p \<and> ae_event_seq (hash_input e n h) = n \<and>
      ae_previous_event_hash (hash_input e n h) = h \<and> ae_state_version (hash_input e n h) = v \<and>
      ae_event_id (hash_input e n h) = pte_event_id e"
  shows "\<exists>new. db' = db\<lparr>cdb_authority_events := cdb_authority_events db @ new\<rparr> \<and>
    event_chain env event_seq previous new \<and>
    map (\<lambda>r. ae_event_id (aer_input r)) new = map pte_event_id events \<and>
    (\<forall>r \<in> set new. ae_project_id (aer_input r) = p \<and> ae_state_version (aer_input r) = v)"
  using assms(1)
proof (induction events arbitrary: event_seq previous db)
  case (Cons event events)
  let ?r = "\<lparr>aer_input = hash_input event event_seq previous,
    aer_event_hash = authority_event_hash env (hash_input event event_seq previous)\<rparr>"
  have "append_authority_events env hash_input (event_seq + 1) (Some (aer_event_hash ?r)) events
      (db\<lparr>cdb_authority_events := cdb_authority_events db @ [?r]\<rparr>) = Ok db'"
    using Cons.prems by (auto simp: Let_def insert_authority_event_def)
  from Cons.IH[OF this] obtain new where
    new: "db' = db\<lparr>cdb_authority_events := cdb_authority_events db @ ?r # new\<rparr>"
      "event_chain env (event_seq + 1) (Some (aer_event_hash ?r)) new"
      "map (\<lambda>r. ae_event_id (aer_input r)) new = map pte_event_id events"
      "\<forall>r \<in> set new. ae_project_id (aer_input r) = p \<and> ae_state_version (aer_input r) = v"
    by auto
  then show ?case using assms(2) by (intro exI[of _ "?r # new"]) simp
qed (auto intro!: exI[of _ "[]"])

lemma commit_time_Ok:
  assumes "commit_time sqlite_now input store h db = Ok t" "project_row db (cps_project_id store) = Some h"
    and "canonical_rfc3339_representable (psh_updated_at h)"
    and "representable_sample (cmi_clock_floor input)" "representable_sample (cps_last_clock_sample store)"
  shows "psh_updated_at h \<le> t \<and> canonical_rfc3339_representable t \<and>
    (\<forall>s. cps_last_clock_sample store = Some s \<longrightarrow> s \<le> t) \<and> (\<forall>s. cmi_clock_floor input = Some s \<longrightarrow> s \<le> t)"
  using assms
  by (cases "cps_last_clock_sample store"; cases "cmi_clock_floor input")
    (auto simp: commit_time_def project_current_utc_timestamp_for_conn_def local_clock_floor_def
      representable_sample_def max_def split: if_splits option.splits)

lemma admit_commit_Ok:
  "admit_commit env input store = Ok c \<longleftrightarrow>
     is_ok (require_mutation_context store) \<and> cmi_project_id input = cps_project_id store \<and>
     cmi_events input \<noteq> [] \<and> trim (cmi_tool_name input) \<noteq> [] \<and> trim (cmi_request_hash input) \<noteq> [] \<and>
     cmi_replay_context input = Some c \<and> validate_replay_context env c = Ok () \<and>
     is_ok (collect_results (validate_pending_event env) (cmi_events input)) \<and>
     representable_sample (cmi_clock_floor input) \<and> representable_sample (cps_last_clock_sample store)"
  by (cases "require_mutation_context store"; cases "collect_results (validate_pending_event env) (cmi_events input)")
    (auto simp: admit_commit_def validate_identifier_def split: option.splits)

lemma read_project_state_tx_Ok:
  "read_project_state_tx db p = Ok h \<longleftrightarrow>
     project_row db p = Some h \<and> canonical_rfc3339_representable (psh_updated_at h)"
  by (auto simp: read_project_state_tx_def split: option.splits)

lemma next_state_version_Ok:
  "next_state_version h = Ok v \<longleftrightarrow> v = psh_state_version h + 1 \<and> uint (psh_state_version h) + 1 < 2 ^ 63"
proof -
  have "uint (psh_state_version h + 1) = uint (psh_state_version h) + 1"
    if "uint (psh_state_version h) + 1 < 2 ^ 64"
    using that by (simp add: uint_word_ariths mod_pos_pos_trivial)
  then show ?thesis
    by (auto simp: next_state_version_def u64_to_i64_def split: if_splits)
qed

lemma project_events_append:
  "cdb_authority_events db' = cdb_authority_events db @ new \<Longrightarrow>
   project_events db' p = project_events db p @ filter (\<lambda>r. ae_project_id (aer_input r) = p) new"
  by (simp add: project_events_def)

lemma record_events_Ok:
  assumes "record_events env input c p v t db = Ok db'"
  shows "\<exists>new. db' = db\<lparr>cdb_authority_events := cdb_authority_events db @ new\<rparr> \<and>
    map (\<lambda>r. ae_event_id (aer_input r)) new = map pte_event_id (cmi_events input) \<and>
    (\<forall>r \<in> set new. ae_project_id (aer_input r) = p \<and> ae_state_version (aer_input r) = uint v) \<and>
    (event_chain env 1 None (project_events db p) \<longrightarrow>
      event_chain env (int (length (project_events db p)) + 1) (last_hash None (project_events db p)) new)"
proof -
  obtain first_seq where first: "next_event_seq db p = Ok first_seq"
    and appended: "append_authority_events env (event_hash_input env input c p v t) first_seq
      (previous_event_hash_tx db p) (cmi_events input) db = Ok db'"
    using assms by (auto simp: record_events_def)
  have seq: "first_seq = max_event_seq (project_events db p) + 1"
    using first by (auto simp: next_event_seq_def Let_def split: if_splits)
  show ?thesis
    using append_authority_events_Ok[OF appended, of p "uint v"]
      max_event_seq_chain[of env None "project_events db p"] latest_event_chain[of env "project_events db p"]
    by (auto simp: event_hash_input_def previous_event_hash_tx_def seq)
qed

lemma commit_changes_Ok:
  assumes "commit_changes env sqlite_now input c apply_mutation build h store db = Ok (outcome, store', db')"
    and "commit_body apply_mutation" "cmi_replay_context input = Some c"
    and "project_row db (cps_project_id store) = Some h"
  obtains t response where
    "commit_time sqlite_now input store h db = Ok t"
    "outcome = Committed response (psh_state_version h) (psh_state_version h + 1) (committed_event_refs input)"
    "store' = store\<lparr>cps_last_clock_sample := Some t\<rparr>" "cme_from_str env response \<noteq> None"
    "commit_effect env input store h t response db db'"
proof -
  let ?p = "cps_project_id store" and ?v = "psh_state_version h + 1"
  let ?facts = "\<lparr>cmf_basis_state_version = psh_state_version h, cmf_committed_state_version = ?v,
    cmf_events = committed_event_refs input\<rparr>"
  obtain t db1 db2 db3 response where
    version: "uint (psh_state_version h) + 1 < 2 ^ 63"
    and time: "commit_time sqlite_now input store h db = Ok t"
    and db1: "advance_project_state ?p (psh_state_version h) ?v t db = Ok db1"
    and db2: "apply_mutation \<lparr>mc_project_id = ?p, mc_project_home = cps_project_home store,
      mc_committed_at = t\<rparr> ?facts db1 = Ok db2"
    and db3: "record_events env input c ?p ?v t db2 = Ok db3"
    and response: "cme_from_str env response \<noteq> None"
    and db4: "(case cmi_idempotency_key input of None \<Rightarrow> Ok db3
      | Some key \<Rightarrow> insert_tool_invocation
          (invocation_row env input c ?p key (psh_state_version h) ?v response) db3) = Ok db'"
    and result: "outcome = Committed response (psh_state_version h) ?v (committed_event_refs input)"
      "store' = store\<lparr>cps_last_clock_sample := Some t\<rparr>"
    using assms(1) by (clarsimp simp: commit_changes_def Let_def next_state_version_Ok validate_json_text_def) blast
  note adv = advance_project_state_Ok[OF db1 assms(4) refl]
  note keeps = commit_body.keeps_log[OF assms(2) db2] commit_body.keeps_answers[OF assms(2) db2]
    find_row_clock[OF commit_body.keeps_clocks[OF assms(2) db2], folded project_row_def]
  obtain new where new: "db3 = db2\<lparr>cdb_authority_events := cdb_authority_events db2 @ new\<rparr>"
      "map (\<lambda>r. ae_event_id (aer_input r)) new = map pte_event_id (cmi_events input)"
      "\<forall>r \<in> set new. ae_project_id (aer_input r) = ?p \<and> ae_state_version (aer_input r) = uint ?v"
      "event_chain env 1 None (project_events db2 ?p) \<longrightarrow>
        event_chain env (int (length (project_events db2 ?p)) + 1) (last_hash None (project_events db2 ?p)) new"
    using record_events_Ok[OF db3] by blast
  have events: "project_events db2 ?p = project_events db ?p"
    by (simp add: project_events_def keeps(1) adv(3))
  have db': "db' = db3\<lparr>cdb_tool_invocations := cdb_tool_invocations db3 @
      (case cmi_idempotency_key input of None \<Rightarrow> [] | Some key \<Rightarrow>
        [invocation_row env input c ?p key (psh_state_version h) ?v response])\<rparr>"
    using db4 by (auto simp: insert_tool_invocation_def split: option.splits)
  have rows: "project_row db' q = project_row db2 q" for q
    by (simp add: db' new(1) project_row_def)
  have "uint ?v = uint (psh_state_version h) + 1"
    using version by (simp add: uint_word_ariths mod_pos_pos_trivial)
  then have "commit_effect env input store h t response db db'"
    unfolding commit_effect_def Let_def rows keeps(3)
    using adv new(2-4) keeps(1,2) events assms(3)
    by (auto simp: db' new(1) row_clock_def assms(3) split: option.split)
  then show ?thesis using that time result response by blast
qed

lemma commit_with_Ok:
  assumes "commit_with env sqlite_now input apply_mutation build store db = Ok (outcome, store', db')"
    and "commit_body apply_mutation"
  obtains (unchanged) "store' = store" "db' = db" "\<And>r b v es. outcome \<noteq> Committed r b v es"
  | (committed) h t response where
    "project_row db (cps_project_id store) = Some h" "canonical_rfc3339_representable (psh_updated_at h)"
    "\<forall>expected. cmi_expected_state_version input = Some expected \<longrightarrow> expected = psh_state_version h"
    "outcome = Committed response (psh_state_version h) (psh_state_version h + 1) (committed_event_refs input)"
    "store' = store\<lparr>cps_last_clock_sample := Some t\<rparr>" "cme_from_str env response \<noteq> None"
    "commit_effect env input store h t response db db'"
    "psh_updated_at h \<le> t" "canonical_rfc3339_representable t"
    "\<forall>s. cps_last_clock_sample store = Some s \<longrightarrow> s \<le> t" "\<forall>s. cmi_clock_floor input = Some s \<longrightarrow> s \<le> t"
proof -
  obtain c h replayed where admitted: "admit_commit env input store = Ok c"
    and h: "read_project_state_tx db (cps_project_id store) = Ok h"
    and replayed: "replay_lookup env input c h store db = Ok replayed"
    and rest: "(case replayed of Some outcome \<Rightarrow> Ok (outcome, store, db)
      | None \<Rightarrow> (case stale_expected_state input h of Some outcome \<Rightarrow> Ok (outcome, store, db)
         | None \<Rightarrow> commit_changes env sqlite_now input c apply_mutation build h store db)) =
      Ok (outcome, store', db')"
    using assms(1) by (auto simp: commit_with_def)
  show ?thesis
  proof (cases "replayed = None \<and> stale_expected_state input h = None")
    case False
    then show ?thesis
      using rest replayed
      by (intro unchanged) (auto simp: replay_lookup_def stale_expected_state_def split: option.splits if_splits)
  next
    case True
    with rest have changes: "commit_changes env sqlite_now input c apply_mutation build h store db =
        Ok (outcome, store', db')" by simp
    note row = h[unfolded read_project_state_tx_Ok] and ok = admitted[unfolded admit_commit_Ok]
    obtain t response where t: "commit_time sqlite_now input store h db = Ok t"
      "outcome = Committed response (psh_state_version h) (psh_state_version h + 1) (committed_event_refs input)"
      "store' = store\<lparr>cps_last_clock_sample := Some t\<rparr>" "cme_from_str env response \<noteq> None"
      "commit_effect env input store h t response db db'"
      using commit_changes_Ok[OF changes assms(2)] row ok by metis
    have "\<forall>expected. cmi_expected_state_version input = Some expected \<longrightarrow> expected = psh_state_version h"
      using True by (auto simp: stale_expected_state_def split: option.splits if_splits)
    then show ?thesis
      using committed[of h response t] row t commit_time_Ok[OF t(1)] ok by blast
  qed
qed

section \<open>Histories\<close>

lemma grows_refl [simp]: "grows env db db"
  by (auto simp: grows_def)

lemma grows_trans:
  assumes "grows env db db'" "grows env db' db''"
  shows "grows env db db''"
proof -
  have "\<exists>h''. project_row db'' p = Some h'' \<and>
      uint (psh_state_version h) \<le> uint (psh_state_version h'') \<and> psh_updated_at h \<le> psh_updated_at h'' \<and>
      (canonical_rfc3339_representable (psh_updated_at h) \<longrightarrow>
        canonical_rfc3339_representable (psh_updated_at h''))" if "project_row db p = Some h" for p h
    using assms that unfolding grows_def by (meson order_trans)
  then show ?thesis using assms unfolding grows_def by (metis append_assoc)
qed

lemma row_clock_Some:
  "map_option row_clock (project_row db p) = Some (q, v, t) \<longleftrightarrow>
     (\<exists>h. project_row db p = Some h \<and> psh_project_id h = q \<and> psh_state_version h = v \<and> psh_updated_at h = t)"
  by (auto simp: row_clock_def)

lemma same_row_clock:
  assumes "map_option row_clock (project_row db' q) = map_option row_clock (project_row db q)"
    and "project_row db q = Some h"
  obtains h' where "project_row db' q = Some h'" "psh_state_version h' = psh_state_version h"
    "psh_updated_at h' = psh_updated_at h"
  using assms by (auto simp: row_clock_def)

lemma log_sound_other:
  assumes "log_sound env db q" "project_events db' q = project_events db q"
    and "map_option row_clock (project_row db' q) = map_option row_clock (project_row db q)"
  shows "log_sound env db' q"
proof -
  have "\<exists>h'. project_row db' q = Some h' \<and> ae_state_version (aer_input r) \<le> uint (psh_state_version h')"
    if r: "r \<in> set (project_events db' q)" for r
  proof -
    obtain h where h: "project_row db q = Some h" "ae_state_version (aer_input r) \<le> uint (psh_state_version h)"
      using assms(1,2) r by (auto simp: log_sound_def)
    then show ?thesis by (metis same_row_clock[OF assms(3) h(1)])
  qed
  then show ?thesis using assms(1,2) by (simp add: log_sound_def)
qed

lemma commit_effect_log_sound:
  assumes effect: "commit_effect env input store h t response db db'"
    and h: "project_row db (cps_project_id store) = Some h" and sound: "log_sound env db q"
  shows "log_sound env db' q"
proof -
  let ?p = "cps_project_id store"
  obtain new where new: "cdb_authority_events db' = cdb_authority_events db @ new"
      "\<forall>r \<in> set new. ae_project_id (aer_input r) = ?p \<and> ae_state_version (aer_input r) = uint (psh_state_version h + 1)"
      "event_chain env 1 None (project_events db ?p) \<longrightarrow>
        event_chain env (int (length (project_events db ?p)) + 1) (last_hash None (project_events db ?p)) new"
    and version: "uint (psh_state_version h + 1) = uint (psh_state_version h) + 1"
    and clock: "map_option row_clock (project_row db' ?p) = Some (psh_project_id h, psh_state_version h + 1, t)"
    and other: "\<And>q. q \<noteq> ?p \<Longrightarrow> map_option row_clock (project_row db' q) = map_option row_clock (project_row db q)"
    using effect by (auto simp: commit_effect_def Let_def)
  show ?thesis
  proof (cases "q = ?p")
    case False
    then have "filter (\<lambda>r. ae_project_id (aer_input r) = q) new = []"
      using new(2) by (auto simp: filter_empty_conv)
    then show ?thesis
      using log_sound_other[OF sound _ other[OF False]] project_events_append[OF new(1), of q] by simp
  next
    case True
    have "filter (\<lambda>r. ae_project_id (aer_input r) = ?p) new = new"
      using new(2) by (simp add: filter_id_conv)
    then have events: "project_events db' ?p = project_events db ?p @ new"
      by (simp add: project_events_append[OF new(1)])
    obtain h' where h': "project_row db' ?p = Some h'" "psh_state_version h' = psh_state_version h + 1"
      using clock by (auto simp: row_clock_def)
    have old: "\<forall>r \<in> set (project_events db ?p). ae_state_version (aer_input r) \<le> uint (psh_state_version h)"
      using sound h by (auto simp: log_sound_def True)
    have "sorted (map (\<lambda>r. ae_state_version (aer_input r)) new)"
      using new(2) by (auto simp: sorted_iff_nth_mono)
    then have "sorted (map (\<lambda>r. ae_state_version (aer_input r)) (project_events db' ?p))"
      using sound old new(2) version by (force simp: log_sound_def True events sorted_append)
    moreover have "event_chain env 1 None (project_events db' ?p)"
      using sound new(3) by (simp add: log_sound_def True events event_chain_append add.commute)
    moreover have "\<forall>r \<in> set (project_events db' ?p). ae_state_version (aer_input r) \<le> uint (psh_state_version h')"
      using old new(2) version by (force simp: events h'(2))
    ultimately show ?thesis by (simp add: log_sound_def True h'(1))
  qed
qed

lemma commit_grows:
  assumes "commit_with env sqlite_now input apply_mutation build store db = Ok (outcome, store', db')"
    and "commit_body apply_mutation"
  shows "grows env db db'"
  using assms
proof (cases rule: commit_with_Ok)
  case (committed h t response)
  let ?p = "cps_project_id store"
  note effect = committed(7)[unfolded commit_effect_def Let_def]
  from effect have log: "\<exists>new. cdb_authority_events db' = cdb_authority_events db @ new"
    and answers: "\<exists>new. cdb_tool_invocations db' = cdb_tool_invocations db @ new" by blast+
  obtain h' where h': "project_row db' ?p = Some h'" "psh_state_version h' = psh_state_version h + 1"
      "psh_updated_at h' = t"
    using effect by (auto simp: row_clock_def)
  have version: "uint (psh_state_version h) \<le> uint (psh_state_version h + 1)" using effect by simp
  have other: "map_option row_clock (project_row db' q) = map_option row_clock (project_row db q)" if "q \<noteq> ?p" for q
    using effect that by simp
  have "\<exists>h'. project_row db' q = Some h' \<and> uint (psh_state_version g) \<le> uint (psh_state_version h') \<and>
      psh_updated_at g \<le> psh_updated_at h' \<and> (canonical_rfc3339_representable (psh_updated_at g) \<longrightarrow>
        canonical_rfc3339_representable (psh_updated_at h'))" if g: "project_row db q = Some g" for q g
  proof (cases "q = ?p")
    case True
    then show ?thesis using g committed(1,8,9) h' version by simp
  next
    case False
    show ?thesis by (rule same_row_clock[OF other[OF False] g]) simp
  qed
  moreover have "\<forall>q. log_sound env db q \<longrightarrow> log_sound env db' q"
    using commit_effect_log_sound[OF committed(7,1)] by blast
  ultimately show ?thesis
    unfolding grows_def using log answers by simp
qed simp

lemma clock_grows:
  assumes "advance_project_utc_floor_tx p sample db = Ok (t, db')"
  shows "grows env db db'"
proof -
  obtain h where h: "project_row db p = Some h" "canonical_rfc3339_representable (psh_updated_at h)"
      "canonical_rfc3339_representable sample"
    and db': "db' = db\<lparr>cdb_tasks := (cdb_tasks db)\<lparr>tks_project_states :=
      map (\<lambda>s. if psh_project_id s = p then s\<lparr>psh_updated_at := max (psh_updated_at h) sample\<rparr> else s)
        (tks_project_states (cdb_tasks db))\<rparr>\<rparr>"
    using assms
    by (auto simp: advance_project_utc_floor_tx_def sql_update_def Let_def read_project_state_tx_Ok split: if_splits)
  have p: "project_row db' p = Some (h\<lparr>psh_updated_at := max (psh_updated_at h) sample\<rparr>)"
    using h(1) find_updated_row[of _ _ h "\<lambda>_. True" "\<lambda>s. s\<lparr>psh_updated_at := max (psh_updated_at h) sample\<rparr>"]
    by (simp add: db' project_row_def)
  have q: "project_row db' q = project_row db q" if "q \<noteq> p" for q
    unfolding db' project_row_def using that by (auto intro!: find_other)
  have events: "project_events db' q = project_events db q" for q
    by (simp add: db' project_events_def)
  have "log_sound env db' q" if "log_sound env db q" for q
    using that p h(1) q by (cases "q = p") (auto simp: log_sound_def events)
  moreover have "\<exists>h'. project_row db' q = Some h' \<and> uint (psh_state_version g) \<le> uint (psh_state_version h') \<and>
      psh_updated_at g \<le> psh_updated_at h' \<and> (canonical_rfc3339_representable (psh_updated_at g) \<longrightarrow>
        canonical_rfc3339_representable (psh_updated_at h'))" if g: "project_row db q = Some g" for q g
    using g p q[of q] h by (cases "q = p") (auto simp: max_def)
  ultimately show ?thesis
    unfolding grows_def by (simp add: db')
qed

lemma commits_grow: "commits env db db' \<Longrightarrow> grows env db db'"
  by (induction rule: commits.induct) (auto intro: grows_trans commit_grows clock_grows)

section \<open>The closure of the task and ticket mutations\<close>

lemma update_task_row_states:
  "update_task_row detail c task_id change st = Ok st' \<Longrightarrow> tks_project_states st' = tks_project_states st"
  by (auto simp: update_task_row_def split: prod.splits if_splits)

lemma update_task_column_states:
  "update_task_column c task_id v change st = Ok st' \<Longrightarrow> tks_project_states st' = tks_project_states st"
  by (auto simp: update_task_column_def split: option.splits dest: update_task_row_states)

lemma upsert_acceptance_criteria_states:
  "upsert_acceptance_criteria c task_id criteria st = Ok st' \<Longrightarrow> tks_project_states st' = tks_project_states st"
  by (induction criteria arbitrary: st)
    (auto simp: Let_def upsert_acceptance_criterion_def split: prod.splits if_splits option.splits)

lemma set_active_task_clocks:
  "set_active_task task_id c st = Ok st' \<Longrightarrow>
     map row_clock (tks_project_states st') = map row_clock (tks_project_states st)"
  by (auto simp: set_active_task_def sql_update_def row_clock_def split: if_splits)

lemma task_mutation_keeps_clocks:
  assumes "apply_task_mutation m c st = Ok st'"
  shows "map row_clock (tks_project_states st') = map row_clock (tks_project_states st)"
  using assms
  by (cases m)
    (auto simp: insert_task_def supersede_task_def close_task_def update_task_control_level_def
      update_task_scope_def update_task_scope_revision_def update_task_close_basis_def
      replace_acceptance_criteria_def retire_other_criteria_def Let_def
      split: prod.splits if_splits option.splits
      dest!: update_task_row_states update_task_column_states supersede_applications_frame
        upsert_acceptance_criteria_states set_active_task_clocks)

lemma core_mutation_frame:
  assumes "sm_apply (core_mutation from_value fingerprint foreign_rows_exist m) mc facts db = Ok db'"
  shows "cdb_authority_events db' = cdb_authority_events db \<and>
    cdb_tool_invocations db' = cdb_tool_invocations db \<and> project_clocks db' = project_clocks db"
  using assms by (auto simp: core_mutation_def split: CoreStorageMutation.splits dest: task_mutation_keeps_clocks)

lemma core_batch_frame:
  assumes "apply_batch (map (core_mutation from_value fingerprint foreign_rows_exist) ms) mc facts db = Ok db'"
  shows "cdb_authority_events db' = cdb_authority_events db \<and>
    cdb_tool_invocations db' = cdb_tool_invocations db \<and> project_clocks db' = project_clocks db"
  using assms
proof (induction ms arbitrary: db)
  case (Cons m ms)
  then show ?case by (auto dest!: core_mutation_frame)
qed simp

interpretation core_batch:
  commit_body "apply_batch (map (core_mutation from_value fingerprint foreign_rows_exist) ms)"
  for from_value fingerprint foreign_rows_exist ms
  by unfold_locales (auto dest: core_batch_frame)

section \<open>Replay\<close>

lemma method_from_as_str [simp]: "method_from_str (method_as_str m) = Some m"
  by (cases m) (simp_all add: method_from_str_def ALL_METHODS_def)

lemma operation_category_from_as_str [simp]: "operation_category_from_str (operation_category_as_str c) = Some c"
  by (cases c) (simp_all add: operation_category_from_str_def)

lemma canonical_actor_source:
  assumes "actor_source_from_str (to_canonical_string a) = Ok parsed"
  shows "parsed = a"
  using assms by (cases a) (auto simp: actor_source_from_str_def split: option.splits if_splits)

lemma decode_invocation_row:
  assumes "validate_replay_context env c = Ok ()" "cmi_tool_name input = method_as_str m"
    and "cme_from_str env response = Some (JObject members)"
    and "\<And>g. vrc_git_workspace_context c = Some g \<Longrightarrow>
      cme_from_str env (canonical_json_bytes (cme_to_vec env) (JObject g)) = Some (JObject g)"
  obtains r where "decode_tool_invocation env (invocation_row env input c p key basis committed response) = Ok r"
    "matches_verified_replay_context r c" "ti_request_hash r = cmi_request_hash input"
    "ti_response_json r = response" "ti_basis_state_version r = basis" "ti_committed_state_version r = committed"
proof -
  have identity: "validate_canonical_replay_identity env (to_canonical_string (vrc_actor_source c))
      (operation_category_as_str (vrc_operation_category c)) (vrc_verification_basis c)
      (replay_git_json env c) = Ok ()"
    using assms(1) by (simp add: validate_replay_context_def)
  then obtain actor where actor: "actor_source_from_str (to_canonical_string (vrc_actor_source c)) = Ok actor"
    by (auto simp: validate_canonical_replay_identity_def split: result.splits)
  note actor[unfolded canonical_actor_source[OF actor]]
  moreover have "decode_git_column env (replay_git_json env c) = Ok (vrc_git_workspace_context c)"
    using assms(4) by (auto simp: decode_git_column_def replay_git_json_def split: option.splits)
  ultimately show ?thesis
    using that[of "\<lparr>ti_project_id = p, ti_tool_name = m, ti_idempotency_key = key,
      ti_request_hash = cmi_request_hash input, ti_basis_state_version = basis,
      ti_committed_state_version = committed, ti_actor_source = vrc_actor_source c,
      ti_operation_category = vrc_operation_category c, ti_verification_basis = vrc_verification_basis c,
      ti_git_workspace_context = vrc_git_workspace_context c, ti_response_json = response\<rparr>"]
      identity assms(2,3)
    by (simp add: decode_tool_invocation_def invocation_row_def matches_verified_replay_context_def)
qed

lemma find_append_new: "find P xs = None \<Longrightarrow> P y \<Longrightarrow> find P (xs @ y # ys) = Some y"
  by (induction xs) (auto split: if_splits)

text \<open>A commit that answers a keyed request found no answer to it.\<close>

lemma committed_key_is_new:
  assumes "commit_with env sqlite_now input apply_mutation build store db =
      Ok (Committed response basis committed events, store', db')"
    and "cmi_idempotency_key input = Some key"
  shows "find (invocation_is (cps_project_id store) (cmi_tool_name input) key) (cdb_tool_invocations db) = None"
    and "trim key \<noteq> []"
  using assms
  by (auto simp: commit_with_def replay_lookup_def tool_invocation_tx_def validate_identifier_def
      split: option.splits if_splits)

lemma stored_answer_is_found:
  assumes commit: "commit_with env sqlite_now input apply_mutation build store db =
      Ok (Committed response basis committed events, store1, db1)"
    and body: "commit_body apply_mutation" and key: "cmi_idempotency_key input = Some key"
    and later: "grows env db1 db2"
  shows "find (invocation_is (cps_project_id store) (cmi_tool_name input) key) (cdb_tool_invocations db2) =
    Some (invocation_row env input (the (cmi_replay_context input)) (cps_project_id store) key basis committed response)"
  using commit body
proof (cases rule: commit_with_Ok)
  case (committed h t response')
  then have "cdb_tool_invocations db1 = cdb_tool_invocations db @
      [invocation_row env input (the (cmi_replay_context input)) (cps_project_id store) key basis committed response]"
    by (simp add: commit_effect_def Let_def key)
  then obtain new where "cdb_tool_invocations db2 = cdb_tool_invocations db @
      invocation_row env input (the (cmi_replay_context input)) (cps_project_id store) key basis committed response # new"
    using later unfolding grows_def by auto
  then show ?thesis
    using committed_key_is_new(1)[OF commit key]
    by (simp add: find_append_new invocation_is_def invocation_row_def)
qed auto

text \<open>C6: A keyed request that was committed once is answered with the same bytes and the same two state
  versions ever after: whatever any handle commits in between, submitting it again finds the stored answer,
  runs no mutation and changes nothing. The request names a public method, its answer is a JSON object, and
  reading back the canonical text of its workspace context gives that context.
\<close>

theorem answered_requests_are_answered_alike:
  assumes "commit_with env sqlite_now input apply_mutation build store db =
      Ok (Committed response basis committed events, store1, db1)"
    and "commit_body apply_mutation" and "cmi_idempotency_key input = Some key"
    and "cmi_tool_name input = method_as_str m"
    and "cme_from_str env response = Some (JObject members)"
    and "\<And>c g. cmi_replay_context input = Some c \<Longrightarrow> vrc_git_workspace_context c = Some g \<Longrightarrow>
      cme_from_str env (canonical_json_bytes (cme_to_vec env) (JObject g)) = Some (JObject g)"
    and "commits env db1 db2"
    and "require_mutation_context store2 = Ok home" and "cps_project_id store2 = cps_project_id store"
    and "representable_sample (cps_last_clock_sample store2)"
  shows "commit_with env sqlite_now2 input apply_mutation2 build2 store2 db2 =
    Ok (Replayed response basis committed, store2, db2)"
proof -
  obtain c where c: "admit_commit env input store = Ok c" using assms(1) by (auto simp: commit_with_def)
  then have again: "admit_commit env input store2 = Ok c" and ctx: "cmi_replay_context input = Some c"
    and valid: "validate_replay_context env c = Ok ()"
    using assms(8-10) by (auto simp: admit_commit_Ok)
  have later: "grows env db db2" "grows env db1 db2"
    using commits_grow[OF assms(7)] commit_grows[OF assms(1,2)] grows_trans by blast+
  obtain h where "read_project_state_tx db (cps_project_id store) = Ok h"
    using assms(1) by (auto simp: commit_with_def)
  then obtain h2 where h2: "read_project_state_tx db2 (cps_project_id store) = Ok h2"
    using later(1) unfolding grows_def read_project_state_tx_Ok by metis
  obtain r where r: "decode_tool_invocation env
      (invocation_row env input c (cps_project_id store) key basis committed response) = Ok r"
    "matches_verified_replay_context r c" "ti_request_hash r = cmi_request_hash input"
    "ti_response_json r = response" "ti_basis_state_version r = basis" "ti_committed_state_version r = committed"
    using decode_invocation_row[OF valid assms(4,5)] assms(6)[OF ctx] by blast
  then have "replay_lookup env input c h2 store2 db2 = Ok (Some (Replayed response basis committed))"
    using stored_answer_is_found[OF assms(1-3) later(2)] committed_key_is_new(2)[OF assms(1,3)] assms(3,9)
    by (simp add: replay_lookup_def tool_invocation_tx_def validate_identifier_def ctx)
  then show ?thesis using again h2 assms(9) by (simp add: commit_with_def)
qed

section \<open>The log of a project\<close>

lemma committed_version:
  assumes "commit_with env sqlite_now input apply_mutation build store db =
      Ok (Committed response v committed events, store', db')" "commit_body apply_mutation"
  obtains h' where "project_row db' (cps_project_id store) = Some h'" "uint (psh_state_version h') = uint v + 1"
  using assms
proof (cases rule: commit_with_Ok)
  case unchanged
  then show ?thesis by blast
next
  case (committed h t response')
  then have "map_option row_clock (project_row db' (cps_project_id store)) = Some (psh_project_id h, v + 1, t)"
    "uint (v + 1) = uint v + 1"
    by (simp_all add: commit_effect_def Let_def)
  then show ?thesis using that by (auto simp: row_clock_def)
qed

text \<open>C7: Every history keeps the authority log of every project sound and only appends to it: the events
  are numbered 1, 2, 3, ... without gaps, each carries the hash of its columns and of its predecessor, their
  state versions never decrease, and none exceeds the version of the project.
\<close>

theorem histories_extend_a_sound_log:
  assumes "log_sound env db p" and "commits env db db'"
  shows "log_sound env db' p \<and> (\<exists>new. project_events db' p = project_events db p @ new)"
  using commits_grow[OF assms(2)] assms(1) unfolding grows_def by (auto simp: project_events_def)

text \<open>C8: A state version is spent at most once: after a commit from version \<open>v\<close>, no later request that
  expects version \<open>v\<close> of that project is committed, by whichever handle and after whatever other commits,
  so two writers that read the same version cannot both succeed.
\<close>

theorem a_version_is_spent_once:
  assumes "commit_with env sqlite_now input apply_mutation build store db =
      Ok (Committed response v committed events, store1, db1)"
    and "commit_body apply_mutation" and "commits env db1 db2" and "commit_body apply_mutation2"
    and "commit_with env sqlite_now2 input2 apply_mutation2 build2 store2 db2 = Ok (outcome, store3, db3)"
    and "cps_project_id store2 = cps_project_id store" and "cmi_expected_state_version input2 = Some v"
  shows "\<not> (\<exists>response2 basis2 committed2 events2. outcome = Committed response2 basis2 committed2 events2)"
proof -
  obtain h1 where "project_row db1 (cps_project_id store) = Some h1" "uint (psh_state_version h1) = uint v + 1"
    by (rule committed_version[OF assms(1,2)])
  then obtain h2 where "project_row db2 (cps_project_id store) = Some h2" "uint v < uint (psh_state_version h2)"
    using commits_grow[OF assms(3)] unfolding grows_def by fastforce
  with assms(6,7) show ?thesis
    by (cases rule: commit_with_Ok[OF assms(5,4)]) auto
qed

lemma sample_commit_Ok:
  "sample_commit ''k1'' sample_store sample_database =
     Ok (Committed ''{}'' 7 8 (committed_event_refs (sample_commit_input ''k1'')),
       sample_store\<lparr>cps_last_clock_sample := Some 700\<rparr>, sample_committed_database)"
proof -
  have "case sample_commit ''k1'' sample_store sample_database of
      Ok (outcome, s, d) \<Rightarrow> outcome = Committed ''{}'' 7 8 (committed_event_refs (sample_commit_input ''k1'')) \<and>
        s = sample_store\<lparr>cps_last_clock_sample := Some 700\<rparr>
    | Err _ \<Rightarrow> False"
    by code_simp
  then show ?thesis
    by (auto simp: sample_committed_database_def split: result.splits)
qed

lemma sample_commits: "commits sample_env sample_database sample_committed_database"
  by (rule commits_commit[OF commits_refl core_batch.commit_body_axioms sample_commit_Ok])

theorem answered_requests_are_answered_alike_witness:
  "sample_commit ''k1'' sample_store sample_committed_database =
     Ok (Replayed ''{}'' 7 8, sample_store, sample_committed_database)"
  by (rule answered_requests_are_answered_alike[OF sample_commit_Ok core_batch.commit_body_axioms,
      where key = "''k1''" and m = MethodName.Intake and members = "[]" and home = "''/home''"])
    (auto simp: sample_commit_input_def commit_input_def sample_env_def sample_store_def
      require_mutation_context_def representable_sample_def intro: commits_refl)

theorem histories_extend_a_sound_log_witness:
  "log_sound sample_env sample_database ''p'' \<and> log_sound sample_env sample_committed_database ''p''"
proof -
  have "log_sound sample_env sample_database ''p''"
    by (simp add: log_sound_def sample_database_def project_events_def)
  then show ?thesis using histories_extend_a_sound_log[OF _ sample_commits] by blast
qed

theorem a_version_is_spent_once_witness:
  "sample_commit ''k2'' sample_store sample_committed_database =
     Ok (StaleExpectedState 8 7, sample_store, sample_committed_database) \<and>
   \<not> (\<exists>r b v es. StaleExpectedState 8 7 = Committed r b v es)"
proof -
  have stale: "sample_commit ''k2'' sample_store sample_committed_database =
      Ok (StaleExpectedState 8 7, sample_store, sample_committed_database)"
    by code_simp
  show ?thesis
    using stale a_version_is_spent_once[OF sample_commit_Ok core_batch.commit_body_axioms commits_refl
        core_batch.commit_body_axioms stale]
    by (simp add: sample_commit_input_def commit_input_def)
qed

theorem event_log_is_tamper_evident_witness:
  "event_chain sample_env 1 None [sample_event] \<and>
   (map (\<lambda>r. hashed_fields (aer_input r)) [sample_event] = map (\<lambda>r. hashed_fields (aer_input r)) [sample_event] \<or>
    (\<exists>r \<in> set [sample_event]. \<exists>r' \<in> set [sample_event]. event_text r \<noteq> event_text r' \<and>
      cme_sha256 sample_env (event_text r) = cme_sha256 sample_env (event_text r')))"
proof -
  have chain: "event_chain sample_env 1 None [sample_event]"
    by (simp add: sample_event_def Let_def)
  show ?thesis using chain event_log_is_tamper_evident[OF chain chain refl] by blast
qed

end
