(* ===== verification/CloseReadiness.thy ===== *)
theory CloseReadiness
  imports TaskStore
begin

text \<open>
  Close readiness: \<open>src/crates/volicord-core/src/close_readiness\<close> (facts, change control, acceptance,
  evidence, guidance, blockers, policy and service) with \<open>policy/close_readiness.rs\<close> and the normalization
  of next actions in \<open>guidance.rs\<close>.

  An assessment reads the facts of a task once, resolves the control level in force, lets every
  responsibility name its blockers and combines them: no blocker means that the requested terminal
  transition is made. What is read from the store is the record \<open>CloseReadinessStore\<close>; a store error ends
  the source's function early and is left out. The two tables in which the source remembers what it has
  already read from the same snapshot have no counterpart: reading again gives the same answer.
\<close>

named_theorems intent_irrelevant \<open>parts of an assessment that do not read the intent\<close>

section \<open>Guidance and blockers\<close>

datatype CloseGuidance =
    ReviewCurrentTask | ResolveRecoveryBlockers | ResolveRecoveryConstraints | ReconcileChanges
  | RecordOpenTicket | ResolvePendingUserAction | RequestCancellationAuthority | RestoreActiveChangeUnit
  | PrepareSensitiveAction | RequestSensitiveApproval | RefreshCurrentBasis | RepairArtifact
  | MakeResidualRiskVisible | RequestResidualRiskAcceptance | RecordCurrentCloseBasis
  | RecordFreshScopeBasis | RecordFreshRunBasis | RecordRequiredEvidence | FinalizeAdvisorCloseBasis
  | RefreshAdvisorCloseBasis | RecordAdvisorEvidence | RequestFinalAcceptance

fun guidance_owner :: "CloseGuidance \<Rightarrow> NextActionKind \<times> MethodName" where
  "guidance_owner ReviewCurrentTask = (NextActionKind.CloseTask, MethodName.CloseTask)"
| "guidance_owner ResolveRecoveryBlockers = (NextActionKind.CloseTask, MethodName.CloseTask)"
| "guidance_owner ResolveRecoveryConstraints = (NextActionKind.CloseTask, MethodName.CloseTask)"
| "guidance_owner CloseGuidance.ReconcileChanges = (NextActionKind.ReconcileChanges, MethodName.ReconcileChanges)"
| "guidance_owner RecordOpenTicket = (NextActionKind.RecordRun, MethodName.RecordRun)"
| "guidance_owner ResolvePendingUserAction = (NextActionKind.ResolveUserAction, MethodName.ResolveUserAction)"
| "guidance_owner RequestCancellationAuthority = (NextActionKind.RequestUserAction, MethodName.RequestUserAction)"
| "guidance_owner RestoreActiveChangeUnit = (NextActionKind.UpdateScope, MethodName.UpdateScope)"
| "guidance_owner PrepareSensitiveAction = (NextActionKind.PrepareWrite, MethodName.PrepareWrite)"
| "guidance_owner RequestSensitiveApproval = (NextActionKind.RequestUserAction, MethodName.RequestUserAction)"
| "guidance_owner RefreshCurrentBasis = (NextActionKind.UpdateScope, MethodName.UpdateScope)"
| "guidance_owner RepairArtifact = (NextActionKind.RecordRun, MethodName.RecordRun)"
| "guidance_owner MakeResidualRiskVisible = (NextActionKind.RequestUserAction, MethodName.RequestUserAction)"
| "guidance_owner RequestResidualRiskAcceptance = (NextActionKind.RequestUserAction, MethodName.RequestUserAction)"
| "guidance_owner RecordCurrentCloseBasis = (NextActionKind.RecordRun, MethodName.RecordRun)"
| "guidance_owner RecordFreshScopeBasis = (NextActionKind.RecordRun, MethodName.RecordRun)"
| "guidance_owner RecordFreshRunBasis = (NextActionKind.RecordRun, MethodName.RecordRun)"
| "guidance_owner RecordRequiredEvidence = (NextActionKind.RecordRun, MethodName.RecordRun)"
| "guidance_owner FinalizeAdvisorCloseBasis = (NextActionKind.FinalizeAdvice, MethodName.FinalizeAdvice)"
| "guidance_owner RefreshAdvisorCloseBasis = (NextActionKind.FinalizeAdvice, MethodName.FinalizeAdvice)"
| "guidance_owner RecordAdvisorEvidence = (NextActionKind.FinalizeAdvice, MethodName.FinalizeAdvice)"
| "guidance_owner RequestFinalAcceptance = (NextActionKind.RequestUserAction, MethodName.RequestUserAction)"

fun guidance_label :: "CloseGuidance \<Rightarrow> string" where
  "guidance_label ReviewCurrentTask = ''Review the current Task before closing.''"
| "guidance_label ResolveRecoveryBlockers = ''Resolve recovery blockers before closing the Task.''"
| "guidance_label ResolveRecoveryConstraints = ''Resolve recovery constraints before completing the Task.''"
| "guidance_label CloseGuidance.ReconcileChanges =
     ''Run reconciliation for observed Product Repository changes before close.''"
| "guidance_label RecordOpenTicket =
     ''Record the ticket-backed run or reconcile observed changes before close.''"
| "guidance_label ResolvePendingUserAction = ''Resolve the pending user action.''"
| "guidance_label RequestCancellationAuthority = ''Request current user cancellation authority.''"
| "guidance_label RestoreActiveChangeUnit = ''Create or restore the current active Change Unit.''"
| "guidance_label PrepareSensitiveAction =
     ''Prepare the exact sensitive action with user-owned approval, then record its ticket-backed Run.''"
| "guidance_label RequestSensitiveApproval = ''Request the user-owned sensitive-action approval.''"
| "guidance_label RefreshCurrentBasis = ''Refresh the current scope or close basis before completing the Task.''"
| "guidance_label RepairArtifact = ''Record or repair the artifact supporting close evidence.''"
| "guidance_label MakeResidualRiskVisible = ''Make residual risk visible before requesting acceptance.''"
| "guidance_label RequestResidualRiskAcceptance = ''Request current residual-risk acceptance from the user.''"
| "guidance_label RecordCurrentCloseBasis = ''Record the current result and close basis.''"
| "guidance_label RecordFreshScopeBasis = ''Record a fresh close basis for the current scope.''"
| "guidance_label RecordFreshRunBasis = ''Record a fresh close basis for the current Run context.''"
| "guidance_label RecordRequiredEvidence = ''Record evidence that supports the required close claims.''"
| "guidance_label FinalizeAdvisorCloseBasis =
     ''Finalize the current advice result and establish its close basis.''"
| "guidance_label RefreshAdvisorCloseBasis =
     ''Finalize the advice again against the current checkpoint and scope.''"
| "guidance_label RecordAdvisorEvidence =
     ''Finalize the advice with current supported advisor evidence refs.''"
| "guidance_label RequestFinalAcceptance =
     ''The Agent Connection must create a current final-acceptance request for the user.''"

definition guidance_question :: "CloseGuidance \<Rightarrow> string option" where
  "guidance_question guidance =
     (if guidance = CloseGuidance.ReconcileChanges
      then Some ''Does the user accept any remaining observed Product Repository change as intentional?''
      else if guidance = RequestFinalAcceptance
      then Some ''Does the user accept the current Task result and close basis as complete?'' else None)"

definition guidance_categories :: "CloseGuidance \<Rightarrow> OperationCategory list" where
  "guidance_categories guidance =
     (if guidance = CloseGuidance.ReconcileChanges
      then [OperationCategory.AgentWorkflow, OperationCategory.LocalRecovery]
      else if guidance = ResolvePendingUserAction then [OperationCategory.UserOnly]
      else [OperationCategory.AgentWorkflow])"

definition close_guidance :: "CloseGuidance \<Rightarrow> StateRecordRef list \<Rightarrow> NextActionSummary" where
  "close_guidance guidance required_refs = \<lparr>
     nas_action_kind = fst (guidance_owner guidance),
     nas_owner_method = Some (snd (guidance_owner guidance)),
     nas_allowed_operation_categories = guidance_categories guidance,
     nas_label = guidance_label guidance,
     nas_blocking_question = guidance_question guidance,
     nas_expected_state_version = None,
     nas_required_refs = required_refs\<rparr>"

definition close_blocker ::
  "CloseReadinessBlockerCategory \<Rightarrow> string \<Rightarrow> string \<Rightarrow> StateRecordRef list \<Rightarrow> NextActionSummary list \<Rightarrow>
     CloseReadinessBlocker" where
  "close_blocker category code message related_refs next_actions = \<lparr>
     crb_category = category, crb_code = code, crb_message = message,
     crb_related_refs = related_refs, crb_next_actions = next_actions\<rparr>"

definition open_write_ticket_close_blocker ::
  "StateRecordRef \<Rightarrow> StateRecordRef \<Rightarrow> CloseReadinessBlocker" where
  "open_write_ticket_close_blocker task_ref ticket_ref =
     close_blocker CloseReadinessBlockerCategory.WriteCompatibility ''open_write_ticket''
       ''An open write ticket remains unresolved for this Task.'' [ticket_ref]
       [close_guidance RecordOpenTicket [task_ref]]"

fun allowed_operation_categories :: "MethodName option \<Rightarrow> OperationCategory list" where
  "allowed_operation_categories (Some MethodName.ResolveUserAction) = [OperationCategory.UserOnly]"
| "allowed_operation_categories (Some MethodName.ReconcileChanges) =
     [OperationCategory.AgentWorkflow, OperationCategory.LocalRecovery]"
| "allowed_operation_categories (Some MethodName.Intake) = []"
| "allowed_operation_categories (Some MethodName.Status) = []"
| "allowed_operation_categories (Some MethodName.GetOperationResult) = []"
| "allowed_operation_categories (Some MethodName.CheckClose) = []"
| "allowed_operation_categories None = []"
| "allowed_operation_categories (Some _) = [OperationCategory.AgentWorkflow]"

definition expected_state_version_for :: "OperationCategory list \<Rightarrow> u64 \<Rightarrow> u64 option" where
  "expected_state_version_for categories expected_state_version =
     (if OperationCategory.AgentWorkflow \<in> set categories then Some expected_state_version else None)"

definition normalize_close_blockers :: "u64 \<Rightarrow> CloseReadinessBlocker list \<Rightarrow> CloseReadinessBlocker list" where
  "normalize_close_blockers expected_state_version blockers =
     map (\<lambda>b. b\<lparr>crb_next_actions := map (\<lambda>action.
       let categories = allowed_operation_categories (nas_owner_method action) in
       action\<lparr>nas_allowed_operation_categories := categories,
         nas_expected_state_version := expected_state_version_for categories expected_state_version\<rparr>)
       (crb_next_actions b)\<rparr>) blockers"

section \<open>Facts\<close>

datatype CloseReadinessError =
    NoActiveTask
  | InvalidDispatch string
  | WriteTicketFacts TicketLoadError
  | ControlFacts MarkError

text \<open>Of an unrecorded change the field compared here.\<close>

record UnrecordedChangeRecord =
  ucr_unrecorded_change_id :: string

record RunObservedChangesRecord =
  roc_project_id :: ProjectId
  roc_run_id :: RunId
  roc_task_id :: TaskId
  roc_change_unit_id :: "ChangeUnitId option"
  roc_observed_changes :: ObservedChanges
  roc_status :: RunStatus

text \<open>Of a stored artifact the columns compared here.\<close>

record StoredArtifactRecord =
  sart_project_id :: ProjectId
  sart_artifact_id :: string
  sart_task_id :: TaskId
  sart_sha256 :: "string option"
  sart_size_bytes :: "u64 option"
  sart_redaction_state :: RedactionState

record CloseReadinessFacts =
  crf_now :: UtcTimestamp
  crf_task :: TaskRecord
  crf_current_change_unit :: "ChangeUnitRecord option"
  crf_current_close_basis :: "CurrentCloseBasis option"
  crf_pending_user_action_refs :: "StateRecordRef list"
  crf_blocker_refs :: "StateRecordRef list"
  crf_evidence_summary :: "EvidenceSummary option"
  crf_acceptance_criteria :: "AcceptanceCriterion list option"
  crf_artifact_refs :: "ArtifactRef list"
  crf_projected_run_refs :: "StateRecordRef list"
  crf_projected_evidence_observations :: "EvidenceObservation list"
  crf_projected_artifacts :: "ArtifactRef list"
  crf_projected_required_criterion_ids :: "AcceptanceCriterionId list option"
  crf_projected_resolved_unrecorded_change_ids :: "string list"
  crf_unresolved_unrecorded_changes :: "UnrecordedChangeRecord list"
  crf_write_tickets :: "StoredWriteTicketEvaluation list option"
  crf_workflow_policy :: "ProjectWorkflowPolicy option"
  crf_pending_user_action_authorities :: "UserActionAuthority list option"
  crf_resolved_judgment_authorities :: "UserActionAuthority list option"

text \<open>What the store answers for the addressed task, in one snapshot.\<close>

record CloseReadinessStore =
  crs_from_value :: "json \<Rightarrow> TaskPolicyControlReevaluation option"
  crs_task_record :: "TaskId \<Rightarrow> TaskRecord option"
  crs_current_change_unit :: "ChangeUnitRecord option"
  crs_current_close_basis :: "CurrentCloseBasis option option"
  crs_pending_user_action_refs :: "StateRecordRef list"
  crs_active_blocker_refs :: "StateRecordRef list"
  crs_active_acceptance_criteria :: "AcceptanceCriterion list"
  crs_close_evidence_summary_facts :: CloseEvidenceSummaryFacts
  crs_unresolved_unrecorded_changes :: "UnrecordedChangeRecord list"
  crs_workflow_policy :: ProjectWorkflowPolicy
  crs_write_tickets :: "StoredWriteTicket list"
  crs_sensitive_approvals :: "UserActionAuthority list"
  crs_pending_user_action_records :: "StoredUserActionRecordSet list"
  crs_resolved_user_action_records :: "UserActionKind \<Rightarrow> StoredUserActionRecordSet list"
  crs_non_current_user_action_refs :: "UserActionKind \<Rightarrow> StateRecordRef list"
  crs_run_record :: "string \<Rightarrow> RunRecord option"
  crs_run_observed_changes :: "RunObservedChangesRecord list"
  crs_evidence_observation_record :: "string \<Rightarrow> EvidenceObservationRecord option"
  crs_projected_provenance_facts ::
    "EvidenceObservation \<Rightarrow> EvidenceObservationBasis \<Rightarrow> ArtifactRef list \<Rightarrow> EvidenceProvenanceFacts"
  crs_stored_provenance_facts ::
    "EvidenceObservationRecord \<Rightarrow> EvidenceObservationBasis \<Rightarrow> EvidenceProvenanceFacts"
  crs_artifact_record :: "string \<Rightarrow> StoredArtifactRecord option"
  crs_artifact_has_task_owner_link :: "string \<Rightarrow> bool"
  crs_artifact_is_verified_current :: "StoredArtifactRecord \<Rightarrow> bool"

record CloseReadinessRequest =
  clq_project_id :: ProjectId
  clq_task_id :: TaskId
  clq_intent :: CloseIntent
  clq_superseding_task_id :: "TaskId option"

definition acquire_unrecorded_change_facts ::
  "CloseReadinessStore \<Rightarrow> CloseReadinessFacts \<Rightarrow> CloseReadinessFacts" where
  "acquire_unrecorded_change_facts store facts = facts\<lparr>crf_unresolved_unrecorded_changes :=
     filter (\<lambda>r. ucr_unrecorded_change_id r \<notin> set (crf_projected_resolved_unrecorded_change_ids facts))
       (crs_unresolved_unrecorded_changes store)\<rparr>"

definition acquire_close_readiness_facts ::
  "CloseReadinessStore \<Rightarrow> TaskId \<Rightarrow> UtcTimestamp \<Rightarrow> (CloseReadinessFacts, CloseReadinessError) result" where
  "acquire_close_readiness_facts store task_id now =
     (case crs_task_record store task_id of
        None \<Rightarrow> Err NoActiveTask
      | Some task \<Rightarrow> (case crs_current_close_basis store of
          None \<Rightarrow> Err NoActiveTask
        | Some current_close_basis \<Rightarrow>
            let acceptance_criteria = crs_active_acceptance_criteria store;
                required = required_acceptance_criterion_ids acceptance_criteria;
                evidence_summary = project_close_evidence_summary (crs_close_evidence_summary_facts store) required;
                facts = \<lparr>crf_now = now, crf_task = task,
                  crf_current_change_unit = crs_current_change_unit store,
                  crf_current_close_basis = current_close_basis,
                  crf_pending_user_action_refs = crs_pending_user_action_refs store,
                  crf_blocker_refs = crs_active_blocker_refs store,
                  crf_evidence_summary = evidence_summary,
                  crf_acceptance_criteria = Some acceptance_criteria,
                  crf_artifact_refs = (case evidence_summary of None \<Rightarrow> [] | Some s \<Rightarrow> es_artifact_refs s),
                  crf_projected_run_refs = [], crf_projected_evidence_observations = [],
                  crf_projected_artifacts = [], crf_projected_required_criterion_ids = Some required,
                  crf_projected_resolved_unrecorded_change_ids = [],
                  crf_unresolved_unrecorded_changes = [], crf_write_tickets = None,
                  crf_workflow_policy = None, crf_pending_user_action_authorities = None,
                  crf_resolved_judgment_authorities = None\<rparr>
            in Ok ((acquire_unrecorded_change_facts store facts)\<lparr>
                 crf_workflow_policy := Some (crs_workflow_policy store)\<rparr>)))"

definition acquire_projected_store_facts ::
  "CloseReadinessStore \<Rightarrow> CloseReadinessFacts \<Rightarrow> CloseReadinessFacts" where
  "acquire_projected_store_facts store facts =
     (let facts = acquire_unrecorded_change_facts store facts;
          facts = (if crf_acceptance_criteria facts = None
            then facts\<lparr>crf_projected_required_criterion_ids :=
                Some (required_acceptance_criterion_ids (crs_active_acceptance_criteria store)),
              crf_acceptance_criteria := Some (crs_active_acceptance_criteria store)\<rparr> else facts)
      in if crf_workflow_policy facts = None
         then facts\<lparr>crf_workflow_policy := Some (crs_workflow_policy store)\<rparr> else facts)"

definition required_criteria_for_close_context ::
  "CloseReadinessFacts \<Rightarrow> (AcceptanceCriterionId list, CloseReadinessError) result" where
  "required_criteria_for_close_context facts =
     (case crf_projected_required_criterion_ids facts of
        Some required \<Rightarrow> Ok required
      | None \<Rightarrow> Err (InvalidDispatch ''close-readiness acceptance criteria were not acquired''))"

definition workflow_policy_for_close_context ::
  "CloseReadinessFacts \<Rightarrow> (ProjectWorkflowPolicy, CloseReadinessError) result" where
  "workflow_policy_for_close_context facts =
     (case crf_workflow_policy facts of
        Some policy \<Rightarrow> Ok policy
      | None \<Rightarrow> Err (InvalidDispatch ''close-readiness workflow policy was not acquired''))"

text \<open>Reads that prefer what a method projection supplied.\<close>

definition close_write_tickets ::
  "CloseReadinessStore \<Rightarrow> CloseReadinessRequest \<Rightarrow> CloseReadinessFacts \<Rightarrow>
     (StoredWriteTicketEvaluation list, CloseReadinessError) result" where
  "close_write_tickets store request facts =
     (case crf_write_tickets facts of
        Some tickets \<Rightarrow> Ok tickets
      | None \<Rightarrow> map_err WriteTicketFacts (load_evaluated_stored_write_tickets (crs_from_value store)
          (clq_task_id request) (crs_write_tickets store) (crs_task_record store (clq_task_id request))
          (crs_workflow_policy store) (crs_sensitive_approvals store) (crf_now facts)))"

definition pending_user_action_authorities_for_context ::
  "CloseReadinessStore \<Rightarrow> CloseReadinessFacts \<Rightarrow> UserActionAuthority list" where
  "pending_user_action_authorities_for_context store facts =
     (case crf_pending_user_action_authorities facts of
        Some authorities \<Rightarrow> authorities
      | None \<Rightarrow> map user_action_authority_from_record (crs_pending_user_action_records store))"

definition resolved_judgment_authorities_for_context ::
  "CloseReadinessStore \<Rightarrow> CloseReadinessFacts \<Rightarrow> JudgmentKind \<Rightarrow> UserActionAuthority list" where
  "resolved_judgment_authorities_for_context store facts kind =
     (case crf_resolved_judgment_authorities facts of
        Some authorities \<Rightarrow> filter (\<lambda>a. ua_action_kind a = user_action_kind_of kind) authorities
      | None \<Rightarrow> map user_action_authority_from_record
          (crs_resolved_user_action_records store (user_action_kind_of kind)))"

definition non_current_judgment_refs_for_plan ::
  "CloseReadinessStore \<Rightarrow> JudgmentKind \<Rightarrow> StateRecordRef list" where
  "non_current_judgment_refs_for_plan store kind =
     crs_non_current_user_action_refs store (user_action_kind_of kind)"

definition facts_from_projection ::
  "TaskRecord \<Rightarrow> ChangeUnitRecord option \<Rightarrow> CurrentCloseBasis option \<Rightarrow> StateRecordRef list \<Rightarrow>
     StateRecordRef list \<Rightarrow> EvidenceSummary option \<Rightarrow> UtcTimestamp \<Rightarrow> CloseReadinessFacts" where
  "facts_from_projection task current_change_unit current_close_basis pending_user_action_refs blocker_refs
     evidence_summary now = \<lparr>
     crf_now = now, crf_task = task, crf_current_change_unit = current_change_unit,
     crf_current_close_basis = current_close_basis,
     crf_pending_user_action_refs = pending_user_action_refs, crf_blocker_refs = blocker_refs,
     crf_evidence_summary = evidence_summary, crf_acceptance_criteria = None,
     crf_artifact_refs = (case evidence_summary of None \<Rightarrow> [] | Some s \<Rightarrow> es_artifact_refs s),
     crf_projected_run_refs = [], crf_projected_evidence_observations = [],
     crf_projected_artifacts = [], crf_projected_required_criterion_ids = None,
     crf_projected_resolved_unrecorded_change_ids = [],
     crf_unresolved_unrecorded_changes = [], crf_write_tickets = None,
     crf_workflow_policy = None, crf_pending_user_action_authorities = None,
     crf_resolved_judgment_authorities = None\<rparr>"

definition facts_with_projected_acceptance_criteria ::
  "CloseReadinessFacts \<Rightarrow> AcceptanceCriterion list \<Rightarrow> CloseReadinessFacts" where
  "facts_with_projected_acceptance_criteria facts acceptance_criteria = facts\<lparr>
     crf_projected_required_criterion_ids := Some (required_acceptance_criterion_ids acceptance_criteria),
     crf_acceptance_criteria := Some acceptance_criteria\<rparr>"

definition facts_with_record_run_projection ::
  "CloseReadinessFacts \<Rightarrow> StateRecordRef \<Rightarrow> EvidenceObservation list \<Rightarrow> ArtifactRef list \<Rightarrow>
     CloseReadinessFacts" where
  "facts_with_record_run_projection facts run_ref evidence_observations registered_artifacts = facts\<lparr>
     crf_projected_run_refs := crf_projected_run_refs facts @ [run_ref],
     crf_projected_evidence_observations := evidence_observations,
     crf_projected_artifacts := registered_artifacts\<rparr>"

definition facts_with_pending_authorities ::
  "CloseReadinessFacts \<Rightarrow> UserActionAuthority list \<Rightarrow> CloseReadinessFacts" where
  "facts_with_pending_authorities facts authorities =
     facts\<lparr>crf_pending_user_action_authorities := Some authorities\<rparr>"

definition facts_with_resolved_authorities ::
  "CloseReadinessFacts \<Rightarrow> UserActionAuthority list \<Rightarrow> CloseReadinessFacts" where
  "facts_with_resolved_authorities facts authorities =
     facts\<lparr>crf_resolved_judgment_authorities := Some authorities\<rparr>"

definition facts_with_resolved_unrecorded_changes ::
  "CloseReadinessFacts \<Rightarrow> string list \<Rightarrow> CloseReadinessFacts" where
  "facts_with_resolved_unrecorded_changes facts unrecorded_change_ids =
     facts\<lparr>crf_projected_resolved_unrecorded_change_ids := btree_set unrecorded_change_ids\<rparr>"

section \<open>Acceptance of a result and of its risks\<close>

record FinalAcceptanceRequirement =
  far_task_id :: TaskId
  far_change_unit_id :: ChangeUnitId
  far_scope_revision :: u64
  far_close_basis_revision :: u64
  far_baseline_ref :: "BaselineRef option"
  far_result_refs :: "StateRecordRef list"

definition final_acceptance_requirement :: "CurrentCloseBasis \<Rightarrow> FinalAcceptanceRequirement" where
  "final_acceptance_requirement basis = \<lparr>
     far_task_id = ccb_task_id basis, far_change_unit_id = ccb_change_unit_id basis,
     far_scope_revision = ccb_scope_revision basis,
     far_close_basis_revision = ccb_close_basis_revision basis,
     far_baseline_ref = ccb_baseline_ref basis, far_result_refs = ccb_result_refs basis\<rparr>"

definition state_refs_match :: "StateRecordRef list \<Rightarrow> StateRecordRef list \<Rightarrow> bool" where
  "state_refs_match left right \<longleftrightarrow>
     sort (map state_record_ref_identity_key left) = sort (map state_record_ref_identity_key right)"

definition final_acceptance_basis_matches_current ::
  "UserActionBasis \<Rightarrow> FinalAcceptanceRequirement \<Rightarrow> bool" where
  "final_acceptance_basis_matches_current basis requirement \<longleftrightarrow>
     (let coordinates = basis_coordinates basis in
      coord_task_id coordinates = far_task_id requirement \<and>
      coord_change_unit_id coordinates = Some (far_change_unit_id requirement) \<and>
      coord_scope_revision coordinates = far_scope_revision requirement \<and>
      basis_close_basis_revision basis = Some (far_close_basis_revision requirement) \<and>
      coord_baseline_ref coordinates = far_baseline_ref requirement \<and>
      state_refs_match (basis_result_refs basis) (far_result_refs requirement))"

definition current_final_acceptance :: "UserActionAuthority \<Rightarrow> FinalAcceptanceRequirement \<Rightarrow> bool" where
  "current_final_acceptance judgment requirement =
     (if \<not> accepted_current_user_authority judgment UserActionKind.FinalAcceptance then False
      else if UserActionRequiredFor.CloseComplete \<notin> set (ua_required_for judgment) then False
      else is_some_and (ua_basis judgment)
        (\<lambda>basis. final_acceptance_basis_matches_current basis requirement))"

definition risk_id_set :: "RiskId list \<Rightarrow> RiskId list" where
  "risk_id_set ids = btree_set ids"

definition current_acceptance_required_risk_ids :: "CurrentCloseBasis \<Rightarrow> RiskId list" where
  "current_acceptance_required_risk_ids basis =
     btree_set (map rr_risk_id (filter rr_acceptance_required (ccb_residual_risks basis)))"

fun accepted_risk_ids_from_resolution :: "UserActionResolutionBody \<Rightarrow> RiskId list" where
  "accepted_risk_ids_from_resolution (UserActionResolutionBody.Choice resolution) =
     btree_set (cr_accepted_risk_ids resolution)"
| "accepted_risk_ids_from_resolution (UserActionResolutionBody.EvidenceObservation _) = []"

definition residual_risk_basis_matches_current :: "UserActionBasis \<Rightarrow> CurrentCloseBasis \<Rightarrow> bool" where
  "residual_risk_basis_matches_current basis current_close_basis \<longleftrightarrow>
     coord_task_id (basis_coordinates basis) = ccb_task_id current_close_basis \<and>
     basis_close_basis_revision basis = Some (ccb_close_basis_revision current_close_basis) \<and>
     risk_id_set (basis_residual_risk_ids basis) = current_acceptance_required_risk_ids current_close_basis"

definition current_residual_risk_acceptance_covers ::
  "UserActionAuthority \<Rightarrow> CurrentCloseBasis \<Rightarrow> RiskId \<Rightarrow> bool" where
  "current_residual_risk_acceptance_covers user_action current_close_basis risk_id =
     (if \<not> accepted_current_user_authority user_action UserActionKind.ResidualRiskAcceptance then False
      else if UserActionRequiredFor.CloseComplete \<notin> set (ua_required_for user_action) then False
      else case ua_basis user_action of
          None \<Rightarrow> False
        | Some basis \<Rightarrow>
            if \<not> residual_risk_basis_matches_current basis current_close_basis then False
            else (case ua_resolution user_action of
                None \<Rightarrow> False
              | Some resolution \<Rightarrow>
                  let accepted_ids = accepted_risk_ids_from_resolution resolution in
                  set accepted_ids \<subseteq> set (risk_id_set (basis_residual_risk_ids basis)) \<and>
                  risk_id \<in> set accepted_ids))"

definition current_residual_risk_acceptance_coverage ::
  "ProjectId \<Rightarrow> TaskId \<Rightarrow> u64 \<Rightarrow> CurrentCloseBasis \<Rightarrow> UserActionAuthority list \<Rightarrow>
     RiskAcceptanceCoverage list" where
  "current_residual_risk_acceptance_coverage project_id task_id state_version current_close_basis user_actions =
     map (\<lambda>risk.
       let refs = (if rr_acceptance_required risk
             then List.map_filter (\<lambda>a. map_option (\<lambda>resolution_id.
                 state_ref StateRecordKind.UserActionResolution resolution_id project_id (Some task_id)
                   (Some state_version)) (ua_user_action_resolution_id a))
               (filter (\<lambda>a. current_residual_risk_acceptance_covers a current_close_basis (rr_risk_id risk))
                 user_actions)
             else []);
           accepted = (\<not> rr_acceptance_required risk \<or> refs \<noteq> [])
       in \<lparr>rac_risk_id = rr_risk_id risk, rac_accepted = accepted,
           rac_accepted_by_user_action_resolution_refs = refs,
           rac_missing_reason = (if accepted then None else Some ''acceptance_required'')\<rparr>)
     (ccb_residual_risks current_close_basis)"

fun close_acceptance_policy_rank :: "AcceptancePolicy \<Rightarrow> nat" where
  "close_acceptance_policy_rank AcceptancePolicy.NotRequired = 0"
| "close_acceptance_policy_rank AcceptancePolicy.PolicyDependent = 1"
| "close_acceptance_policy_rank AcceptancePolicy.Required = 2"

record ScopeDecisionAuthorityRequirement =
  sda_task_id :: TaskId
  sda_scope_revision :: u64
  sda_current_change_unit_id :: "ChangeUnitId option"
  sda_affected_refs :: "StateRecordRef list"
  sda_now :: UtcTimestamp

definition record_ref_task_matches :: "StateRecordRef \<Rightarrow> TaskId \<Rightarrow> bool" where
  "record_ref_task_matches record_ref task_id =
     (if ref_record_kind record_ref = StateRecordKind.Task \<and> ref_record_id record_ref \<noteq> task_id then False
      else (case ref_task_id record_ref of None \<Rightarrow> True | Some record_task_id \<Rightarrow> record_task_id = task_id))"

definition state_refs_overlap :: "StateRecordRef \<Rightarrow> StateRecordRef \<Rightarrow> bool" where
  "state_refs_overlap left right =
     (if ref_project_id left \<noteq> ref_project_id right then False
      else if ref_record_kind left = StateRecordKind.Task \<and> ref_task_id right = ref_task_id left then True
      else ref_record_kind left = ref_record_kind right \<and> ref_record_id left = ref_record_id right)"

definition scope_decision_refs_are_compatible ::
  "StateRecordRef list \<Rightarrow> StateRecordRef list \<Rightarrow> TaskId \<Rightarrow> bool" where
  "scope_decision_refs_are_compatible judgment_refs transition_refs task_id =
     (case transition_refs of
        [] \<Rightarrow> judgment_refs = []
      | first_transition_ref # _ \<Rightarrow>
          if list_ex (\<lambda>r. ref_project_id r \<noteq> ref_project_id first_transition_ref \<or>
              \<not> record_ref_task_matches r task_id) judgment_refs
          then False
          else judgment_refs = [] \<or>
            list_ex (\<lambda>j. list_ex (state_refs_overlap j) transition_refs) judgment_refs)"

definition accepted_current_scope_decision_authority ::
  "UserActionAuthority \<Rightarrow> ScopeDecisionAuthorityRequirement \<Rightarrow> bool" where
  "accepted_current_scope_decision_authority judgment requirement =
     (if \<not> accepted_current_user_authority judgment UserActionKind.ScopeDecision \<or>
         UserActionRequiredFor.ScopeUpdate \<notin> set (ua_required_for judgment) \<or>
         is_some_and (ua_expires_at judgment) (\<lambda>expires_at. expires_at \<le> sda_now requirement)
      then False
      else is_some_and (ua_basis judgment) (\<lambda>basis.
        let coordinates = basis_coordinates basis in
        coord_task_id coordinates = sda_task_id requirement \<and>
        coord_scope_revision coordinates = sda_scope_revision requirement \<and>
        coord_change_unit_id coordinates = sda_current_change_unit_id requirement \<and>
        scope_decision_refs_are_compatible (ua_affected_refs judgment) (sda_affected_refs requirement)
          (sda_task_id requirement)))"

section \<open>Change control\<close>

definition task_ref_for_close :: "CloseReadinessRequest \<Rightarrow> u64 \<Rightarrow> StateRecordRef" where
  "task_ref_for_close request state_version =
     state_ref StateRecordKind.Task (clq_task_id request) (clq_project_id request)
       (Some (clq_task_id request)) (Some state_version)"

definition change_unit_ref_for_close ::
  "CloseReadinessRequest \<Rightarrow> CloseReadinessFacts \<Rightarrow> u64 \<Rightarrow> StateRecordRef list" where
  "change_unit_ref_for_close request facts state_version =
     (case crf_current_change_unit facts of
        None \<Rightarrow> []
      | Some r \<Rightarrow> [change_unit_ref (clq_project_id request) (clq_task_id request) r state_version])"

definition recovery_required :: "CloseReadinessFacts \<Rightarrow> bool" where
  "recovery_required facts =
     (if crf_blocker_refs facts \<noteq> [] then True
      else is_some_and (crf_current_change_unit facts) cu_recovery_required)"

definition baseline_stale_for_close :: "CloseReadinessFacts \<Rightarrow> bool" where
  "baseline_stale_for_close facts = is_some_and (crf_current_close_basis facts)
     (\<lambda>basis. ccb_baseline_ref basis \<noteq> stored_scope_baseline_ref (crf_task facts))"

definition open_write_ticket_blockers_from_evaluated ::
  "StateRecordRef \<Rightarrow> u64 \<Rightarrow> StoredWriteTicketEvaluation list \<Rightarrow> CloseReadinessBlocker list" where
  "open_write_ticket_blockers_from_evaluated task_ref state_version write_tickets =
     List.map_filter (\<lambda>t. map_option (\<lambda>reusable.
       let stored = reusable_stored reusable in
       open_write_ticket_close_blocker task_ref
         (state_ref StateRecordKind.WriteTicket (sts_write_ticket_id stored) (sem_project_id (sts_ticket stored))
           (Some (vb_task_id (sem_validity_basis (sts_ticket stored)))) (Some state_version)))
       (as_reusable t)) write_tickets"

definition unresolved_write_ticket_blockers ::
  "CloseReadinessStore \<Rightarrow> ProjectStateHeader \<Rightarrow> CloseReadinessRequest \<Rightarrow> CloseReadinessFacts \<Rightarrow>
     (CloseReadinessBlocker list, CloseReadinessError) result" where
  "unresolved_write_ticket_blockers store project_state request facts =
     and_then (close_write_tickets store request facts) (\<lambda>write_tickets.
     Ok (open_write_ticket_blockers_from_evaluated
       (task_ref_for_close request (psh_state_version project_state)) (psh_state_version project_state)
       write_tickets))"

definition closes_completely :: "CloseReadinessRequest \<Rightarrow> bool" where
  "closes_completely request \<longleftrightarrow> clq_intent request \<in> {CloseIntent.Check, CloseIntent.Complete}"

definition task_closeable_blockers ::
  "ProjectStateHeader \<Rightarrow> CloseReadinessRequest \<Rightarrow> CloseReadinessFacts \<Rightarrow> CloseReadinessBlocker list" where
  "task_closeable_blockers project_state request facts =
     (let task_ref = task_ref_for_close request (psh_state_version project_state) in
      if is_terminal_lifecycle (task_lifecycle_phase (crf_task facts)) \<or>
         is_some_and (psh_active_task_id project_state) (\<lambda>active_task_id. active_task_id \<noteq> clq_task_id request)
      then [close_blocker CloseReadinessBlockerCategory.Task ''task_not_closeable''
        ''The addressed Task is not the current non-terminal Task.'' [task_ref]
        [close_guidance ReviewCurrentTask [task_ref]]]
      else [])"

definition superseding_task_blockers ::
  "CloseReadinessStore \<Rightarrow> ProjectStateHeader \<Rightarrow> CloseReadinessRequest \<Rightarrow> CloseReadinessBlocker list" where
  "superseding_task_blockers store project_state request =
     (if clq_intent request \<noteq> CloseIntent.Supersede then []
      else if is_some_and (Option.bind (clq_superseding_task_id request) (crs_task_record store))
          (\<lambda>task. \<not> is_terminal_lifecycle (task_lifecycle_phase task))
      then []
      else [close_blocker CloseReadinessBlockerCategory.Task ''task_not_closeable''
        ''superseding_task_id must identify a non-terminal Task in this project.''
        (case clq_superseding_task_id request of
           None \<Rightarrow> []
         | Some task_id \<Rightarrow> [state_ref StateRecordKind.Task task_id (clq_project_id request) (Some task_id)
             (Some (psh_state_version project_state))]) []])"

definition change_control_terminal_blockers ::
  "CloseReadinessStore \<Rightarrow> ProjectStateHeader \<Rightarrow> CloseReadinessRequest \<Rightarrow> CloseReadinessFacts \<Rightarrow>
     (CloseReadinessBlocker list, CloseReadinessError) result" where
  "change_control_terminal_blockers store project_state request facts =
     (let blockers = task_closeable_blockers project_state request facts @
        superseding_task_blockers store project_state request @
        (if recovery_required facts
         then [close_blocker CloseReadinessBlockerCategory.Recovery ''recovery_required''
           ''A recovery constraint or active blocker must be resolved before this terminal transition.''
           (crf_blocker_refs facts)
           [close_guidance ResolveRecoveryBlockers (crf_blocker_refs facts)]]
         else [])
      in if closes_completely request
         then and_then (unresolved_write_ticket_blockers store project_state request facts)
           (\<lambda>open_tickets. Ok (blockers @ open_tickets))
         else Ok blockers)"

definition incompatible_close_basis_run_refs ::
  "CloseReadinessStore \<Rightarrow> CloseReadinessRequest \<Rightarrow> CloseReadinessFacts \<Rightarrow> CurrentCloseBasis \<Rightarrow>
     ChangeUnitRecord \<Rightarrow> StateRecordRef list" where
  "incompatible_close_basis_run_refs store request facts basis current_change_unit =
     filter (\<lambda>record_ref.
       if ref_project_id record_ref \<noteq> clq_project_id request \<or>
          ref_task_id record_ref \<noteq> Some (clq_task_id request) then True
       else if list_ex (\<lambda>projected_ref. state_record_ref_identity_key projected_ref =
           state_record_ref_identity_key record_ref) (crf_projected_run_refs facts) then False
       else (case crs_run_record store (ref_record_id record_ref) of
           None \<Rightarrow> True
         | Some run \<Rightarrow> \<not> run_record_matches_close_basis_context run (clq_project_id request)
             (clq_task_id request) (cu_change_unit_id current_change_unit)
             (task_scope_revision (crf_task facts)) (stored_scope_baseline_ref (crf_task facts))))
     (unique_state_record_refs (close_basis_run_refs basis))"

definition incompatible_close_basis_run_refs_blocker ::
  "CloseReadinessStore \<Rightarrow> ProjectStateHeader \<Rightarrow> CloseReadinessRequest \<Rightarrow> CloseReadinessFacts \<Rightarrow>
     CurrentCloseBasis \<Rightarrow> CloseReadinessBlocker option" where
  "incompatible_close_basis_run_refs_blocker store project_state request facts basis =
     (case crf_current_change_unit facts of
        None \<Rightarrow> None
      | Some current_change_unit \<Rightarrow>
          let refs = incompatible_close_basis_run_refs store request facts basis current_change_unit in
          if refs = [] then None
          else Some (close_blocker CloseReadinessBlockerCategory.Scope ''stale_current_close_basis''
            ''The current close basis contains Run refs that are not current for the Task scope.'' refs
            [close_guidance RecordFreshRunBasis
              [task_ref_for_close request (psh_state_version project_state)]]))"

definition current_close_basis_blocker ::
  "CloseReadinessStore \<Rightarrow> ProjectStateHeader \<Rightarrow> CloseReadinessRequest \<Rightarrow> CloseReadinessFacts \<Rightarrow>
     CloseReadinessBlocker option" where
  "current_close_basis_blocker store project_state request facts =
     (let task_ref = task_ref_for_close request (psh_state_version project_state);
          task = crf_task facts; advisor = (task_mode task = TaskMode.Advisor) in
      case crf_current_close_basis facts of
        None \<Rightarrow> Some (close_blocker CloseReadinessBlockerCategory.Task ''missing_current_close_basis''
          (if advisor
           then ''Completion requires the current advice to be finalized by volicord.finalize_advice.''
           else ''Completion requires a current close basis recorded by volicord.record_run.'') [task_ref]
          [close_guidance (if advisor then FinalizeAdvisorCloseBasis else RecordCurrentCloseBasis) [task_ref]])
      | Some basis \<Rightarrow>
          if \<not> close_basis_is_current basis (clq_task_id request)
              (map_option cu_change_unit_id (crf_current_change_unit facts)) (task_scope_revision task)
              (task_close_basis_revision task) (stored_scope_baseline_ref task)
          then Some (close_blocker CloseReadinessBlockerCategory.Scope ''stale_current_close_basis''
            ''The current close basis is stale against current Task scope.'' [task_ref]
            [close_guidance (if advisor then RefreshAdvisorCloseBasis else RecordFreshScopeBasis) [task_ref]])
          else if advisor then None
          else incompatible_close_basis_run_refs_blocker store project_state request facts basis)"

definition completion_scope_blockers ::
  "CloseReadinessStore \<Rightarrow> ProjectStateHeader \<Rightarrow> CloseReadinessRequest \<Rightarrow> CloseReadinessFacts \<Rightarrow>
     CloseReadinessBlocker list" where
  "completion_scope_blockers store project_state request facts =
     (let task_ref = task_ref_for_close request (psh_state_version project_state) in
      (if is_some_and (crf_current_change_unit facts)
          (\<lambda>r. \<not> (cu_status r \<noteq> ChangeUnitStatus.Active \<or> \<not> cu_is_current r))
       then []
       else [close_blocker CloseReadinessBlockerCategory.Scope ''missing_active_change_unit''
         ''Completion requires a current active Change Unit.'' [task_ref]
         [close_guidance RestoreActiveChangeUnit [task_ref]]]) @
      (case current_close_basis_blocker store project_state request facts of
         None \<Rightarrow> [] | Some blocker \<Rightarrow> [blocker]))"

definition completion_basis_blockers ::
  "ProjectStateHeader \<Rightarrow> CloseReadinessRequest \<Rightarrow> CloseReadinessFacts \<Rightarrow> CloseReadinessBlocker list" where
  "completion_basis_blockers project_state request facts =
     (let state_version = psh_state_version project_state;
          task_ref = task_ref_for_close request state_version in
      (if baseline_stale_for_close facts
       then [close_blocker CloseReadinessBlockerCategory.Baseline ''baseline_stale''
         ''The current close basis is stale against the current baseline.''
         (change_unit_ref_for_close request facts state_version)
         [close_guidance RefreshCurrentBasis [task_ref]]]
       else []) @
      (if is_some_and (crf_current_close_basis facts) (\<lambda>basis. ccb_recovery_constraints basis \<noteq> [])
       then [close_blocker CloseReadinessBlockerCategory.Recovery ''recovery_required''
         ''The current close basis records recovery constraints that must be resolved.'' [task_ref]
         [close_guidance ResolveRecoveryConstraints [task_ref]]]
       else []))"

definition unrecorded_change_blockers ::
  "ProjectStateHeader \<Rightarrow> CloseReadinessRequest \<Rightarrow> CloseReadinessFacts \<Rightarrow> CloseReadinessBlocker list" where
  "unrecorded_change_blockers project_state request facts =
     (if crf_unresolved_unrecorded_changes facts = [] then []
      else let task_ref = task_ref_for_close request (psh_state_version project_state) in
        [close_blocker CloseReadinessBlockerCategory.ConnectionCapability ''unresolved_unrecorded_changes''
          ''Observed Product Repository changes still need reconciliation.'' [task_ref]
          [close_guidance CloseGuidance.ReconcileChanges [task_ref]]])"

section \<open>Authority for a close\<close>

definition close_operation_refs ::
  "CloseReadinessRequest \<Rightarrow> ProjectStateHeader \<Rightarrow> CloseReadinessFacts \<Rightarrow> StateRecordRef list" where
  "close_operation_refs request project_state facts =
     [task_ref_for_close request (psh_state_version project_state)] @
     change_unit_ref_for_close request facts (psh_state_version project_state) @
     (case crf_current_close_basis facts of
        None \<Rightarrow> []
      | Some close_basis \<Rightarrow> ccb_result_refs close_basis @
          (case ccb_evidence_summary_ref close_basis of None \<Rightarrow> [] | Some evidence_ref \<Rightarrow> [evidence_ref]) @
          concat (map rr_source_refs (ccb_residual_risks close_basis)))"

definition close_sensitive_requirement ::
  "CloseReadinessRequest \<Rightarrow> CloseReadinessFacts \<Rightarrow> SensitiveActionRequirement \<Rightarrow>
     SensitiveApprovalRequirement" where
  "close_sensitive_requirement request facts close_requirement = \<lparr>
     req_task_id = clq_task_id request,
     req_change_unit_id = sar_change_unit_id close_requirement,
     req_scope_revision = task_scope_revision (crf_task facts),
     req_operation = sar_action_kind close_requirement,
     req_normalized_paths = sar_normalized_paths close_requirement,
     req_sensitive_categories = sar_sensitive_categories close_requirement,
     req_baseline_ref = sar_baseline_ref close_requirement,
     req_required_for = UserActionRequiredFor.CloseComplete,
     req_now = crf_now facts\<rparr>"

definition close_operation_context ::
  "CloseReadinessRequest \<Rightarrow> ProjectStateHeader \<Rightarrow> CloseReadinessFacts \<Rightarrow> UserActionOperation \<Rightarrow>
     SensitiveApprovalRequirement option \<Rightarrow> UserActionOperationContext" where
  "close_operation_context request project_state facts operation sensitive_approval = \<lparr>
     opc_operation = operation, opc_task_id = clq_task_id request,
     opc_change_unit_id = map_option cu_change_unit_id (crf_current_change_unit facts),
     opc_scope_revision = task_scope_revision (crf_task facts),
     opc_close_basis = crf_current_close_basis facts,
     opc_operation_refs = close_operation_refs request project_state facts,
     opc_sensitive_approval = sensitive_approval\<rparr>"

definition pending_sensitive_judgment_blocks_close ::
  "CloseReadinessRequest \<Rightarrow> ProjectStateHeader \<Rightarrow> CloseReadinessFacts \<Rightarrow> UserActionAuthority \<Rightarrow> bool" where
  "pending_sensitive_judgment_blocks_close request project_state facts authority =
     is_some_and (crf_current_close_basis facts) (\<lambda>close_basis.
       list_ex (\<lambda>close_requirement. user_action_blocks_operation authority
           (close_operation_context request project_state facts UserActionOperation.CloseComplete
             (Some (close_sensitive_requirement request facts close_requirement))))
         (ccb_sensitive_action_requirements close_basis))"

definition pending_action_blocks_close ::
  "CloseReadinessRequest \<Rightarrow> ProjectStateHeader \<Rightarrow> CloseReadinessFacts \<Rightarrow> UserActionOperation \<Rightarrow>
     UserActionAuthority \<Rightarrow> bool" where
  "pending_action_blocks_close request project_state facts operation authority =
     (if operation = UserActionOperation.CloseComplete \<and>
         ua_action_kind authority = UserActionKind.SensitiveApproval
      then pending_sensitive_judgment_blocks_close request project_state facts authority
      else user_action_blocks_operation authority
        (close_operation_context request project_state facts operation None))"

definition user_action_request_ref ::
  "CloseReadinessRequest \<Rightarrow> ProjectStateHeader \<Rightarrow> UserActionAuthority \<Rightarrow> StateRecordRef" where
  "user_action_request_ref request project_state authority =
     state_ref StateRecordKind.UserActionRequest (ua_user_action_request_id authority)
       (clq_project_id request) (Some (clq_task_id request)) (Some (psh_state_version project_state))"

definition pending_user_action_refs_for_close_operation ::
  "CloseReadinessStore \<Rightarrow> ProjectStateHeader \<Rightarrow> CloseReadinessRequest \<Rightarrow> CloseReadinessFacts \<Rightarrow>
     UserActionOperation \<Rightarrow> StateRecordRef list" where
  "pending_user_action_refs_for_close_operation store project_state request facts operation =
     map (user_action_request_ref request project_state)
       (filter (pending_action_blocks_close request project_state facts operation)
         (pending_user_action_authorities_for_context store facts))"

definition cancellation_requirement ::
  "CloseReadinessRequest \<Rightarrow> CloseReadinessFacts \<Rightarrow> CancellationAuthorityRequirement" where
  "cancellation_requirement request facts = \<lparr>
     can_task_id = clq_task_id request,
     can_change_unit_id = map_option cu_change_unit_id (crf_current_change_unit facts),
     can_scope_revision = task_scope_revision (crf_task facts)\<rparr>"

definition cancellation_basis_is_current ::
  "CloseReadinessRequest \<Rightarrow> CloseReadinessFacts \<Rightarrow> UserActionAuthority \<Rightarrow> bool" where
  "cancellation_basis_is_current request facts authority \<longleftrightarrow>
     user_action_has_current_basis authority \<and>
     is_some_and (ua_basis authority) (\<lambda>basis.
       let coordinates = basis_coordinates basis in
       coord_task_id coordinates = clq_task_id request \<and>
       coord_scope_revision coordinates = task_scope_revision (crf_task facts) \<and>
       coord_change_unit_id coordinates = map_option cu_change_unit_id (crf_current_change_unit facts))"

definition user_rejected :: "UserActionAuthority \<Rightarrow> bool" where
  "user_rejected authority \<longleftrightarrow>
     ua_resolution_outcome authority = Some JudgmentResolutionOutcome.Rejected \<and>
     ua_resolved_by_actor_source authority = Some ActorSource.LocalUser \<and>
     verified_user_channel_provenance authority"

definition cancellation_authority_blocker ::
  "CloseReadinessStore \<Rightarrow> ProjectStateHeader \<Rightarrow> CloseReadinessRequest \<Rightarrow> CloseReadinessFacts \<Rightarrow>
     CloseReadinessBlocker option" where
  "cancellation_authority_blocker store project_state request facts =
     (let authorities = resolved_judgment_authorities_for_context store facts JudgmentKind.Cancellation in
      if list_ex (\<lambda>a. user_action_required_for a UserActionRequiredFor.CloseCancel \<and>
          current_cancellation_authority a (cancellation_requirement request facts)) authorities
      then None
      else
        let asked = filter (\<lambda>a. user_action_required_for a UserActionRequiredFor.CloseCancel) authorities;
            stale = map (user_action_request_ref request project_state)
              (filter (\<lambda>a. \<not> cancellation_basis_is_current request facts a) asked);
            rejected_refs = map (user_action_request_ref request project_state)
              (filter (\<lambda>a. cancellation_basis_is_current request facts a \<and> user_rejected a) asked);
            stale_refs = (if stale = []
              then non_current_judgment_refs_for_plan store JudgmentKind.Cancellation else stale);
            task_ref = task_ref_for_close request (psh_state_version project_state);
            (code, message, related_refs) =
              (if rejected_refs \<noteq> []
               then (''rejected_cancellation_authority'',
                 ''The current user cancellation resolution rejected cancellation.'', task_ref # rejected_refs)
               else if stale_refs \<noteq> []
               then (''stale_cancellation_authority'',
                 ''The available cancellation resolution is stale or incompatible with the current Task scope.'',
                 task_ref # stale_refs)
               else (''missing_cancellation_authority'',
                 ''Cancelling the Task requires a current accepted user cancellation resolution.'', [task_ref]))
        in Some (close_blocker CloseReadinessBlockerCategory.UserAction code message related_refs
             [close_guidance RequestCancellationAuthority [task_ref]]))"

definition acceptance_terminal_blockers ::
  "CloseReadinessStore \<Rightarrow> ProjectStateHeader \<Rightarrow> CloseReadinessRequest \<Rightarrow> CloseReadinessFacts \<Rightarrow>
     CloseReadinessBlocker list" where
  "acceptance_terminal_blockers store project_state request facts =
     (case clq_intent request of
        CloseIntent.Cancel \<Rightarrow>
          (case cancellation_authority_blocker store project_state request facts of
             None \<Rightarrow> [] | Some blocker \<Rightarrow> [blocker])
      | CloseIntent.Supersede \<Rightarrow>
          let pending_refs = pending_user_action_refs_for_close_operation store project_state request facts
                UserActionOperation.CloseSupersede in
          if pending_refs = [] then []
          else [close_blocker CloseReadinessBlockerCategory.PendingUserAction ''pending_user_action''
            ''A user action required before superseding this Task is still pending.'' pending_refs
            [close_guidance ResolvePendingUserAction []]]
      | CloseIntent.Check \<Rightarrow> []
      | CloseIntent.Complete \<Rightarrow> [])"

definition sensitive_approval_required :: "CloseReadinessFacts \<Rightarrow> bool" where
  "sensitive_approval_required facts \<longleftrightarrow>
     task_effective_control_level (crf_task facts) = TaskControlLevel.Sensitive \<or>
     is_some_and (crf_current_close_basis facts) (\<lambda>basis. ccb_sensitive_action_requirements basis \<noteq> [])"

definition sensitive_action_basis_missing :: "CloseReadinessFacts \<Rightarrow> bool" where
  "sensitive_action_basis_missing facts \<longleftrightarrow>
     task_effective_control_level (crf_task facts) = TaskControlLevel.Sensitive \<and>
     \<not> is_some_and (crf_current_close_basis facts) (\<lambda>basis. ccb_sensitive_action_requirements basis \<noteq> [])"

definition has_current_sensitive_approval_for_close ::
  "CloseReadinessStore \<Rightarrow> CloseReadinessRequest \<Rightarrow> CloseReadinessFacts \<Rightarrow> bool" where
  "has_current_sensitive_approval_for_close store request facts =
     (case crf_current_close_basis facts of
        None \<Rightarrow> False
      | Some close_basis \<Rightarrow>
          if ccb_sensitive_action_requirements close_basis = [] then False
          else
            let authorities = resolved_judgment_authorities_for_context store facts
                  JudgmentKind.SensitiveApproval in
            list_all (\<lambda>close_requirement.
              if sar_change_unit_id close_requirement \<noteq> ccb_change_unit_id close_basis then False
              else list_ex (\<lambda>a. current_sensitive_approval a
                (close_sensitive_requirement request facts close_requirement)) authorities)
            (ccb_sensitive_action_requirements close_basis))"

definition completion_authority_blockers ::
  "CloseReadinessStore \<Rightarrow> ProjectStateHeader \<Rightarrow> CloseReadinessRequest \<Rightarrow> CloseReadinessFacts \<Rightarrow>
     CloseReadinessBlocker list" where
  "completion_authority_blockers store project_state request facts =
     (let state_version = psh_state_version project_state;
          task_ref = task_ref_for_close request state_version;
          change_unit_refs = change_unit_ref_for_close request facts state_version;
          pending_refs = pending_user_action_refs_for_close_operation store project_state request facts
            UserActionOperation.CloseComplete in
      (if pending_refs \<noteq> []
       then [close_blocker CloseReadinessBlockerCategory.PendingUserAction ''pending_user_action''
         ''A user action required before close is still pending.'' pending_refs
         [close_guidance ResolvePendingUserAction []]]
       else []) @
      (if sensitive_action_basis_missing facts
       then [close_blocker CloseReadinessBlockerCategory.SensitiveApproval ''missing_sensitive_action_basis''
         ''The effective sensitive Task has no ticket-backed sensitive-action basis for close.''
         (change_unit_refs @ [task_ref]) [close_guidance PrepareSensitiveAction [task_ref]]]
       else if sensitive_approval_required facts \<and>
           \<not> has_current_sensitive_approval_for_close store request facts
       then [close_blocker CloseReadinessBlockerCategory.SensitiveApproval ''missing_sensitive_approval''
         ''A documented sensitive-action approval required for close is missing.''
         (change_unit_refs @ non_current_judgment_refs_for_plan store JudgmentKind.SensitiveApproval)
         [close_guidance RequestSensitiveApproval [task_ref]]]
       else []))"

definition risk_acceptance_coverage ::
  "CloseReadinessStore \<Rightarrow> ProjectStateHeader \<Rightarrow> CloseReadinessRequest \<Rightarrow> CloseReadinessFacts \<Rightarrow>
     RiskAcceptanceCoverage list" where
  "risk_acceptance_coverage store project_state request facts =
     (case crf_current_close_basis facts of
        None \<Rightarrow> []
      | Some basis \<Rightarrow>
          let coverage = current_residual_risk_acceptance_coverage (clq_project_id request)
                (clq_task_id request) (psh_state_version project_state) basis
                (resolved_judgment_authorities_for_context store facts JudgmentKind.ResidualRiskAcceptance)
          in if non_current_judgment_refs_for_plan store JudgmentKind.ResidualRiskAcceptance = [] then coverage
             else map (\<lambda>item. if rac_accepted item then item
               else item\<lparr>rac_missing_reason := Some ''stale_acceptance''\<rparr>) coverage)"

record LightAcceptancePolicyFacts =
  lap_light_enabled :: bool
  lap_final_acceptance_policy :: AcceptancePolicy
  lap_has_pending_user_action :: bool
  lap_has_current_close_basis :: bool
  lap_has_acceptance_required_risk :: bool
  lap_has_sensitive_result :: bool
  lap_has_unresolved_change :: bool
  lap_has_evidence_blocker :: bool
  lap_writes_are_current_and_authorized :: bool

definition light_acceptance_can_be_omitted :: "LightAcceptancePolicyFacts \<Rightarrow> bool" where
  "light_acceptance_can_be_omitted facts \<longleftrightarrow>
     lap_light_enabled facts \<and> lap_final_acceptance_policy facts \<noteq> AcceptancePolicy.Required \<and>
     \<not> lap_has_pending_user_action facts \<and> lap_has_current_close_basis facts \<and>
     \<not> lap_has_acceptance_required_risk facts \<and> \<not> lap_has_sensitive_result facts \<and>
     \<not> lap_has_unresolved_change facts \<and> \<not> lap_has_evidence_blocker facts \<and>
     lap_writes_are_current_and_authorized facts"

text \<open>The loop body over the observed changes of the runs: whether one run lets the loop go on.\<close>

definition consumed_by_run :: "StoredWriteTicketEvaluation list \<Rightarrow> RunId \<Rightarrow> ConsumedStoredWriteTicket option" where
  "consumed_by_run tickets run_id =
     find (\<lambda>consumed. con_consumed_by_run_id consumed = run_id) (List.map_filter as_consumed tickets)"

definition ticket_covers_run ::
  "CloseReadinessRequest \<Rightarrow> CloseReadinessFacts \<Rightarrow> CurrentCloseBasis \<Rightarrow> ConsumedStoredWriteTicket \<Rightarrow>
     string list \<Rightarrow> bool" where
  "ticket_covers_run request facts close_basis consumed changed_paths =
     (let semantic = sts_ticket (con_stored consumed); validity_basis = sem_validity_basis semantic in
      if vb_task_id validity_basis \<noteq> clq_task_id request \<or>
         vb_change_unit_id validity_basis \<noteq> ccb_change_unit_id close_basis \<or>
         vb_scope_revision validity_basis \<noteq> task_scope_revision (crf_task facts) \<or>
         vb_baseline_ref validity_basis \<noteq> ccb_baseline_ref close_basis
      then False
      else \<not> (\<not> paths_are_authorized changed_paths (map as_str (allowed (sem_path_scope semantic))) \<or>
        list_ex (\<lambda>path. list_ex (\<lambda>denied_prefix. path_is_within path (as_str denied_prefix))
          (denied (sem_path_scope semantic))) changed_paths))"

definition light_run_is_authorized ::
  "CloseReadinessStore \<Rightarrow> CloseReadinessRequest \<Rightarrow> CloseReadinessFacts \<Rightarrow> ProjectWorkflowPolicy \<Rightarrow>
     CurrentCloseBasis \<Rightarrow> StoredWriteTicketEvaluation list \<Rightarrow> RunObservedChangesRecord \<Rightarrow> bool" where
  "light_run_is_authorized store request facts workflow_policy close_basis tickets observed =
     (let changes = roc_observed_changes observed in
      if roc_status observed \<noteq> RunStatus.Recorded then False
      else if oc_sensitive_categories changes \<noteq> [] then False
      else if \<not> oc_product_file_write_observed changes then True
      else if \<not> light_paths_are_allowed workflow_policy (oc_changed_paths changes) then False
      else (case crs_run_record store (roc_run_id observed) of
          None \<Rightarrow> False
        | Some run \<Rightarrow>
            if run_scope_revision run \<noteq> task_scope_revision (crf_task facts) \<or>
               run_change_unit_id run \<noteq> Some (ccb_change_unit_id close_basis) \<or>
               run_baseline_ref run \<noteq> ccb_baseline_ref close_basis
            then False
            else (case consumed_by_run tickets (roc_run_id observed) of
                None \<Rightarrow> False
              | Some consumed \<Rightarrow>
                  ticket_covers_run request facts close_basis consumed (oc_changed_paths changes))))"

definition light_completion_without_acceptance_allowed ::
  "CloseReadinessStore \<Rightarrow> CloseReadinessRequest \<Rightarrow> CloseReadinessFacts \<Rightarrow> bool \<Rightarrow>
     (bool, CloseReadinessError) result" where
  "light_completion_without_acceptance_allowed store request facts has_evidence_blockers =
     (if task_effective_control_level (crf_task facts) \<noteq> TaskControlLevel.Light then Ok False
      else and_then (workflow_policy_for_close_context facts) (\<lambda>workflow_policy.
        case crf_current_close_basis facts of
          None \<Rightarrow> Ok False
        | Some close_basis \<Rightarrow>
            if \<not> light_acceptance_can_be_omitted \<lparr>
                lap_light_enabled = light_enabled (pwp_light workflow_policy),
                lap_final_acceptance_policy = light_final_acceptance (pwp_light workflow_policy),
                lap_has_pending_user_action = (crf_pending_user_action_refs facts \<noteq> []),
                lap_has_current_close_basis = True,
                lap_has_acceptance_required_risk =
                  list_ex rr_acceptance_required (ccb_residual_risks close_basis),
                lap_has_sensitive_result = (ccb_sensitive_categories close_basis \<noteq> [] \<or>
                  ccb_sensitive_action_requirements close_basis \<noteq> []),
                lap_has_unresolved_change = (crf_unresolved_unrecorded_changes facts \<noteq> []),
                lap_has_evidence_blocker = has_evidence_blockers,
                lap_writes_are_current_and_authorized = True\<rparr>
            then Ok False
            else and_then (close_write_tickets store request facts) (\<lambda>tickets.
              Ok (list_all (light_run_is_authorized store request facts workflow_policy close_basis tickets)
                (crs_run_observed_changes store)))))"

definition acceptance_is_required ::
  "CloseReadinessStore \<Rightarrow> CloseReadinessRequest \<Rightarrow> CloseReadinessFacts \<Rightarrow> bool \<Rightarrow>
     (bool, CloseReadinessError) result" where
  "acceptance_is_required store request facts has_evidence_blockers =
     (case task_effective_control_level (crf_task facts) of
        TaskControlLevel.Observe \<Rightarrow> Ok (task_mode (crf_task facts) = TaskMode.Advisor)
      | TaskControlLevel.Tracked \<Rightarrow> Ok True
      | TaskControlLevel.Sensitive \<Rightarrow> Ok True
      | TaskControlLevel.Light \<Rightarrow>
          if task_acceptance_policy (crf_task facts) = AcceptancePolicy.Required then Ok True
          else and_then (light_completion_without_acceptance_allowed store request facts has_evidence_blockers)
            (\<lambda>omitted. Ok (\<not> omitted)))"

text \<open>Where no light path is open: the demand as a predicate on the task.\<close>

definition acceptance_is_mandatory :: "TaskRecord \<Rightarrow> bool" where
  "acceptance_is_mandatory task \<longleftrightarrow>
     task_effective_control_level task \<in> {TaskControlLevel.Tracked, TaskControlLevel.Sensitive} \<or>
     task_effective_control_level task = TaskControlLevel.Light \<and>
       task_acceptance_policy task = AcceptancePolicy.Required \<or>
     task_effective_control_level task = TaskControlLevel.Observe \<and> task_mode task = TaskMode.Advisor"

definition final_acceptance_blocker ::
  "CloseReadinessStore \<Rightarrow> ProjectStateHeader \<Rightarrow> CloseReadinessRequest \<Rightarrow> CloseReadinessFacts \<Rightarrow> bool \<Rightarrow>
     (CloseReadinessBlocker option, CloseReadinessError) result" where
  "final_acceptance_blocker store project_state request facts has_evidence_blockers =
     and_then (acceptance_is_required store request facts has_evidence_blockers) (\<lambda>acceptance_required.
     let task_ref = task_ref_for_close request (psh_state_version project_state);
         refused = (\<lambda>code message related_refs. Some (close_blocker
           CloseReadinessBlockerCategory.FinalAcceptance code message related_refs
           [close_guidance RequestFinalAcceptance [task_ref]]))
     in Ok (if \<not> acceptance_required then None
       else (case crf_current_close_basis facts of
           None \<Rightarrow> refused ''missing_final_acceptance''
             ''Final acceptance is required before completing the Task.'' [task_ref]
         | Some close_basis \<Rightarrow>
             if list_ex (\<lambda>a. current_final_acceptance a (final_acceptance_requirement close_basis))
                 (resolved_judgment_authorities_for_context store facts JudgmentKind.FinalAcceptance)
             then None
             else let stale_refs = non_current_judgment_refs_for_plan store JudgmentKind.FinalAcceptance in
               if stale_refs = []
               then refused ''missing_final_acceptance''
                 ''Final acceptance is required before completing the Task.'' [task_ref]
               else refused ''stale_final_acceptance''
                 ''The available final acceptance is stale or incompatible with the current close basis.''
                 (task_ref # stale_refs))))"

record ResidualRiskState =
  rrs_known :: bool
  rrs_visible :: bool

definition residual_risk_state :: "CloseReadinessFacts \<Rightarrow> ResidualRiskState" where
  "residual_risk_state facts =
     (let known = is_some_and (crf_current_close_basis facts) (\<lambda>basis. ccb_residual_risks basis \<noteq> [])
      in \<lparr>rrs_known = known, rrs_visible = known\<rparr>)"

definition completion_acceptance_blockers ::
  "CloseReadinessStore \<Rightarrow> ProjectStateHeader \<Rightarrow> CloseReadinessRequest \<Rightarrow> CloseReadinessFacts \<Rightarrow>
     RiskAcceptanceCoverage list \<Rightarrow> bool \<Rightarrow> (CloseReadinessBlocker list, CloseReadinessError) result" where
  "completion_acceptance_blockers store project_state request facts coverage has_evidence_blockers =
     and_then (final_acceptance_blocker store project_state request facts has_evidence_blockers)
       (\<lambda>final_acceptance.
     let task_ref = task_ref_for_close request (psh_state_version project_state);
         residual_risk = residual_risk_state facts;
         stale_refs = non_current_judgment_refs_for_plan store JudgmentKind.ResidualRiskAcceptance
     in Ok ((case final_acceptance of None \<Rightarrow> [] | Some blocker \<Rightarrow> [blocker]) @
       (if rrs_known residual_risk \<and> \<not> rrs_visible residual_risk
        then [close_blocker CloseReadinessBlockerCategory.ResidualRiskVisibility ''residual_risk_not_visible''
          ''Residual risk exists but is not visible in the close basis.'' [task_ref]
          [close_guidance MakeResidualRiskVisible [task_ref]]]
        else []) @
       (if rrs_known residual_risk \<and> rrs_visible residual_risk \<and> list_ex (\<lambda>c. \<not> rac_accepted c) coverage
        then [close_blocker CloseReadinessBlockerCategory.ResidualRiskAcceptance
          (if stale_refs = [] then ''missing_residual_risk_acceptance'' else ''stale_residual_risk_acceptance'')
          (if stale_refs = [] then ''Visible residual risk requires distinct residual-risk acceptance.''
           else ''The available residual-risk acceptance is stale or incompatible with the current close basis.'')
          (task_ref # stale_refs) [close_guidance RequestResidualRiskAcceptance [task_ref]]]
        else [])))"

section \<open>Evidence\<close>

definition evidence_target_required_by :: "EvidenceTarget \<Rightarrow> AcceptanceCriterionId list \<Rightarrow> bool" where
  "evidence_target_required_by target required =
     (case target of
        EvidenceTarget.AcceptanceCriterion acceptance_criterion_id \<Rightarrow> acceptance_criterion_id \<in> set required
      | EvidenceTarget.SupplementalClaim _ _ \<Rightarrow> False)"

definition stored_evidence_observation_capture_relevance ::
  "EvidenceObservationRecord \<Rightarrow> EvidenceRelevanceStatus option" where
  "stored_evidence_observation_capture_relevance r =
     (if epa_producer_kind (eor_producer_anchor r) \<in>
         {EvidenceProducerKind.VerifiedToolInvocation, EvidenceProducerKind.VerifiedCommandExecution}
      then Some (era_status (eor_relevance_assessment r)) else None)"

fun provenance_disposition :: "EvidenceProvenanceClass \<Rightarrow> CloseEvidenceObservationDisposition" where
  "provenance_disposition EvidenceProvenanceClass.Strong = CloseEvidenceObservationDisposition.StrongSupported"
| "provenance_disposition EvidenceProvenanceClass.CooperativeAgentReport =
     CloseEvidenceObservationDisposition.CooperativeAgentReport"
| "provenance_disposition EvidenceProvenanceClass.Weak = CloseEvidenceObservationDisposition.Weak"

definition close_observation_basis ::
  "CloseReadinessRequest \<Rightarrow> CloseReadinessFacts \<Rightarrow> CurrentCloseBasis \<Rightarrow> EvidenceTarget \<Rightarrow>
     EvidenceObservationBasis" where
  "close_observation_basis request facts basis target = \<lparr>
     eob_project_id = clq_project_id request, eob_task_id = clq_task_id request,
     eob_change_unit_id = ccb_change_unit_id basis, eob_scope_revision = ccb_scope_revision basis,
     eob_baseline_ref = ccb_baseline_ref basis, eob_target = target, eob_now = crf_now facts\<rparr>"

text \<open>The body of the loop over the observations of a coverage item.\<close>

definition projected_observation_disposition ::
  "CloseReadinessStore \<Rightarrow> CloseReadinessRequest \<Rightarrow> CloseReadinessFacts \<Rightarrow> CurrentCloseBasis \<Rightarrow>
     EvidenceTarget \<Rightarrow> EvidenceObservation \<Rightarrow> CloseEvidenceObservationDisposition" where
  "projected_observation_disposition store request facts basis target observation =
     (if eo_project_id observation \<noteq> clq_project_id request \<or> eo_task_id observation \<noteq> clq_task_id request \<or>
         \<not> projected_observation_matches_close_basis observation basis target
      then CloseEvidenceObservationDisposition.Stale
      else if capture_relevance_is_unsupported (epa_producer_kind (eo_producer_anchor observation))
          (eo_relevance_assessment observation)
      then CloseEvidenceObservationDisposition.UnsupportedRelevance
      else provenance_disposition (classify_evidence_provenance
        (crs_projected_provenance_facts store observation (close_observation_basis request facts basis target)
          (crf_projected_artifacts facts))))"

definition stored_observation_disposition ::
  "CloseReadinessStore \<Rightarrow> CloseReadinessRequest \<Rightarrow> CloseReadinessFacts \<Rightarrow> CurrentCloseBasis \<Rightarrow>
     EvidenceTarget \<Rightarrow> EvidenceObservationRecord \<Rightarrow> CloseEvidenceObservationDisposition" where
  "stored_observation_disposition store request facts basis target r =
     (if eor_project_id r \<noteq> clq_project_id request \<or> eor_task_id r \<noteq> clq_task_id request \<or>
         \<not> stored_observation_matches_close_basis r basis target
      then CloseEvidenceObservationDisposition.Stale
      else if is_some_and (stored_evidence_observation_capture_relevance r)
          (\<lambda>status. status \<noteq> EvidenceRelevanceStatus.Supported)
      then CloseEvidenceObservationDisposition.UnsupportedRelevance
      else provenance_disposition (classify_evidence_provenance
        (crs_stored_provenance_facts store r (close_observation_basis request facts basis target))))"

definition observation_disposition ::
  "CloseReadinessStore \<Rightarrow> CloseReadinessRequest \<Rightarrow> CloseReadinessFacts \<Rightarrow> CurrentCloseBasis \<Rightarrow>
     EvidenceTarget \<Rightarrow> StateRecordRef \<Rightarrow> CloseEvidenceObservationDisposition" where
  "observation_disposition store request facts basis target observation_ref =
     (if ref_record_kind observation_ref \<noteq> StateRecordKind.EvidenceObservation \<or>
         ref_project_id observation_ref \<noteq> clq_project_id request \<or>
         ref_task_id observation_ref \<noteq> Some (clq_task_id request)
      then CloseEvidenceObservationDisposition.Weak
      else if is_some_and (Option.bind (ccb_evidence_summary_ref basis) ref_produced_at_state_version)
          (\<lambda>state_version. ref_produced_at_state_version observation_ref \<noteq> Some state_version)
      then CloseEvidenceObservationDisposition.Stale
      else (case find (\<lambda>observation. eo_observation_id observation = ref_record_id observation_ref)
            (crf_projected_evidence_observations facts) of
          Some observation \<Rightarrow> projected_observation_disposition store request facts basis target observation
        | None \<Rightarrow> (case crs_evidence_observation_record store (ref_record_id observation_ref) of
              None \<Rightarrow> CloseEvidenceObservationDisposition.Weak
            | Some r \<Rightarrow> stored_observation_disposition store request facts basis target r)))"

record CloseEvidenceIssue =
  cei_kind :: CloseEvidenceIssueKind
  cei_related_refs :: "StateRecordRef list"

definition close_evidence_issue_for_item ::
  "CloseReadinessStore \<Rightarrow> CloseReadinessRequest \<Rightarrow> CloseReadinessFacts \<Rightarrow> EvidenceCoverageItem \<Rightarrow>
     (CloseEvidenceIssue option, CloseReadinessError) result" where
  "close_evidence_issue_for_item store request facts item =
     (let issue = map_option (\<lambda>kind. \<lparr>cei_kind = kind, cei_related_refs = evidence_item_related_refs item\<rparr>) in
      case eci_target item of
        EvidenceTarget.SupplementalClaim _ _ \<Rightarrow> Ok None
      | EvidenceTarget.AcceptanceCriterion acceptance_criterion_id \<Rightarrow>
          and_then (required_criteria_for_close_context facts) (\<lambda>required_criteria.
          Ok (if acceptance_criterion_id \<notin> set required_criteria then None
            else (case crf_current_close_basis facts of
                None \<Rightarrow> issue (interpret_close_evidence_item item required_criteria False [])
              | Some basis \<Rightarrow>
                  if eci_coverage_state item \<noteq> EvidenceCoverageState.Supported \<or> eci_observation_refs item = []
                  then issue (interpret_close_evidence_item item required_criteria True [])
                  else issue (interpret_close_evidence_item item required_criteria True
                    (map (observation_disposition store request facts basis (eci_target item))
                      (eci_observation_refs item)))))))"

fun evidence_issue_category :: "CloseEvidenceIssueKind \<Rightarrow> CloseReadinessBlockerCategory" where
  "evidence_issue_category CloseEvidenceIssueKind.Missing = CloseReadinessBlockerCategory.EvidenceClaim"
| "evidence_issue_category CloseEvidenceIssueKind.Unsupported = CloseReadinessBlockerCategory.EvidenceClaim"
| "evidence_issue_category CloseEvidenceIssueKind.Stale = CloseReadinessBlockerCategory.EvidenceProvenance"
| "evidence_issue_category CloseEvidenceIssueKind.AgentReportOnly =
     CloseReadinessBlockerCategory.EvidenceProvenance"
| "evidence_issue_category CloseEvidenceIssueKind.InsufficientProvenance =
     CloseReadinessBlockerCategory.EvidenceProvenance"

fun evidence_issue_text :: "CloseEvidenceIssueKind \<Rightarrow> string \<times> string" where
  "evidence_issue_text CloseEvidenceIssueKind.Missing =
     (''evidence_claim_missing'', ''One or more required close evidence claims are missing.'')"
| "evidence_issue_text CloseEvidenceIssueKind.Unsupported =
     (''evidence_claim_unsupported'', ''One or more required close evidence claims are unsupported.'')"
| "evidence_issue_text CloseEvidenceIssueKind.Stale =
     (''evidence_provenance_stale'',
      ''Evidence provenance exists but is stale against the current close basis.'')"
| "evidence_issue_text CloseEvidenceIssueKind.AgentReportOnly =
     (''evidence_agent_report_only'',
      ''Required close evidence is supported only by cooperative agent reports.'')"
| "evidence_issue_text CloseEvidenceIssueKind.InsufficientProvenance =
     (''evidence_provenance_insufficient'',
      ''Required close evidence lacks sufficient source provenance.'')"

definition evidence_issue_kinds :: "CloseEvidenceIssueKind list" where
  "evidence_issue_kinds = [CloseEvidenceIssueKind.Missing, CloseEvidenceIssueKind.Unsupported,
     CloseEvidenceIssueKind.Stale, CloseEvidenceIssueKind.AgentReportOnly,
     CloseEvidenceIssueKind.InsufficientProvenance]"

definition evidence_blocker ::
  "CloseReadinessFacts \<Rightarrow> StateRecordRef list \<Rightarrow> CloseEvidenceIssue list \<Rightarrow> CloseEvidenceIssueKind \<Rightarrow>
     CloseReadinessBlocker list" where
  "evidence_blocker facts required_refs issues kind =
     (let grouped = filter (\<lambda>issue. cei_kind issue = kind) issues in
      if grouped = [] then []
      else [close_blocker (evidence_issue_category kind) (fst (evidence_issue_text kind))
        (snd (evidence_issue_text kind))
        (unique_state_record_refs (concat (map cei_related_refs grouped)))
        [close_guidance (if task_mode (crf_task facts) = TaskMode.Advisor
          then RecordAdvisorEvidence else RecordRequiredEvidence) required_refs]])"

definition close_evidence_blockers ::
  "CloseReadinessStore \<Rightarrow> CloseReadinessRequest \<Rightarrow> CloseReadinessFacts \<Rightarrow> StateRecordRef list \<Rightarrow>
     (CloseReadinessBlocker list, CloseReadinessError) result" where
  "close_evidence_blockers store request facts required_refs =
     (case crf_evidence_summary facts of
        None \<Rightarrow> Ok []
      | Some summary \<Rightarrow>
          and_then (collect_results (close_evidence_issue_for_item store request facts)
            (es_coverage_items summary)) (\<lambda>found.
          Ok (concat (map (evidence_blocker facts required_refs (List.map_filter id found))
            evidence_issue_kinds))))"

definition supporting_artifact_unavailable ::
  "CloseReadinessStore \<Rightarrow> CloseReadinessRequest \<Rightarrow> CloseReadinessFacts \<Rightarrow> ArtifactRef \<Rightarrow> bool" where
  "supporting_artifact_unavailable store request facts artifact_ref =
     (if art_availability artifact_ref \<noteq> ArtifactAvailability.Available then True
      else if list_ex (\<lambda>projected. projected = artifact_ref \<and>
          art_integrity_status projected = ArtifactIntegrityStatus.Verified) (crf_projected_artifacts facts)
      then False
      else (case crs_artifact_record store (art_artifact_id artifact_ref) of
          None \<Rightarrow> True
        | Some stored \<Rightarrow>
            sart_project_id stored \<noteq> clq_project_id request \<or>
            sart_task_id stored \<noteq> clq_task_id request \<or>
            \<not> crs_artifact_is_verified_current store stored \<or>
            art_integrity_status artifact_ref \<noteq> ArtifactIntegrityStatus.Verified \<or>
            sart_sha256 stored \<noteq> art_sha256 artifact_ref \<or>
            sart_size_bytes stored \<noteq> art_size_bytes artifact_ref \<or>
            sart_redaction_state stored \<noteq> art_redaction_state artifact_ref \<or>
            \<not> crs_artifact_has_task_owner_link store (art_artifact_id artifact_ref)))"

definition close_basis_artifact_ref_unavailable ::
  "CloseReadinessStore \<Rightarrow> CloseReadinessRequest \<Rightarrow> CloseReadinessFacts \<Rightarrow> StateRecordRef \<Rightarrow> bool" where
  "close_basis_artifact_ref_unavailable store request facts record_ref =
     (case find (\<lambda>a. art_artifact_id a = ref_record_id record_ref) (crf_projected_artifacts facts) of
        Some artifact_ref \<Rightarrow>
          ref_project_id record_ref \<noteq> clq_project_id request \<or>
          ref_task_id record_ref \<noteq> Some (clq_task_id request) \<or>
          art_project_id artifact_ref \<noteq> clq_project_id request \<or>
          art_task_id artifact_ref \<noteq> clq_task_id request \<or>
          art_availability artifact_ref \<noteq> ArtifactAvailability.Available \<or>
          art_integrity_status artifact_ref \<noteq> ArtifactIntegrityStatus.Verified
      | None \<Rightarrow> (case crs_artifact_record store (ref_record_id record_ref) of
            None \<Rightarrow> True
          | Some stored \<Rightarrow>
              sart_project_id stored \<noteq> clq_project_id request \<or>
              sart_task_id stored \<noteq> clq_task_id request \<or>
              \<not> crs_artifact_is_verified_current store stored \<or>
              \<not> crs_artifact_has_task_owner_link store (ref_record_id record_ref)))"

definition unavailable_close_artifact_refs ::
  "CloseReadinessStore \<Rightarrow> ProjectStateHeader \<Rightarrow> CloseReadinessRequest \<Rightarrow> CloseReadinessFacts \<Rightarrow>
     (StateRecordRef list, CloseReadinessError) result" where
  "unavailable_close_artifact_refs store project_state request facts =
     and_then (required_criteria_for_close_context facts) (\<lambda>required_criteria.
     let supporting = (case crf_evidence_summary facts of
           None \<Rightarrow> []
         | Some evidence_summary \<Rightarrow> concat (map eci_supporting_artifact_refs
             (filter (\<lambda>item. evidence_target_required_by (eci_target item) required_criteria)
               (es_coverage_items evidence_summary))));
         declared = (case crf_current_close_basis facts of
           None \<Rightarrow> []
         | Some basis \<Rightarrow> filter (\<lambda>r. ref_record_kind r = StateRecordKind.Artifact)
             (ccb_result_refs basis @ concat (map rr_source_refs (ccb_residual_risks basis))))
     in Ok (map fst (filter snd (unique_by (\<lambda>(r, _). state_record_ref_identity_key r)
       (map (\<lambda>a. (state_ref StateRecordKind.Artifact (art_artifact_id a) (clq_project_id request)
            (Some (clq_task_id request)) (Some (psh_state_version project_state)),
          supporting_artifact_unavailable store request facts a)) supporting @
        map (\<lambda>r. (r, close_basis_artifact_ref_unavailable store request facts r)) declared)))))"

definition evidence_completion_blockers ::
  "CloseReadinessStore \<Rightarrow> ProjectStateHeader \<Rightarrow> CloseReadinessRequest \<Rightarrow> CloseReadinessFacts \<Rightarrow>
     (CloseReadinessBlocker list, CloseReadinessError) result" where
  "evidence_completion_blockers store project_state request facts =
     and_then (close_evidence_blockers store request facts
       (change_unit_ref_for_close request facts (psh_state_version project_state))) (\<lambda>blockers.
     and_then (unavailable_close_artifact_refs store project_state request facts) (\<lambda>unavailable_artifacts.
     Ok (blockers @ (if unavailable_artifacts \<noteq> []
       then [close_blocker CloseReadinessBlockerCategory.ArtifactAvailability ''artifact_unavailable''
         ''A required close artifact is missing, unavailable, or incompatible with storage.''
         unavailable_artifacts
         [close_guidance (if task_mode (crf_task facts) = TaskMode.Advisor
           then RecordAdvisorEvidence else RepairArtifact)
           [task_ref_for_close request (psh_state_version project_state)]]]
       else []))))"

definition evidence_summary_has_attached_evidence :: "EvidenceSummary \<Rightarrow> bool" where
  "evidence_summary_has_attached_evidence summary \<longleftrightarrow>
     es_updated_by_run_ref summary \<noteq> None \<or> es_artifact_refs summary \<noteq> [] \<or>
     es_observation_refs summary \<noteq> [] \<or>
     list_ex (\<lambda>item. eci_supporting_run_refs item \<noteq> [] \<or> eci_observation_refs item \<noteq> [] \<or>
       eci_supporting_artifact_refs item \<noteq> []) (es_coverage_items summary)"

definition evidence_summary_for_display ::
  "EvidenceSummary \<Rightarrow> CurrentCloseBasis option \<Rightarrow> EvidenceSummary" where
  "evidence_summary_for_display summary close_basis = summary\<lparr>es_evidence_state :=
     (if Option.bind close_basis ccb_evidence_summary_ref \<noteq> None
      then Some EvidenceDisplayState.AcceptedForClose
      else if evidence_summary_has_attached_evidence summary then Some EvidenceDisplayState.Attached
      else None)\<rparr>"

section \<open>Policy and service\<close>

definition sensitive_effect_in_force :: "CloseReadinessFacts \<Rightarrow> bool" where
  "sensitive_effect_in_force facts =
     is_some_and (Option.bind (crf_current_change_unit facts) cu_effect_contract) (\<lambda>contract.
       ec_sensitive_action_expectations contract \<noteq> [] \<or>
       list_ex (\<lambda>effect. effect \<in> {ChangeUnitEffectKind.SensitiveAction,
         ChangeUnitEffectKind.ExternalNetwork, ChangeUnitEffectKind.SecretAccess})
         (ec_allowed_effects contract))"

definition next_close_control :: "CloseReadinessFacts \<Rightarrow> ResolvedTaskControlAuthority \<Rightarrow> TaskControlLevel" where
  "next_close_control facts resolved =
     (if sensitive_effect_in_force facts then TaskControlLevel.Sensitive
      else rtca_effective_control_level resolved)"

definition next_close_acceptance ::
  "ProjectWorkflowPolicy \<Rightarrow> TaskControlLevel \<Rightarrow> ResolvedTaskControlAuthority \<Rightarrow> AcceptancePolicy" where
  "next_close_acceptance workflow_policy next_control resolved =
     (let control_acceptance = acceptance_policy_for_control next_control workflow_policy in
      if close_acceptance_policy_rank control_acceptance \<le>
         close_acceptance_policy_rank (rtca_acceptance_policy resolved)
      then rtca_acceptance_policy resolved else control_acceptance)"

definition raised_task ::
  "TaskRecord \<Rightarrow> ResolvedTaskControlAuthority \<Rightarrow> bool \<Rightarrow> TaskControlLevel \<Rightarrow> AcceptancePolicy \<Rightarrow> TaskRecord" where
  "raised_task task resolved sensitive_effect next_control next_acceptance =
     (let acceptance_raised = (close_acceptance_policy_rank (task_acceptance_policy task) <
            close_acceptance_policy_rank next_acceptance);
          control_raised = (control_rank (task_effective_control_level task) < control_rank next_control)
      in task\<lparr>
        task_effective_control_level := next_control,
        task_control_level_reason :=
          (if sensitive_effect \<and> control_raised
           then ''Core raised control to `sensitive` for the current Change Unit effect contract.''
           else if control_raised then rtca_control_level_reason resolved else task_control_level_reason task),
        task_acceptance_policy := (if acceptance_raised then next_acceptance else task_acceptance_policy task),
        task_acceptance_policy_reason :=
          (if \<not> acceptance_raised then task_acceptance_policy_reason task
           else if next_control = rtca_effective_control_level resolved \<and> rtca_acceptance_raised resolved
           then rtca_acceptance_policy_reason resolved
           else ''Effective control `'' @ control_as_str next_control @
             ''` requires final acceptance for the current close basis.'')\<rparr>)"

definition resolve_control ::
  "CloseReadinessStore \<Rightarrow> CloseReadinessFacts \<Rightarrow>
     (CloseReadinessFacts \<times> TaskControlLevelUpdate option, CloseReadinessError) result" where
  "resolve_control store facts =
     and_then (workflow_policy_for_close_context facts) (\<lambda>workflow_policy.
     and_then (map_err ControlFacts (resolve_task_control_authority (crs_from_value store) (crf_task facts)
       workflow_policy)) (\<lambda>resolved.
     let task = crf_task facts; next_control = next_close_control facts resolved;
         next_acceptance = next_close_acceptance workflow_policy next_control resolved;
         acceptance_raised = (close_acceptance_policy_rank (task_acceptance_policy task) <
           close_acceptance_policy_rank next_acceptance);
         control_raised = (control_rank (task_effective_control_level task) < control_rank next_control);
         raised = raised_task task resolved (sensitive_effect_in_force facts) next_control next_acceptance
     in Ok (if control_raised \<or> acceptance_raised
       then (facts\<lparr>crf_task := raised\<rparr>, Some \<lparr>
         tclu_task_id = task_task_id task, tclu_effective_control_level = next_control,
         tclu_control_level_reason = task_control_level_reason raised,
         tclu_acceptance_policy = (if acceptance_raised then Some next_acceptance else None),
         tclu_acceptance_policy_reason =
           (if acceptance_raised then Some (task_acceptance_policy_reason raised) else None)\<rparr>)
       else (facts, None))))"

record CloseReadinessEvaluations =
  cre_risk_acceptance_coverage :: "RiskAcceptanceCoverage list"
  cre_terminal_change_control :: "CloseReadinessBlocker list"
  cre_terminal_acceptance :: "CloseReadinessBlocker list"
  cre_completion_scope :: "CloseReadinessBlocker list"
  cre_completion_authority :: "CloseReadinessBlocker list"
  cre_completion_basis :: "CloseReadinessBlocker list"
  cre_completion_evidence :: "CloseReadinessBlocker list"
  cre_completion_acceptance :: "CloseReadinessBlocker list"
  cre_unrecorded_changes :: "CloseReadinessBlocker list"

record CloseReadinessAssessment =
  cra_context :: CloseReadinessFacts
  cra_control_update :: "TaskControlLevelUpdate option"
  cra_risk_acceptance_coverage :: "RiskAcceptanceCoverage list"
  cra_blockers :: "CloseReadinessBlocker list"
  cra_committed_terminal :: bool
  cra_response_state_version :: u64
  cra_close_state :: CloseState
  cra_evidence_gate :: EvidenceGateSummary

record CloseReadinessSummary =
  crm_close_state :: CloseState
  crm_current_close_basis :: "CurrentCloseBasis option"
  crm_risk_acceptance_coverage :: "RiskAcceptanceCoverage list"
  crm_blockers :: "CloseReadinessBlocker list"
  crm_evidence_gate :: EvidenceGateSummary

definition close_state_for_policy :: "CloseIntent \<Rightarrow> bool \<Rightarrow> CloseState" where
  "close_state_for_policy intent unblocked =
     (if \<not> unblocked then CloseState.Blocked
      else (case intent of
          CloseIntent.Check \<Rightarrow> CloseState.Ready
        | CloseIntent.Complete \<Rightarrow> CloseState.Closed
        | CloseIntent.Cancel \<Rightarrow> CloseState.Cancelled
        | CloseIntent.Supersede \<Rightarrow> CloseState.Superseded))"

definition combined_blockers ::
  "CloseIntent \<Rightarrow> u64 \<Rightarrow> CloseReadinessEvaluations \<Rightarrow> CloseReadinessBlocker list" where
  "combined_blockers intent current_state_version evaluations =
     normalize_close_blockers current_state_version
       (cre_terminal_change_control evaluations @ cre_terminal_acceptance evaluations @
        (if intent \<in> {CloseIntent.Check, CloseIntent.Complete}
         then cre_completion_scope evaluations @ cre_completion_authority evaluations @
           cre_completion_basis evaluations @ cre_completion_evidence evaluations @
           cre_completion_acceptance evaluations
         else []) @ cre_unrecorded_changes evaluations)"

definition combine ::
  "CloseIntent \<Rightarrow> u64 \<Rightarrow> CloseReadinessFacts \<Rightarrow> TaskControlLevelUpdate option \<Rightarrow>
     CloseReadinessEvaluations \<Rightarrow> (CloseReadinessAssessment, CloseReadinessError) result" where
  "combine intent current_state_version facts control_update evaluations =
     (let blockers = combined_blockers intent current_state_version evaluations;
          committed_terminal = (intent \<noteq> CloseIntent.Check \<and> blockers = []);
          evidence_summary = map_option (\<lambda>summary.
            evidence_summary_for_display summary (crf_current_close_basis facts)) (crf_evidence_summary facts)
      in case crf_acceptance_criteria facts of
          None \<Rightarrow> Err (InvalidDispatch ''close-readiness acceptance criteria were not acquired'')
        | Some acceptance_criteria \<Rightarrow> Ok \<lparr>
            cra_context = facts, cra_control_update = control_update,
            cra_risk_acceptance_coverage = cre_risk_acceptance_coverage evaluations,
            cra_blockers = blockers, cra_committed_terminal = committed_terminal,
            cra_response_state_version =
              (if committed_terminal then current_state_version + 1 else current_state_version),
            cra_close_state = close_state_for_policy intent (blockers = []),
            cra_evidence_gate = evaluate_evidence_gate acceptance_criteria evidence_summary blockers\<rparr>)"

definition evaluate_close_readiness_with_facts ::
  "CloseReadinessStore \<Rightarrow> ProjectStateHeader \<Rightarrow> CloseReadinessRequest \<Rightarrow> CloseReadinessFacts \<Rightarrow>
     (CloseReadinessAssessment, CloseReadinessError) result" where
  "evaluate_close_readiness_with_facts store project_state request facts0 =
     and_then (resolve_control store facts0) (\<lambda>(facts, control_update).
     let coverage = risk_acceptance_coverage store project_state request facts;
         completion = closes_completely request in
     and_then (change_control_terminal_blockers store project_state request facts) (\<lambda>terminal_change_control.
     let terminal_acceptance = acceptance_terminal_blockers store project_state request facts in
     and_then (if completion then evidence_completion_blockers store project_state request facts else Ok [])
       (\<lambda>completion_evidence.
     and_then (if completion then completion_acceptance_blockers store project_state request facts coverage
         (completion_evidence \<noteq> []) else Ok []) (\<lambda>completion_acceptance.
     combine (clq_intent request) (psh_state_version project_state) facts control_update \<lparr>
       cre_risk_acceptance_coverage = coverage,
       cre_terminal_change_control = terminal_change_control,
       cre_terminal_acceptance = terminal_acceptance,
       cre_completion_scope =
         (if completion then completion_scope_blockers store project_state request facts else []),
       cre_completion_authority =
         (if completion then completion_authority_blockers store project_state request facts else []),
       cre_completion_basis =
         (if completion then completion_basis_blockers project_state request facts else []),
       cre_completion_evidence = completion_evidence,
       cre_completion_acceptance = completion_acceptance,
       cre_unrecorded_changes = unrecorded_change_blockers project_state request facts\<rparr>))))"

definition close_readiness_summary :: "CloseReadinessAssessment \<Rightarrow> CloseReadinessSummary" where
  "close_readiness_summary assessment = \<lparr>
     crm_close_state = cra_close_state assessment,
     crm_current_close_basis = crf_current_close_basis (cra_context assessment),
     crm_risk_acceptance_coverage = cra_risk_acceptance_coverage assessment,
     crm_blockers = cra_blockers assessment,
     crm_evidence_gate = cra_evidence_gate assessment\<rparr>"

definition assess_close_readiness ::
  "CloseReadinessStore \<Rightarrow> ProjectStateHeader \<Rightarrow> CloseReadinessRequest \<Rightarrow> UtcTimestamp \<Rightarrow>
     (CloseReadinessAssessment, CloseReadinessError) result" where
  "assess_close_readiness store project_state request now =
     and_then (acquire_close_readiness_facts store (clq_task_id request) now)
       (evaluate_close_readiness_with_facts store project_state request)"

definition plan_close_readiness ::
  "CloseReadinessStore \<Rightarrow> ProjectStateHeader \<Rightarrow> CloseReadinessRequest \<Rightarrow> UtcTimestamp \<Rightarrow>
     (CloseReadinessSummary, CloseReadinessError) result" where
  "plan_close_readiness store project_state request now =
     and_then (acquire_close_readiness_facts store (clq_task_id request) now) (\<lambda>facts.
     and_then (evaluate_close_readiness_with_facts store project_state request facts)
       (\<lambda>assessment. Ok (close_readiness_summary assessment)))"

definition plan_projected_close_readiness ::
  "CloseReadinessStore \<Rightarrow> ProjectStateHeader \<Rightarrow> ProjectId \<Rightarrow> TaskId \<Rightarrow> CloseReadinessFacts \<Rightarrow>
     (CloseReadinessSummary, CloseReadinessError) result" where
  "plan_projected_close_readiness store project_state project_id task_id facts =
     and_then (evaluate_close_readiness_with_facts store project_state
       \<lparr>clq_project_id = project_id, clq_task_id = task_id, clq_intent = CloseIntent.Check,
         clq_superseding_task_id = None\<rparr> (acquire_projected_store_facts store facts))
       (\<lambda>assessment. Ok (close_readiness_summary assessment))"

section \<open>A closeable task\<close>

definition sample_run_ref :: StateRecordRef where
  "sample_run_ref = state_ref StateRecordKind.Run ''run_1'' ''p'' (Some ''task_1'') (Some 4)"

definition sample_close_basis :: CurrentCloseBasis where
  "sample_close_basis = \<lparr>
     ccb_close_basis_revision = 1, ccb_scope_revision = 2, ccb_task_id = ''task_1'',
     ccb_change_unit_id = ''cu_1'', ccb_baseline_ref = Some ''base_1'', ccb_result_summary = ''deployed'',
     ccb_result_refs = [sample_run_ref], ccb_evidence_refs = [], ccb_evidence_summary_ref = None,
     ccb_residual_risks = [\<lparr>rr_risk_id = ''risk_1'', rr_summary = ''downtime'', rr_consequence = ''outage'',
       rr_acceptance_required = True, rr_source_refs = [sample_run_ref]\<rparr>],
     ccb_sensitive_categories = [''network''],
     ccb_sensitive_action_requirements = [\<lparr>sar_action_kind = ''deploy'',
       sar_normalized_paths = [''src/main.rs''], sar_sensitive_categories = [''network''],
       sar_baseline_ref = Some ''base_1'', sar_change_unit_id = ''cu_1'', sar_source_run_ref = sample_run_ref,
       sar_source_write_ticket_ref = sample_run_ref\<rparr>],
     ccb_recovery_constraints = [], ccb_source_run_ref = Some sample_run_ref,
     ccb_shaping_checkpoint_ref = None, ccb_shaping_decision_application_refs = [], ccb_updated_at = 280\<rparr>"

definition sample_close_decision :: "UserActionKind \<Rightarrow> StoredUserActionRecordSet" where
  "sample_close_decision kind = sample_resolved\<lparr>
     set_request := sample_request\<lparr>srq_action_kind := kind,
       srq_required_for := [if kind = UserActionKind.Cancellation then UserActionRequiredFor.CloseCancel
         else UserActionRequiredFor.CloseComplete],
       srq_basis := UserActionBasis.Choice \<lparr>
         cb_coordinates = basis_coordinates (srq_basis sample_request), cb_close_basis_revision = Some 1,
         cb_result_refs = [sample_run_ref], cb_residual_risk_ids = [''risk_1''],
         cb_sensitive_action_scope = Some sample_scope\<rparr>\<rparr>,
     set_resolution := Some (sample_resolution\<lparr>srs_action_kind := kind,
       srs_resolution := UserActionResolutionBody.Choice \<lparr>
         cr_selected_option_id = ''opt_accept'', cr_machine_action = UserActionOptionAction.Accept,
         cr_resolution_outcome = JudgmentResolutionOutcome.Accepted, cr_note = None,
         cr_accepted_risk_ids = [''risk_1'']\<rparr>\<rparr>)\<rparr>"

definition sample_observation :: EvidenceObservationRecord where
  "sample_observation = \<lparr>
     eor_project_id = ''p'', eor_evidence_observation_id = ''obs_1'', eor_task_id = ''task_1'',
     eor_change_unit_id = Some ''cu_1'', eor_run_id = Some ''run_1'',
     eor_acceptance_criterion_id = Some ''ac_1'', eor_evidence_claim_id = None,
     eor_source_kind = EvidenceSourceKind.ExternalTool,
     eor_assurance_level = EvidenceAssuranceLevel.ExternalToolResult,
     eor_producer_anchor = \<lparr>epa_producer_kind = EvidenceProducerKind.VerifiedToolInvocation,
       epa_producer_ref = None, epa_output_artifact_refs = [], epa_verification_basis = None\<rparr>,
     eor_relevance_assessment = \<lparr>era_status = EvidenceRelevanceStatus.Supported, era_assessment_ref = None,
       era_assessed_by_actor_source = None\<rparr>\<rparr>"

definition sample_close_store :: CloseReadinessStore where
  "sample_close_store = \<lparr>
     crs_from_value = (\<lambda>_. None),
     crs_task_record = (\<lambda>task_id. if task_id = ''task_1'' then Some sample_task else None),
     crs_current_change_unit = Some sample_change_unit,
     crs_current_close_basis = Some (Some sample_close_basis),
     crs_pending_user_action_refs = [], crs_active_blocker_refs = [],
     crs_active_acceptance_criteria = [sample_criterion],
     crs_close_evidence_summary_facts = sample_summary_facts,
     crs_unresolved_unrecorded_changes = [],
     crs_workflow_policy = conservative_default (''sha256:'' @ replicate 64 (CHR ''a'')),
     crs_write_tickets = [sample_ticket\<lparr>wt_status := WriteTicketStatus.Consumed,
       wt_consumed_by_run_id := Some ''run_1'', wt_consumed_at := Some 260\<rparr>],
     crs_sensitive_approvals = [],
     crs_pending_user_action_records = [sample_pending],
     crs_resolved_user_action_records = (\<lambda>kind. [sample_close_decision kind]),
     crs_non_current_user_action_refs = (\<lambda>_. []),
     crs_run_record = (\<lambda>run_id. if run_id = ''run_1'' then Some \<lparr>run_project_id = ''p'', run_run_id = ''run_1'',
       run_task_id = ''task_1'', run_change_unit_id = Some ''cu_1'', run_scope_revision = 2,
       run_baseline_ref = Some ''base_1'', run_status = RunStatus.Recorded\<rparr> else None),
     crs_run_observed_changes = [],
     crs_evidence_observation_record = (\<lambda>i. if i = ''obs_1'' then Some sample_observation else None),
     crs_projected_provenance_facts = (\<lambda>_ _ _. \<lparr>epf_basis_matches = False,
       epf_source_kind = EvidenceSourceKind.AgentReport,
       epf_assurance_level = EvidenceAssuranceLevel.CooperativeReport,
       epf_artifact_binding_matches = False, epf_producer_binding_matches = False\<rparr>),
     crs_stored_provenance_facts = (\<lambda>r _. \<lparr>epf_basis_matches = True, epf_source_kind = eor_source_kind r,
       epf_assurance_level = eor_assurance_level r,
       epf_artifact_binding_matches = True, epf_producer_binding_matches = True\<rparr>),
     crs_artifact_record = (\<lambda>_. None), crs_artifact_has_task_owner_link = (\<lambda>_. False),
     crs_artifact_is_verified_current = (\<lambda>_. False)\<rparr>"

definition sample_close_request :: "CloseIntent \<Rightarrow> CloseReadinessRequest" where
  "sample_close_request intent = \<lparr>clq_project_id = ''p'', clq_task_id = ''task_1'', clq_intent = intent,
     clq_superseding_task_id = None\<rparr>"

section \<open>What an assessment rests on\<close>

lemma normalize_close_blockers_Nil [simp]: "normalize_close_blockers v bs = [] \<longleftrightarrow> bs = []"
  by (simp add: normalize_close_blockers_def)

lemma close_state_for_policy_blocked:
  "close_state_for_policy intent unblocked \<noteq> CloseState.Blocked \<longleftrightarrow> unblocked"
  by (cases intent) (simp_all add: close_state_for_policy_def)

lemma combine_Ok:
  assumes "combine intent version facts update evaluations = Ok a"
  shows "cra_context a = facts" "cra_control_update a = update"
    "cra_blockers a = combined_blockers intent version evaluations"
    "cra_committed_terminal a \<longleftrightarrow> intent \<noteq> CloseIntent.Check \<and> cra_blockers a = []"
    "cra_response_state_version a = (if cra_committed_terminal a then version + 1 else version)"
    "cra_close_state a = close_state_for_policy intent (cra_blockers a = [])"
    "cra_risk_acceptance_coverage a = cre_risk_acceptance_coverage evaluations"
  using assms by (auto simp: combine_def Let_def split: option.splits)

lemma evaluated_Ok:
  assumes "evaluate_close_readiness_with_facts store project_state request facts0 = Ok a"
  obtains terminal evidence acceptance where
    "resolve_control store facts0 = Ok (cra_context a, cra_control_update a)"
    "change_control_terminal_blockers store project_state request (cra_context a) = Ok terminal"
    "(if closes_completely request then evidence_completion_blockers store project_state request (cra_context a)
      else Ok []) = Ok evidence"
    "(if closes_completely request then completion_acceptance_blockers store project_state request (cra_context a)
      (risk_acceptance_coverage store project_state request (cra_context a)) (evidence \<noteq> []) else Ok []) =
      Ok acceptance"
    "cra_blockers a = normalize_close_blockers (psh_state_version project_state)
      (terminal @ acceptance_terminal_blockers store project_state request (cra_context a) @
       (if closes_completely request
        then completion_scope_blockers store project_state request (cra_context a) @
          completion_authority_blockers store project_state request (cra_context a) @
          completion_basis_blockers project_state request (cra_context a) @ evidence @ acceptance else []) @
       unrecorded_change_blockers project_state request (cra_context a))"
    "cra_close_state a = close_state_for_policy (clq_intent request) (cra_blockers a = [])"
    "cra_committed_terminal a \<longleftrightarrow> clq_intent request \<noteq> CloseIntent.Check \<and> cra_blockers a = []"
proof -
  obtain facts update terminal evidence acceptance evaluations where
    r: "resolve_control store facts0 = Ok (facts, update)"
    and t: "change_control_terminal_blockers store project_state request facts = Ok terminal"
    and e: "(if closes_completely request then evidence_completion_blockers store project_state request facts
      else Ok []) = Ok evidence"
    and ac: "(if closes_completely request then completion_acceptance_blockers store project_state request facts
      (risk_acceptance_coverage store project_state request facts) (evidence \<noteq> []) else Ok []) = Ok acceptance"
    and c: "combine (clq_intent request) (psh_state_version project_state) facts update evaluations = Ok a"
    and b: "combined_blockers (clq_intent request) (psh_state_version project_state) evaluations =
      normalize_close_blockers (psh_state_version project_state)
      (terminal @ acceptance_terminal_blockers store project_state request facts @
       (if closes_completely request
        then completion_scope_blockers store project_state request facts @
          completion_authority_blockers store project_state request facts @
          completion_basis_blockers project_state request facts @ evidence @ acceptance else []) @
       unrecorded_change_blockers project_state request facts)"
    using assms
    by (force simp: evaluate_close_readiness_with_facts_def Let_def combined_blockers_def closes_completely_def
        simp del: not_None_eq)
  note a = combine_Ok[OF c]
  show ?thesis
    by (rule that[of terminal evidence acceptance]) (simp_all only: a b r t e ac)
qed

lemma evaluated_close_state:
  assumes "evaluate_close_readiness_with_facts store project_state request facts0 = Ok a"
  shows "cra_close_state a = close_state_for_policy (clq_intent request) (cra_blockers a = [])"
  using assms by (rule evaluated_Ok)

lemma unblocked_assessment:
  assumes "evaluate_close_readiness_with_facts store project_state request facts0 = Ok a" "cra_blockers a = []"
  shows "change_control_terminal_blockers store project_state request (cra_context a) = Ok []"
    "acceptance_terminal_blockers store project_state request (cra_context a) = []"
    "unrecorded_change_blockers project_state request (cra_context a) = []"
    "closes_completely request \<Longrightarrow> completion_scope_blockers store project_state request (cra_context a) = []"
    "closes_completely request \<Longrightarrow> completion_authority_blockers store project_state request (cra_context a) = []"
    "closes_completely request \<Longrightarrow> completion_basis_blockers project_state request (cra_context a) = []"
    "closes_completely request \<Longrightarrow>
       evidence_completion_blockers store project_state request (cra_context a) = Ok []"
    "closes_completely request \<Longrightarrow> completion_acceptance_blockers store project_state request (cra_context a)
       (risk_acceptance_coverage store project_state request (cra_context a)) False = Ok []"
  by (rule evaluated_Ok[OF assms(1)]; use assms(2) in \<open>simp split: if_splits\<close>)+

lemma close_rank_is_policy_rank: "close_acceptance_policy_rank = acceptance_policy_rank"
proof
  show "close_acceptance_policy_rank policy = acceptance_policy_rank policy" for policy by (cases policy) simp_all
qed

lemma control_le_Sensitive: "control \<le> TaskControlLevel.Sensitive"
  unfolding control_rank_le[symmetric] by (cases control) simp_all

lemma raised_task_fields:
  "\<exists>reason acceptance_reason. raised_task task resolved sensitive control acceptance =
    task\<lparr>task_effective_control_level := control, task_control_level_reason := reason,
      task_acceptance_policy := (if acceptance_policy_rank (task_acceptance_policy task) <
        acceptance_policy_rank acceptance then acceptance else task_acceptance_policy task),
      task_acceptance_policy_reason := acceptance_reason\<rparr>"
  unfolding raised_task_def Let_def close_rank_is_policy_rank by (intro exI) (rule refl)

lemma resolve_control_Ok:
  assumes "resolve_control store facts0 = Ok (facts, update)"
  obtains control reason acceptance acceptance_reason where
    "facts = facts0\<lparr>crf_task := (crf_task facts0)\<lparr>task_effective_control_level := control,
       task_control_level_reason := reason, task_acceptance_policy := acceptance,
       task_acceptance_policy_reason := acceptance_reason\<rparr>\<rparr>"
    "task_effective_control_level (crf_task facts0) \<le> control"
    "acceptance_policy_rank (task_acceptance_policy (crf_task facts0)) \<le> acceptance_policy_rank acceptance"
    "sensitive_effect_in_force facts0 \<Longrightarrow> control = TaskControlLevel.Sensitive"
proof -
  let ?task = "crf_task facts0"
  obtain policy resolved where
    r: "resolve_task_control_authority (crs_from_value store) ?task policy = Ok resolved"
    and "facts = (let control = next_close_control facts0 resolved;
        acceptance = next_close_acceptance policy control resolved in
      if control_rank (task_effective_control_level ?task) < control_rank control \<or>
         acceptance_policy_rank (task_acceptance_policy ?task) < acceptance_policy_rank acceptance
      then facts0\<lparr>crf_task := raised_task ?task resolved (sensitive_effect_in_force facts0) control acceptance\<rparr>
      else facts0)"
    using assms by (fastforce simp: resolve_control_def Let_def close_rank_is_policy_rank split: if_splits)
  moreover define control where "control = next_close_control facts0 resolved"
  moreover define acceptance where "acceptance = next_close_acceptance policy control resolved"
  ultimately have facts: "facts = facts0\<lparr>crf_task := raised_task ?task resolved
        (sensitive_effect_in_force facts0) control acceptance\<rparr> \<or>
      facts = facts0 \<and> control \<le> task_effective_control_level ?task"
    by (simp add: control_rank_le[symmetric] Let_def not_less split: if_splits)
  obtain mark where m: "resolved = resolve_with_mark ?task policy mark"
    using resolve_task_control_authority_Ok[OF r] by blast
  have control: "task_effective_control_level ?task \<le> control"
    using resolve_with_mark_bounds(1)[of ?task policy mark]
    by (simp add: m control_def next_close_control_def control_le_Sensitive)
  have sensitive: "sensitive_effect_in_force facts0 \<Longrightarrow> control = TaskControlLevel.Sensitive"
    by (simp add: control_def next_close_control_def)
  from facts show ?thesis
  proof
    assume raised: "facts = facts0\<lparr>crf_task := raised_task ?task resolved
        (sensitive_effect_in_force facts0) control acceptance\<rparr>"
    let ?acceptance = "if acceptance_policy_rank (task_acceptance_policy ?task) <
        acceptance_policy_rank acceptance then acceptance else task_acceptance_policy ?task"
    obtain reason acceptance_reason where t: "raised_task ?task resolved (sensitive_effect_in_force facts0)
        control acceptance = ?task\<lparr>task_effective_control_level := control, task_control_level_reason := reason,
          task_acceptance_policy := ?acceptance, task_acceptance_policy_reason := acceptance_reason\<rparr>"
      using raised_task_fields by blast
    show ?thesis
    proof (rule that)
      show "facts = facts0\<lparr>crf_task := ?task\<lparr>task_effective_control_level := control,
          task_control_level_reason := reason, task_acceptance_policy := ?acceptance,
          task_acceptance_policy_reason := acceptance_reason\<rparr>\<rparr>"
        by (simp only: raised t)
    qed (use control sensitive in simp_all)
  next
    assume kept: "facts = facts0 \<and> control \<le> task_effective_control_level ?task"
    then have "task_effective_control_level ?task = control" using control by simp
    then show ?thesis
      using sensitive kept by (intro that[where control = control and acceptance = "task_acceptance_policy ?task"
        and reason = "task_control_level_reason ?task" and acceptance_reason = "task_acceptance_policy_reason ?task"]) auto
  qed
qed

lemma acquired_facts:
  assumes "acquire_close_readiness_facts store task_id now = Ok facts"
  shows "crs_task_record store task_id = Some (crf_task facts)"
    "crs_current_close_basis store = Some (crf_current_close_basis facts)"
    "crf_current_change_unit facts = crs_current_change_unit store"
    "crf_blocker_refs facts = crs_active_blocker_refs store"
    "crf_unresolved_unrecorded_changes facts = crs_unresolved_unrecorded_changes store"
    "crf_evidence_summary facts = project_close_evidence_summary (crs_close_evidence_summary_facts store)
       (required_acceptance_criterion_ids (crs_active_acceptance_criteria store))"
    "crf_projected_required_criterion_ids facts =
       Some (required_acceptance_criterion_ids (crs_active_acceptance_criteria store))"
    "crf_pending_user_action_authorities facts = None" "crf_resolved_judgment_authorities facts = None"
    "crf_write_tickets facts = None" "crf_projected_run_refs facts = []"
    "crf_projected_evidence_observations facts = []" "crf_now facts = now"
  using assms
  by (auto simp: acquire_close_readiness_facts_def acquire_unrecorded_change_facts_def Let_def
      split: option.splits)

lemma assessed:
  assumes "assess_close_readiness store project_state request now = Ok a"
  obtains facts0 control reason acceptance acceptance_reason where
    "evaluate_close_readiness_with_facts store project_state request facts0 = Ok a"
    "acquire_close_readiness_facts store (clq_task_id request) now = Ok facts0"
    "cra_context a = facts0\<lparr>crf_task := (crf_task facts0)\<lparr>task_effective_control_level := control,
       task_control_level_reason := reason, task_acceptance_policy := acceptance,
       task_acceptance_policy_reason := acceptance_reason\<rparr>\<rparr>"
    "task_effective_control_level (crf_task facts0) \<le> control"
proof -
  obtain facts0 where e: "evaluate_close_readiness_with_facts store project_state request facts0 = Ok a"
    and f: "acquire_close_readiness_facts store (clq_task_id request) now = Ok facts0"
    using assms by (auto simp: assess_close_readiness_def)
  then have "resolve_control store facts0 = Ok (cra_context a, cra_control_update a)"
    by (auto elim: evaluated_Ok)
  then show ?thesis
    by (rule resolve_control_Ok) (rule that[OF e f])
qed

lemma unblocked_if:
  assumes "assess_close_readiness store project_state request now = Ok a"
    and "cra_close_state a \<noteq> CloseState.Blocked"
  shows "cra_blockers a = []"
proof (rule assessed[OF assms(1)])
  fix facts0 assume "evaluate_close_readiness_with_facts store project_state request facts0 = Ok a"
  then show ?thesis
    using assms(2) by (auto simp: close_state_for_policy_blocked elim: evaluated_Ok)
qed

subsection \<open>No blocker, by responsibility\<close>

lemma no_terminal_blocker:
  assumes "change_control_terminal_blockers store project_state request facts = Ok []"
  shows "\<not> is_terminal_lifecycle (task_lifecycle_phase (crf_task facts))"
    "psh_active_task_id project_state \<in> {None, Some (clq_task_id request)}"
    "crf_blocker_refs facts = []" "\<not> is_some_and (crf_current_change_unit facts) cu_recovery_required"
    "closes_completely request \<Longrightarrow> \<exists>tickets. close_write_tickets store request facts = Ok tickets \<and>
       (\<forall>t \<in> set tickets. as_reusable t = None)"
  using assms
  by (auto simp: change_control_terminal_blockers_def task_closeable_blockers_def recovery_required_def
      unresolved_write_ticket_blockers_def open_write_ticket_blockers_from_evaluated_def Let_def
      map_filter_def filter_empty_conv is_some_and_def split: if_splits option.splits)

lemma unique_by_from_has_key:
  "x \<in> set xs \<Longrightarrow> key x \<in> set seen \<or> (\<exists>y \<in> set (unique_by_from key seen xs). key y = key x)"
  by (induction key seen xs rule: unique_by_from.induct) auto

lemma no_scope_blocker:
  assumes "completion_scope_blockers store project_state request facts = []"
  obtains unit basis where "crf_current_change_unit facts = Some unit" "crf_current_close_basis facts = Some basis"
    "cu_status unit = ChangeUnitStatus.Active" "cu_is_current unit"
    "close_basis_is_current basis (clq_task_id request) (Some (cu_change_unit_id unit))
       (task_scope_revision (crf_task facts)) (task_close_basis_revision (crf_task facts))
       (stored_scope_baseline_ref (crf_task facts))"
    "task_mode (crf_task facts) \<noteq> TaskMode.Advisor \<Longrightarrow>
       incompatible_close_basis_run_refs store request facts basis unit = []"
  using assms
  by (auto simp: completion_scope_blockers_def current_close_basis_blocker_def Let_def is_some_and_def
      incompatible_close_basis_run_refs_blocker_def split: if_splits option.splits)

lemma close_basis_runs_are_current:
  assumes "incompatible_close_basis_run_refs store request facts basis unit = []"
    "crf_projected_run_refs facts = []" "r \<in> set (close_basis_run_refs basis)"
  shows "\<exists>run. crs_run_record store (ref_record_id r) = Some run \<and>
    run_record_matches_close_basis_context run (clq_project_id request) (clq_task_id request)
      (cu_change_unit_id unit) (task_scope_revision (crf_task facts)) (stored_scope_baseline_ref (crf_task facts))"
proof -
  obtain s where "s \<in> set (unique_state_record_refs (close_basis_run_refs basis))"
    and "state_record_ref_identity_key s = state_record_ref_identity_key r"
    using unique_by_from_has_key[OF assms(3), of state_record_ref_identity_key "[]"]
    by (auto simp: unique_state_record_refs_def unique_by_def)
  then show ?thesis
    using assms(1,2) by (force simp: incompatible_close_basis_run_refs_def filter_empty_conv
        state_record_ref_identity_key_def split: if_splits option.splits)
qed

lemma no_basis_blocker:
  assumes "completion_basis_blockers project_state request facts = []" "crf_current_close_basis facts = Some basis"
  shows "ccb_recovery_constraints basis = []"
  using assms by (auto simp: completion_basis_blockers_def Let_def split: if_splits)

lemma no_unrecorded_change_blocker:
  "unrecorded_change_blockers project_state request facts = [] \<longleftrightarrow> crf_unresolved_unrecorded_changes facts = []"
  by (simp add: unrecorded_change_blockers_def Let_def)

lemma accepted_is_the_users:
  "accepted_current_user_authority a kind \<Longrightarrow> ua_resolved_by_actor_source a = Some ActorSource.LocalUser"
  by (simp add: accepted_current_user_authority_iff verified_user_channel_provenance_def)

lemma approvals_are_the_users:
  "current_sensitive_approval a requirement \<Longrightarrow> ua_resolved_by_actor_source a = Some ActorSource.LocalUser"
  "current_final_acceptance a acceptance \<Longrightarrow> ua_resolved_by_actor_source a = Some ActorSource.LocalUser"
  "current_residual_risk_acceptance_covers a basis risk \<Longrightarrow>
     ua_resolved_by_actor_source a = Some ActorSource.LocalUser"
  "current_cancellation_authority a cancellation \<Longrightarrow>
     ua_resolved_by_actor_source a = Some ActorSource.LocalUser"
  by (auto simp: current_sensitive_approval_def current_final_acceptance_def current_cancellation_authority_def
      current_residual_risk_acceptance_covers_def dest: accepted_is_the_users split: if_splits)

lemma no_authority_blocker:
  assumes "completion_authority_blockers store project_state request facts = []"
    and "crf_current_close_basis facts = Some basis"
  shows "p \<in> set (pending_user_action_authorities_for_context store facts) \<Longrightarrow>
      \<not> pending_action_blocks_close request project_state facts UserActionOperation.CloseComplete p"
    "task_effective_control_level (crf_task facts) = TaskControlLevel.Sensitive \<Longrightarrow>
      ccb_sensitive_action_requirements basis \<noteq> []"
    "s \<in> set (ccb_sensitive_action_requirements basis) \<Longrightarrow>
      \<exists>a \<in> set (resolved_judgment_authorities_for_context store facts JudgmentKind.SensitiveApproval).
        current_sensitive_approval a (close_sensitive_requirement request facts s)"
  using assms
  by (auto simp: completion_authority_blockers_def pending_user_action_refs_for_close_operation_def
      sensitive_action_basis_missing_def sensitive_approval_required_def
      has_current_sensitive_approval_for_close_def filter_empty_conv list_all_iff list_ex_iff Let_def
      split: if_splits)

lemma mandatory_acceptance:
  "acceptance_is_mandatory (crf_task facts) \<Longrightarrow> acceptance_is_required store request facts blocked = Ok True"
  by (auto simp: acceptance_is_mandatory_def acceptance_is_required_def)

lemma no_acceptance_blocker:
  assumes "completion_acceptance_blockers store project_state request facts coverage blocked = Ok []"
    and "crf_current_close_basis facts = Some basis"
  shows "acceptance_is_required store request facts blocked = Ok True \<Longrightarrow>
      \<exists>a \<in> set (resolved_judgment_authorities_for_context store facts JudgmentKind.FinalAcceptance).
        current_final_acceptance a (final_acceptance_requirement basis)"
    "ccb_residual_risks basis = [] \<or> list_all rac_accepted coverage"
  using assms
  by (auto simp: completion_acceptance_blockers_def final_acceptance_blocker_def residual_risk_state_def
      list_all_iff list_ex_iff Let_def split: if_splits option.splits)

lemma accepted_after_restating:
  "list_all rac_accepted (map (\<lambda>item. if rac_accepted item then item
     else item\<lparr>rac_missing_reason := reason\<rparr>) coverage) \<longleftrightarrow> list_all rac_accepted coverage"
  by (induction coverage) simp_all

lemma accepted_risks:
  assumes "list_all rac_accepted (risk_acceptance_coverage store project_state request facts)"
    and "crf_current_close_basis facts = Some basis"
    and "risk \<in> set (ccb_residual_risks basis)" "rr_acceptance_required risk"
  shows "\<exists>a \<in> set (resolved_judgment_authorities_for_context store facts JudgmentKind.ResidualRiskAcceptance).
    current_residual_risk_acceptance_covers a basis (rr_risk_id risk)"
proof -
  have "list_all rac_accepted (current_residual_risk_acceptance_coverage (clq_project_id request)
      (clq_task_id request) (psh_state_version project_state) basis
      (resolved_judgment_authorities_for_context store facts JudgmentKind.ResidualRiskAcceptance))"
    using assms(1,2) by (simp add: risk_acceptance_coverage_def Let_def accepted_after_restating split: if_splits)
  then have "\<forall>risk \<in> set (ccb_residual_risks basis). rr_acceptance_required risk \<longrightarrow>
      (\<exists>a \<in> set (resolved_judgment_authorities_for_context store facts JudgmentKind.ResidualRiskAcceptance).
        current_residual_risk_acceptance_covers a basis (rr_risk_id risk) \<and> ua_user_action_resolution_id a \<noteq> None)"
    by (simp add: current_residual_risk_acceptance_coverage_def list_all_iff map_filter_def Let_def
        filter_empty_conv)
  then show ?thesis using assms(3,4) by blast
qed

lemma strong_disposition:
  "provenance_disposition c = CloseEvidenceObservationDisposition.StrongSupported \<longleftrightarrow>
     c = EvidenceProvenanceClass.Strong"
  by (cases c) simp_all

lemma item_without_issue:
  assumes "close_evidence_issue_for_item store request facts item = Ok None"
    and "eci_target item = EvidenceTarget.AcceptanceCriterion criterion"
    and "crf_projected_required_criterion_ids facts = Some required" "criterion \<in> set required"
    and "crf_current_close_basis facts = Some basis"
  shows "eci_coverage_state item = EvidenceCoverageState.Supported"
    "\<exists>r \<in> set (eci_observation_refs item). observation_disposition store request facts basis
       (EvidenceTarget.AcceptanceCriterion criterion) r = CloseEvidenceObservationDisposition.StrongSupported"
proof -
  have "eci_coverage_state item = EvidenceCoverageState.Supported \<and>
    CloseEvidenceObservationDisposition.StrongSupported \<in> set (map (observation_disposition store request facts basis
      (EvidenceTarget.AcceptanceCriterion criterion)) (eci_observation_refs item))"
    using assms
    by (auto simp: close_evidence_issue_for_item_def required_criteria_for_close_context_def
        interpret_close_evidence_item_def Let_def simp del: set_map split: if_splits)
  then show "eci_coverage_state item = EvidenceCoverageState.Supported"
    "\<exists>r \<in> set (eci_observation_refs item). observation_disposition store request facts basis
       (EvidenceTarget.AcceptanceCriterion criterion) r = CloseEvidenceObservationDisposition.StrongSupported"
    by auto (metis imageE)
qed

lemma strong_stored_observation:
  assumes "observation_disposition store request facts basis target r =
      CloseEvidenceObservationDisposition.StrongSupported"
    and "crf_projected_evidence_observations facts = []"
  shows "\<exists>observation. crs_evidence_observation_record store (ref_record_id r) = Some observation \<and>
    eor_project_id observation = clq_project_id request \<and> eor_task_id observation = clq_task_id request \<and>
    stored_observation_matches_close_basis observation basis target \<and>
    classify_evidence_provenance (crs_stored_provenance_facts store observation
      (close_observation_basis request facts basis target)) = EvidenceProvenanceClass.Strong"
  using assms
  by (auto simp: observation_disposition_def stored_observation_disposition_def strong_disposition
      split: if_splits option.splits)

lemma evidence_issue_kinds_complete: "kind \<in> set evidence_issue_kinds"
  by (cases kind) (simp_all add: evidence_issue_kinds_def)

lemma evidence_blocker_Nil:
  "evidence_blocker facts refs issues kind = [] \<longleftrightarrow> filter (\<lambda>issue. cei_kind issue = kind) issues = []"
  by (simp add: evidence_blocker_def Let_def)

lemma list_all2_member:
  "list_all2 P xs ys \<Longrightarrow> x \<in> set xs \<Longrightarrow> \<exists>y \<in> set ys. P x y"
  by (induction rule: list_all2_induct) auto

lemma required_item_is_projected:
  assumes "criterion \<in> set required"
  obtains summary item where "project_close_evidence_summary facts required = Some summary"
    "item \<in> set (es_coverage_items summary)" "eci_target item = EvidenceTarget.AcceptanceCriterion criterion"
proof -
  have "required \<noteq> []" using assms by auto
  then obtain summary where summary: "project_close_evidence_summary facts required = Some summary"
    by (auto simp: project_close_evidence_summary_def evidence_summary_with_required_ids_def Let_def)
  then have "\<exists>item \<in> set (es_coverage_items summary). eci_target item = EvidenceTarget.AcceptanceCriterion criterion"
    using projected_summary_items[OF \<open>required \<noteq> []\<close>, of facts] add_required_items_covers[OF assms]
    by (simp add: list_ex_iff targets_criterion_def)
  then show ?thesis using that summary by blast
qed

lemma no_cancellation_blocker:
  "cancellation_authority_blocker store project_state request facts = None \<Longrightarrow>
     \<exists>a \<in> set (resolved_judgment_authorities_for_context store facts JudgmentKind.Cancellation).
       current_cancellation_authority a (cancellation_requirement request facts)"
  by (auto simp: cancellation_authority_blocker_def list_ex_iff Let_def split: if_splits prod.splits)

lemma no_evidence_blocker:
  assumes "evidence_completion_blockers store project_state request facts = Ok []"
    and "crf_evidence_summary facts = Some summary" "item \<in> set (es_coverage_items summary)"
  shows "close_evidence_issue_for_item store request facts item = Ok None"
proof -
  have none: "close_evidence_blockers store request facts
      (change_unit_ref_for_close request facts (psh_state_version project_state)) = Ok []"
    using assms(1) by (simp add: evidence_completion_blockers_def) blast
  obtain found where found: "list_all2 (\<lambda>x y. close_evidence_issue_for_item store request facts x = Ok y)
      (es_coverage_items summary) found"
    and kinds: "\<forall>kind \<in> set evidence_issue_kinds. filter (\<lambda>issue. cei_kind issue = kind) (List.map_filter id found) = []"
    using none assms(2)
    by (auto simp: close_evidence_blockers_def collect_results_Ok_iff evidence_blocker_Nil)
  have "issue \<notin> set (List.map_filter id found)" for issue
    using kinds evidence_issue_kinds_complete[of "cei_kind issue"] by (auto simp: filter_empty_conv)
  then have "\<forall>y \<in> set found. y = None" by (force simp: map_filter_def image_iff)
  then show ?thesis
    using list_all2_member[OF found assms(3)] by auto
qed

lemma stored_authorities:
  assumes "acquire_close_readiness_facts store task_id now = Ok facts"
  shows "resolved_judgment_authorities_for_context store (facts\<lparr>crf_task := task\<rparr>) kind =
      map user_action_authority_from_record (crs_resolved_user_action_records store (user_action_kind_of kind))"
    "pending_user_action_authorities_for_context store (facts\<lparr>crf_task := task\<rparr>) =
      map user_action_authority_from_record (crs_pending_user_action_records store)"
    "close_write_tickets store request (facts\<lparr>crf_task := task\<rparr>) =
      map_err WriteTicketFacts (load_evaluated_stored_write_tickets (crs_from_value store) (clq_task_id request)
        (crs_write_tickets store) (crs_task_record store (clq_task_id request)) (crs_workflow_policy store)
        (crs_sensitive_approvals store) now)"
  using acquired_facts[OF assms]
  by (simp_all add: resolved_judgment_authorities_for_context_def pending_user_action_authorities_for_context_def
      close_write_tickets_def)

subsection \<open>What the intent does not change\<close>

lemma intent_fields [intent_irrelevant]:
  "clq_project_id (request\<lparr>clq_intent := i\<rparr>) = clq_project_id request"
  "clq_task_id (request\<lparr>clq_intent := i\<rparr>) = clq_task_id request"
  by simp_all

lemma intent_irrelevant_refs [intent_irrelevant]:
  "task_ref_for_close (request\<lparr>clq_intent := i\<rparr>) = task_ref_for_close request"
  "change_unit_ref_for_close (request\<lparr>clq_intent := i\<rparr>) = change_unit_ref_for_close request"
  "user_action_request_ref (request\<lparr>clq_intent := i\<rparr>) = user_action_request_ref request"
  "close_sensitive_requirement (request\<lparr>clq_intent := i\<rparr>) = close_sensitive_requirement request"
  "close_observation_basis (request\<lparr>clq_intent := i\<rparr>) = close_observation_basis request"
  "close_write_tickets store (request\<lparr>clq_intent := i\<rparr>) = close_write_tickets store request"
  unfolding intent_irrelevant task_ref_for_close_def change_unit_ref_for_close_def
    user_action_request_ref_def close_sensitive_requirement_def close_observation_basis_def
    close_write_tickets_def
  by (rule refl)+

lemma intent_irrelevant_change_control [intent_irrelevant]:
  "task_closeable_blockers ps (request\<lparr>clq_intent := i\<rparr>) = task_closeable_blockers ps request"
  "unresolved_write_ticket_blockers store ps (request\<lparr>clq_intent := i\<rparr>) =
     unresolved_write_ticket_blockers store ps request"
  "incompatible_close_basis_run_refs store (request\<lparr>clq_intent := i\<rparr>) =
     incompatible_close_basis_run_refs store request"
  "completion_basis_blockers ps (request\<lparr>clq_intent := i\<rparr>) = completion_basis_blockers ps request"
  "unrecorded_change_blockers ps (request\<lparr>clq_intent := i\<rparr>) = unrecorded_change_blockers ps request"
  unfolding intent_irrelevant task_closeable_blockers_def unresolved_write_ticket_blockers_def
    incompatible_close_basis_run_refs_def completion_basis_blockers_def unrecorded_change_blockers_def
  by (rule refl)+

lemma intent_irrelevant_scope [intent_irrelevant]:
  "completion_scope_blockers store ps (request\<lparr>clq_intent := i\<rparr>) = completion_scope_blockers store ps request"
  unfolding intent_irrelevant completion_scope_blockers_def current_close_basis_blocker_def
    incompatible_close_basis_run_refs_blocker_def
  by (rule refl)+

lemma intent_irrelevant_operation [intent_irrelevant]:
  "close_operation_context (request\<lparr>clq_intent := i\<rparr>) = close_operation_context request"
  "has_current_sensitive_approval_for_close store (request\<lparr>clq_intent := i\<rparr>) =
     has_current_sensitive_approval_for_close store request"
  "risk_acceptance_coverage store ps (request\<lparr>clq_intent := i\<rparr>) = risk_acceptance_coverage store ps request"
  "ticket_covers_run (request\<lparr>clq_intent := i\<rparr>) = ticket_covers_run request"
  unfolding intent_irrelevant close_operation_context_def close_operation_refs_def
    has_current_sensitive_approval_for_close_def risk_acceptance_coverage_def ticket_covers_run_def
  by (rule refl)+

lemma intent_irrelevant_authority [intent_irrelevant]:
  "pending_action_blocks_close (request\<lparr>clq_intent := i\<rparr>) = pending_action_blocks_close request"
  "light_run_is_authorized store (request\<lparr>clq_intent := i\<rparr>) = light_run_is_authorized store request"
  unfolding intent_irrelevant pending_action_blocks_close_def pending_sensitive_judgment_blocks_close_def
    light_run_is_authorized_def
  by (rule refl)+

lemma intent_irrelevant_acceptance [intent_irrelevant]:
  "completion_authority_blockers store ps (request\<lparr>clq_intent := i\<rparr>) =
     completion_authority_blockers store ps request"
  "completion_acceptance_blockers store ps (request\<lparr>clq_intent := i\<rparr>) =
     completion_acceptance_blockers store ps request"
  unfolding intent_irrelevant completion_authority_blockers_def
    pending_user_action_refs_for_close_operation_def completion_acceptance_blockers_def
    final_acceptance_blocker_def acceptance_is_required_def light_completion_without_acceptance_allowed_def
  by (rule refl)+

lemma intent_irrelevant_observation [intent_irrelevant]:
  "observation_disposition store (request\<lparr>clq_intent := i\<rparr>) = observation_disposition store request"
  "supporting_artifact_unavailable store (request\<lparr>clq_intent := i\<rparr>) = supporting_artifact_unavailable store request"
  "close_basis_artifact_ref_unavailable store (request\<lparr>clq_intent := i\<rparr>) =
     close_basis_artifact_ref_unavailable store request"
  unfolding intent_irrelevant observation_disposition_def projected_observation_disposition_def
    stored_observation_disposition_def supporting_artifact_unavailable_def
    close_basis_artifact_ref_unavailable_def
  by (rule refl)+

lemma intent_irrelevant_evidence [intent_irrelevant]:
  "close_evidence_issue_for_item store (request\<lparr>clq_intent := i\<rparr>) = close_evidence_issue_for_item store request"
  "unavailable_close_artifact_refs store ps (request\<lparr>clq_intent := i\<rparr>) =
     unavailable_close_artifact_refs store ps request"
  unfolding intent_irrelevant close_evidence_issue_for_item_def unavailable_close_artifact_refs_def
  by (rule refl)+

lemma intent_irrelevant_completion [intent_irrelevant]:
  "evidence_completion_blockers store ps (request\<lparr>clq_intent := i\<rparr>) =
     evidence_completion_blockers store ps request"
  unfolding intent_irrelevant evidence_completion_blockers_def close_evidence_blockers_def
  by (rule refl)+

lemma completing_intents [simp]:
  "closes_completely (request\<lparr>clq_intent := CloseIntent.Check\<rparr>)"
  "closes_completely (request\<lparr>clq_intent := CloseIntent.Complete\<rparr>)"
  by (simp_all add: closes_completely_def)

lemma completing_intents_alike:
  assumes "closes_completely (request\<lparr>clq_intent := i\<rparr>)" "closes_completely (request\<lparr>clq_intent := j\<rparr>)"
  shows "change_control_terminal_blockers store ps (request\<lparr>clq_intent := i\<rparr>) =
      change_control_terminal_blockers store ps (request\<lparr>clq_intent := j\<rparr>)"
    "acceptance_terminal_blockers store ps (request\<lparr>clq_intent := i\<rparr>) =
      acceptance_terminal_blockers store ps (request\<lparr>clq_intent := j\<rparr>)"
    "combined_blockers i version evaluations = combined_blockers j version evaluations"
  using assms
  by (auto simp: change_control_terminal_blockers_def acceptance_terminal_blockers_def superseding_task_blockers_def
      combined_blockers_def closes_completely_def fun_eq_iff intent_irrelevant)

lemma combine_intent:
  assumes "combine i version facts update evaluations = Ok a"
    and "combined_blockers i version evaluations = combined_blockers j version evaluations"
  shows "\<exists>b. combine j version facts update evaluations = Ok b \<and> cra_context b = cra_context a \<and>
    cra_blockers b = cra_blockers a \<and> cra_control_update b = cra_control_update a \<and>
    cra_evidence_gate b = cra_evidence_gate a \<and>
    cra_risk_acceptance_coverage b = cra_risk_acceptance_coverage a"
  using assms by (auto simp: combine_def Let_def split: option.splits)

lemma evaluated_alike:
  assumes "evaluate_close_readiness_with_facts store project_state (request\<lparr>clq_intent := CloseIntent.Check\<rparr>)
    facts0 = Ok a"
  shows "\<exists>b. evaluate_close_readiness_with_facts store project_state
      (request\<lparr>clq_intent := CloseIntent.Complete\<rparr>) facts0 = Ok b \<and>
    cra_context b = cra_context a \<and> cra_blockers b = cra_blockers a \<and>
    cra_control_update b = cra_control_update a \<and> cra_evidence_gate b = cra_evidence_gate a \<and>
    cra_risk_acceptance_coverage b = cra_risk_acceptance_coverage a"
proof -
  note alike = completing_intents_alike[where request = request and i = CloseIntent.Check and
    j = CloseIntent.Complete, OF completing_intents]
  show ?thesis
    using assms unfolding evaluate_close_readiness_with_facts_def Let_def
    by (auto simp: alike(1,2) intent_irrelevant dest!: combine_intent[OF _ alike(3)])
qed

lemma sample_close_is_ready:
  "\<exists>a. assess_close_readiness sample_close_store sample_project_state (sample_close_request CloseIntent.Check) 300 =
     Ok a \<and> cra_close_state a = CloseState.Ready"
proof -
  have "case assess_close_readiness sample_close_store sample_project_state (sample_close_request CloseIntent.Check) 300
    of Ok a \<Rightarrow> cra_close_state a = CloseState.Ready | Err _ \<Rightarrow> False" by code_simp
  then show ?thesis by (simp split: result.splits)
qed

lemma sample_close_is_completed:
  "\<exists>a. assess_close_readiness sample_close_store sample_project_state (sample_close_request CloseIntent.Complete) 300 =
     Ok a \<and> cra_close_state a = CloseState.Closed"
proof -
  let ?request = "sample_close_request CloseIntent.Check"
  obtain a facts where a: "cra_close_state a = CloseState.Ready"
    and facts: "acquire_close_readiness_facts sample_close_store ''task_1'' 300 = Ok facts"
    and check: "evaluate_close_readiness_with_facts sample_close_store sample_project_state
      (?request\<lparr>clq_intent := CloseIntent.Check\<rparr>) facts = Ok a"
    using sample_close_is_ready by (auto simp: assess_close_readiness_def sample_close_request_def)
  obtain b where b: "evaluate_close_readiness_with_facts sample_close_store sample_project_state
      (?request\<lparr>clq_intent := CloseIntent.Complete\<rparr>) facts = Ok b" "cra_blockers b = cra_blockers a"
    using evaluated_alike[OF check] by blast
  have "cra_blockers a = []"
    using evaluated_close_state[OF check] a by (simp add: close_state_for_policy_def split: if_splits)
  then have "cra_close_state b = CloseState.Closed"
    using evaluated_close_state[OF b(1)] b(2) by (simp add: close_state_for_policy_def)
  then show ?thesis
    using facts b(1) by (auto simp: assess_close_readiness_def sample_close_request_def)
qed

section \<open>Properties\<close>

text \<open>C11: A task is completed only in a settled state.  When an assessment with the intent to complete
  closes the task, then the task is not terminal and no other task is active; no blocker and no recovery
  constraint is open; the change unit is active and current; the close basis was recorded for exactly this
  task, change unit, scope revision and baseline, and, unless the task only advises, every run it names is
  a recorded run of that scope; no write ticket of the task is still usable; and no observed change of the
  repository is unrecorded.
\<close>

theorem completed_close_is_settled:
  assumes "assess_close_readiness store project_state request now = Ok a"
    and "clq_intent request = CloseIntent.Complete" "cra_close_state a = CloseState.Closed"
  shows "\<exists>task unit basis tickets. crs_task_record store (clq_task_id request) = Some task \<and>
    crs_current_change_unit store = Some unit \<and> crs_current_close_basis store = Some (Some basis) \<and>
    \<not> is_terminal_lifecycle (task_lifecycle_phase task) \<and>
    psh_active_task_id project_state \<in> {None, Some (clq_task_id request)} \<and>
    crs_active_blocker_refs store = [] \<and> \<not> cu_recovery_required unit \<and> ccb_recovery_constraints basis = [] \<and>
    cu_status unit = ChangeUnitStatus.Active \<and> cu_is_current unit \<and>
    close_basis_is_current basis (clq_task_id request) (Some (cu_change_unit_id unit))
      (task_scope_revision task) (task_close_basis_revision task) (stored_scope_baseline_ref task) \<and>
    (task_mode task \<noteq> TaskMode.Advisor \<longrightarrow> (\<forall>r \<in> set (close_basis_run_refs basis).
       \<exists>run. crs_run_record store (ref_record_id r) = Some run \<and>
         run_record_matches_close_basis_context run (clq_project_id request) (clq_task_id request)
           (cu_change_unit_id unit) (task_scope_revision task) (stored_scope_baseline_ref task))) \<and>
    load_evaluated_stored_write_tickets (crs_from_value store) (clq_task_id request) (crs_write_tickets store)
      (Some task) (crs_workflow_policy store) (crs_sensitive_approvals store) now = Ok tickets \<and>
    (\<forall>t \<in> set tickets. as_reusable t = None) \<and>
    crs_unresolved_unrecorded_changes store = []"
  using assms(1)
proof (cases rule: assessed)
  case (1 facts0 control reason acceptance acceptance_reason)
  note f = acquired_facts[OF 1(2)] and context_eq = 1(3)
  have complete: "closes_completely request" using assms(2) by (simp add: closes_completely_def)
  have "cra_blockers a = []" using unblocked_if[OF assms(1)] assms(3) by simp
  note clear = unblocked_assessment[OF 1(1) this]
  note terminal = no_terminal_blocker[OF clear(1)[unfolded context_eq]]
  obtain tickets where tickets: "load_evaluated_stored_write_tickets (crs_from_value store) (clq_task_id request)
      (crs_write_tickets store) (Some (crf_task facts0)) (crs_workflow_policy store) (crs_sensitive_approvals store)
      now = Ok tickets" "\<forall>t \<in> set tickets. as_reusable t = None"
    using terminal(5)[OF complete] f(1) by (auto simp: stored_authorities[OF 1(2)])
  obtain unit basis where scope: "crs_current_change_unit store = Some unit"
    "crf_current_close_basis facts0 = Some basis" "cu_status unit = ChangeUnitStatus.Active" "cu_is_current unit"
    "close_basis_is_current basis (clq_task_id request) (Some (cu_change_unit_id unit))
       (task_scope_revision (crf_task facts0)) (task_close_basis_revision (crf_task facts0))
       (stored_scope_baseline_ref (crf_task facts0))"
    and runs: "task_mode (crf_task facts0) \<noteq> TaskMode.Advisor \<Longrightarrow>
       incompatible_close_basis_run_refs store request (cra_context a) basis unit = []"
    using no_scope_blocker[OF clear(4)[OF complete]] f(3) by (auto simp: context_eq stored_scope_baseline_ref_def)
  have "ccb_recovery_constraints basis = []"
    using no_basis_blocker[OF clear(6)[OF complete]] scope(2) by (simp add: context_eq)
  moreover have "\<exists>run. crs_run_record store (ref_record_id r) = Some run \<and>
      run_record_matches_close_basis_context run (clq_project_id request) (clq_task_id request)
        (cu_change_unit_id unit) (task_scope_revision (crf_task facts0)) (stored_scope_baseline_ref (crf_task facts0))"
    if "task_mode (crf_task facts0) \<noteq> TaskMode.Advisor" "r \<in> set (close_basis_run_refs basis)" for r
    using close_basis_runs_are_current[OF runs[OF that(1)] _ that(2)] f(11)
    by (simp add: context_eq stored_scope_baseline_ref_def)
  moreover have "crs_unresolved_unrecorded_changes store = []"
    using clear(3) f(5) by (simp add: no_unrecorded_change_blocker context_eq)
  ultimately show ?thesis
    using f(1-4) terminal(1-4) tickets scope by auto
qed

theorem completed_close_is_settled_witness:
  "\<exists>a unit basis. assess_close_readiness sample_close_store sample_project_state
     (sample_close_request CloseIntent.Complete) 300 = Ok a \<and> cra_close_state a = CloseState.Closed \<and>
   crs_current_change_unit sample_close_store = Some unit \<and>
   crs_current_close_basis sample_close_store = Some (Some basis) \<and>
   close_basis_is_current basis ''task_1'' (Some (cu_change_unit_id unit)) 2 1 (Some ''base_1'')"
proof -
  obtain a where a: "assess_close_readiness sample_close_store sample_project_state
      (sample_close_request CloseIntent.Complete) 300 = Ok a" "cra_close_state a = CloseState.Closed"
    using sample_close_is_completed by blast
  have sample: "clq_intent (sample_close_request CloseIntent.Complete) = CloseIntent.Complete"
    "clq_task_id (sample_close_request CloseIntent.Complete) = ''task_1''"
    "crs_task_record sample_close_store ''task_1'' = Some sample_task"
    by (simp_all add: sample_close_request_def sample_close_store_def)
  obtain task unit basis where "crs_task_record sample_close_store ''task_1'' = Some task"
    "crs_current_change_unit sample_close_store = Some unit"
    "crs_current_close_basis sample_close_store = Some (Some basis)"
    "close_basis_is_current basis ''task_1'' (Some (cu_change_unit_id unit)) (task_scope_revision task)
      (task_close_basis_revision task) (stored_scope_baseline_ref task)"
    using completed_close_is_settled[OF a(1) sample(1) a(2), unfolded sample(2)] by blast
  moreover have "task_scope_revision sample_task = 2" "task_close_basis_revision sample_task = 1"
    "stored_scope_baseline_ref sample_task = Some ''base_1''"
    by (simp_all add: sample_task_def stored_scope_baseline_ref_def)
  ultimately show ?thesis using a sample(3) by (metis option.inject)
qed

text \<open>C10: A completed task rests on the decisions of the local user.  No pending user action stands in the
  way; a sensitive task names the sensitive actions it took, and the user approved each of them for this
  scope; wherever the control level in force, which is never below the stored one, makes final acceptance
  mandatory, the user accepted exactly this result; and the user accepted every residual risk that calls
  for it.
\<close>

theorem completed_close_is_the_users:
  assumes "assess_close_readiness store project_state request now = Ok a"
    and "clq_intent request = CloseIntent.Complete" "cra_close_state a = CloseState.Closed"
  shows "\<exists>task basis. crs_task_record store (clq_task_id request) = Some task \<and>
    crs_current_close_basis store = Some (Some basis) \<and>
    task_effective_control_level task \<le> task_effective_control_level (crf_task (cra_context a)) \<and>
    (\<forall>p \<in> set (crs_pending_user_action_records store). \<not> pending_action_blocks_close request project_state
       (cra_context a) UserActionOperation.CloseComplete (user_action_authority_from_record p)) \<and>
    (task_effective_control_level (crf_task (cra_context a)) = TaskControlLevel.Sensitive \<longrightarrow>
       ccb_sensitive_action_requirements basis \<noteq> []) \<and>
    (\<forall>s \<in> set (ccb_sensitive_action_requirements basis).
       \<exists>r \<in> set (crs_resolved_user_action_records store UserActionKind.SensitiveApproval).
         current_sensitive_approval (user_action_authority_from_record r)
           (close_sensitive_requirement request (cra_context a) s) \<and>
         ua_resolved_by_actor_source (user_action_authority_from_record r) = Some ActorSource.LocalUser) \<and>
    (acceptance_is_mandatory (crf_task (cra_context a)) \<longrightarrow>
       (\<exists>r \<in> set (crs_resolved_user_action_records store UserActionKind.FinalAcceptance).
         current_final_acceptance (user_action_authority_from_record r) (final_acceptance_requirement basis) \<and>
         ua_resolved_by_actor_source (user_action_authority_from_record r) = Some ActorSource.LocalUser)) \<and>
    (\<forall>risk \<in> set (ccb_residual_risks basis). rr_acceptance_required risk \<longrightarrow>
       (\<exists>r \<in> set (crs_resolved_user_action_records store UserActionKind.ResidualRiskAcceptance).
         current_residual_risk_acceptance_covers (user_action_authority_from_record r) basis (rr_risk_id risk) \<and>
         ua_resolved_by_actor_source (user_action_authority_from_record r) = Some ActorSource.LocalUser))"
  using assms(1)
proof (cases rule: assessed)
  case (1 facts0 control reason acceptance acceptance_reason)
  note f = acquired_facts[OF 1(2)] and context_eq = 1(3)
  note stored = stored_authorities[OF 1(2)]
  have complete: "closes_completely request" using assms(2) by (simp add: closes_completely_def)
  have "cra_blockers a = []" using unblocked_if[OF assms(1)] assms(3) by simp
  note clear = unblocked_assessment[OF 1(1) this]
  obtain basis where basis: "crf_current_close_basis facts0 = Some basis"
    using no_scope_blocker[OF clear(4)[OF complete]] by (auto simp: context_eq)
  then have current: "crf_current_close_basis (cra_context a) = Some basis" by (simp add: context_eq)
  note authority = no_authority_blocker[OF clear(5)[OF complete] current]
  note acceptance = no_acceptance_blocker[OF clear(8)[OF complete] current]
  have mandatory: "\<exists>r \<in> set (crs_resolved_user_action_records store UserActionKind.FinalAcceptance).
      current_final_acceptance (user_action_authority_from_record r) (final_acceptance_requirement basis)"
    if "acceptance_is_mandatory (crf_task (cra_context a))"
    using acceptance(1)[OF mandatory_acceptance[OF that]] by (simp add: context_eq stored)
  have risks: "\<exists>r \<in> set (crs_resolved_user_action_records store UserActionKind.ResidualRiskAcceptance).
      current_residual_risk_acceptance_covers (user_action_authority_from_record r) basis (rr_risk_id risk)"
    if "risk \<in> set (ccb_residual_risks basis)" "rr_acceptance_required risk" for risk
  proof -
    have "list_all rac_accepted (risk_acceptance_coverage store project_state request (cra_context a))"
      using acceptance(2) that(1) by auto
    from accepted_risks[OF this current that] show ?thesis by (simp add: context_eq stored)
  qed
  have sensitive: "\<exists>r \<in> set (crs_resolved_user_action_records store UserActionKind.SensitiveApproval).
      current_sensitive_approval (user_action_authority_from_record r)
        (close_sensitive_requirement request (cra_context a) s)"
    if "s \<in> set (ccb_sensitive_action_requirements basis)" for s
    using authority(3)[OF that] by (simp add: context_eq stored)
  have pending: "\<not> pending_action_blocks_close request project_state (cra_context a)
      UserActionOperation.CloseComplete (user_action_authority_from_record p)"
    if "p \<in> set (crs_pending_user_action_records store)" for p
    using authority(1)[of "user_action_authority_from_record p"] that by (simp add: context_eq stored)
  have level: "task_effective_control_level (crf_task facts0) \<le> task_effective_control_level (crf_task (cra_context a))"
    using 1(4) by (simp add: context_eq)
  show ?thesis
    using f(1,2) basis level pending authority(2) sensitive mandatory risks
    by (intro exI[of _ "crf_task facts0"] exI[of _ basis]) (simp, blast intro: approvals_are_the_users)
qed

theorem completed_close_is_the_users_witness:
  "\<exists>a r. assess_close_readiness sample_close_store sample_project_state
     (sample_close_request CloseIntent.Complete) 300 = Ok a \<and> cra_close_state a = CloseState.Closed \<and>
   r \<in> set (crs_resolved_user_action_records sample_close_store UserActionKind.ResidualRiskAcceptance) \<and>
   current_residual_risk_acceptance_covers (user_action_authority_from_record r) sample_close_basis ''risk_1'' \<and>
   ua_resolved_by_actor_source (user_action_authority_from_record r) = Some ActorSource.LocalUser"
proof -
  obtain a where a: "assess_close_readiness sample_close_store sample_project_state
      (sample_close_request CloseIntent.Complete) 300 = Ok a" "cra_close_state a = CloseState.Closed"
    using sample_close_is_completed by blast
  have sample: "clq_intent (sample_close_request CloseIntent.Complete) = CloseIntent.Complete"
    "crs_current_close_basis sample_close_store = Some (Some sample_close_basis)"
    by (simp_all add: sample_close_request_def sample_close_store_def)
  obtain risk where risk: "risk \<in> set (ccb_residual_risks sample_close_basis)" "rr_acceptance_required risk"
    "rr_risk_id risk = ''risk_1''" by (simp add: sample_close_basis_def)
  then show ?thesis
    using completed_close_is_the_users[OF a(1) sample(1) a(2)] sample(2) a
    by (metis option.inject)
qed

text \<open>C12: A completed task is backed by evidence.  For every acceptance criterion that requires evidence there
  is a coverage item in state supported, with an observation that the store holds for this task and
  project, that belongs to the run and the change unit of the close basis, and whose provenance is strong.
\<close>

theorem completed_close_is_backed:
  assumes "assess_close_readiness store project_state request now = Ok a"
    and "clq_intent request = CloseIntent.Complete" "cra_close_state a = CloseState.Closed"
    and "criterion \<in> set (crs_active_acceptance_criteria store)"
      "ac_evidence_requirement criterion = EvidenceRequirement.Required"
  shows "\<exists>summary item r observation basis.
    project_close_evidence_summary (crs_close_evidence_summary_facts store)
      (required_acceptance_criterion_ids (crs_active_acceptance_criteria store)) = Some summary \<and>
    item \<in> set (es_coverage_items summary) \<and>
    eci_target item = EvidenceTarget.AcceptanceCriterion (ac_acceptance_criterion_id criterion) \<and>
    eci_coverage_state item = EvidenceCoverageState.Supported \<and> r \<in> set (eci_observation_refs item) \<and>
    crs_evidence_observation_record store (ref_record_id r) = Some observation \<and>
    eor_project_id observation = clq_project_id request \<and> eor_task_id observation = clq_task_id request \<and>
    crs_current_close_basis store = Some (Some basis) \<and>
    stored_observation_matches_close_basis observation basis (eci_target item) \<and>
    classify_evidence_provenance (crs_stored_provenance_facts store observation
      (close_observation_basis request (cra_context a) basis (eci_target item))) = EvidenceProvenanceClass.Strong"
  using assms(1)
proof (cases rule: assessed)
  case (1 facts0 control reason acceptance acceptance_reason)
  note f = acquired_facts[OF 1(2)] and context_eq = 1(3)
  let ?required = "required_acceptance_criterion_ids (crs_active_acceptance_criteria store)"
    and ?id = "ac_acceptance_criterion_id criterion"
  have complete: "closes_completely request" using assms(2) by (simp add: closes_completely_def)
  have "cra_blockers a = []" using unblocked_if[OF assms(1)] assms(3) by simp
  note clear = unblocked_assessment[OF 1(1) this]
  obtain basis where basis: "crf_current_close_basis facts0 = Some basis"
    using no_scope_blocker[OF clear(4)[OF complete]] by (auto simp: context_eq)
  have required: "?id \<in> set ?required"
    using assms(4,5) by (auto simp: required_acceptance_criterion_ids_def criterion_ids_requiring_def)
  obtain summary item where summary: "project_close_evidence_summary (crs_close_evidence_summary_facts store) ?required =
      Some summary" and item: "item \<in> set (es_coverage_items summary)"
      "eci_target item = EvidenceTarget.AcceptanceCriterion ?id"
    using required_item_is_projected[OF required] by blast
  have "close_evidence_issue_for_item store request (cra_context a) item = Ok None"
    using no_evidence_blocker[OF clear(7)[OF complete] _ item(1)] summary f(6) by (simp add: context_eq)
  note backed = item_without_issue[OF this item(2), of ?required basis]
  obtain r where supported: "eci_coverage_state item = EvidenceCoverageState.Supported"
    and r: "r \<in> set (eci_observation_refs item)" "observation_disposition store request (cra_context a) basis
      (eci_target item) r = CloseEvidenceObservationDisposition.StrongSupported"
    using backed f(7) required basis item(2) by (auto simp: context_eq)
  have "crf_projected_evidence_observations (cra_context a) = []" "crs_current_close_basis store = Some (Some basis)"
    using f(2,12) basis by (simp_all add: context_eq)
  then show ?thesis
    using strong_stored_observation[OF r(2)] summary item supported r(1) by blast
qed

theorem completed_close_is_backed_witness:
  "\<exists>a (r :: StateRecordRef) observation. assess_close_readiness sample_close_store sample_project_state
     (sample_close_request CloseIntent.Complete) 300 = Ok a \<and> cra_close_state a = CloseState.Closed \<and>
   crs_evidence_observation_record sample_close_store (ref_record_id r) = Some observation \<and>
   eor_task_id observation = ''task_1'' \<and>
   stored_observation_matches_close_basis observation sample_close_basis
     (EvidenceTarget.AcceptanceCriterion ''ac_1'')"
proof -
  obtain a where a: "assess_close_readiness sample_close_store sample_project_state
      (sample_close_request CloseIntent.Complete) 300 = Ok a" "cra_close_state a = CloseState.Closed"
    using sample_close_is_completed by blast
  have sample: "clq_intent (sample_close_request CloseIntent.Complete) = CloseIntent.Complete"
    "sample_criterion \<in> set (crs_active_acceptance_criteria sample_close_store)"
    "ac_evidence_requirement sample_criterion = EvidenceRequirement.Required"
    "ac_acceptance_criterion_id sample_criterion = ''ac_1''"
    "clq_task_id (sample_close_request CloseIntent.Complete) = ''task_1''"
    "crs_current_close_basis sample_close_store = Some (Some sample_close_basis)"
    by (simp_all add: sample_close_request_def sample_close_store_def sample_criterion_def)
  obtain item :: EvidenceCoverageItem and r :: StateRecordRef and observation basis where found: "crs_evidence_observation_record sample_close_store (ref_record_id r) =
      Some observation" "eor_task_id observation = ''task_1''"
    and "crs_current_close_basis sample_close_store = Some (Some basis)"
      "eci_target item = EvidenceTarget.AcceptanceCriterion ''ac_1''"
      "stored_observation_matches_close_basis observation basis (eci_target item)"
    using completed_close_is_backed[OF a(1) sample(1) a(2) sample(2,3), unfolded sample(4,5)] by blast
  then have "stored_observation_matches_close_basis observation sample_close_basis
      (EvidenceTarget.AcceptanceCriterion ''ac_1'')" using sample(6) by simp
  with found a show ?thesis by blast
qed

text \<open>C13: Only the user cancels a task.  When an assessment with the intent to cancel cancels the task, the
  local user resolved a cancellation request for exactly this task, scope revision and change unit by
  accepting it; the task was not terminal and no other task was active; and no blocker and no unrecorded
  change was open.
\<close>

theorem cancelled_close_is_the_users:
  assumes "assess_close_readiness store project_state request now = Ok a"
    and "clq_intent request = CloseIntent.Cancel" "cra_close_state a = CloseState.Cancelled"
  shows "\<exists>task r. crs_task_record store (clq_task_id request) = Some task \<and>
    r \<in> set (crs_resolved_user_action_records store UserActionKind.Cancellation) \<and>
    current_cancellation_authority (user_action_authority_from_record r) \<lparr>
      can_task_id = clq_task_id request,
      can_change_unit_id = map_option cu_change_unit_id (crs_current_change_unit store),
      can_scope_revision = task_scope_revision task\<rparr> \<and>
    ua_resolved_by_actor_source (user_action_authority_from_record r) = Some ActorSource.LocalUser \<and>
    \<not> is_terminal_lifecycle (task_lifecycle_phase task) \<and>
    psh_active_task_id project_state \<in> {None, Some (clq_task_id request)} \<and>
    crs_active_blocker_refs store = [] \<and> crs_unresolved_unrecorded_changes store = []"
  using assms(1)
proof (cases rule: assessed)
  case (1 facts0 control reason acceptance acceptance_reason)
  note f = acquired_facts[OF 1(2)] and context_eq = 1(3)
  have "cra_blockers a = []" using unblocked_if[OF assms(1)] assms(3) by simp
  note clear = unblocked_assessment[OF 1(1) this]
  note terminal = no_terminal_blocker[OF clear(1)[unfolded context_eq]]
  have "crs_unresolved_unrecorded_changes store = []"
    using clear(3) f(5) by (simp add: no_unrecorded_change_blocker context_eq)
  moreover have "cancellation_authority_blocker store project_state request (cra_context a) = None"
    using clear(2) assms(2) by (simp add: acceptance_terminal_blockers_def split: option.splits)
  from no_cancellation_blocker[OF this] obtain r where "r \<in> set (crs_resolved_user_action_records store UserActionKind.Cancellation)"
    "current_cancellation_authority (user_action_authority_from_record r)
      (cancellation_requirement request (cra_context a))"
    by (auto simp: context_eq stored_authorities[OF 1(2)])
  ultimately show ?thesis
    using f(1,3,4) terminal(1-3) approvals_are_the_users(4)
    by (intro exI[of _ "crf_task facts0"] exI[of _ r]) (auto simp: context_eq cancellation_requirement_def)
qed

theorem cancelled_close_is_the_users_witness:
  "\<exists>a r. assess_close_readiness sample_close_store sample_project_state
     (sample_close_request CloseIntent.Cancel) 300 = Ok a \<and> cra_close_state a = CloseState.Cancelled \<and>
   r \<in> set (crs_resolved_user_action_records sample_close_store UserActionKind.Cancellation) \<and>
   ua_resolved_by_actor_source (user_action_authority_from_record r) = Some ActorSource.LocalUser"
proof -
  have "case assess_close_readiness sample_close_store sample_project_state (sample_close_request CloseIntent.Cancel) 300
    of Ok a \<Rightarrow> cra_close_state a = CloseState.Cancelled | Err _ \<Rightarrow> False" by code_simp
  then obtain a where a: "assess_close_readiness sample_close_store sample_project_state
      (sample_close_request CloseIntent.Cancel) 300 = Ok a" "cra_close_state a = CloseState.Cancelled"
    by (auto split: result.splits)
  have "clq_intent (sample_close_request CloseIntent.Cancel) = CloseIntent.Cancel"
    by (simp add: sample_close_request_def)
  from cancelled_close_is_the_users[OF a(1) this a(2)] a show ?thesis by blast
qed



end
