(* ===== verification/Spec2Isabelle.thy ===== *)
theory Spec2Isabelle
  imports WriteLifecycle CommitLog CloseReadiness
begin

text \<open>
  A verification library for the Volicord core: the Rust crates \<^verbatim>\<open>volicord-types\<close>,
  \<^verbatim>\<open>volicord-store\<close>, \<^verbatim>\<open>volicord-core\<close> and \<^verbatim>\<open>volicord-user-action-service\<close> under
  \<^verbatim>\<open>src/crates/\<close>.

  \<^bold>\<open>The program.\<close>  Volicord lets an agent work on a product repository under the control of a local
  user.  A task has a control level and an acceptance policy; a change unit bounds the paths it may
  touch; a write ticket authorizes one write attempt and is consumed by the run that records it; user
  actions (approvals, judgments) are requested by the core and resolved by the user; evidence covers
  acceptance criteria before a task is closed.  The core plans against records read from a SQLite store
  and commits a list of mutations.

  \<^bold>\<open>The theories.\<close>
  \<^item> \<^verbatim>\<open>Prelude\<close>: results with named errors, \<^verbatim>\<open>and_then\<close>, loops over lists, ordered sets
    (Rust's \<^verbatim>\<open>BTreeSet\<close>), string helpers (\<^verbatim>\<open>trim\<close>, lowercase), shared by all.
  \<^item> \<^verbatim>\<open>ProductPath\<close> (\<^verbatim>\<open>product_path.rs\<close>): lexical validation of product-relative paths, containment,
    the path scope of a ticket, and authorization of observed paths.
  \<^item> \<^verbatim>\<open>Canonical\<close> (\<^verbatim>\<open>canonical.rs\<close>, \<^verbatim>\<open>canonical_scalar.rs\<close>): canonical JSON, digests, Git object ids,
    canonical scalar specifications.
  \<^item> \<^verbatim>\<open>Values\<close>, \<^verbatim>\<open>Schema\<close>, \<^verbatim>\<open>StoreRecords\<close> (\<^verbatim>\<open>values.rs\<close>, \<^verbatim>\<open>schema.rs\<close>, \<^verbatim>\<open>core_pipeline/\<close>): the closed
    enumerations, public records and stored records, with the source's constructors and fields.
  \<^item> \<^verbatim>\<open>WorkflowPolicy\<close> (\<^verbatim>\<open>policy/workflow.rs\<close>, \<^verbatim>\<open>policy/access.rs\<close>, \<^verbatim>\<open>task_policy.rs\<close>, \<^verbatim>\<open>pipeline.rs\<close>):
    the project policy, the control level and acceptance policy a task is under, and the derivation
    of a verified invocation.
  \<^item> \<^verbatim>\<open>UserAction\<close> (\<^verbatim>\<open>volicord-user-action-service\<close>, \<^verbatim>\<open>core_pipeline/user_actions.rs\<close>): authority and
    relevance of stored user actions, the pair check of request and resolution, the lifecycle phase.
  \<^item> \<^verbatim>\<open>EvidencePolicy\<close> (\<^verbatim>\<open>policy/evidence*.rs\<close>, \<^verbatim>\<open>policy/close_readiness_evidence.rs\<close>,
    \<^verbatim>\<open>policy/effect_contract.rs\<close>): evidence status, the evidence gate, effect contracts.
  \<^item> \<^verbatim>\<open>WriteTicket\<close> (\<^verbatim>\<open>write_ticket/\<close> but for planning): approval basis, evaluation of stored tickets
    by type state, selection, and the admission of a recorded run.
  \<^item> \<^verbatim>\<open>Transitions\<close>: two locales on guarded steps over a state that may fail, \<^verbatim>\<open>preserved\<close> (an invariant
    is kept by every step) and \<^verbatim>\<open>evolving\<close> (a preorder on states is respected by every step), with the
    lemmas for sequences of steps.  Both are interpreted on the ticket and the task store.
  \<^item> \<^verbatim>\<open>TicketStore\<close> (\<^verbatim>\<open>core_pipeline/write_tickets.rs\<close>): the ticket table, row decoding and validation,
    the five mutations.
  \<^item> \<^verbatim>\<open>DurableId\<close> (\<^verbatim>\<open>ids.rs\<close>, \<^verbatim>\<open>identity.rs\<close>): generated identifiers and their bounded allocation.
  \<^item> \<^verbatim>\<open>TaskStore\<close> (\<^verbatim>\<open>core_pipeline/tasks.rs\<close>, \<^verbatim>\<open>core_pipeline/shaping.rs\<close>, \<^verbatim>\<open>methods/update_scope.rs\<close>): the
    task, criterion and shaping-application tables, the nine task mutations, and the planning of a
    criteria replacement.
  \<^item> \<^verbatim>\<open>PrepareWrite\<close> (\<^verbatim>\<open>write_ticket/planning.rs\<close>, \<^verbatim>\<open>core_pipeline/mutations.rs\<close>): the planning of a write
    and the application of the planned mutations.
  \<^item> \<^verbatim>\<open>WriteLifecycle\<close>: properties of the whole life of a planned ticket, over \<^verbatim>\<open>PrepareWrite\<close> and the
    stores.
  \<^item> \<^verbatim>\<open>StoreCommit\<close> (\<^verbatim>\<open>core_pipeline/commit.rs\<close>, \<^verbatim>\<open>replay.rs\<close>, \<^verbatim>\<open>clock.rs\<close>, \<^verbatim>\<open>project_state.rs\<close>,
    \<^verbatim>\<open>mutations.rs\<close>): the atomic commit with its replay rows, project clock and authority-event log; and
    \<^verbatim>\<open>CommitLog\<close>: the contract of a commit's closure (locale \<^verbatim>\<open>commit_body\<close>, interpreted on every batch of
    task and ticket mutations), histories of a database, and the properties of both.
  \<^item> \<^verbatim>\<open>CloseReadiness\<close> (\<^verbatim>\<open>close_readiness/\<close>, \<^verbatim>\<open>policy/close_readiness.rs\<close>, \<^verbatim>\<open>guidance.rs\<close>): the facts of
    a task, the blockers of each responsibility (change control, authority, evidence, acceptance), the
    control level in force and the combined assessment for checking, completing, cancelling and
    superseding a task.

  \<^bold>\<open>What the lemmas show.\<close>
  \<^item> Authority: a run is admitted, a write allowed and a ticket reused only with current authority, and
    accepted authority is the local user's.
  \<^item> Planning against the store: what planning decides is what the commit stores; what it issues, the
    store accepts; a retried preparation finds its own ticket.
  \<^item> Stores: under any sequence of mutations the ticket and task tables stay sound, tickets move only
    forward and are consumed once, control levels never fall, and every ticket mutation refines an update
    of an abstract map.
  \<^item> Commits: a request that was answered is answered alike ever after, a state version is spent once, the
    event log is a gap-free hash chain that only grows, and the chain is evidence of tampering.
  \<^item> Closing: a completed task is settled, backed by evidence and accepted by the user wherever that is
    mandatory; only the user cancels; a check predicts what completing does.
  \<^item> Values: paths stay inside the repository, canonical JSON is canonical, ids identify their kind,
    policies resolve to the strongest demand, evidence gates are backed by evidence.

  \<^bold>\<open>Conventions.\<close>  Strings are lists of UTF-8 bytes.  A struct is a record whose fields carry a short
  prefix, an enum a datatype; \<^verbatim>\<open>u64\<close> is a 64-bit word; a timestamp is an integer count of nanoseconds
  with the range of \<^verbatim>\<open>chrono\<close> where the code checks it.  \<^verbatim>\<open>Result\<close> is a datatype with the constructors
  \<^verbatim>\<open>Ok\<close> and \<^verbatim>\<open>Err\<close>; every early return of the source is a branch.  A SQL table is the list of its
  decoded rows; an \<^verbatim>\<open>UPDATE\<close> maps the rows its \<^verbatim>\<open>WHERE\<close> clause selects and reports how many changed.
  A transaction is a function whose error result stands for the rollback.

  \<^bold>\<open>Parameters.\<close>  SHA-256, JSON printing, the operating system's random source, the observation of the
  product repository, SQLite's clock and timestamp addition of \<^verbatim>\<open>chrono\<close> are not code of the repository; they are
  arguments of the definitions that use them, and a property that relies on their documented behaviour
  says so in a hypothesis.  A closure argument of the source is an argument of the model.

  \<^bold>\<open>Termination.\<close>  All definitions are total; the only bounded loop is the allocation of an id, whose
  bound of eight attempts is the source's own constant.

  \<^bold>\<open>Not modelled.\<close>  SQL text and migrations, JSON decoding of columns, the command line, the MCP server
  and its wire schemas, host integration, platform adapters and rendering are I/O or generated code
  around the modelled decisions.  Of the request handlers, the planning parts named above are modelled; a
  handler's own decoding of requests and rendering of responses is not.  Of close readiness, what the store
  answers, the loading of evidence provenance and the verification of artifact files are fields of the
  record \<^verbatim>\<open>CloseReadinessStore\<close>.
\<close>

end
